(* ===== verification/PyText.thy ===== *)
theory PyText
  imports Prelude
begin

text \<open>
  Python text, identifiers and timestamps.

  A Python \<open>str\<close> is represented by its UTF-8 encoding, a \<open>string\<close> of Isabelle bytes: then
  \<open>len(s.encode("utf-8"))\<close> is \<open>length\<close>, equality and substring tests are those of the code points
  (UTF-8 is self-synchronising), and code-point order is lexicographic byte order.  \<open>py_len\<close>
  counts code points (the bytes that are not continuation bytes) and \<open>strip\<close> removes exactly the
  code points for which \<open>str.isspace\<close> holds.

  A UUID is its 128-bit integer value as a \<open>nat\<close>: the code compares UUIDs and sorts their fixed
  width hexadecimal rendering, which is numeric order.

  A \<open>datetime\<close> is \<open>Naive\<close> (no \<open>tzinfo\<close>) or \<open>Aware\<close>; an aware one is its instant in microseconds
  since the epoch, which is what Python's comparisons of aware values look at.  A \<open>date\<close> is its
  ordinal day number and a \<open>timedelta\<close> its microseconds.
\<close>

type_synonym uuid = nat
type_synonym date = int
type_synonym timedelta = int

datatype datetime = Naive int | Aware int

fun is_aware :: "datetime \<Rightarrow> bool" where
  "is_aware (Naive _) = False"
| "is_aware (Aware _) = True"

fun instant :: "datetime \<Rightarrow> int" where
  "instant (Naive t) = t"
| "instant (Aware t) = t"

subsection \<open>Code points of a UTF-8 byte string\<close>

definition byte_code :: "char \<Rightarrow> nat" where
  "byte_code c = of_char c"

definition is_continuation :: "nat \<Rightarrow> bool" where
  "is_continuation n \<longleftrightarrow> 128 \<le> n \<and> n < 192"

definition py_len :: "string \<Rightarrow> nat" where
  "py_len s = length (filter (\<lambda>c. \<not> is_continuation (byte_code c)) s)"

lemma py_len_le: "py_len s \<le> length s"
  by (simp add: py_len_def)

definition is_ascii :: "string \<Rightarrow> bool" where
  "is_ascii s \<longleftrightarrow> list_all (\<lambda>c. byte_code c < 128) s"

lemma py_len_ascii: "is_ascii s \<Longrightarrow> py_len s = length s"
  by (induction s) (auto simp: is_ascii_def py_len_def is_continuation_def)

subsection \<open>Whitespace\<close>

definition ascii_space :: "nat \<Rightarrow> bool" where
  "ascii_space n \<longleftrightarrow> (9 \<le> n \<and> n \<le> 13) \<or> (28 \<le> n \<and> n \<le> 32)"

definition space2 :: "nat \<Rightarrow> nat \<Rightarrow> bool" where
  "space2 a b \<longleftrightarrow> a = 194 \<and> (b = 133 \<or> b = 160)"

definition space3 :: "nat \<Rightarrow> nat \<Rightarrow> nat \<Rightarrow> bool" where
  "space3 a b c \<longleftrightarrow>
     (a = 225 \<and> b = 154 \<and> c = 128) \<or>
     (a = 226 \<and> b = 128 \<and> (128 \<le> c \<and> c \<le> 138 \<or> c = 168 \<or> c = 169 \<or> c = 175)) \<or>
     (a = 226 \<and> b = 129 \<and> c = 159) \<or>
     (a = 227 \<and> b = 128 \<and> c = 128)"

fun lstrip :: "string \<Rightarrow> string" where
  "lstrip [] = []"
| "lstrip [a] = (if ascii_space (byte_code a) then [] else [a])"
| "lstrip [a, b] =
     (if ascii_space (byte_code a) then lstrip [b]
      else if space2 (byte_code a) (byte_code b) then []
      else [a, b])"
| "lstrip (a # b # c # s) =
     (if ascii_space (byte_code a) then lstrip (b # c # s)
      else if space2 (byte_code a) (byte_code b) then lstrip (c # s)
      else if space3 (byte_code a) (byte_code b) (byte_code c) then lstrip s
      else a # b # c # s)"

text \<open>The same on the reversed byte string, whose multi-byte spaces read backwards.\<close>

fun lstrip_rev :: "string \<Rightarrow> string" where
  "lstrip_rev [] = []"
| "lstrip_rev [a] = (if ascii_space (byte_code a) then [] else [a])"
| "lstrip_rev [a, b] =
     (if ascii_space (byte_code a) then lstrip_rev [b]
      else if space2 (byte_code b) (byte_code a) then []
      else [a, b])"
| "lstrip_rev (a # b # c # s) =
     (if ascii_space (byte_code a) then lstrip_rev (b # c # s)
      else if space2 (byte_code b) (byte_code a) then lstrip_rev (c # s)
      else if space3 (byte_code c) (byte_code b) (byte_code a) then lstrip_rev s
      else a # b # c # s)"

definition strip :: "string \<Rightarrow> string" where
  "strip s = rev (lstrip_rev (rev (lstrip s)))"

definition is_blank :: "string \<Rightarrow> bool" where
  "is_blank s \<longleftrightarrow> strip s = []"

lemma lstrip_length: "length (lstrip s) \<le> length s"
  by (induction s rule: lstrip.induct) auto

lemma lstrip_rev_length: "length (lstrip_rev s) \<le> length s"
  by (induction s rule: lstrip_rev.induct) auto

lemma strip_length: "length (strip s) \<le> length s"
  using lstrip_length [of s] lstrip_rev_length [of "rev (lstrip s)"]
  by (simp add: strip_def)

lemma is_blank_Nil [simp]: "is_blank []"
  by (simp add: is_blank_def strip_def)

lemma lstrip_idem [simp]: "lstrip (lstrip s) = lstrip s"
  by (induction s rule: lstrip.induct) auto

lemma lstrip_rev_idem [simp]: "lstrip_rev (lstrip_rev s) = lstrip_rev s"
  by (induction s rule: lstrip_rev.induct) auto

lemma lstrip_rev_drop: "\<exists>k. lstrip_rev s = drop k s"
proof (induction s rule: lstrip_rev.induct)
  case (4 a b c s)
  then show ?case
    by (auto intro: exI [of _ 0]) (metis drop_Suc_Cons)+
qed (auto intro: exI [of _ 0] exI [of _ 1] exI [of _ 2], (metis drop_Suc_Cons drop0 drop_Nil)?)

lemma lstrip_take:
  assumes "lstrip s = s" shows "lstrip (take n s) = take n s"
proof (cases s rule: lstrip.cases)
  case (2 a)
  with assms show ?thesis by (cases n) auto
next
  case (3 a b)
  with assms lstrip_length [of "[b]"] show ?thesis
    by (cases n; cases "n - 1") (auto split: if_splits)
next
  case (4 a b c t)
  have "\<not> ascii_space (byte_code a)" "\<not> space2 (byte_code a) (byte_code b)"
    "\<not> space3 (byte_code a) (byte_code b) (byte_code c)"
    using assms lstrip_length [of "b # c # t"] lstrip_length [of "c # t"] lstrip_length [of t] 4
    by (auto split: if_splits)
  moreover have "n = 0 \<or> n = 1 \<or> n = 2 \<or> (\<exists>m. n = Suc (Suc (Suc m)))"
    by (cases n rule: nat.exhaust; cases "n - 1"; cases "n - 2") auto
  ultimately show ?thesis using 4 by (auto simp: numeral_2_eq_2)
qed simp

lemma strip_idem [simp]: "strip (strip s) = strip s"
proof -
  obtain k where "lstrip_rev (rev (lstrip s)) = drop k (rev (lstrip s))" using lstrip_rev_drop by blast
  then have "strip s = take (length (lstrip s) - k) (lstrip s)" by (simp add: strip_def rev_drop)
  then have "lstrip (strip s) = strip s" using lstrip_take by simp
  then show ?thesis by (simp add: strip_def)
qed

lemma is_blank_strip [simp]: "is_blank (strip s) = is_blank s"
  by (simp add: is_blank_def)

subsection \<open>Identifiers\<close>

definition identifier_start :: "char \<Rightarrow> bool" where
  "identifier_start ch \<longleftrightarrow>
     (let n = byte_code ch in (65 \<le> n \<and> n \<le> 90) \<or> (97 \<le> n \<and> n \<le> 122) \<or> n = 95)"

definition identifier_part :: "char \<Rightarrow> bool" where
  "identifier_part ch \<longleftrightarrow> identifier_start ch \<or> (48 \<le> byte_code ch \<and> byte_code ch \<le> 57)"

subsection \<open>Hexadecimal digests\<close>

definition lower_ascii :: "string \<Rightarrow> string" where
  "lower_ascii s = map (\<lambda>c. if 65 \<le> byte_code c \<and> byte_code c \<le> 90
                             then char_of (byte_code c + 32) else c) s"

definition is_hex_digit :: "char \<Rightarrow> bool" where
  "is_hex_digit c \<longleftrightarrow> c \<in> set ''0123456789abcdef''"

definition is_sha256_hex :: "string \<Rightarrow> bool" where
  "is_sha256_hex s \<longleftrightarrow> py_len s = 64 \<and> list_all is_hex_digit (lower_ascii s)"

end
