(* ===== verification/PyDecimal.thy ===== *)
theory PyDecimal
  imports PyText
begin

text \<open>
  Python's \<open>decimal.Decimal\<close>: a sign, a coefficient and an exponent, or a special value.
  \<open>len(value.as_tuple().digits)\<close> is \<open>ndigits\<close> of the coefficient.  \<open>rval\<close> is the rational number a
  finite value denotes; it is the specification against which the arithmetic of the program is
  stated.  Comparisons are exact, as Python's are, and align the two coefficients at the smaller
  exponent.  \<open>ctx_add\<close>, \<open>ctx_mul\<close> and \<open>ctx_div\<close> are the operations under
  \<open>Context(prec=28, rounding=ROUND_HALF_EVEN)\<close>, with the default exponent range and traps.
\<close>

datatype decimal = Fin (dsign: bool) (dcoeff: nat) (dexp: int) | Infinite bool | NotANumber

fun is_finite :: "decimal \<Rightarrow> bool" where
  "is_finite (Fin _ _ _) = True"
| "is_finite _ = False"

text \<open>\<open>Decimal("0")\<close>, \<open>Decimal("1")\<close> and \<open>Decimal(n)\<close> for an integer \<open>n\<close>.\<close>

definition dec_of_int :: "int \<Rightarrow> decimal" where
  "dec_of_int n = Fin (n < 0) (nat \<bar>n\<bar>) 0"

abbreviation dec_zero :: decimal where
  "dec_zero \<equiv> Fin False 0 0"

abbreviation dec_one :: decimal where
  "dec_one \<equiv> Fin False 1 0"

subsection \<open>Decimal digits of a coefficient\<close>

fun ndigits :: "nat \<Rightarrow> nat" where
  "ndigits n = (if n < 10 then 1 else Suc (ndigits (n div 10)))"

declare ndigits.simps [simp del, py_eval]

lemma ndigits_code [code]:
  "ndigits n = (case n < 10 of True \<Rightarrow> 1 | False \<Rightarrow> Suc (ndigits (n div 10)))"
  by (subst ndigits.simps) simp

lemma ndigits_pos [simp]: "0 < ndigits n"
  by (subst ndigits.simps) simp

lemma ndigits_less: "n < 10 ^ ndigits n"
proof (induction n rule: ndigits.induct)
  case (1 n)
  show ?case
  proof (cases "n < 10")
    case True
    then show ?thesis by (simp add: ndigits.simps [of n])
  next
    case False
    with 1 have "n div 10 < 10 ^ ndigits (n div 10)" by simp
    then have "n < 10 * 10 ^ ndigits (n div 10)" by (simp add: div_less_iff_less_mult mult.commute)
    with False show ?thesis by (simp add: ndigits.simps [of n])
  qed
qed

lemma ndigits_ge: "n \<noteq> 0 \<Longrightarrow> 10 ^ (ndigits n - 1) \<le> n"
proof (induction n rule: ndigits.induct)
  case (1 n)
  show ?case
  proof (cases "n < 10")
    case True
    with 1 show ?thesis by (simp add: ndigits.simps [of n])
  next
    case False
    with 1 have "10 ^ (ndigits (n div 10) - 1) \<le> n div 10" by simp
    then have "10 * 10 ^ (ndigits (n div 10) - 1) \<le> n" by simp
    moreover have "10 * 10 ^ (ndigits (n div 10) - 1) = (10::nat) ^ ndigits (n div 10)"
      using power_Suc [of "10::nat" "ndigits (n div 10) - 1"] by simp
    ultimately show ?thesis using False by (simp add: ndigits.simps [of n])
  qed
qed

lemma ndigits_le_iff: "0 < k \<Longrightarrow> ndigits n \<le> k \<longleftrightarrow> n < 10 ^ k"
proof
  assume "ndigits n \<le> k"
  then have "(10::nat) ^ ndigits n \<le> 10 ^ k" by (simp add: power_increasing)
  with ndigits_less [of n] show "n < 10 ^ k" by linarith
next
  assume k: "0 < k" and less: "n < 10 ^ k"
  show "ndigits n \<le> k"
  proof (cases "n = 0")
    case True
    with k show ?thesis by (simp add: ndigits.simps)
  next
    case False
    from ndigits_ge [OF this] less have "(10::nat) ^ (ndigits n - 1) < 10 ^ k" by linarith
    then have "ndigits n - 1 < k" by simp
    then show ?thesis by simp
  qed
qed

lemma ndigits_mono: "m \<le> n \<Longrightarrow> ndigits m \<le> ndigits n"
  using ndigits_le_iff [of "ndigits n" m] ndigits_less [of n] by simp

subsection \<open>The rational a value denotes\<close>

definition dsigned :: "bool \<Rightarrow> nat \<Rightarrow> int" where
  "dsigned s c = (if s then - int c else int c)"

fun rval :: "decimal \<Rightarrow> rat" where
  "rval (Fin s c e) = of_int (dsigned s c) * 10 powi e"
| "rval (Infinite s) = 0"
| "rval NotANumber = 0"

lemma dsigned_eq_0 [simp]: "dsigned s c = 0 \<longleftrightarrow> c = 0"
  by (auto simp: dsigned_def)

lemma dsigned_0 [simp]: "dsigned s 0 = 0"
  by simp

lemma rval_zero [simp]: "rval (Fin s 0 e) = 0"
  by simp

lemma rval_eq_0 [simp]: "rval (Fin s c e) = 0 \<longleftrightarrow> c = 0"
  by simp

lemma ten_powi_ne [simp]: "(10::rat) powi e \<noteq> 0"
  by simp

lemma ten_powi_split: "m \<le> e \<Longrightarrow> (10::rat) powi e = 10 ^ nat (e - m) * 10 powi m"
proof -
  assume "m \<le> e"
  then have "(10::rat) powi e = 10 powi (int (nat (e - m)) + m)" by simp
  also have "\<dots> = 10 powi int (nat (e - m)) * 10 powi m" by (rule power_int_add) simp
  also have "(10::rat) powi int (nat (e - m)) = 10 ^ nat (e - m)" by (rule power_int_of_nat)
  finally show ?thesis .
qed

lemma dsigned_of_int [simp]: "dsigned (n < 0) (nat \<bar>n\<bar>) = n"
  by (simp add: dsigned_def)

lemma rval_of_int [simp]: "rval (dec_of_int n) = of_int n"
  by (simp add: dec_of_int_def)

lemma rval_one [simp]: "rval dec_one = 1"
  by (simp add: dsigned_def)

lemma rval_nonneg [simp]: "0 \<le> rval (Fin False c e)"
  by (simp add: dsigned_def)

subsection \<open>Comparison\<close>

fun dec_cmp :: "(int \<Rightarrow> int \<Rightarrow> bool) \<Rightarrow> decimal \<Rightarrow> decimal \<Rightarrow> bool" where
  "dec_cmp r (Fin s c e) (Fin s' c' e') =
     (let m = min e e' in r (dsigned s c * 10 ^ nat (e - m)) (dsigned s' c' * 10 ^ nat (e' - m)))"
| "dec_cmp r _ _ = False"

definition dec_le :: "decimal \<Rightarrow> decimal \<Rightarrow> bool" where
  "dec_le = dec_cmp (\<le>)"

definition dec_lt :: "decimal \<Rightarrow> decimal \<Rightarrow> bool" where
  "dec_lt = dec_cmp (<)"

definition dec_eq :: "decimal \<Rightarrow> decimal \<Rightarrow> bool" where
  "dec_eq = dec_cmp (=)"

definition dec_is_zero :: "decimal \<Rightarrow> bool" where
  "dec_is_zero d \<longleftrightarrow> is_finite d \<and> dcoeff d = 0"

lemma is_finite_iff: "is_finite d \<longleftrightarrow> (\<exists>s c e. d = Fin s c e)"
  by (cases d) auto

lemma rval_aligned:
  fixes s :: bool and c :: nat
  assumes "m \<le> e"
  shows "rval (Fin s c e) = of_int (dsigned s c * 10 ^ nat (e - m)) * 10 powi m"
  using ten_powi_split [OF assms] by simp

lemma dec_cmp_rval:
  assumes "is_finite a" and "is_finite b"
    and r: "\<And>x y p. 0 < p \<Longrightarrow> r x y \<longleftrightarrow> R (of_int x * p) (of_int y * (p::rat))"
  shows "dec_cmp r a b \<longleftrightarrow> R (rval a) (rval b)"
proof -
  obtain s c e s' c' e' where ab: "a = Fin s c e" "b = Fin s' c' e'"
    using assms(1,2) by (auto simp: is_finite_iff)
  let ?m = "min e e'"
  have "rval a = of_int (dsigned s c * 10 ^ nat (e - ?m)) * 10 powi ?m"
    and "rval b = of_int (dsigned s' c' * 10 ^ nat (e' - ?m)) * 10 powi ?m"
    using ab rval_aligned [of ?m e s c] rval_aligned [of ?m e' s' c'] by auto
  with r [of "10 powi ?m" "dsigned s c * 10 ^ nat (e - ?m)" "dsigned s' c' * 10 ^ nat (e' - ?m)"]
  show ?thesis by (simp add: ab Let_def del: rval.simps)
qed

lemma dec_le_rval: "is_finite a \<Longrightarrow> is_finite b \<Longrightarrow> dec_le a b \<longleftrightarrow> rval a \<le> rval b"
  unfolding dec_le_def by (rule dec_cmp_rval) auto

lemma dec_lt_rval: "is_finite a \<Longrightarrow> is_finite b \<Longrightarrow> dec_lt a b \<longleftrightarrow> rval a < rval b"
  unfolding dec_lt_def by (rule dec_cmp_rval) auto

lemma dec_eq_rval: "is_finite a \<Longrightarrow> is_finite b \<Longrightarrow> dec_eq a b \<longleftrightarrow> rval a = rval b"
  unfolding dec_eq_def by (rule dec_cmp_rval) auto

lemma dec_is_zero_rval: "is_finite d \<Longrightarrow> dec_is_zero d \<longleftrightarrow> rval d = 0"
  by (cases d) (auto simp: dec_is_zero_def dsigned_def)

lemmas dec_compare = dec_le_rval dec_lt_rval dec_eq_rval dec_is_zero_rval

lemma dec_compare_Fin [simp]:
  "dec_le (Fin s c e) (Fin s' c' e') \<longleftrightarrow> rval (Fin s c e) \<le> rval (Fin s' c' e')"
  "dec_lt (Fin s c e) (Fin s' c' e') \<longleftrightarrow> rval (Fin s c e) < rval (Fin s' c' e')"
  by (simp_all add: dec_compare del: rval.simps)

subsection \<open>Canonical form\<close>

text \<open>
  The loop that drops trailing zeros of a coefficient, raising the exponent, and the
  non-exponent form the program's \<open>canonical_decimal\<close> functions build from it through
  \<open>Decimal(f"...")\<close>: no negative zero, no positive exponent, no trailing fractional zero.
\<close>

fun strip_zeros :: "nat \<Rightarrow> int \<Rightarrow> nat \<times> int" where
  "strip_zeros c e = (if c \<noteq> 0 \<and> c mod 10 = 0 then strip_zeros (c div 10) (e + 1) else (c, e))"

declare strip_zeros.simps [simp del, py_eval]

fun canonical :: "decimal \<Rightarrow> decimal" where
  "canonical (Fin s c e) =
     (if c = 0 then Fin False 0 0
      else case strip_zeros c e of
        (c', e') \<Rightarrow> if 0 \<le> e' then Fin s (c' * 10 ^ nat e') 0 else Fin s c' e')"
| "canonical d = d"

lemma strip_zeros_value:
  "strip_zeros c e = (c', e') \<Longrightarrow> (of_nat c' :: rat) * 10 powi e' = of_nat c * 10 powi e"
proof (induction c e rule: strip_zeros.induct)
  case (1 c e)
  show ?case
  proof (cases "c \<noteq> 0 \<and> c mod 10 = 0")
    case True
    with 1 have IH: "(of_nat c' :: rat) * 10 powi e' = of_nat (c div 10) * 10 powi (e + 1)"
      by (simp add: strip_zeros.simps [of c e])
    from True have "c = (c div 10) * 10" by auto
    then have "(of_nat c :: rat) = of_nat (c div 10) * 10" by (metis of_nat_mult of_nat_numeral)
    with IH show ?thesis by (simp add: power_int_add mult.assoc)
  next
    case False
    with "1.prems" show ?thesis by (simp add: strip_zeros.simps [of c e] split: if_splits)
  qed
qed

lemma strip_zeros_pos: "strip_zeros c e = (c', e') \<Longrightarrow> c \<noteq> 0 \<Longrightarrow> c' \<noteq> 0 \<and> c' mod 10 \<noteq> 0"
proof (induction c e rule: strip_zeros.induct)
  case (1 c e)
  show ?case
  proof (cases "c mod 10 = 0")
    case True
    with "1.prems" have "c div 10 \<noteq> 0" by auto
    with True 1 show ?thesis by (simp add: strip_zeros.simps [of c e])
  next
    case False
    with "1.prems" show ?thesis by (simp add: strip_zeros.simps [of c e])
  qed
qed

lemma strip_zeros_exp_ge: "strip_zeros c e = (c', e') \<Longrightarrow> e \<le> e' \<and> c' \<le> c"
proof (induction c e rule: strip_zeros.induct)
  case (1 c e)
  show ?case
  proof (cases "c \<noteq> 0 \<and> c mod 10 = 0")
    case True
    with 1 have "e + 1 \<le> e'" and "c' \<le> c div 10"
      by (simp_all add: strip_zeros.simps [of c e])
    then show ?thesis using div_le_dividend [of c 10] by linarith
  next
    case False
    with "1.prems" show ?thesis by (simp add: strip_zeros.simps [of c e] split: if_splits)
  qed
qed

lemma rval_Fin_nat: "rval (Fin s c e) = (if s then -1 else 1) * (of_nat c * 10 powi e)"
  by (simp add: dsigned_def)

lemma canonical_value [simp]: "rval (canonical d) = rval d"
proof (cases d)
  case (Fin s c e)
  show ?thesis
  proof (cases "c = 0")
    case True
    with Fin show ?thesis by simp
  next
    case False
    obtain c' e' where strip: "strip_zeros c e = (c', e')" by fastforce
    note val_eq = strip_zeros_value [OF strip]
    have "(of_nat (c' * 10 ^ nat e') :: rat) * 10 powi 0 = of_nat c' * 10 powi e'" if "0 \<le> e'"
      using ten_powi_split [OF that] by simp
    with val_eq show ?thesis
      using Fin False strip by (auto simp: rval_Fin_nat simp del: rval.simps)
  qed
qed simp_all

lemma canonical_finite [simp]: "is_finite (canonical d) = is_finite d"
  by (cases d) (auto split: prod.splits)

lemma canonical_zero [simp]: "canonical (Fin s 0 e) = Fin False 0 0"
  by simp

text \<open>A value is canonical when it is zero in the one form or has the shape the strings give.\<close>

fun is_canonical :: "decimal \<Rightarrow> bool" where
  "is_canonical (Fin s c e) \<longleftrightarrow>
     (c = 0 \<and> \<not> s \<and> e = 0) \<or> (c \<noteq> 0 \<and> (e = 0 \<or> (e < 0 \<and> c mod 10 \<noteq> 0)))"
| "is_canonical _ = True"

lemma canonical_is_canonical: "is_canonical (canonical d)"
proof (cases d)
  case (Fin s c e)
  show ?thesis
  proof (cases "c = 0")
    case False
    obtain c' e' where "strip_zeros c e = (c', e')" by fastforce
    with False strip_zeros_pos [OF this] Fin show ?thesis by auto
  qed (simp add: Fin)
qed simp_all

lemma canonical_eq_exp_less:
  assumes "of_nat c * (10::rat) powi e = of_nat c' * 10 powi e'"
    and "e < e'" and "e' \<le> 0" and "c mod 10 \<noteq> 0"
  shows False
proof -
  have "(10::rat) powi e' = 10 ^ nat (e' - e) * 10 powi e"
    using assms(2) by (intro ten_powi_split) simp
  with assms(1) have "(of_nat c :: rat) = of_nat (c' * 10 ^ nat (e' - e))" by simp
  then have c: "c = c' * 10 ^ nat (e' - e)" by (rule of_nat_eq_iff [THEN iffD1])
  from assms(2) have "nat (e' - e) = Suc (nat (e' - e) - 1)" by simp
  then have "10 dvd (10::nat) ^ nat (e' - e)" by (metis dvd_triv_left power_Suc)
  then have "10 dvd c" unfolding c by (rule dvd_mult)
  with assms(4) show False by auto
qed

lemma is_canonical_unique:
  assumes "is_canonical (Fin s c e)" and "is_canonical (Fin s' c' e')"
    and eq: "rval (Fin s c e) = rval (Fin s' c' e')"
  shows "Fin s c e = Fin s' c' e'"
proof (cases "c = 0 \<or> c' = 0")
  case True
  then have "rval (Fin s c e) = 0" and "rval (Fin s' c' e') = 0" using eq by (metis rval_zero)+
  then have "c = 0" and "c' = 0" by simp_all
  with assms(1,2) show ?thesis by simp
next
  case False
  then have pos: "0 < (of_nat c :: rat) * 10 powi e" "0 < (of_nat c' :: rat) * 10 powi e'"
    by simp_all
  have s: "s = s'" and mag: "(of_nat c :: rat) * 10 powi e = of_nat c' * 10 powi e'"
    using pos eq by (auto simp: rval_Fin_nat simp del: rval.simps split: if_splits)
  have e0: "e \<le> 0" "e' \<le> 0" using assms(1,2) False by auto
  have "e = e'"
  proof (cases e e' rule: linorder_cases)
    case less
    then have "c mod 10 \<noteq> 0" using assms(1) False e0 by auto
    with canonical_eq_exp_less [OF mag less e0(2)] show ?thesis by blast
  next
    case greater
    then have "c' mod 10 \<noteq> 0" using assms(2) False e0 by auto
    with canonical_eq_exp_less [OF mag [symmetric] greater e0(1)] show ?thesis by blast
  qed
  with s mag show ?thesis by simp
qed

lemma canonical_eq_iff:
  assumes "is_finite a" and "is_finite b"
  shows "canonical a = canonical b \<longleftrightarrow> rval a = rval b"
proof
  assume "canonical a = canonical b"
  then have "rval (canonical a) = rval (canonical b)" by simp
  then show "rval a = rval b" by simp
next
  assume eq: "rval a = rval b"
  obtain s c e s' c' e' where ab: "canonical a = Fin s c e" "canonical b = Fin s' c' e'"
    using assms canonical_finite [of a] canonical_finite [of b] by (auto simp: is_finite_iff)
  have "rval (Fin s c e) = rval (Fin s' c' e')"
    using eq canonical_value [of a] canonical_value [of b] unfolding ab by simp
  with is_canonical_unique canonical_is_canonical [of a] canonical_is_canonical [of b]
  show "canonical a = canonical b" unfolding ab by blast
qed

lemma canonical_idem [simp]: "canonical (canonical d) = canonical d"
proof (cases "is_finite d")
  case True
  then show ?thesis by (simp add: canonical_eq_iff)
next
  case False
  then show ?thesis by (cases d) auto
qed

end
