(* ===== verification/Domain.thy ===== *)
theory Domain
  imports PyDecimal
begin

text \<open>
  The pure domain model of \<open>app/domain\<close>: the exceptions (\<open>errors.py\<close>), the closed sets
  (\<open>enums.py\<close>), the frozen value objects (\<open>values.py\<close>), the aggregates (\<open>entities.py\<close>) and the
  authorization decisions (\<open>access.py\<close>).

  A frozen dataclass is a record; its \<open>__post_init__\<close> is a function \<open>..._post_init\<close> from the record
  as given to the record as stored, or to the exception it raises.  The \<open>isinstance\<close> checks of the
  source are the types of the record fields.
\<close>

subsection \<open>Exceptions\<close>

datatype (plugins only: code) exn =
    ValueError string
  | TypeError string
  | AssertionError string
  | IndexError string
  | KeyError string
  | DecimalOverflow
  | DecimalDivisionByZero
  | DecimalInvalidOperation
  | AuthorizationDenied string
  | NotFoundForActor string
  | NaiveDatetimeError string
  | NonDecimalValueError string
  | NonFiniteDecimalError string
  | NegativeQuantityError string
  | NonPositivePositionQuantityError string
  | ProtectedPositionSaleError string
  | PositionNotOpenError string
  | SaleQuantityExceedsPositionError string
  | NonPositiveSaleQuantityError string
  | UnauthorizedRotationSourceError string
  | PlanReferenceUnauthorizedError string
  | CandidateInstrumentUnauthorizedError string
  | PositionAlreadyOpenError string
  | PositionHistoryError string
  | InvalidStrategyRunEvidenceError string
  | LogicalScanAlreadyCompletedError string
  | IdempotencyConflictError string
  | TransitionNotAllowed string
  | CostError string
  | SizingError string
  | ScoringError string
  | RuleTransportError string
  | RuleSemanticError string
  | RuleSafetyError string
  | RuleTextResourceLimitError string nat nat
  | RuleEvaluationError string
  | RuleEvidenceResourceLimitError string nat nat
  | ProtectedRuleInputError string
  | DecimalResourceLimitError string
  | CanonicalJsonSizeLimitError string nat nat
  | RunCoordinatorInvariantError string
  | FinalizationSuperseded string
  | ConfigurationSnapshotValidationError string
  | IndicatorInputError string
  | IndicatorResultError string
  | BarAggregationInputError string
  | IndicatorRegistrationError string
  | DuplicateIndicatorKeyError string
  | IndicatorNotFoundError string
  | ConfigurationMergeError string
  | ConfigurationCanonicalizationError string
  | RuntimeOverrideExpiryError string

subsection \<open>Text limits\<close>

text \<open>The two limits every bounded identifier and text of the program shares.\<close>

definition MAX_IDENTIFIER_UTF8_BYTES :: nat where
  "MAX_IDENTIFIER_UTF8_BYTES = 256"

definition MAX_STRING_UTF8_BYTES :: nat where
  "MAX_STRING_UTF8_BYTES = 16 * 1024"

subsection \<open>Closed sets\<close>

datatype scope = SYSTEM | USER | PORTFOLIO

datatype position_role = ROTATION_SOURCE | PROTECTED_CORE | NORMAL | CASH_PROXY

datatype position_status = OPEN | CLOSED

datatype logical_scan_status = SCAN_RUNNING | SCAN_COMPLETED

datatype scan_attempt_status = ATTEMPT_RUNNING | ATTEMPT_FAILED | ATTEMPT_DEGRADED | ATTEMPT_SUCCEEDED

datatype finalization_disposition = FINALIZATION_APPLIED | FINALIZATION_SUPERSEDED

datatype recovery_decision = RESUME | RETRY | FINALIZE

subsection \<open>Value objects\<close>

definition require_timezone_aware :: "datetime \<Rightarrow> string \<Rightarrow> exn + datetime" where
  "require_timezone_aware v field_name =
     (if is_aware v then Inr v else Inl (NaiveDatetimeError (field_name @ '' must be timezone-aware'')))"

definition require_finite_decimal :: "decimal \<Rightarrow> string \<Rightarrow> exn + decimal" where
  "require_finite_decimal v field_name =
     (if is_finite v then Inr v else Inl (NonFiniteDecimalError (field_name @ '' must be finite'')))"

lemma require_timezone_aware_Inr [exc_simps]:
  "require_timezone_aware v n = Inr w \<longleftrightarrow> is_aware v \<and> w = v"
  by (auto simp: require_timezone_aware_def)

lemma require_finite_decimal_Inr [exc_simps]:
  "require_finite_decimal v n = Inr w \<longleftrightarrow> is_finite v \<and> w = v"
  by (auto simp: require_finite_decimal_def)

record ownership =
  own_scope :: scope
  own_owner_id :: "uuid option"

definition ownership_post_init :: "ownership \<Rightarrow> exn + ownership" where
  "ownership_post_init o1 =
     (if own_scope o1 = SYSTEM \<and> own_owner_id o1 \<noteq> None
      then Inl (ValueError ''SYSTEM ownership must not have an owner_id'')
      else if own_scope o1 \<noteq> SYSTEM \<and> own_owner_id o1 = None
      then Inl (ValueError ''ownership requires an owner_id'')
      else Inr o1)"

text \<open>\<open>Ownership(scope, owner_id)\<close> at the call sites of the program, whose arguments are valid.\<close>

definition Ownership :: "scope \<Rightarrow> uuid option \<Rightarrow> ownership" where
  "Ownership s i = \<lparr>own_scope = s, own_owner_id = i\<rparr>"

record instrument_ref =
  instrument_id :: uuid

record money =
  amount :: decimal
  currency :: string

definition money_post_init :: "money \<Rightarrow> exn + money" where
  "money_post_init m =
     bindE (require_finite_decimal (amount m) ''amount'') (\<lambda>_.
     if is_blank (currency m) then Inl (ValueError ''currency must not be blank'') else Inr m)"

record quantity =
  qvalue :: decimal

definition quantity_post_init :: "quantity \<Rightarrow> exn + quantity" where
  "quantity_post_init q =
     bindE (require_finite_decimal (qvalue q) ''quantity'') (\<lambda>_.
     if dec_lt (qvalue q) dec_zero then Inl (NegativeQuantityError ''quantity must not be negative'')
     else Inr q)"

definition Quantity :: "decimal \<Rightarrow> exn + quantity" where
  "Quantity v = quantity_post_init \<lparr>qvalue = v\<rparr>"

record percentage =
  pvalue :: decimal

definition percentage_post_init :: "percentage \<Rightarrow> exn + percentage" where
  "percentage_post_init p =
     bindE (require_finite_decimal (pvalue p) ''percentage'') (\<lambda>_.
     if \<not> (dec_le dec_zero (pvalue p) \<and> dec_le (pvalue p) dec_one)
     then Inl (ValueError ''percentage must be between zero and one'') else Inr p)"

record market_session =
  opens_at :: datetime
  closes_at :: datetime

definition market_session_post_init :: "market_session \<Rightarrow> exn + market_session" where
  "market_session_post_init s =
     bindE (require_timezone_aware (opens_at s) ''opens_at'') (\<lambda>_.
     bindE (require_timezone_aware (closes_at s) ''closes_at'') (\<lambda>_.
     if instant (closes_at s) \<le> instant (opens_at s)
     then Inl (ValueError ''closes_at must be after opens_at'') else Inr s))"

record configuration_snapshot_ref =
  cfg_snapshot_id :: uuid
  cfg_content_hash :: string
  cfg_created_at :: datetime

definition configuration_snapshot_ref_post_init ::
    "configuration_snapshot_ref \<Rightarrow> exn + configuration_snapshot_ref" where
  "configuration_snapshot_ref_post_init c =
     bindE (require_timezone_aware (cfg_created_at c) ''created_at'') (\<lambda>_.
     if is_sha256_hex (cfg_content_hash c) then Inr c
     else Inl (ValueError ''content_hash must be a SHA-256 hexadecimal digest''))"

record idempotency_key =
  ikey_value :: string

definition idempotency_key_post_init :: "idempotency_key \<Rightarrow> exn + idempotency_key" where
  "idempotency_key_post_init k =
     (if is_blank (ikey_value k) then Inl (ValueError ''idempotency key must not be blank'') else Inr k)"

record price_zone =
  zone_lower :: money
  zone_upper :: money

definition price_zone_post_init :: "price_zone \<Rightarrow> exn + price_zone" where
  "price_zone_post_init z =
     (if currency (zone_lower z) \<noteq> currency (zone_upper z)
      then Inl (ValueError ''price zone bounds must use the same currency'')
      else if dec_lt (amount (zone_upper z)) (amount (zone_lower z))
      then Inl (ValueError ''price zone lower bound must not exceed upper bound'')
      else Inr z)"

lemma quantity_post_init_Inr [exc_simps]:
  "quantity_post_init q = Inr q' \<longleftrightarrow> q' = q \<and> is_finite (qvalue q) \<and> 0 \<le> rval (qvalue q)"
  by (cases "qvalue q")
    (auto simp: quantity_post_init_def exc_simps not_less split: if_splits)

lemma Quantity_Inr [exc_simps]:
  "Quantity v = Inr q \<longleftrightarrow> q = \<lparr>qvalue = v\<rparr> \<and> is_finite v \<and> 0 \<le> rval v"
  by (auto simp: Quantity_def exc_simps)

definition quantity_ok :: "quantity \<Rightarrow> bool" where
  "quantity_ok q \<longleftrightarrow> is_finite (qvalue q) \<and> 0 \<le> rval (qvalue q)"

end
