(* ===== verification/Entities.thy ===== *)
theory Entities
  imports Domain
begin

text \<open>
  The aggregates of \<open>app/domain/entities.py\<close> (users, portfolios, instruments, positions, candidate
  groups, rotation plans and the scan attempts with their status evidence) and the authorization
  decisions of \<open>app/domain/access.py\<close>.
\<close>

subsection \<open>Users, portfolios, instruments\<close>

record user =
  user_id :: uuid
  user_created_at :: datetime

definition user_post_init :: "user \<Rightarrow> exn + user" where
  "user_post_init u = bindE (require_timezone_aware (user_created_at u) ''created_at'') (\<lambda>_. Inr u)"

definition user_ownership :: "user \<Rightarrow> ownership" where
  "user_ownership u = Ownership USER (Some (user_id u))"

record portfolio =
  pf_portfolio_id :: uuid
  pf_user_id :: uuid
  pf_created_at :: datetime

definition portfolio_post_init :: "portfolio \<Rightarrow> exn + portfolio" where
  "portfolio_post_init p =
     bindE (require_timezone_aware (pf_created_at p) ''created_at'') (\<lambda>_. Inr p)"

definition portfolio_ownership :: "portfolio \<Rightarrow> ownership" where
  "portfolio_ownership p = Ownership USER (Some (pf_user_id p))"

record instrument =
  ins_instrument_id :: uuid
  ins_market :: string
  ins_symbol :: string
  ins_created_at :: datetime

definition instrument_post_init :: "instrument \<Rightarrow> exn + instrument" where
  "instrument_post_init i =
     bindE (require_timezone_aware (ins_created_at i) ''created_at'') (\<lambda>_.
     if is_blank (ins_market i) then Inl (ValueError ''market must not be blank'')
     else if is_blank (ins_symbol i) then Inl (ValueError ''symbol must not be blank'')
     else Inr i)"

definition instrument_ownership :: "instrument \<Rightarrow> ownership" where
  "instrument_ownership i = Ownership SYSTEM None"

subsection \<open>Positions\<close>

record position =
  pos_position_id :: uuid
  pos_portfolio_id :: uuid
  pos_instrument :: instrument_ref
  pos_quantity :: quantity
  pos_role :: position_role
  pos_status :: position_status
  pos_opened_at :: datetime
  pos_closed_at :: "datetime option"

definition position_post_init :: "position \<Rightarrow> exn + position" where
  "position_post_init p =
     bindE (require_timezone_aware (pos_opened_at p) ''opened_at'') (\<lambda>_.
     if dec_le (qvalue (pos_quantity p)) dec_zero
     then Inl (NonPositivePositionQuantityError ''position quantity must be positive'')
     else if pos_status p = OPEN \<and> pos_closed_at p \<noteq> None
     then Inl (PositionHistoryError ''an OPEN position cannot have closed_at'')
     else if pos_status p = CLOSED \<and> pos_closed_at p = None
     then Inl (PositionHistoryError ''a CLOSED position requires closed_at'')
     else case pos_closed_at p of
       None \<Rightarrow> Inr p
     | Some t \<Rightarrow>
         bindE (require_timezone_aware t ''closed_at'') (\<lambda>_.
         if instant t < instant (pos_opened_at p)
         then Inl (PositionHistoryError ''closed_at cannot be before opened_at'')
         else Inr p))"

definition position_ownership :: "position \<Rightarrow> ownership" where
  "position_ownership p = Ownership PORTFOLIO (Some (pos_portfolio_id p))"

definition position_close :: "position \<Rightarrow> datetime \<Rightarrow> exn + position" where
  "position_close p closed_at =
     (if pos_status p \<noteq> OPEN then Inl (PositionNotOpenError ''only OPEN positions can be closed'')
      else position_post_init (p\<lparr>pos_status := CLOSED, pos_closed_at := Some closed_at\<rparr>))"

text \<open>What every constructed position satisfies.\<close>

definition position_ok :: "position \<Rightarrow> bool" where
  "position_ok p \<longleftrightarrow>
     is_aware (pos_opened_at p) \<and>
     0 < rval (qvalue (pos_quantity p)) \<and>
     (case pos_closed_at p of
        None \<Rightarrow> pos_status p = OPEN
      | Some t \<Rightarrow> pos_status p = CLOSED \<and> is_aware t \<and> instant (pos_opened_at p) \<le> instant t)"

lemma position_post_init_Inr [exc_simps]:
  assumes "is_finite (qvalue (pos_quantity p))"
  shows "position_post_init p = Inr p' \<longleftrightarrow> p' = p \<and> position_ok p"
  using assms
  by (cases "pos_status p"; cases "pos_closed_at p")
    (auto simp: position_post_init_def position_ok_def exc_simps dec_compare not_le)

subsection \<open>Candidate groups and rotation plans\<close>

record candidate_group =
  grp_candidate_group_id :: uuid
  grp_user_id :: uuid
  grp_instruments :: "instrument_ref list"
  grp_created_at :: datetime

definition candidate_group_post_init :: "candidate_group \<Rightarrow> exn + candidate_group" where
  "candidate_group_post_init g =
     bindE (require_timezone_aware (grp_created_at g) ''created_at'') (\<lambda>_.
     if \<not> distinct (map instrument_id (grp_instruments g))
     then Inl (ValueError ''candidate group instruments must be unique'') else Inr g)"

definition candidate_group_ownership :: "candidate_group \<Rightarrow> ownership" where
  "candidate_group_ownership g = Ownership USER (Some (grp_user_id g))"

record rotation_plan =
  plan_rotation_plan_id :: uuid
  plan_portfolio_id :: uuid
  plan_candidate_group_ids :: "uuid list"
  plan_source_position_ids :: "uuid list"
  plan_protected_position_ids :: "uuid list"
  plan_created_at :: datetime

definition rotation_plan_post_init :: "rotation_plan \<Rightarrow> exn + rotation_plan" where
  "rotation_plan_post_init p =
     bindE (require_timezone_aware (plan_created_at p) ''created_at'') (\<lambda>_.
     if plan_candidate_group_ids p = []
     then Inl (ValueError ''candidate_group_ids must not be empty'')
     else if \<not> distinct (plan_candidate_group_ids p)
     then Inl (ValueError ''candidate_group_ids must be unique'')
     else if \<not> distinct (plan_source_position_ids p)
     then Inl (ValueError ''source_position_ids must be unique'')
     else if \<not> distinct (plan_protected_position_ids p)
     then Inl (ValueError ''protected_position_ids must be unique'')
     else if set (plan_source_position_ids p) \<inter> set (plan_protected_position_ids p) \<noteq> {}
     then Inl (ValueError ''a position cannot be both source and protected'')
     else Inr p)"

definition rotation_plan_ownership :: "rotation_plan \<Rightarrow> ownership" where
  "rotation_plan_ownership p = Ownership PORTFOLIO (Some (plan_portfolio_id p))"

definition rotation_plan_ok :: "rotation_plan \<Rightarrow> bool" where
  "rotation_plan_ok p \<longleftrightarrow>
     is_aware (plan_created_at p) \<and>
     plan_candidate_group_ids p \<noteq> [] \<and>
     distinct (plan_candidate_group_ids p) \<and>
     distinct (plan_source_position_ids p @ plan_protected_position_ids p)"

lemma rotation_plan_post_init_Inr [exc_simps]:
  "rotation_plan_post_init p = Inr p' \<longleftrightarrow> p' = p \<and> rotation_plan_ok p"
  by (auto simp: rotation_plan_post_init_def rotation_plan_ok_def exc_simps)

subsection \<open>Access decisions\<close>

record access_context =
  actor_user_id :: uuid
  is_administrator :: bool
  request_id :: uuid
  authentication_method :: string
  requested_ownership :: "ownership option"

definition access_context_post_init :: "access_context \<Rightarrow> exn + access_context" where
  "access_context_post_init a =
     (if is_blank (authentication_method a)
      then Inl (ValueError ''authentication_method must not be blank'') else Inr a)"

definition can_read :: "access_context \<Rightarrow> ownership \<Rightarrow> uuid option \<Rightarrow> bool" where
  "can_read a own portfolio_owner_id =
     (if is_administrator a \<or> own_scope own = SYSTEM then True
      else if own_scope own = USER then own_owner_id own = Some (actor_user_id a)
      else portfolio_owner_id = Some (actor_user_id a))"

definition can_mutate :: "access_context \<Rightarrow> ownership \<Rightarrow> uuid option \<Rightarrow> bool" where
  "can_mutate a own portfolio_owner_id =
     (if is_administrator a then True
      else if own_scope own = SYSTEM then False
      else if own_scope own = USER then own_owner_id own = Some (actor_user_id a)
      else portfolio_owner_id = Some (actor_user_id a))"

definition require_read :: "access_context \<Rightarrow> ownership \<Rightarrow> uuid option \<Rightarrow> exn + unit" where
  "require_read a own portfolio_owner_id =
     (if can_read a own portfolio_owner_id then Inr ()
      else Inl (NotFoundForActor ''resource was not found for actor''))"

definition require_mutation :: "access_context \<Rightarrow> ownership \<Rightarrow> uuid option \<Rightarrow> exn + unit" where
  "require_mutation a own portfolio_owner_id =
     (if can_mutate a own portfolio_owner_id then Inr ()
      else if own_scope own = SYSTEM
      then Inl (AuthorizationDenied ''only administrators may mutate SYSTEM resources'')
      else Inl (NotFoundForActor ''resource was not found for actor''))"

lemmas access_defs = can_read_def can_mutate_def require_read_def require_mutation_def

end
