(* ===== verification/Invariants.thy ===== *)
theory Invariants
  imports Entities
begin

text \<open>
  The ownership, reference and position safety checks of \<open>app/domain/invariants.py\<close>, each a
  function that returns or raises, and the conditions they accept.
\<close>

definition ensure_position_is_sellable :: "position \<Rightarrow> quantity \<Rightarrow> exn + unit" where
  "ensure_position_is_sellable p sale_quantity =
     (if pos_role p = PROTECTED_CORE
      then Inl (ProtectedPositionSaleError ''protected positions are never eligible for sale'')
      else if pos_status p \<noteq> OPEN
      then Inl (PositionNotOpenError ''only OPEN positions are eligible for sale'')
      else if dec_lt (qvalue (pos_quantity p)) (qvalue sale_quantity)
      then Inl (SaleQuantityExceedsPositionError ''sale quantity exceeds open position quantity'')
      else Inr ())"

definition ensure_authorized_rotation_source :: "rotation_plan \<Rightarrow> position \<Rightarrow> exn + unit" where
  "ensure_authorized_rotation_source plan p =
     (if pos_position_id p \<notin> set (plan_source_position_ids plan)
      then Inl (UnauthorizedRotationSourceError ''position is not an authorized rotation source'')
      else if pos_portfolio_id p \<noteq> plan_portfolio_id plan
      then Inl (UnauthorizedRotationSourceError ''rotation source is outside the plan portfolio'')
      else if pos_status p \<noteq> OPEN
      then Inl (PositionNotOpenError ''only OPEN rotation sources are eligible for sale'')
      else if pos_role p = PROTECTED_CORE \<or> pos_position_id p \<in> set (plan_protected_position_ids plan)
      then Inl (ProtectedPositionSaleError ''protected positions are never eligible for sale'')
      else Inr ())"

definition ensure_authorized_rotation_sale ::
    "rotation_plan \<Rightarrow> position \<Rightarrow> quantity \<Rightarrow> exn + unit" where
  "ensure_authorized_rotation_sale plan p sale_quantity =
     bindE (ensure_authorized_rotation_source plan p) (\<lambda>_.
     if dec_le (qvalue sale_quantity) dec_zero
     then Inl (NonPositiveSaleQuantityError ''rotation sale quantity must be positive'')
     else if dec_lt (qvalue (pos_quantity p)) (qvalue sale_quantity)
     then Inl (SaleQuantityExceedsPositionError ''sale quantity exceeds open position quantity'')
     else Inr ())"

text \<open>The resources a plan may refer to: the \<open>isinstance\<close> dispatch of the source.\<close>

datatype plan_reference =
    RefPosition position
  | RefCandidateGroup candidate_group
  | RefOwned ownership

fun ensure_plan_reference_is_authorized ::
    "rotation_plan \<Rightarrow> plan_reference \<Rightarrow> uuid \<Rightarrow> exn + unit" where
  "ensure_plan_reference_is_authorized plan (RefPosition p) portfolio_owner_id =
     (if pos_portfolio_id p \<noteq> plan_portfolio_id plan
      then Inl (PlanReferenceUnauthorizedError ''position is outside the plan portfolio'')
      else if pos_position_id p
                \<notin> set (plan_source_position_ids plan @ plan_protected_position_ids plan)
      then Inl (PlanReferenceUnauthorizedError ''position is not attached to the plan'')
      else if pos_position_id p \<in> set (plan_source_position_ids plan) \<and> pos_status p \<noteq> OPEN
      then Inl (PositionNotOpenError ''a source position must be OPEN'')
      else Inr ())"
| "ensure_plan_reference_is_authorized plan (RefCandidateGroup g) portfolio_owner_id =
     (if grp_candidate_group_id g \<notin> set (plan_candidate_group_ids plan)
      then Inl (PlanReferenceUnauthorizedError ''candidate group is not attached to the plan'')
      else if grp_user_id g \<noteq> portfolio_owner_id
      then Inl (PlanReferenceUnauthorizedError ''candidate group belongs to another user'')
      else Inr ())"
| "ensure_plan_reference_is_authorized plan (RefOwned own) portfolio_owner_id =
     (if own_scope own = SYSTEM then Inr ()
      else if own_scope own = USER \<and> own_owner_id own = Some portfolio_owner_id then Inr ()
      else if own_scope own = PORTFOLIO \<and> own_owner_id own = Some (plan_portfolio_id plan) then Inr ()
      else Inl (PlanReferenceUnauthorizedError ''reference crosses the plan ownership boundary''))"

definition ensure_candidate_instrument_is_authorized ::
    "rotation_plan \<Rightarrow> candidate_group \<Rightarrow> instrument_ref \<Rightarrow> uuid \<Rightarrow> exn + unit" where
  "ensure_candidate_instrument_is_authorized plan g instrument portfolio_owner_id =
     bindE (ensure_plan_reference_is_authorized plan (RefCandidateGroup g) portfolio_owner_id) (\<lambda>_.
     if instrument \<notin> set (grp_instruments g)
     then Inl (CandidateInstrumentUnauthorizedError
                 ''instrument is not authorized by the candidate group'')
     else Inr ())"

text \<open>The loop over the rows with the set of open pairs seen so far.\<close>

fun open_positions_unique_from :: "(uuid \<times> uuid) set \<Rightarrow> position list \<Rightarrow> exn + unit" where
  "open_positions_unique_from seen [] = Inr ()"
| "open_positions_unique_from seen (p # ps) =
     (if pos_status p \<noteq> OPEN then open_positions_unique_from seen ps
      else let pair = (pos_portfolio_id p, instrument_id (pos_instrument p)) in
        if pair \<in> seen
        then Inl (PositionAlreadyOpenError
                    ''only one OPEN position is allowed for a portfolio/instrument pair'')
        else open_positions_unique_from (insert pair seen) ps)"

definition ensure_open_position_representation_is_unique :: "position list \<Rightarrow> exn + unit" where
  "ensure_open_position_representation_is_unique ps = open_positions_unique_from {} ps"

subsection \<open>What the checks accept\<close>

text \<open>The conditions under which a position may be the source of a rotation sale.\<close>

definition rotation_source_ok :: "rotation_plan \<Rightarrow> position \<Rightarrow> bool" where
  "rotation_source_ok plan p \<longleftrightarrow>
     pos_position_id p \<in> set (plan_source_position_ids plan) \<and>
     pos_position_id p \<notin> set (plan_protected_position_ids plan) \<and>
     pos_portfolio_id p = plan_portfolio_id plan \<and>
     pos_status p = OPEN \<and>
     pos_role p \<noteq> PROTECTED_CORE"

lemma ensure_authorized_rotation_source_Inr [exc_simps]:
  "ensure_authorized_rotation_source plan p = Inr u \<longleftrightarrow> rotation_source_ok plan p"
  by (auto simp: ensure_authorized_rotation_source_def rotation_source_ok_def)

lemma ensure_authorized_rotation_sale_Inr [exc_simps]:
  assumes "is_finite (qvalue q)" and "is_finite (qvalue (pos_quantity p))"
  shows "ensure_authorized_rotation_sale plan p q = Inr u \<longleftrightarrow>
     rotation_source_ok plan p \<and>
     0 < rval (qvalue q) \<and> rval (qvalue q) \<le> rval (qvalue (pos_quantity p))"
  using assms
  by (auto simp: ensure_authorized_rotation_sale_def exc_simps dec_compare not_le not_less)

definition candidate_ok :: "rotation_plan \<Rightarrow> candidate_group \<Rightarrow> instrument_ref \<Rightarrow> uuid \<Rightarrow> bool" where
  "candidate_ok plan g instrument owner \<longleftrightarrow>
     grp_candidate_group_id g \<in> set (plan_candidate_group_ids plan) \<and>
     grp_user_id g = owner \<and> instrument \<in> set (grp_instruments g)"

lemma ensure_candidate_instrument_is_authorized_Inr [exc_simps]:
  "ensure_candidate_instrument_is_authorized plan g i owner = Inr u \<longleftrightarrow> candidate_ok plan g i owner"
  by (auto simp: ensure_candidate_instrument_is_authorized_def candidate_ok_def exc_simps)

text \<open>The portfolio/instrument pairs of the open rows, in row order.\<close>

definition open_pairs :: "position list \<Rightarrow> (uuid \<times> uuid) list" where
  "open_pairs ps = map (\<lambda>p. (pos_portfolio_id p, instrument_id (pos_instrument p)))
                       (filter (\<lambda>p. pos_status p = OPEN) ps)"

lemma open_positions_unique_from_Inr:
  "open_positions_unique_from seen ps = Inr u \<longleftrightarrow>
     distinct (open_pairs ps) \<and> set (open_pairs ps) \<inter> seen = {}"
  by (induction seen ps rule: open_positions_unique_from.induct)
    (auto simp: open_pairs_def Let_def)

subsection \<open>A concrete rotation\<close>

text \<open>A plan with one source position and one protected one, on which the properties of the
  components that handle plans are evaluated.\<close>

definition sample_plan :: rotation_plan where
  "sample_plan =
     \<lparr>plan_rotation_plan_id = 1, plan_portfolio_id = 2, plan_candidate_group_ids = [3],
      plan_source_position_ids = [4], plan_protected_position_ids = [5],
      plan_created_at = Aware 0\<rparr>"

definition sample_position :: position where
  "sample_position =
     \<lparr>pos_position_id = 4, pos_portfolio_id = 2, pos_instrument = \<lparr>instrument_id = 6\<rparr>,
      pos_quantity = \<lparr>qvalue = Fin False 1000 0\<rparr>, pos_role = ROTATION_SOURCE, pos_status = OPEN,
      pos_opened_at = Aware 0, pos_closed_at = None\<rparr>"

definition sample_sale :: quantity where
  "sample_sale = \<lparr>qvalue = Fin False 500 0\<rparr>"

lemmas sample_defs = sample_plan_def sample_position_def sample_sale_def

lemma sample_source: "ensure_authorized_rotation_source sample_plan sample_position = Inr ()"
  by (simp add: sample_defs ensure_authorized_rotation_source_def)

lemma sample_sale_authorized:
  "ensure_authorized_rotation_sale sample_plan sample_position sample_sale = Inr ()"
  by (simp add: sample_defs ensure_authorized_rotation_sale_def
      ensure_authorized_rotation_source_def dsigned_def)

subsection \<open>Properties\<close>

text \<open>a rotation sale is authorized exactly when the position is an open, unprotected source of the
  plan in the plan's portfolio and the quantity is positive and within the holding; every
  authorized sale also passes the general check that a position may be sold.\<close>

theorem rotation_sale_check_exact:
  assumes "quantity_ok q" and "quantity_ok (pos_quantity p)"
  shows "(ensure_authorized_rotation_sale plan p q = Inr () \<longleftrightarrow>
            rotation_source_ok plan p \<and>
            0 < rval (qvalue q) \<and> rval (qvalue q) \<le> rval (qvalue (pos_quantity p))) \<and>
         (ensure_authorized_rotation_sale plan p q = Inr () \<longrightarrow>
            ensure_position_is_sellable p q = Inr ())"
  using assms
  by (auto simp: ensure_authorized_rotation_sale_Inr ensure_position_is_sellable_def quantity_ok_def
      rotation_source_ok_def dec_compare)

lemma rotation_sale_check_exact_witness:
  "ensure_position_is_sellable sample_position sample_sale = Inr ()"
  using rotation_sale_check_exact [of sample_sale sample_position sample_plan] sample_sale_authorized
  by (simp add: quantity_ok_def sample_defs dsigned_def)

text \<open>the open-position check accepts exactly the rows whose open portfolio/instrument pairs are
  pairwise distinct; closed rows never count.\<close>

theorem open_positions_unique_exact:
  "ensure_open_position_representation_is_unique ps = Inr () \<longleftrightarrow> distinct (open_pairs ps)"
  by (simp add: ensure_open_position_representation_is_unique_def open_positions_unique_from_Inr)

text \<open>closing an open position gives a valid closed one with the same identity and holding, and a
  position that is not open cannot be closed again.\<close>

theorem close_preserves_position:
  assumes "is_finite (qvalue (pos_quantity p))" and "position_close p t = Inr p'"
  shows "pos_status p = OPEN \<and> position_ok p' \<and> pos_status p' = CLOSED \<and> pos_closed_at p' = Some t \<and>
         pos_position_id p' = pos_position_id p \<and> pos_quantity p' = pos_quantity p \<and>
         (\<forall>t'. position_close p' t' = Inl (PositionNotOpenError ''only OPEN positions can be closed''))"
  using assms by (auto simp: position_close_def position_post_init_Inr split: if_splits)

lemma close_preserves_position_witness:
  "\<exists>p'. position_close sample_position (Aware 5) = Inr p' \<and> position_ok p'"
proof -
  let ?p = "sample_position\<lparr>pos_status := CLOSED, pos_closed_at := Some (Aware 5)\<rparr>"
  have "position_close sample_position (Aware 5) = Inr ?p"
    by (simp add: position_close_def position_post_init_def sample_position_def
        require_timezone_aware_def dsigned_def)
  with close_preserves_position [OF _ this] show ?thesis by (simp add: sample_position_def)
qed

text \<open>whoever may mutate a resource may read it, and whoever may do neither with a resource that is
  not SYSTEM-owned gets the same not-found error from both checks, so the error does not reveal
  that the resource exists.\<close>

theorem access_is_enumeration_safe:
  "(can_mutate a own pid \<longrightarrow> can_read a own pid) \<and>
   (require_mutation a own pid = Inr () \<longrightarrow> require_read a own pid = Inr ()) \<and>
   (own_scope own \<noteq> SYSTEM \<longrightarrow> \<not> can_read a own pid \<longrightarrow>
      require_read a own pid = Inl (NotFoundForActor ''resource was not found for actor'') \<and>
      require_mutation a own pid = require_read a own pid)"
  by (auto simp: access_defs)

lemma access_is_enumeration_safe_witness:
  "require_mutation \<lparr>actor_user_id = 7, is_administrator = False, request_id = 0,
       authentication_method = ''token'', requested_ownership = None\<rparr> (Ownership USER (Some 8)) None =
   Inl (NotFoundForActor ''resource was not found for actor'')"
  using access_is_enumeration_safe
    [of "\<lparr>actor_user_id = 7, is_administrator = False, request_id = 0,
          authentication_method = ''token'', requested_ownership = None\<rparr>" "Ownership USER (Some 8)" None]
  by (simp add: Ownership_def can_read_def)

end
