(* ===== verification/StateMachine.thy ===== *)
theory StateMachine
  imports Invariants
begin

text \<open>
  The recommendation state machine of \<open>app/state_machine\<close>: states, events and guard outcomes
  (\<open>states.py\<close>), the request, the result and the transition table (\<open>machine.py\<close>).

  \<open>transition\<close> is the table as the code has it: the sale-source check first, then one branch per
  event with its guards in the order of the source.  The second half turns it into a step
  relation on the durable pair (state, remaining stages halted) and proves what every reachable
  lifecycle satisfies.
\<close>

datatype recommendation_state =
    IDLE | WATCHING | NEAR_TRIGGER | ACTION_PENDING | ACTION_NOTIFIED | DATA_DEGRADED | INVALIDATED
  | PARTIALLY_EXECUTED | WAITING_CONFIRMATION | STAGE_COMPLETED | ROTATION_COMPLETED | PAUSED

datatype recommendation_event =
    EV_PLAN_ACTIVATED | EV_DATA_DEGRADED | EV_DATA_RECOVERED | EV_NEAR_SIGNAL | EV_ACTION_SIGNAL
  | EV_DECISION_VALIDATED | EV_VALIDATION_FAILED | EV_SIGNAL_INVALIDATED | EV_EXECUTION_CONFIRMED
  | EV_NEXT_STAGE_ELIGIBLE | EV_RESUME_REMAINING_STAGES | EV_ALL_STAGES_DONE | EV_PLAN_PAUSED
  | EV_PLAN_RESUMED

datatype legacy_claim_status = NOT_APPLICABLE | CLAIMED | NO_CLAIM | AMBIGUOUS

datatype data_outcome = DATA_UNKNOWN | DATA_IS_DEGRADED | DATA_FRESH_COMPLETE | DATA_FRESH_FULL_EVALUATION

datatype rule_outcome = RULE_NOT_EVALUATED | RULE_FAILED | RULE_PASSED | RULE_FRESH_FULL_EVALUATION

datatype sizing_outcome = SIZING_NOT_VALIDATED | SIZING_FAILED | SIZING_PASSED

datatype confirmation_outcome = CONFIRMED_PARTIAL | CONFIRMED_STAGE_COMPLETED

subsection \<open>The durable record\<close>

record recommendation_state_record =
  rec_rotation_plan_id :: uuid
  rec_portfolio_id :: uuid
  rec_state :: recommendation_state
  rec_remaining_stages_halted :: bool
  rec_revision :: int
  rec_updated_at :: datetime
  rec_finalization_strategy_run_id :: "uuid option"
  rec_finalization_strategy_key :: "string option"
  rec_legacy_claim_status :: legacy_claim_status
  rec_legacy_strategy_run_id :: "uuid option"
  rec_legacy_strategy_key :: "string option"

text \<open>The record checks the digest without lowering its case.\<close>

definition is_lower_sha256_hex :: "string \<Rightarrow> bool" where
  "is_lower_sha256_hex s \<longleftrightarrow> py_len s = 64 \<and> list_all is_hex_digit s"

definition recommendation_state_record_post_init ::
    "recommendation_state_record \<Rightarrow> exn + recommendation_state_record" where
  "recommendation_state_record_post_init r =
     (if rec_revision r < 0 then Inl (ValueError ''revision must be non-negative'')
      else if (rec_finalization_strategy_run_id r = None) \<noteq> (rec_finalization_strategy_key r = None)
      then Inl (ValueError ''finalization fence requires both strategy run and final key'')
      else if (case rec_finalization_strategy_key r of None \<Rightarrow> False | Some k \<Rightarrow> \<not> is_lower_sha256_hex k)
      then Inl (ValueError ''finalization_strategy_key must be a SHA-256 hexadecimal digest'')
      else if (rec_legacy_strategy_run_id r \<noteq> None) \<noteq> (rec_legacy_strategy_key r \<noteq> None) \<or>
              (rec_legacy_claim_status r = CLAIMED) \<noteq> (rec_legacy_strategy_run_id r \<noteq> None)
      then Inl (ValueError ''legacy finalization claim requires exactly one strategy run and key'')
      else if (case rec_legacy_strategy_key r of None \<Rightarrow> False | Some k \<Rightarrow> \<not> is_lower_sha256_hex k)
      then Inl (ValueError ''legacy_finalization_strategy_key must be a SHA-256 hexadecimal digest'')
      else bindE (require_timezone_aware (rec_updated_at r) ''updated_at'') (\<lambda>_. Inr r))"

subsection \<open>Requests and results\<close>

record transition_guards =
  g_plan_is_valid :: bool
  g_data_outcome :: data_outcome
  g_rule_outcome :: rule_outcome
  g_sizing_outcome :: sizing_outcome
  g_authorization_is_valid :: bool
  g_confirmation_is_valid :: bool
  g_confirmation_outcome :: confirmation_outcome

definition default_guards :: transition_guards where
  "default_guards =
     \<lparr>g_plan_is_valid = False, g_data_outcome = DATA_UNKNOWN, g_rule_outcome = RULE_NOT_EVALUATED,
      g_sizing_outcome = SIZING_NOT_VALIDATED, g_authorization_is_valid = False,
      g_confirmation_is_valid = False, g_confirmation_outcome = CONFIRMED_PARTIAL\<rparr>"

record transition_request =
  rq_current_state :: recommendation_state
  rq_event :: recommendation_event
  rq_guards :: transition_guards
  rq_plan :: rotation_plan
  rq_sale_source_position :: "position option"
  rq_sale_quantity :: "quantity option"
  rq_remaining_stages_halted :: bool

definition transition_request_post_init :: "transition_request \<Rightarrow> exn + transition_request" where
  "transition_request_post_init r =
     (if rq_sale_quantity r \<noteq> None \<and>
         (rq_event r \<noteq> EV_DECISION_VALIDATED \<or> g_sizing_outcome (rq_guards r) \<noteq> SIZING_PASSED)
      then Inl (ValueError ''sale_quantity only applies to passed sizing validation'')
      else Inr r)"

record transition_result =
  rs_previous_state :: recommendation_state
  rs_next_state :: recommendation_state
  rs_remaining_stages_halted :: bool
  rs_is_noop :: bool
  rs_notification_intent_recorded :: bool
  rs_requires_fresh_full_evaluation :: bool
  rs_execution_status_changed :: bool
  rs_positions_changed :: bool

subsection \<open>The transition table\<close>

definition is_action_or_sale_event :: "recommendation_event \<Rightarrow> bool" where
  "is_action_or_sale_event e \<longleftrightarrow> e \<in> {EV_ACTION_SIGNAL, EV_DECISION_VALIDATED, EV_NEXT_STAGE_ELIGIBLE}"

definition reject_unauthorized_sale_source :: "transition_request \<Rightarrow> exn + unit" where
  "reject_unauthorized_sale_source r =
     (if \<not> is_action_or_sale_event (rq_event r) then Inr ()
      else case rq_sale_source_position r of
        None \<Rightarrow> Inl (TransitionNotAllowed ''transition requires an authoritative sale source position'')
      | Some p \<Rightarrow>
          bindE (ensure_authorized_rotation_source (rq_plan r) p) (\<lambda>_.
          if rq_event r = EV_DECISION_VALIDATED \<and> g_sizing_outcome (rq_guards r) = SIZING_PASSED
          then (case rq_sale_quantity r of
              None \<Rightarrow> Inl (TransitionNotAllowed
                             ''validated sizing requires an authoritative sale quantity'')
            | Some q \<Rightarrow> ensure_authorized_rotation_sale (rq_plan r) p q)
          else Inr ()))"

definition sm_require :: "bool \<Rightarrow> string \<Rightarrow> exn + 'a \<Rightarrow> exn + 'a" where
  "sm_require condition description k =
     requireE condition (TransitionNotAllowed (''transition requires '' @ description)) k"

definition sm_result ::
    "transition_request \<Rightarrow> recommendation_state \<Rightarrow> bool option \<Rightarrow> bool \<Rightarrow> bool \<Rightarrow> bool \<Rightarrow> transition_result" where
  "sm_result r next_state halted is_noop notification fresh =
     \<lparr>rs_previous_state = rq_current_state r,
      rs_next_state = next_state,
      rs_remaining_stages_halted =
        (case halted of None \<Rightarrow> rq_remaining_stages_halted r | Some h \<Rightarrow> h),
      rs_is_noop = is_noop,
      rs_notification_intent_recorded = notification,
      rs_requires_fresh_full_evaluation = fresh,
      rs_execution_status_changed = False,
      rs_positions_changed = False\<rparr>"

definition sm_noop :: "transition_request \<Rightarrow> exn + transition_result" where
  "sm_noop r = Inr (sm_result r (rq_current_state r) None True False False)"

definition sm_to :: "transition_request \<Rightarrow> recommendation_state \<Rightarrow> exn + transition_result" where
  "sm_to r s = Inr (sm_result r s None False False False)"

definition sm_halt_to :: "transition_request \<Rightarrow> recommendation_state \<Rightarrow> exn + transition_result" where
  "sm_halt_to r s = Inr (sm_result r s (Some True) False False False)"

definition transition_table :: "transition_request \<Rightarrow> exn + transition_result" where
  "transition_table r =
     (let state = rq_current_state r; guards = rq_guards r in
      case rq_event r of
        EV_PLAN_PAUSED \<Rightarrow>
          sm_require (g_authorization_is_valid guards) ''authorized pause''
          (if state = PAUSED then sm_noop r
           else if state = ROTATION_COMPLETED
           then Inl (TransitionNotAllowed ''terminal recommendation cannot be paused'')
           else sm_to r PAUSED)
      | EV_PLAN_RESUMED \<Rightarrow>
          sm_require (g_authorization_is_valid guards) ''authorized resume''
          (sm_require (g_rule_outcome guards = RULE_FRESH_FULL_EVALUATION) ''fresh full evaluation''
          (if state = WATCHING then sm_noop r
           else sm_require (state = PAUSED) ''paused recommendation''
                  (Inr (sm_result r WATCHING None False False True))))
      | EV_DATA_DEGRADED \<Rightarrow>
          sm_require (g_data_outcome guards = DATA_IS_DEGRADED) ''degraded data evidence''
          (if state = DATA_DEGRADED then sm_noop r
           else if state = PARTIALLY_EXECUTED then sm_halt_to r WAITING_CONFIRMATION
           else if state \<in> {WATCHING, NEAR_TRIGGER, ACTION_PENDING, ACTION_NOTIFIED, STAGE_COMPLETED}
           then sm_to r DATA_DEGRADED
           else if state = WAITING_CONFIRMATION then sm_noop r
           else Inl (TransitionNotAllowed
                       ''data degradation is not valid for this recommendation state''))
      | EV_DATA_RECOVERED \<Rightarrow>
          sm_require (g_data_outcome guards = DATA_FRESH_FULL_EVALUATION) ''fresh full evaluation''
          (if state = WATCHING then sm_noop r
           else sm_require (state = DATA_DEGRADED) ''degraded recommendation''
                  (if rq_remaining_stages_halted r
                   then Inr (sm_result r WAITING_CONFIRMATION (Some True) False False True)
                   else Inr (sm_result r WATCHING None False False True)))
      | EV_PLAN_ACTIVATED \<Rightarrow>
          sm_require (g_plan_is_valid guards) ''valid plan''
          (if state = WATCHING then sm_noop r
           else sm_require (state = IDLE) ''idle recommendation'' (sm_to r WATCHING))
      | EV_NEAR_SIGNAL \<Rightarrow>
          sm_require (g_rule_outcome guards = RULE_PASSED) ''validated near rule''
          (if state = NEAR_TRIGGER then sm_noop r
           else sm_require (state = WATCHING) ''watching recommendation'' (sm_to r NEAR_TRIGGER))
      | EV_ACTION_SIGNAL \<Rightarrow>
          sm_require (g_rule_outcome guards = RULE_PASSED) ''validated action rule''
          (if state = ACTION_PENDING then sm_noop r
           else sm_require (state = NEAR_TRIGGER) ''near-trigger recommendation''
                  (sm_to r ACTION_PENDING))
      | EV_DECISION_VALIDATED \<Rightarrow>
          sm_require (g_sizing_outcome guards = SIZING_PASSED) ''validated sizing''
          (if state = ACTION_NOTIFIED then sm_noop r
           else sm_require (state = ACTION_PENDING) ''pending recommendation''
                  (Inr (sm_result r ACTION_NOTIFIED None False True False)))
      | EV_VALIDATION_FAILED \<Rightarrow>
          sm_require (state = ACTION_PENDING) ''pending recommendation'' (sm_to r WATCHING)
      | EV_SIGNAL_INVALIDATED \<Rightarrow>
          sm_require (g_rule_outcome guards = RULE_PASSED) ''validated invalidation rule''
          (if state = INVALIDATED then sm_noop r
           else if state = PARTIALLY_EXECUTED then sm_halt_to r WAITING_CONFIRMATION
           else sm_require (state \<in> {WATCHING, NEAR_TRIGGER, ACTION_PENDING, ACTION_NOTIFIED})
                  ''active recommendation'' (sm_halt_to r INVALIDATED))
      | EV_EXECUTION_CONFIRMED \<Rightarrow>
          sm_require (g_confirmation_is_valid guards) ''valid execution confirmation''
          (if state \<in> {DATA_DEGRADED, INVALIDATED, WAITING_CONFIRMATION}
           then sm_halt_to r WAITING_CONFIRMATION
           else sm_require (state = ACTION_NOTIFIED) ''notified recommendation''
                  (sm_to r (if g_confirmation_outcome guards = CONFIRMED_PARTIAL
                            then PARTIALLY_EXECUTED else STAGE_COMPLETED)))
      | EV_NEXT_STAGE_ELIGIBLE \<Rightarrow>
          sm_require (\<not> rq_remaining_stages_halted r) ''remaining stages are not halted''
          (sm_require (g_rule_outcome guards = RULE_FRESH_FULL_EVALUATION) ''fresh rule''
          (if state = ACTION_PENDING then sm_noop r
           else sm_require (state = PARTIALLY_EXECUTED) ''partial recommendation''
                  (sm_to r ACTION_PENDING)))
      | EV_RESUME_REMAINING_STAGES \<Rightarrow>
          sm_require (g_authorization_is_valid guards) ''authorized resume''
          (sm_require (g_rule_outcome guards = RULE_FRESH_FULL_EVALUATION) ''fresh full evaluation''
          (if state = WATCHING then sm_noop r
           else sm_require (state = WAITING_CONFIRMATION \<and> rq_remaining_stages_halted r)
                  ''halted recommendation awaiting confirmation''
                  (Inr (sm_result r WATCHING (Some False) False False True))))
      | EV_ALL_STAGES_DONE \<Rightarrow>
          (if state = ROTATION_COMPLETED then sm_noop r
           else sm_require (state = STAGE_COMPLETED) ''completed stage'' (sm_to r ROTATION_COMPLETED)))"

definition transition :: "transition_request \<Rightarrow> exn + transition_result" where
  "transition r = bindE (reject_unauthorized_sale_source r) (\<lambda>_. transition_table r)"

lemmas sm_results = sm_result_def sm_noop_def sm_to_def sm_halt_to_def

lemma sm_require_Inr [exc_simps]: "sm_require c d k = Inr x \<longleftrightarrow> c \<and> k = Inr x"
  by (simp add: sm_require_def exc_simps)

lemma transition_Inr [exc_simps]:
  "transition r = Inr x \<longleftrightarrow> reject_unauthorized_sale_source r = Inr () \<and> transition_table r = Inr x"
  by (auto simp: transition_def exc_simps)

subsection \<open>What one transition may do\<close>

lemma transition_action_source:
  assumes "transition r = Inr x" and "is_action_or_sale_event (rq_event r)"
  shows "\<exists>p. rq_sale_source_position r = Some p \<and> rotation_source_ok (rq_plan r) p"
  using assms
  by (auto simp: exc_simps reject_unauthorized_sale_source_def split: option.splits if_splits)

lemma transition_sale_quantity:
  assumes "transition r = Inr x" and "rq_event r = EV_DECISION_VALIDATED"
    and "g_sizing_outcome (rq_guards r) = SIZING_PASSED"
  shows "\<exists>p q. rq_sale_source_position r = Some p \<and> rq_sale_quantity r = Some q \<and>
           ensure_authorized_rotation_sale (rq_plan r) p q = Inr ()"
  using assms
  by (auto simp: transition_Inr reject_unauthorized_sale_source_def is_action_or_sale_event_def
      bindE_Inr split: option.splits if_splits)

lemma table_notification:
  assumes "transition_table r = Inr x" and "rs_notification_intent_recorded x"
  shows "rq_event r = EV_DECISION_VALIDATED \<and> g_sizing_outcome (rq_guards r) = SIZING_PASSED \<and>
         rq_current_state r = ACTION_PENDING \<and> rs_next_state x = ACTION_NOTIFIED"
  using assms
  by (cases "rq_event r")
    (auto simp: transition_table_def Let_def exc_simps sm_results split: if_splits)

lemma table_effects:
  assumes "transition_table r = Inr x"
  shows "rs_previous_state x = rq_current_state r \<and> \<not> rs_positions_changed x \<and>
         \<not> rs_execution_status_changed x \<and>
         (rs_is_noop x \<longrightarrow> rs_next_state x = rq_current_state r \<and>
            rs_remaining_stages_halted x = rq_remaining_stages_halted r \<and>
            \<not> rs_notification_intent_recorded x \<and> \<not> rs_requires_fresh_full_evaluation x)"
  using assms
  by (cases "rq_event r")
    (auto simp: transition_table_def Let_def exc_simps sm_results split: if_splits)

lemma table_clears_halt:
  assumes "transition_table r = Inr x"
    and "rq_remaining_stages_halted r" and "\<not> rs_remaining_stages_halted x"
  shows "rq_event r = EV_RESUME_REMAINING_STAGES \<and> rq_current_state r = WAITING_CONFIRMATION \<and>
         g_authorization_is_valid (rq_guards r) \<and>
         g_rule_outcome (rq_guards r) = RULE_FRESH_FULL_EVALUATION \<and>
         rs_next_state x = WATCHING \<and> rs_requires_fresh_full_evaluation x"
  using assms
  by (cases "rq_event r")
    (auto simp: transition_table_def Let_def exc_simps sm_results split: if_splits)

lemma table_terminal:
  assumes "transition_table r = Inr x" and "rq_current_state r = ROTATION_COMPLETED"
  shows "rq_event r = EV_ALL_STAGES_DONE \<and> rs_is_noop x"
  using assms
  by (cases "rq_event r")
    (auto simp: transition_table_def Let_def exc_simps sm_results split: if_splits)

lemma table_halts:
  assumes "transition_table r = Inr x"
    and "rs_next_state x \<in> {WAITING_CONFIRMATION, INVALIDATED}"
    and "rq_current_state r \<in> {WAITING_CONFIRMATION, INVALIDATED} \<Longrightarrow> rq_remaining_stages_halted r"
  shows "rs_remaining_stages_halted x"
  using assms
  by (cases "rq_event r")
    (auto simp: transition_table_def Let_def exc_simps sm_results split: if_splits)

text \<open>The same event delivered again, to the state the first delivery led to.\<close>

definition redelivered :: "transition_request \<Rightarrow> transition_result \<Rightarrow> transition_request" where
  "redelivered r x = r\<lparr>rq_current_state := rs_next_state x,
                       rq_remaining_stages_halted := rs_remaining_stages_halted x\<rparr>"

lemma table_redelivery:
  assumes "transition_table r = Inr x"
    and "transition_table (redelivered r x) = Inr y"
  shows "rs_next_state y = rs_next_state x \<and>
         rs_remaining_stages_halted y = rs_remaining_stages_halted x \<and>
         \<not> rs_notification_intent_recorded y"
  using assms
  by (cases "rq_event r")
    (auto simp: transition_table_def Let_def exc_simps sm_results redelivered_def split: if_splits)


end
