(* ===== verification/Lifecycle.thy ===== *)
theory Lifecycle
  imports StateMachine
begin

text \<open>
  The lifecycle a recommendation can go through: the steps \<open>transition\<close> allows on the durable pair
  (state, remaining stages halted) that \<open>app/state_machine/states.py\<close> stores between two events,
  and what every reachable pair satisfies.
\<close>

subsection \<open>The step relation\<close>

text \<open>A lifecycle: the stored state and the stored flag that halts the remaining stages.\<close>

type_synonym lifecycle = "recommendation_state \<times> bool"

inductive rec_step :: "rotation_plan \<Rightarrow> lifecycle \<Rightarrow> lifecycle \<Rightarrow> bool" for plan where
  "transition r = Inr x \<Longrightarrow> transition_request_post_init r = Inr r \<Longrightarrow> rq_plan r = plan \<Longrightarrow>
   rec_step plan (rq_current_state r, rq_remaining_stages_halted r)
                 (rs_next_state x, rs_remaining_stages_halted x)"


abbreviation rec_steps :: "rotation_plan \<Rightarrow> lifecycle \<Rightarrow> lifecycle \<Rightarrow> bool" where
  "rec_steps plan \<equiv> (rec_step plan)\<^sup>*\<^sup>*"

text \<open>A state in which a stage that already executed waits for the operator, or whose signal was
  withdrawn, has its remaining stages halted.\<close>

definition halt_inv :: "lifecycle \<Rightarrow> bool" where
  "halt_inv l \<longleftrightarrow> (fst l \<in> {WAITING_CONFIRMATION, INVALIDATED} \<longrightarrow> snd l)"

lemma halt_inv_step: "rec_step plan l l' \<Longrightarrow> halt_inv l \<Longrightarrow> halt_inv l'"
  by (erule rec_step.cases) (auto simp: halt_inv_def transition_Inr dest: table_halts)

lemma halt_inv_steps: "rec_steps plan l l' \<Longrightarrow> halt_inv l \<Longrightarrow> halt_inv l'"
  by (induction rule: rtranclp_induct) (blast intro: halt_inv_step)+

lemma terminal_step:
  assumes "rec_step plan (ROTATION_COMPLETED, h) l" shows "l = (ROTATION_COMPLETED, h)"
  using assms
proof (cases rule: rec_step.cases)
  case (1 r x)
  then show ?thesis using table_terminal [of r x] table_effects [of r x] by (auto simp: transition_Inr)
qed

lemma terminal_steps: "rec_steps plan (ROTATION_COMPLETED, h) l \<Longrightarrow> l = (ROTATION_COMPLETED, h)"
  by (induction rule: rtranclp_induct) (auto dest: terminal_step)



subsection \<open>No dead end\<close>

text \<open>The request an operator or the evaluation sends, with the guards and the sale source given.\<close>

definition request_of ::
    "rotation_plan \<Rightarrow> lifecycle \<Rightarrow> recommendation_event \<Rightarrow> position \<Rightarrow> quantity option \<Rightarrow>
     rule_outcome \<Rightarrow> confirmation_outcome \<Rightarrow> transition_request" where
  "request_of plan l e p q rule outcome =
     \<lparr>rq_current_state = fst l, rq_event = e,
      rq_guards = \<lparr>g_plan_is_valid = True, g_data_outcome = DATA_FRESH_FULL_EVALUATION,
                   g_rule_outcome = rule, g_sizing_outcome = SIZING_PASSED,
                   g_authorization_is_valid = True, g_confirmation_is_valid = True,
                   g_confirmation_outcome = outcome\<rparr>,
      rq_plan = plan, rq_sale_source_position = Some p, rq_sale_quantity = q,
      rq_remaining_stages_halted = snd l\<rparr>"

lemma rec_stepI:
  assumes "transition_request_post_init r = Inr r" and "rq_plan r = plan"
    and "l = (rq_current_state r, rq_remaining_stages_halted r)"
    and "case transition r of Inl e \<Rightarrow> False
         | Inr x \<Rightarrow> l' = (rs_next_state x, rs_remaining_stages_halted x)"
  shows "rec_step plan l l'"
  using rec_step.intros [of r _ plan] assms by (auto split: sum.splits)

lemmas table_eval = transition_table_def Let_def sm_results sm_require_def request_of_def
  transition_def reject_unauthorized_sale_source_def is_action_or_sale_event_def
  transition_request_post_init_def

lemma signal_steps:
  assumes source: "ensure_authorized_rotation_source plan p = Inr ()"
    and sale: "ensure_authorized_rotation_sale plan p q = Inr ()"
  shows "rec_step plan (WATCHING, h) (NEAR_TRIGGER, h)"
    and "rec_step plan (NEAR_TRIGGER, h) (ACTION_PENDING, h)"
    and "rec_step plan (ACTION_PENDING, h) (ACTION_NOTIFIED, h)"
proof -
  let ?r = "\<lambda>l e qq. request_of plan l e p qq RULE_PASSED CONFIRMED_PARTIAL"
  show "rec_step plan (WATCHING, h) (NEAR_TRIGGER, h)"
    by (rule rec_stepI [of "?r (WATCHING, h) EV_NEAR_SIGNAL None"]) (simp_all add: table_eval)
  show "rec_step plan (NEAR_TRIGGER, h) (ACTION_PENDING, h)"
    by (rule rec_stepI [of "?r (NEAR_TRIGGER, h) EV_ACTION_SIGNAL None"])
      (simp_all add: table_eval source)
  show "rec_step plan (ACTION_PENDING, h) (ACTION_NOTIFIED, h)"
    by (rule rec_stepI [of "?r (ACTION_PENDING, h) EV_DECISION_VALIDATED (Some q)"])
      (simp_all add: table_eval source sale)
qed

lemma lifecycle_completes:
  assumes source: "ensure_authorized_rotation_source plan p = Inr ()"
    and sale: "ensure_authorized_rotation_sale plan p q = Inr ()"
  shows "\<exists>h. rec_steps plan l (ROTATION_COMPLETED, h)"
proof -
  let ?r = "\<lambda>l e qq rule. request_of plan l e p qq rule CONFIRMED_STAGE_COMPLETED"
  have executed: "rec_step plan (ACTION_NOTIFIED, h) (STAGE_COMPLETED, h)" for h
    by (rule rec_stepI [of "?r (ACTION_NOTIFIED, h) EV_EXECUTION_CONFIRMED None RULE_PASSED"])
      (simp_all add: table_eval)
  have finished: "rec_step plan (STAGE_COMPLETED, h) (ROTATION_COMPLETED, h)" for h
    by (rule rec_stepI [of "?r (STAGE_COMPLETED, h) EV_ALL_STAGES_DONE None RULE_PASSED"])
      (simp_all add: table_eval)
  have completed: "rec_steps plan (s, h) (ROTATION_COMPLETED, h)"
    if "s \<in> {WATCHING, NEAR_TRIGGER, ACTION_PENDING, ACTION_NOTIFIED, STAGE_COMPLETED,
             ROTATION_COMPLETED}" for s h
    using that signal_steps [OF source sale, of h] executed [of h] finished [of h]
    by (auto intro: converse_rtranclp_into_rtranclp)
  have watching: "rec_step plan (s, h) (WATCHING, h)" if "s \<in> {IDLE, PAUSED}" for s h
    using that
    by (intro rec_stepI [of "?r (s, h) (if s = IDLE then EV_PLAN_ACTIVATED else EV_PLAN_RESUMED)
                             None RULE_FRESH_FULL_EVALUATION"])
      (auto simp: table_eval)
  have paused: "rec_step plan (PARTIALLY_EXECUTED, h) (PAUSED, h)" for h
    by (rule rec_stepI [of "?r (PARTIALLY_EXECUTED, h) EV_PLAN_PAUSED None RULE_PASSED"])
      (simp_all add: table_eval)
  have waiting: "rec_step plan (s, h) (WAITING_CONFIRMATION, True)"
    if "s \<in> {DATA_DEGRADED, INVALIDATED, WAITING_CONFIRMATION}" for s h
    using that
    by (intro rec_stepI [of "?r (s, h) EV_EXECUTION_CONFIRMED None RULE_PASSED"])
      (auto simp: table_eval)
  have resumed: "rec_step plan (WAITING_CONFIRMATION, True) (WATCHING, False)"
    by (rule rec_stepI [of "?r (WAITING_CONFIRMATION, True) EV_RESUME_REMAINING_STAGES None
                            RULE_FRESH_FULL_EVALUATION"])
      (simp_all add: table_eval)
  obtain s h where l: "l = (s, h)" by (cases l)
  have two: "\<exists>h'. rec_steps plan a (WATCHING, h')"
    if "rec_step plan a b" and "rec_step plan b (WATCHING, h1)" for a b h1
    using that by (blast intro: converse_rtranclp_into_rtranclp)
  have "\<exists>h'. rec_steps plan (s, h) (WATCHING, h')"
    if "s \<in> {IDLE, PAUSED, PARTIALLY_EXECUTED, DATA_DEGRADED, INVALIDATED, WAITING_CONFIRMATION}"
  proof (cases "s \<in> {IDLE, PAUSED}")
    case True
    then show ?thesis using watching [of s h] by blast
  next
    case False
    then show ?thesis
      using that two [OF paused watching] two [OF waiting resumed, of s h] by auto
  qed
  then show ?thesis
    using completed [of WATCHING] completed [of s h] unfolding l
    by (cases s) (auto intro: rtranclp_trans)
qed

subsection \<open>Concrete requests\<close>

definition sample_request :: "lifecycle \<Rightarrow> recommendation_event \<Rightarrow> rule_outcome \<Rightarrow> transition_request" where
  "sample_request l e rule =
     request_of sample_plan l e sample_position
       (if e = EV_DECISION_VALIDATED then Some sample_sale else None) rule CONFIRMED_PARTIAL"

lemmas sample_request_eval = sample_request_def table_eval sample_source sample_sale_authorized

lemma sample_activated: "rec_step sample_plan (IDLE, False) (WATCHING, False)"
  by (rule rec_stepI [of "sample_request (IDLE, False) EV_PLAN_ACTIVATED RULE_PASSED"])
    (simp_all add: sample_request_eval)

lemma sample_invalidated: "rec_step sample_plan (WATCHING, False) (INVALIDATED, True)"
  by (rule rec_stepI [of "sample_request (WATCHING, False) EV_SIGNAL_INVALIDATED RULE_PASSED"])
    (simp_all add: sample_request_eval)

subsection \<open>Properties\<close>



text \<open>every action or sale event needs an authorized source position of the plan, on every
  branch of the table that returns, the no-ops included; no transition changes a position or an
  execution status, and a no-op changes nothing at all.\<close>

theorem transition_is_safe:
  assumes "transition r = Inr x"
  shows "(is_action_or_sale_event (rq_event r) \<longrightarrow>
            (\<exists>p. rq_sale_source_position r = Some p \<and> rotation_source_ok (rq_plan r) p)) \<and>
         \<not> rs_positions_changed x \<and> \<not> rs_execution_status_changed x \<and>
         rs_previous_state x = rq_current_state r \<and>
         (rs_is_noop x \<longrightarrow> rs_next_state x = rq_current_state r \<and>
            rs_remaining_stages_halted x = rq_remaining_stages_halted r \<and>
            \<not> rs_notification_intent_recorded x)"
  using assms transition_action_source [OF assms] table_effects [of r x]
  by (auto simp: transition_Inr)

lemma transition_is_safe_witness:
  "rotation_source_ok sample_plan sample_position"
  using transition_is_safe
    [of "sample_request (NEAR_TRIGGER, False) EV_ACTION_SIGNAL RULE_PASSED"
        "sm_result (sample_request (NEAR_TRIGGER, False) EV_ACTION_SIGNAL RULE_PASSED)
           ACTION_PENDING None False False False"]
  by (simp add: sample_request_eval)

text \<open>C20: in every lifecycle that starts idle and not halted, a recommendation that waits for the
  operator or whose signal was invalidated has its remaining stages halted.\<close>

theorem reachable_waiting_is_halted:
  assumes "rec_steps plan (IDLE, False) (s, h)" and "s \<in> {WAITING_CONFIRMATION, INVALIDATED}"
  shows "h"
  using halt_inv_steps [OF assms(1)] assms(2) by (auto simp: halt_inv_def)

lemma reachable_waiting_is_halted_witness:
  "\<exists>h. rec_steps sample_plan (IDLE, False) (INVALIDATED, h) \<and> h"
proof -
  have steps: "rec_steps sample_plan (IDLE, False) (INVALIDATED, True)"
    using sample_activated sample_invalidated by (blast intro: converse_rtranclp_into_rtranclp)
  have True by (rule reachable_waiting_is_halted [OF steps]) simp
  with steps show ?thesis by blast
qed



text \<open>a completed rotation is final: no event leaves it, and none sends a notification.\<close>

theorem rotation_completed_is_final:
  assumes "rec_steps plan (ROTATION_COMPLETED, h) (s, h')"
  shows "s = ROTATION_COMPLETED \<and> h' = h"
  using terminal_steps [OF assms] by simp

lemma rotation_completed_is_final_witness:
  "\<not> rec_steps sample_plan (ROTATION_COMPLETED, True) (WATCHING, True)"
  using rotation_completed_is_final [of sample_plan True WATCHING True] by auto

text \<open>C40: no lifecycle is stuck: from every state, halted or not, events with valid guards lead to a
  completed rotation, given a source position the plan authorizes and a sale it can cover.\<close>

theorem lifecycle_can_complete:
  assumes "ensure_authorized_rotation_sale plan p q = Inr ()"
  shows "\<exists>h. rec_steps plan l (ROTATION_COMPLETED, h)"
proof -
  have "ensure_authorized_rotation_source plan p = Inr ()"
    using assms by (auto simp: ensure_authorized_rotation_sale_def bindE_Inr)
  then show ?thesis using assms by (rule lifecycle_completes)
qed

lemma lifecycle_can_complete_witness:
  "\<exists>h. rec_steps sample_plan (INVALIDATED, True) (ROTATION_COMPLETED, h)"
  by (rule lifecycle_can_complete [OF sample_sale_authorized])

text \<open>delivering the event of a transition a second time, to the state the first delivery led
  to, never moves the recommendation further and never sends a second notification: it returns the
  same state and flag, or is rejected.\<close>

theorem redelivery_is_harmless:
  assumes "transition r = Inr x"
    and "transition (redelivered r x) = Inr y"
  shows "rs_next_state y = rs_next_state x \<and>
         rs_remaining_stages_halted y = rs_remaining_stages_halted x \<and>
         \<not> rs_notification_intent_recorded y"
  using assms table_redelivery [of r x y] by (simp add: transition_Inr)

lemma redelivery_is_harmless_witness:
  "case transition (sample_request (ACTION_PENDING, False) EV_DECISION_VALIDATED RULE_PASSED) of
     Inl e \<Rightarrow> False
   | Inr x \<Rightarrow> rs_notification_intent_recorded x \<and>
       (case transition (redelivered (sample_request (ACTION_PENDING, False)
                                        EV_DECISION_VALIDATED RULE_PASSED) x) of
          Inl e \<Rightarrow> False
        | Inr y \<Rightarrow> rs_next_state y = rs_next_state x \<and> \<not> rs_notification_intent_recorded y)"
proof -
  let ?r = "sample_request (ACTION_PENDING, False) EV_DECISION_VALIDATED RULE_PASSED"
  let ?x = "sm_result ?r ACTION_NOTIFIED None False True False"
  let ?y = "sm_result (redelivered ?r ?x) ACTION_NOTIFIED None True False False"
  have t: "transition ?r = Inr ?x" by (simp add: sample_request_eval)
  have u: "transition (redelivered ?r ?x) = Inr ?y"
    by (simp add: sample_request_eval redelivered_def)
  have "rs_notification_intent_recorded ?x" by (simp add: sm_result_def)
  then show ?thesis using redelivery_is_harmless [OF t u] by (simp only: t u sum.case simp_thms)
qed

text \<open>pausing and resuming keeps the halt of the remaining stages but re-enters \<open>WATCHING\<close>, so an
  invalidated, halted lifecycle can send a new notification while it is still halted; in
  \<open>WATCHING\<close> the explicit resume is a no-op which leaves the halt set.\<close>

theorem pause_resume_reenters_while_halted:
  assumes "ensure_authorized_rotation_sale plan p q = Inr ()"
  shows "rec_steps plan (INVALIDATED, True) (WATCHING, True) \<and>
         rec_steps plan (WATCHING, True) (ACTION_NOTIFIED, True) \<and>
         (\<forall>r. rq_current_state r = WATCHING \<longrightarrow> rq_event r = EV_RESUME_REMAINING_STAGES \<longrightarrow>
              (\<forall>x. transition r = Inr x \<longrightarrow>
                 rs_remaining_stages_halted x = rq_remaining_stages_halted r))"
proof (intro conjI allI impI)
  have source: "ensure_authorized_rotation_source plan p = Inr ()"
    using assms by (auto simp: ensure_authorized_rotation_sale_def bindE_Inr)
  let ?r = "\<lambda>l e qq rule. request_of plan l e p qq rule CONFIRMED_PARTIAL"
  have "rec_step plan (INVALIDATED, True) (PAUSED, True)"
    by (rule rec_stepI [of "?r (INVALIDATED, True) EV_PLAN_PAUSED None RULE_PASSED"])
      (simp_all add: table_eval)
  moreover have "rec_step plan (PAUSED, True) (WATCHING, True)"
    by (rule rec_stepI [of "?r (PAUSED, True) EV_PLAN_RESUMED None RULE_FRESH_FULL_EVALUATION"])
      (simp_all add: table_eval)
  ultimately show "rec_steps plan (INVALIDATED, True) (WATCHING, True)"
    by (blast intro: converse_rtranclp_into_rtranclp)
  show "rec_steps plan (WATCHING, True) (ACTION_NOTIFIED, True)"
    using signal_steps [OF source assms, of True] by (blast intro: converse_rtranclp_into_rtranclp)
qed (auto simp: transition_table_def Let_def exc_simps sm_results)

lemma pause_resume_reenters_while_halted_witness:
  "rec_steps sample_plan (INVALIDATED, True) (WATCHING, True)"
  by (rule pause_resume_reenters_while_halted [OF sample_sale_authorized, THEN conjunct1])

end
