(* ===== verification/Costs.thy ===== *)
theory Costs
  imports Domain
begin

text \<open>
  The exact decimal arithmetic and the fee, tax, slippage and rounding calculations of
  \<open>app/sizing/costs.py\<close>.

  The operations work on coefficients and exponents and never round; what they may do instead is
  refuse an operand or a result past a resource limit with a \<open>CostError\<close>.  The first group of
  lemmas shows that every value they return is the exact rational result.  \<open>round_rat\<close> is the
  abstract rounding of a rational; the ratio arithmetic of the code is shown to compute it, and
  the locale \<open>rounding_rule\<close> holds what follows from monotonicity alone.
\<close>

definition MAX_ROUNDING_DECIMAL_DIGITS :: nat where
  "MAX_ROUNDING_DECIMAL_DIGITS = 1000"

definition MAX_ROUNDING_DECIMAL_EXPONENT :: int where
  "MAX_ROUNDING_DECIMAL_EXPONENT = 1000"

definition MAX_ROUNDING_SCALE_DIFFERENCE :: int where
  "MAX_ROUNDING_SCALE_DIFFERENCE = 1000"

lemmas rounding_limits [simp] =
  MAX_ROUNDING_DECIMAL_DIGITS_def MAX_ROUNDING_DECIMAL_EXPONENT_def MAX_ROUNDING_SCALE_DIFFERENCE_def

datatype rounding_mode = ROUND_DOWN | ROUND_HALF_EVEN | ROUND_HALF_UP

subsection \<open>Coefficients and exponents\<close>

definition validate_rounding_decimal :: "decimal \<Rightarrow> string \<Rightarrow> exn + unit" where
  "validate_rounding_decimal v field_name =
     (case v of
        Fin s c e \<Rightarrow>
          if ndigits c > MAX_ROUNDING_DECIMAL_DIGITS
          then Inl (CostError (field_name @ '' digit count exceeds the rounding resource limit''))
          else if \<bar>e\<bar> > MAX_ROUNDING_DECIMAL_EXPONENT
          then Inl (CostError (field_name @ '' scale exceeds the rounding resource limit''))
          else Inr ()
      | _ \<Rightarrow> Inl (AssertionError ''finite Decimal must have an integer exponent''))"

definition decimal_coefficient_and_exponent :: "decimal \<Rightarrow> string \<Rightarrow> exn + (int \<times> int)" where
  "decimal_coefficient_and_exponent v field_name =
     bindE (validate_rounding_decimal v field_name) (\<lambda>_. Inr (dsigned (dsign v) (dcoeff v), dexp v))"

definition coefficient_digit_count :: "int \<Rightarrow> nat" where
  "coefficient_digit_count c = ndigits (nat \<bar>c\<bar>)"

definition decimal_from_coefficient :: "int \<Rightarrow> int \<Rightarrow> exn + decimal" where
  "decimal_from_coefficient c e =
     (if \<bar>e\<bar> > MAX_ROUNDING_DECIMAL_EXPONENT
      then Inl (CostError ''Decimal result scale exceeds the rounding resource limit'')
      else if coefficient_digit_count c > MAX_ROUNDING_DECIMAL_DIGITS
      then Inl (CostError ''Decimal result digit count exceeds the rounding resource limit'')
      else Inr (Fin (c < 0) (nat \<bar>c\<bar>) e))"

definition validate_scaled_coefficient :: "int \<Rightarrow> int \<Rightarrow> string \<Rightarrow> exn + unit" where
  "validate_scaled_coefficient c scale field_name =
     (if scale > MAX_ROUNDING_SCALE_DIFFERENCE
      then Inl (CostError (field_name @ '' scale exceeds the rounding resource limit''))
      else if int (coefficient_digit_count c) + scale > int MAX_ROUNDING_DECIMAL_DIGITS
      then Inl (CostError (field_name @ '' digit count exceeds the rounding resource limit''))
      else Inr ())"

subsection \<open>Addition, subtraction, multiplication, floor division\<close>

text \<open>The common part of the addition and the subtraction: both coefficients at the smaller exponent.\<close>

definition align_decimals :: "decimal \<Rightarrow> decimal \<Rightarrow> exn + (int \<times> int \<times> int)" where
  "align_decimals left right =
     bindE (decimal_coefficient_and_exponent left ''left Decimal'') (\<lambda>(lc, le).
     bindE (decimal_coefficient_and_exponent right ''right Decimal'') (\<lambda>(rc, re).
     let e = min le re; left_shift = le - e; right_shift = re - e in
     bindE (validate_scaled_coefficient lc left_shift ''left Decimal'') (\<lambda>_.
     bindE (validate_scaled_coefficient rc right_shift ''right Decimal'') (\<lambda>_.
     Inr (lc * 10 ^ nat left_shift, rc * 10 ^ nat right_shift, e)))))"

definition add_decimals :: "decimal \<Rightarrow> decimal \<Rightarrow> exn + decimal" where
  "add_decimals left right =
     bindE (align_decimals left right) (\<lambda>(l, r, e). decimal_from_coefficient (l + r) e)"

definition subtract_decimals :: "decimal \<Rightarrow> decimal \<Rightarrow> exn + decimal" where
  "subtract_decimals left right =
     bindE (align_decimals left right) (\<lambda>(l, r, e). decimal_from_coefficient (l - r) e)"

definition multiply_decimals :: "decimal \<Rightarrow> decimal \<Rightarrow> exn + decimal" where
  "multiply_decimals left right =
     bindE (decimal_coefficient_and_exponent left ''left Decimal'') (\<lambda>(lc, le).
     bindE (decimal_coefficient_and_exponent right ''right Decimal'') (\<lambda>(rc, re).
     if \<bar>le + re\<bar> > MAX_ROUNDING_DECIMAL_EXPONENT
     then Inl (CostError ''Decimal product scale exceeds the rounding resource limit'')
     else if coefficient_digit_count lc + coefficient_digit_count rc > MAX_ROUNDING_DECIMAL_DIGITS
     then Inl (CostError ''Decimal product digit count exceeds the rounding resource limit'')
     else decimal_from_coefficient (lc * rc) (le + re)))"

text \<open>Both divisions scale one side to a ratio of integers.  \<open>floor_divide_decimals\<close> names its operands
  numerator and denominator, \<open>quantum_ratio\<close> money value and quantum.\<close>

definition scaled_ratio ::
    "int \<times> int \<Rightarrow> string \<Rightarrow> int \<times> int \<Rightarrow> string \<Rightarrow> exn + (int \<times> int)" where
  "scaled_ratio num num_field den den_field =
     (let difference = snd num - snd den in
      if \<bar>difference\<bar> > MAX_ROUNDING_SCALE_DIFFERENCE
      then Inl (CostError ''Decimal scale difference exceeds the rounding resource limit'')
      else if difference \<ge> 0
      then bindE (validate_scaled_coefficient (fst num) difference num_field) (\<lambda>_.
           Inr (fst num * 10 ^ nat difference, fst den))
      else bindE (validate_scaled_coefficient (fst den) (- difference) den_field) (\<lambda>_.
           Inr (fst num, fst den * 10 ^ nat (- difference))))"

definition floor_divide_decimals :: "decimal \<Rightarrow> decimal \<Rightarrow> exn + int" where
  "floor_divide_decimals numerator denominator =
     bindE (decimal_coefficient_and_exponent numerator ''numerator'') (\<lambda>num.
     bindE (decimal_coefficient_and_exponent denominator ''denominator'') (\<lambda>den.
     if fst den \<le> 0 then Inl (CostError ''denominator must be positive'')
     else bindE (scaled_ratio num ''numerator'' den ''denominator'') (\<lambda>(n, d). Inr (n div d))))"

subsection \<open>Rounding to a quantum\<close>

definition quantum_ratio :: "decimal \<Rightarrow> decimal \<Rightarrow> exn + (int \<times> int \<times> int \<times> int)" where
  "quantum_ratio v quantum =
     bindE (decimal_coefficient_and_exponent v ''money value'') (\<lambda>num.
     bindE (decimal_coefficient_and_exponent quantum ''money_quantum'') (\<lambda>den.
     bindE (scaled_ratio num ''money value'' den ''money_quantum'') (\<lambda>(n, d).
     Inr (n, d, fst den, snd den))))"

definition round_ratio :: "int \<Rightarrow> int \<Rightarrow> rounding_mode \<Rightarrow> int" where
  "round_ratio numerator denominator rounding =
     (let floor = numerator div denominator;
          remainder = numerator - floor * denominator;
          comparison = remainder * 2 - denominator
      in if rounding = ROUND_DOWN
         then if numerator \<ge> 0 \<or> remainder = 0 then floor else floor + 1
         else if comparison < 0 then floor
         else if comparison > 0 then floor + 1
         else if rounding = ROUND_HALF_UP then if numerator \<ge> 0 then floor + 1 else floor
         else if floor mod 2 = 0 then floor else floor + 1)"

definition floor_to_quantum :: "decimal \<Rightarrow> decimal \<Rightarrow> exn + decimal" where
  "floor_to_quantum v quantum =
     bindE (quantum_ratio v quantum) (\<lambda>(n, d, qc, qe). decimal_from_coefficient (n div d * qc) qe)"

definition round_to_quantum :: "decimal \<Rightarrow> decimal \<Rightarrow> rounding_mode \<Rightarrow> exn + decimal" where
  "round_to_quantum v quantum rounding =
     bindE (quantum_ratio v quantum) (\<lambda>(n, d, qc, qe).
     decimal_from_coefficient (round_ratio n d rounding * qc) qe)"

record rounding_policy =
  money_quantum :: decimal
  money_rounding :: rounding_mode
  quantity_rounding :: rounding_mode

definition rounding_policy_post_init :: "rounding_policy \<Rightarrow> exn + rounding_policy" where
  "rounding_policy_post_init p =
     bindE (require_finite_decimal (money_quantum p) ''money_quantum'') (\<lambda>_.
     bindE (validate_rounding_decimal (money_quantum p) ''money_quantum'') (\<lambda>_.
     if dec_le (money_quantum p) dec_zero then Inl (CostError ''money_quantum must be positive'')
     else Inr p))"

text \<open>\<open>DecimalRoundingPolicy.money\<close> and \<open>money_not_increasing\<close>.\<close>

definition policy_money :: "rounding_policy \<Rightarrow> decimal \<Rightarrow> exn + decimal" where
  "policy_money p v =
     bindE (require_finite_decimal v ''money value'') (\<lambda>_.
     round_to_quantum v (money_quantum p) (money_rounding p))"

definition policy_money_not_increasing :: "rounding_policy \<Rightarrow> decimal \<Rightarrow> exn + decimal" where
  "policy_money_not_increasing p v =
     bindE (require_finite_decimal v ''money value'') (\<lambda>_. floor_to_quantum v (money_quantum p))"

subsection \<open>Costs and proceeds\<close>

definition require_rate :: "decimal \<Rightarrow> string \<Rightarrow> exn + unit" where
  "require_rate v field_name =
     bindE (require_finite_decimal v field_name) (\<lambda>_.
     if \<not> (dec_le dec_zero v \<and> dec_le v dec_one)
     then Inl (CostError (field_name @ '' must be between zero and one'')) else Inr ())"

definition require_nonnegative :: "decimal \<Rightarrow> string \<Rightarrow> exn + unit" where
  "require_nonnegative v field_name =
     bindE (require_finite_decimal v field_name) (\<lambda>_.
     if dec_lt v dec_zero then Inl (CostError (field_name @ '' must not be negative'')) else Inr ())"

definition require_positive :: "decimal \<Rightarrow> string \<Rightarrow> exn + unit" where
  "require_positive v field_name =
     bindE (require_nonnegative v field_name) (\<lambda>_.
     if dec_is_zero v then Inl (CostError (field_name @ '' must be positive'')) else Inr ())"

record fee_tax_profile =
  purchase_fee_rate :: decimal
  sale_fee_rate :: decimal
  sale_tax_rate :: decimal

definition fee_tax_profile_post_init :: "fee_tax_profile \<Rightarrow> exn + fee_tax_profile" where
  "fee_tax_profile_post_init f =
     bindE (require_rate (purchase_fee_rate f) ''purchase_fee_rate'') (\<lambda>_.
     bindE (require_rate (sale_fee_rate f) ''sale_fee_rate'') (\<lambda>_.
     bindE (require_rate (sale_tax_rate f) ''sale_tax_rate'') (\<lambda>_. Inr f)))"

record slippage_profile =
  purchase_rate :: decimal
  sale_rate :: decimal

definition slippage_profile_post_init :: "slippage_profile \<Rightarrow> exn + slippage_profile" where
  "slippage_profile_post_init s =
     bindE (require_rate (purchase_rate s) ''purchase_rate'') (\<lambda>_.
     bindE (require_rate (sale_rate s) ''sale_rate'') (\<lambda>_. Inr s))"

record purchase_cost =
  pc_gross_value :: decimal
  pc_slippage_cost :: decimal
  pc_fee :: decimal
  pc_total_cash :: decimal

record sale_proceeds =
  sp_gross_value :: decimal
  sp_slippage_cost :: decimal
  sp_fee :: decimal
  sp_tax :: decimal
  sp_net_proceeds :: decimal

definition calculate_purchase_cost ::
    "decimal \<Rightarrow> decimal \<Rightarrow> fee_tax_profile \<Rightarrow> slippage_profile \<Rightarrow> rounding_policy \<Rightarrow> exn + purchase_cost" where
  "calculate_purchase_cost quantity price fees slippage rounding =
     bindE (require_nonnegative quantity ''purchase quantity'') (\<lambda>_.
     bindE (require_positive price ''purchase price'') (\<lambda>_.
     bindE (multiply_decimals quantity price) (\<lambda>product.
     bindE (policy_money rounding product) (\<lambda>gross.
     bindE (multiply_decimals gross (purchase_rate slippage)) (\<lambda>slip.
     bindE (policy_money rounding slip) (\<lambda>slippage_cost.
     bindE (add_decimals gross slippage_cost) (\<lambda>base.
     bindE (multiply_decimals base (purchase_fee_rate fees)) (\<lambda>raw_fee.
     bindE (policy_money rounding raw_fee) (\<lambda>fee.
     bindE (add_decimals gross slippage_cost) (\<lambda>base'.
     bindE (add_decimals base' fee) (\<lambda>sum.
     bindE (policy_money rounding sum) (\<lambda>total.
     Inr \<lparr>pc_gross_value = gross, pc_slippage_cost = slippage_cost, pc_fee = fee,
          pc_total_cash = total\<rparr>))))))))))))"

definition calculate_sale_proceeds ::
    "decimal \<Rightarrow> decimal \<Rightarrow> fee_tax_profile \<Rightarrow> slippage_profile \<Rightarrow> rounding_policy \<Rightarrow> exn + sale_proceeds" where
  "calculate_sale_proceeds quantity price fees slippage rounding =
     bindE (require_nonnegative quantity ''sale quantity'') (\<lambda>_.
     bindE (require_positive price ''sale price'') (\<lambda>_.
     bindE (multiply_decimals quantity price) (\<lambda>product.
     bindE (policy_money_not_increasing rounding product) (\<lambda>gross.
     bindE (multiply_decimals gross (sale_rate slippage)) (\<lambda>slip.
     bindE (policy_money rounding slip) (\<lambda>slippage_cost.
     bindE (subtract_decimals gross slippage_cost) (\<lambda>post.
     bindE (multiply_decimals post (sale_fee_rate fees)) (\<lambda>raw_fee.
     bindE (policy_money rounding raw_fee) (\<lambda>fee.
     bindE (multiply_decimals post (sale_tax_rate fees)) (\<lambda>raw_tax.
     bindE (policy_money rounding raw_tax) (\<lambda>tax.
     bindE (subtract_decimals post fee) (\<lambda>after_fee.
     bindE (subtract_decimals after_fee tax) (\<lambda>after_tax.
     bindE (policy_money_not_increasing rounding after_tax) (\<lambda>net.
     Inr \<lparr>sp_gross_value = gross, sp_slippage_cost = slippage_cost, sp_fee = fee, sp_tax = tax,
          sp_net_proceeds = net\<rparr>))))))))))))))"

subsection \<open>Every value the arithmetic returns is exact\<close>

lemma coefficient_and_exponent_Inr:
  assumes "decimal_coefficient_and_exponent v n = Inr (c, e)"
  shows "is_finite v \<and> rval v = of_int c * 10 powi e \<and> c = dsigned (dsign v) (dcoeff v) \<and> e = dexp v"
  using assms
  by (cases v)
    (auto simp: decimal_coefficient_and_exponent_def validate_rounding_decimal_def exc_simps
      split: if_splits)

lemma from_coefficient_Inr:
  assumes "decimal_from_coefficient c e = Inr d"
  shows "is_finite d \<and> rval d = of_int c * 10 powi e"
  using assms by (auto simp: decimal_from_coefficient_def split: if_splits)

lemma align_decimals_Inr:
  assumes "align_decimals a b = Inr (l, r, e)"
  shows "is_finite a \<and> is_finite b \<and> rval a = of_int l * 10 powi e \<and> rval b = of_int r * 10 powi e"
proof -
  from assms obtain la ea lb eb where
    a: "decimal_coefficient_and_exponent a ''left Decimal'' = Inr (la, ea)" and
    b: "decimal_coefficient_and_exponent b ''right Decimal'' = Inr (lb, eb)" and
    l: "l = la * 10 ^ nat (ea - min ea eb)" and r: "r = lb * 10 ^ nat (eb - min ea eb)" and
    e: "e = min ea eb"
    by (auto simp: align_decimals_def exc_simps Let_def)
  have "(10::rat) powi ea = 10 ^ nat (ea - min ea eb) * 10 powi min ea eb"
    and "(10::rat) powi eb = 10 ^ nat (eb - min ea eb) * 10 powi min ea eb"
    by (rule ten_powi_split, simp)+
  with coefficient_and_exponent_Inr [OF a] coefficient_and_exponent_Inr [OF b] l r e
  show ?thesis by simp
qed

lemma add_decimals_exact:
  assumes "add_decimals a b = Inr d"
  shows "is_finite d \<and> rval d = rval a + rval b"
proof -
  from assms obtain l r e where "align_decimals a b = Inr (l, r, e)"
    and "decimal_from_coefficient (l + r) e = Inr d"
    by (auto simp: add_decimals_def exc_simps)
  with align_decimals_Inr [of a b l r e] from_coefficient_Inr [of "l + r" e d] show ?thesis
    by (simp add: distrib_right)
qed

lemma subtract_decimals_exact:
  assumes "subtract_decimals a b = Inr d"
  shows "is_finite d \<and> rval d = rval a - rval b"
proof -
  from assms obtain l r e where "align_decimals a b = Inr (l, r, e)"
    and "decimal_from_coefficient (l - r) e = Inr d"
    by (auto simp: subtract_decimals_def exc_simps)
  with align_decimals_Inr [of a b l r e] from_coefficient_Inr [of "l - r" e d] show ?thesis
    by (simp add: left_diff_distrib)
qed

lemma multiply_decimals_exact:
  assumes "multiply_decimals a b = Inr d"
  shows "is_finite d \<and> rval d = rval a * rval b"
proof -
  from assms obtain la ea lb eb where
    a: "decimal_coefficient_and_exponent a ''left Decimal'' = Inr (la, ea)" and
    b: "decimal_coefficient_and_exponent b ''right Decimal'' = Inr (lb, eb)" and
    d: "decimal_from_coefficient (la * lb) (ea + eb) = Inr d"
    by (auto simp: multiply_decimals_def exc_simps split: if_splits)
  have "(10::rat) powi (ea + eb) = 10 powi ea * 10 powi eb" by (rule power_int_add) simp
  with coefficient_and_exponent_Inr [OF a] coefficient_and_exponent_Inr [OF b]
    from_coefficient_Inr [OF d] show ?thesis by simp
qed

lemma scaled_ratio_Inr:
  assumes "scaled_ratio (nc, ne) nf (dc, de) df = Inr (n, d)" and "0 < dc"
  shows "0 < d \<and> (of_int nc * 10 powi ne) / (of_int dc * 10 powi de) = (of_int n / of_int d :: rat)"
proof (cases "ne - de \<ge> 0")
  case True
  then have "n = nc * 10 ^ nat (ne - de)" and "d = dc"
    using assms(1) by (auto simp: scaled_ratio_def Let_def exc_simps split: if_splits)
  moreover have "(10::rat) powi ne = 10 ^ nat (ne - de) * 10 powi de"
    using True by (intro ten_powi_split) simp
  ultimately show ?thesis using assms(2) by simp
next
  case False
  then have "n = nc" and "d = dc * 10 ^ nat (de - ne)"
    using assms(1) by (auto simp: scaled_ratio_def Let_def exc_simps split: if_splits)
  moreover have "(10::rat) powi de = 10 ^ nat (de - ne) * 10 powi ne"
    using False by (intro ten_powi_split) simp
  ultimately show ?thesis using assms(2) by simp
qed

lemma floor_ratio: "0 < d \<Longrightarrow> \<lfloor>of_int n / (of_int d :: rat)\<rfloor> = n div d"
  by (rule floor_divide_of_int_eq)

lemma floor_divide_decimals_exact:
  assumes "floor_divide_decimals a b = Inr k"
  shows "0 < rval b \<and> k = \<lfloor>rval a / rval b\<rfloor>"
proof -
  from assms obtain nc ne dc de n d where
    a: "decimal_coefficient_and_exponent a ''numerator'' = Inr (nc, ne)" and
    b: "decimal_coefficient_and_exponent b ''denominator'' = Inr (dc, de)" and
    pos: "0 < dc" and
    ratio: "scaled_ratio (nc, ne) ''numerator'' (dc, de) ''denominator'' = Inr (n, d)" and
    k: "k = n div d"
    by (auto simp: floor_divide_decimals_def exc_simps not_le split: if_splits)
  with coefficient_and_exponent_Inr [OF a] coefficient_and_exponent_Inr [OF b]
    scaled_ratio_Inr [OF ratio pos] show ?thesis by (simp add: floor_ratio)
qed

subsection \<open>The abstract rounding\<close>

definition round_rat :: "rounding_mode \<Rightarrow> rat \<Rightarrow> int" where
  "round_rat m x =
     (case m of
        ROUND_DOWN \<Rightarrow> if 0 \<le> x then \<lfloor>x\<rfloor> else \<lceil>x\<rceil>
      | ROUND_HALF_UP \<Rightarrow> if 0 \<le> x then \<lfloor>x + 1 / 2\<rfloor> else \<lceil>x - 1 / 2\<rceil>
      | ROUND_HALF_EVEN \<Rightarrow>
          let f = \<lfloor>x\<rfloor> in
          if frac x < 1 / 2 \<or> (frac x = 1 / 2 \<and> even f) then f else f + 1)"

lemma round_parts:
  fixes t :: rat
  assumes "0 \<le> t" and "t < 1"
  shows "\<lfloor>of_int f + t\<rfloor> = f" and "frac (of_int f + t) = t"
    and "\<lceil>of_int f + t\<rceil> = (if t = 0 then f else f + 1)"
    and "\<lfloor>of_int f + t + 1 / 2\<rfloor> = (if t < 1 / 2 then f else f + 1)"
    and "\<lceil>of_int f + t - 1 / 2\<rceil> = (if t \<le> 1 / 2 then f else f + 1)"
  using assms by (auto simp: floor_eq_iff ceiling_eq_iff frac_def)

lemma floor_frac_cases:
  fixes x :: rat
  obtains f t where "x = of_int f + t" and "0 \<le> t" and "t < 1"
proof
  show "x = of_int \<lfloor>x\<rfloor> + frac x" by (simp add: frac_def)
qed (simp_all add: frac_lt_1)

lemma round_rat_floor:
  "round_rat m x =
     (let f = \<lfloor>x\<rfloor> in
      case m of
        ROUND_DOWN \<Rightarrow> if 0 \<le> x \<or> frac x = 0 then f else f + 1
      | ROUND_HALF_UP \<Rightarrow> if frac x < 1 / 2 \<or> (frac x = 1 / 2 \<and> x < 0) then f else f + 1
      | ROUND_HALF_EVEN \<Rightarrow> if frac x < 1 / 2 \<or> (frac x = 1 / 2 \<and> even f) then f else f + 1)"
proof -
  obtain f t where x: "x = of_int f + t" and t: "0 \<le> t" "t < 1" by (rule floor_frac_cases)
  show ?thesis
    unfolding x round_rat_def Let_def round_parts [OF t] by (cases m) auto
qed

lemma frac_ratio: "0 < d \<Longrightarrow> frac (of_int n / of_int d :: rat) = of_int (n mod d) / of_int d"
  by (simp add: frac_def floor_ratio minus_div_mult_eq_mod [symmetric] diff_divide_distrib)

lemma round_ratio_refines:
  assumes "0 < d"
  shows "round_ratio n d m = round_rat m (of_int n / of_int d)"
proof -
  let ?x = "of_int n / of_int d :: rat"
  have "n - n div d * d = n mod d" by (simp add: minus_div_mult_eq_mod)
  moreover have "0 \<le> ?x \<longleftrightarrow> 0 \<le> n" using assms by (simp add: zero_le_divide_iff)
  moreover have "frac ?x = 0 \<longleftrightarrow> n mod d = 0" using assms by (simp add: frac_ratio)
  moreover have "frac ?x < 1 / 2 \<longleftrightarrow> n mod d * 2 - d < 0"
  proof -
    have "frac ?x < 1 / 2 \<longleftrightarrow> (of_int (n mod d * 2) :: rat) < of_int d"
      using assms by (simp add: frac_ratio divide_less_eq)
    then show ?thesis by linarith
  qed
  moreover have "frac ?x = 1 / 2 \<longleftrightarrow> n mod d * 2 - d = 0"
  proof -
    have "frac ?x = 1 / 2 \<longleftrightarrow> (of_int (n mod d * 2) :: rat) = of_int d"
      using assms by (simp add: frac_ratio divide_eq_eq)
    then show ?thesis by linarith
  qed
  ultimately show ?thesis
    using assms
    by (cases m) (auto simp: round_ratio_def round_rat_floor floor_ratio Let_def even_iff_mod_2_eq_zero)
qed

subsection \<open>What every rounding rule gives\<close>

text \<open>
  The contract between a rounding rule and the money calculations: it is monotone and leaves the
  integers alone.  Rounding \<open>x\<close> to a quantum \<open>q\<close> is \<open>rnd (x / q) * q\<close>.
\<close>

locale rounding_rule =
  fixes rnd :: "rat \<Rightarrow> int"
  assumes rnd_mono: "x \<le> y \<Longrightarrow> rnd x \<le> rnd y"
    and rnd_of_int: "rnd (of_int k) = k"
begin

lemma rnd_between: "\<lfloor>x\<rfloor> \<le> rnd x \<and> rnd x \<le> \<lceil>x\<rceil>"
  using rnd_mono [of "of_int \<lfloor>x\<rfloor>" x] rnd_mono [of x "of_int \<lceil>x\<rceil>"] by (simp add: rnd_of_int)

lemma rnd_error: "\<bar>of_int (rnd x) - x\<bar> < 1"
  using rnd_between [of x] by linarith

lemma rnd_nonneg: "0 \<le> x \<Longrightarrow> 0 \<le> rnd x"
  using rnd_mono [of "of_int 0" x] rnd_of_int [of 0] by simp

lemma quantum_mono: "0 < q \<Longrightarrow> x \<le> y \<Longrightarrow> of_int (rnd (x / q)) * q \<le> of_int (rnd (y / q)) * q"
  by (simp add: rnd_mono divide_right_mono)

lemma quantum_exact: "0 < q \<Longrightarrow> of_int (rnd (of_int k * q / q)) * q = of_int k * q"
  by (simp add: rnd_of_int)

lemma quantum_nonneg: "0 < q \<Longrightarrow> 0 \<le> x \<Longrightarrow> 0 \<le> of_int (rnd (x / q)) * q"
  by (simp add: rnd_nonneg)

lemma quantum_below: "0 < q \<Longrightarrow> x \<le> of_int k * q \<Longrightarrow> of_int (rnd (x / q)) * q \<le> of_int k * q"
  using quantum_mono [of q x "of_int k * q"] by (simp add: rnd_of_int)

lemma quantum_error:
  assumes "0 < q" shows "\<bar>of_int (rnd (x / q)) * q - x\<bar> < q"
proof -
  have "of_int (rnd (x / q)) * q - x = (of_int (rnd (x / q)) - x / q) * q"
    using assms by (simp add: left_diff_distrib)
  then have "\<bar>of_int (rnd (x / q)) * q - x\<bar> = \<bar>of_int (rnd (x / q)) - x / q\<bar> * q"
    using assms by (simp add: abs_mult)
  then show ?thesis using rnd_error [of "x / q"] assms by simp
qed

end

lemma round_rat_mono:
  assumes "x \<le> y" shows "round_rat m x \<le> round_rat m y"
proof -
  obtain f t where x: "x = of_int f + t" and t: "0 \<le> t" "t < 1" by (rule floor_frac_cases)
  obtain g u where y: "y = of_int g + u" and u: "0 \<le> u" "u < 1" by (rule floor_frac_cases)
  have "f \<le> g" using assms x y t u by linarith
  show ?thesis
  proof (cases "f = g")
    case True
    then have "t \<le> u" using assms x y by simp
    with True t u show ?thesis
      unfolding x y round_rat_floor Let_def round_parts [OF t] round_parts [OF u]
      by (cases m) auto
  next
    case False
    then have "f + 1 \<le> g" using \<open>f \<le> g\<close> by simp
    then show ?thesis
      unfolding x y round_rat_floor Let_def round_parts [OF t] round_parts [OF u]
      by (cases m) auto
  qed
qed

lemma round_rat_of_int: "round_rat m (of_int k) = k"
  by (cases m) (simp_all add: round_rat_floor Let_def)

interpretation money_rule: rounding_rule "round_rat m" for m
  by unfold_locales (auto simp: round_rat_mono round_rat_of_int)

interpretation floor_rule: rounding_rule "floor :: rat \<Rightarrow> int"
  by unfold_locales (auto simp: floor_mono)

lemma half_rounding_error:
  assumes "m \<noteq> ROUND_DOWN" shows "\<bar>of_int (round_rat m x) - x\<bar> \<le> 1 / 2"
proof -
  obtain f t where x: "x = of_int f + t" and t: "0 \<le> t" "t < 1" by (rule floor_frac_cases)
  show ?thesis
    using assms t unfolding x round_rat_floor Let_def round_parts [OF t] by (cases m) auto
qed

lemma down_rounding_toward_zero: "\<bar>of_int (round_rat ROUND_DOWN x)\<bar> \<le> \<bar>x\<bar>"
  by (simp add: round_rat_def)

subsection \<open>Rounding to a quantum is the abstract rounding\<close>

definition to_quantum :: "(rat \<Rightarrow> int) \<Rightarrow> rat \<Rightarrow> rat \<Rightarrow> rat" where
  "to_quantum rnd q x = of_int (rnd (x / q)) * q"

lemma ten_powi_not_neg [simp]: "\<not> (10::rat) powi e < 0"
  by (simp add: not_less)

lemma quantum_ratio_Inr:
  assumes "quantum_ratio v q = Inr (n, d, qc, qe)" and "0 < rval q"
  shows "0 < d \<and> rval v / rval q = of_int n / of_int d \<and> rval q = of_int qc * 10 powi qe"
proof -
  from assms(1) obtain vc ve where
    v: "decimal_coefficient_and_exponent v ''money value'' = Inr (vc, ve)" and
    q: "decimal_coefficient_and_exponent q ''money_quantum'' = Inr (qc, qe)" and
    ratio: "scaled_ratio (vc, ve) ''money value'' (qc, qe) ''money_quantum'' = Inr (n, d)"
    by (auto simp: quantum_ratio_def exc_simps)
  note v' = coefficient_and_exponent_Inr [OF v] and q' = coefficient_and_exponent_Inr [OF q]
  have "0 < (of_int qc :: rat) * 10 powi qe" using assms(2) q' by simp
  then have "0 < qc" by (simp add: zero_less_mult_iff)
  from scaled_ratio_Inr [OF ratio this] v' q' show ?thesis by simp
qed

lemma round_to_quantum_Inr:
  assumes "round_to_quantum v q m = Inr d" and "0 < rval q"
  shows "is_finite d \<and> rval d = to_quantum (round_rat m) (rval q) (rval v)"
proof -
  from assms(1) obtain n e qc qe where ratio: "quantum_ratio v q = Inr (n, e, qc, qe)"
    and d: "decimal_from_coefficient (round_ratio n e m * qc) qe = Inr d"
    by (auto simp: round_to_quantum_def exc_simps)
  from quantum_ratio_Inr [OF ratio assms(2)]
  have e: "0 < e" and r: "rval v / rval q = of_int n / of_int e" and q: "rval q = of_int qc * 10 powi qe"
    by blast+
  show ?thesis
    unfolding to_quantum_def r round_ratio_refines [OF e, symmetric] unfolding q
    using from_coefficient_Inr [OF d] by simp
qed

lemma floor_to_quantum_Inr:
  assumes "floor_to_quantum v q = Inr d" and "0 < rval q"
  shows "is_finite d \<and> rval d = to_quantum floor (rval q) (rval v)"
proof -
  from assms(1) obtain n e qc qe where ratio: "quantum_ratio v q = Inr (n, e, qc, qe)"
    and d: "decimal_from_coefficient (n div e * qc) qe = Inr d"
    by (auto simp: floor_to_quantum_def exc_simps)
  from quantum_ratio_Inr [OF ratio assms(2)]
  have e: "0 < e" and r: "rval v / rval q = of_int n / of_int e" and q: "rval q = of_int qc * 10 powi qe"
    by blast+
  show ?thesis
    unfolding to_quantum_def r floor_ratio [OF e] unfolding q using from_coefficient_Inr [OF d] by simp
qed

lemma policy_money_Inr:
  assumes "policy_money p v = Inr d" and "0 < rval (money_quantum p)"
  shows "is_finite d \<and>
         rval d = to_quantum (round_rat (money_rounding p)) (rval (money_quantum p)) (rval v)"
  using assms round_to_quantum_Inr by (auto simp: policy_money_def exc_simps)

lemma policy_money_not_increasing_Inr:
  assumes "policy_money_not_increasing p v = Inr d" and "0 < rval (money_quantum p)"
  shows "is_finite d \<and> rval d = to_quantum floor (rval (money_quantum p)) (rval v)"
  using assms floor_to_quantum_Inr by (auto simp: policy_money_not_increasing_def exc_simps)

lemma to_quantum_mono: "0 < q \<Longrightarrow> x \<le> y \<Longrightarrow> to_quantum (round_rat m) q x \<le> to_quantum (round_rat m) q y"
  unfolding to_quantum_def by (rule money_rule.quantum_mono)

lemma to_quantum_nonneg: "0 < q \<Longrightarrow> 0 \<le> x \<Longrightarrow> 0 \<le> to_quantum (round_rat m) q x"
  unfolding to_quantum_def by (rule money_rule.quantum_nonneg)

lemma to_quantum_multiple: "0 < q \<Longrightarrow> to_quantum (round_rat m) q (of_int k * q) = of_int k * q"
  unfolding to_quantum_def by (rule money_rule.quantum_exact)

lemma to_quantum_floor_multiple: "0 < q \<Longrightarrow> to_quantum floor q (of_int k * q) = of_int k * q"
  unfolding to_quantum_def by (rule floor_rule.quantum_exact)

lemma to_quantum_floor_le: "0 < q \<Longrightarrow> to_quantum floor q x \<le> x"
  by (simp add: to_quantum_def pos_le_divide_eq [symmetric])

lemma to_quantum_floor_greatest:
  assumes "0 < q" and "of_int k * q \<le> x" shows "of_int k * q \<le> to_quantum floor q x"
proof -
  have "of_int k \<le> x / q" using assms by (simp add: pos_le_divide_eq)
  then have "k \<le> \<lfloor>x / q\<rfloor>" by (simp add: le_floor_iff)
  then show ?thesis using assms(1) by (simp add: to_quantum_def)
qed

lemma to_quantum_floor_mono: "0 < q \<Longrightarrow> x \<le> y \<Longrightarrow> to_quantum floor q x \<le> to_quantum floor q y"
  unfolding to_quantum_def by (rule floor_rule.quantum_mono)

subsection \<open>Costs and proceeds on the rationals\<close>

text \<open>What a purchase costs and what a sale brings in, with money rounded by \<open>M\<close>: (gross, slippage,
  fee) and (gross, slippage, fee, tax).\<close>

definition purchase_spec :: "(rat \<Rightarrow> rat) \<Rightarrow> rat \<Rightarrow> rat \<Rightarrow> rat \<Rightarrow> rat \<Rightarrow> rat \<times> rat \<times> rat" where
  "purchase_spec M quantity price slippage_rate fee_rate =
     (let gross = M (quantity * price);
          slippage = M (gross * slippage_rate);
          fee = M ((gross + slippage) * fee_rate)
      in (gross, slippage, fee))"

definition purchase_total :: "(rat \<Rightarrow> rat) \<Rightarrow> rat \<Rightarrow> rat \<Rightarrow> rat \<Rightarrow> rat \<Rightarrow> rat" where
  "purchase_total M quantity price slippage_rate fee_rate =
     (case purchase_spec M quantity price slippage_rate fee_rate of (g, s, f) \<Rightarrow> g + s + f)"

definition sale_spec ::
    "(rat \<Rightarrow> rat) \<Rightarrow> (rat \<Rightarrow> rat) \<Rightarrow> rat \<Rightarrow> rat \<Rightarrow> rat \<Rightarrow> rat \<Rightarrow> rat \<Rightarrow> rat \<times> rat \<times> rat \<times> rat" where
  "sale_spec F M quantity price slippage_rate fee_rate tax_rate =
     (let gross = F (quantity * price);
          slippage = M (gross * slippage_rate);
          fee = M ((gross - slippage) * fee_rate);
          tax = M ((gross - slippage) * tax_rate)
      in (gross, slippage, fee, tax))"

definition rates_ok :: "fee_tax_profile \<Rightarrow> slippage_profile \<Rightarrow> bool" where
  "rates_ok f s \<longleftrightarrow>
     (\<forall>r \<in> {purchase_fee_rate f, sale_fee_rate f, sale_tax_rate f, purchase_rate s, sale_rate s}.
        is_finite r \<and> 0 \<le> rval r \<and> rval r \<le> 1)"

lemma require_rate_Inr [exc_simps]:
  "require_rate v n = Inr u \<longleftrightarrow> is_finite v \<and> 0 \<le> rval v \<and> rval v \<le> 1"
  by (cases "is_finite v") (auto simp: require_rate_def exc_simps dec_compare dsigned_def)

lemma profiles_post_init:
  assumes "fee_tax_profile_post_init f = Inr f'" and "slippage_profile_post_init s = Inr s'"
  shows "f' = f \<and> s' = s \<and> rates_ok f s"
  using assms
  by (auto simp: fee_tax_profile_post_init_def slippage_profile_post_init_def exc_simps rates_ok_def)

definition policy_ok :: "rounding_policy \<Rightarrow> bool" where
  "policy_ok p \<longleftrightarrow> is_finite (money_quantum p) \<and> 0 < rval (money_quantum p)"

lemma rounding_policy_post_init_ok: "rounding_policy_post_init p = Inr p' \<Longrightarrow> p' = p \<and> policy_ok p"
  by (auto simp: rounding_policy_post_init_def exc_simps policy_ok_def dec_compare split: if_splits)

abbreviation M_of :: "rounding_policy \<Rightarrow> rat \<Rightarrow> rat" where
  "M_of p \<equiv> to_quantum (round_rat (money_rounding p)) (rval (money_quantum p))"

abbreviation F_of :: "rounding_policy \<Rightarrow> rat \<Rightarrow> rat" where
  "F_of p \<equiv> to_quantum floor (rval (money_quantum p))"

lemma require_positive_Inr: "require_positive v n = Inr u \<Longrightarrow> is_finite v \<and> 0 < rval v"
  by (auto simp: require_positive_def require_nonnegative_def exc_simps dec_compare split: if_splits)

lemma require_nonnegative_Inr: "require_nonnegative v n = Inr u \<Longrightarrow> is_finite v \<and> 0 \<le> rval v"
  by (auto simp: require_nonnegative_def exc_simps dec_compare split: if_splits)

text \<open>Sums of values rounded to one quantum are multiples of it, and rounding keeps them.\<close>

lemma rounded_multiple: "to_quantum rnd q x = of_int (rnd (x / q)) * q"
  by (simp add: to_quantum_def)

lemma rounded_sum:
  assumes "0 < q" and "a = to_quantum r1 q x" and "b = to_quantum r2 q y" and "c = to_quantum r3 q z"
  shows "to_quantum (round_rat m) q (a + b + c) = a + b + c"
  using to_quantum_multiple [OF assms(1), of m "r1 (x / q) + r2 (y / q) + r3 (z / q)"]
  by (simp add: assms(2-4) rounded_multiple [of r1] rounded_multiple [of r2] rounded_multiple [of r3]
      distrib_right)

lemma rounded_difference:
  assumes "0 < q" and "a = to_quantum r1 q x" and "b = to_quantum r2 q y" and "c = to_quantum r3 q z"
    and "d = to_quantum r4 q w"
  shows "to_quantum floor q (a - b - c - d) = a - b - c - d"
  using to_quantum_floor_multiple [OF assms(1), of "r1 (x / q) - r2 (y / q) - r3 (z / q) - r4 (w / q)"]
  by (simp add: assms(2-5) rounded_multiple [of r1] rounded_multiple [of r2] rounded_multiple [of r3]
      rounded_multiple [of r4] left_diff_distrib)

lemma to_quantum_again: "0 < q \<Longrightarrow> to_quantum (round_rat m) q (to_quantum r q x) = to_quantum r q x"
  unfolding rounded_multiple [of r] by (rule to_quantum_multiple)

lemma purchase_cost_Inr:
  assumes c: "calculate_purchase_cost quantity price fees slippage p = Inr c" and p: "policy_ok p"
  shows "(rval (pc_gross_value c), rval (pc_slippage_cost c), rval (pc_fee c)) =
           purchase_spec (M_of p) (rval quantity) (rval price) (rval (purchase_rate slippage))
             (rval (purchase_fee_rate fees)) \<and>
         rval (pc_total_cash c) =
           purchase_total (M_of p) (rval quantity) (rval price) (rval (purchase_rate slippage))
             (rval (purchase_fee_rate fees)) \<and>
         (\<forall>d \<in> {pc_gross_value c, pc_slippage_cost c, pc_fee c, pc_total_cash c}. is_finite d) \<and>
         0 \<le> rval quantity \<and> 0 < rval price"
proof -
  have q: "0 < rval (money_quantum p)" using p by (simp add: policy_ok_def)
  note money = policy_money_Inr [OF _ q]
  from c obtain product gross slip slippage_cost base raw_fee fee sum total where
    quantity: "require_nonnegative quantity ''purchase quantity'' = Inr ()" and
    price: "require_positive price ''purchase price'' = Inr ()" and
    product: "multiply_decimals quantity price = Inr product" and
    gross: "policy_money p product = Inr gross" and
    slip: "multiply_decimals gross (purchase_rate slippage) = Inr slip" and
    slippage_cost: "policy_money p slip = Inr slippage_cost" and
    base: "add_decimals gross slippage_cost = Inr base" and
    raw_fee: "multiply_decimals base (purchase_fee_rate fees) = Inr raw_fee" and
    fee: "policy_money p raw_fee = Inr fee" and
    sum: "add_decimals base fee = Inr sum" and
    total: "policy_money p sum = Inr total" and
    c': "c = \<lparr>pc_gross_value = gross, pc_slippage_cost = slippage_cost, pc_fee = fee,
             pc_total_cash = total\<rparr>"
    by (auto simp: calculate_purchase_cost_def exc_simps)
  have 1: "rval gross = M_of p (rval quantity * rval price)"
    using money [OF gross] multiply_decimals_exact [OF product] by simp
  have 2: "rval slippage_cost = M_of p (rval gross * rval (purchase_rate slippage))"
    using money [OF slippage_cost] multiply_decimals_exact [OF slip] by simp
  have 3: "rval fee = M_of p ((rval gross + rval slippage_cost) * rval (purchase_fee_rate fees))"
    using money [OF fee] multiply_decimals_exact [OF raw_fee] add_decimals_exact [OF base] by simp
  have 4: "rval total = rval gross + rval slippage_cost + rval fee"
    using money [OF total] add_decimals_exact [OF sum] add_decimals_exact [OF base]
      rounded_sum [OF q 1 2 3] by simp
  show ?thesis
    using money [OF gross, THEN conjunct1] money [OF slippage_cost, THEN conjunct1]
      money [OF fee, THEN conjunct1] money [OF total, THEN conjunct1]
      require_nonnegative_Inr [OF quantity] require_positive_Inr [OF price]
    by (simp add: c' purchase_spec_def purchase_total_def Let_def 4 1 [symmetric] 2 [symmetric]
        3 [symmetric])
qed

lemma purchase_total_mono:
  assumes "0 < rval (money_quantum p)" and "x \<le> y" and "0 \<le> price" and "0 \<le> sr" and "0 \<le> fr"
  shows "purchase_total (M_of p) x price sr fr \<le> purchase_total (M_of p) y price sr fr"
proof -
  note mono = to_quantum_mono [OF assms(1)]
  have g: "M_of p (x * price) \<le> M_of p (y * price)"
    using assms by (intro mono mult_right_mono)
  have s: "M_of p (M_of p (x * price) * sr) \<le> M_of p (M_of p (y * price) * sr)"
    using assms g by (intro mono mult_right_mono)
  have "M_of p ((M_of p (x * price) + M_of p (M_of p (x * price) * sr)) * fr)
      \<le> M_of p ((M_of p (y * price) + M_of p (M_of p (y * price) * sr)) * fr)"
    using assms g s by (intro mono mult_right_mono add_mono)
  with g s show ?thesis by (simp add: purchase_total_def purchase_spec_def Let_def)
qed

lemma purchase_total_ge_gross:
  assumes "0 < rval (money_quantum p)" and "0 \<le> x" and "0 \<le> price" and "0 \<le> sr" and "0 \<le> fr"
  shows "0 \<le> M_of p (x * price) \<and>
         M_of p (x * price) \<le> purchase_total (M_of p) x price sr fr"
proof -
  note nonneg = to_quantum_nonneg [OF assms(1)]
  have g: "0 \<le> M_of p (x * price)" using assms by (intro nonneg) simp
  have s: "0 \<le> M_of p (M_of p (x * price) * sr)" using assms g by (intro nonneg) simp
  have "0 \<le> M_of p ((M_of p (x * price) + M_of p (M_of p (x * price) * sr)) * fr)"
    using assms g s by (intro nonneg) simp
  with g s show ?thesis by (simp add: purchase_total_def purchase_spec_def Let_def)
qed

lemma sale_proceeds_Inr:
  assumes c: "calculate_sale_proceeds quantity price fees slippage p = Inr c" and p: "policy_ok p"
  shows "(rval (sp_gross_value c), rval (sp_slippage_cost c), rval (sp_fee c), rval (sp_tax c)) =
           sale_spec (F_of p) (M_of p) (rval quantity) (rval price) (rval (sale_rate slippage))
             (rval (sale_fee_rate fees)) (rval (sale_tax_rate fees)) \<and>
         rval (sp_net_proceeds c) =
           rval (sp_gross_value c) - rval (sp_slippage_cost c) - rval (sp_fee c) - rval (sp_tax c) \<and>
         (\<forall>d \<in> {sp_gross_value c, sp_slippage_cost c, sp_fee c, sp_tax c, sp_net_proceeds c}.
            is_finite d) \<and>
         0 \<le> rval quantity \<and> 0 < rval price"
proof -
  have q: "0 < rval (money_quantum p)" using p by (simp add: policy_ok_def)
  note money = policy_money_Inr [OF _ q] and floor = policy_money_not_increasing_Inr [OF _ q]
  from c obtain product gross slip slippage_cost post raw_fee fee raw_tax tax after_fee after_tax net
  where
    quantity: "require_nonnegative quantity ''sale quantity'' = Inr ()" and
    price: "require_positive price ''sale price'' = Inr ()" and
    product: "multiply_decimals quantity price = Inr product" and
    gross: "policy_money_not_increasing p product = Inr gross" and
    slip: "multiply_decimals gross (sale_rate slippage) = Inr slip" and
    slippage_cost: "policy_money p slip = Inr slippage_cost" and
    post: "subtract_decimals gross slippage_cost = Inr post" and
    raw_fee: "multiply_decimals post (sale_fee_rate fees) = Inr raw_fee" and
    fee: "policy_money p raw_fee = Inr fee" and
    raw_tax: "multiply_decimals post (sale_tax_rate fees) = Inr raw_tax" and
    tax: "policy_money p raw_tax = Inr tax" and
    after_fee: "subtract_decimals post fee = Inr after_fee" and
    after_tax: "subtract_decimals after_fee tax = Inr after_tax" and
    net: "policy_money_not_increasing p after_tax = Inr net" and
    c': "c = \<lparr>sp_gross_value = gross, sp_slippage_cost = slippage_cost, sp_fee = fee, sp_tax = tax,
             sp_net_proceeds = net\<rparr>"
    by (auto simp: calculate_sale_proceeds_def exc_simps)
  have 1: "rval gross = F_of p (rval quantity * rval price)"
    using floor [OF gross] multiply_decimals_exact [OF product] by simp
  have 2: "rval slippage_cost = M_of p (rval gross * rval (sale_rate slippage))"
    using money [OF slippage_cost] multiply_decimals_exact [OF slip] by simp
  have 3: "rval fee = M_of p ((rval gross - rval slippage_cost) * rval (sale_fee_rate fees))"
    using money [OF fee] multiply_decimals_exact [OF raw_fee] subtract_decimals_exact [OF post] by simp
  have 4: "rval tax = M_of p ((rval gross - rval slippage_cost) * rval (sale_tax_rate fees))"
    using money [OF tax] multiply_decimals_exact [OF raw_tax] subtract_decimals_exact [OF post] by simp
  have 5: "rval net = rval gross - rval slippage_cost - rval fee - rval tax"
    using floor [OF net] subtract_decimals_exact [OF post] subtract_decimals_exact [OF after_fee]
      subtract_decimals_exact [OF after_tax] rounded_difference [OF q 1 2 3 4] by simp
  show ?thesis
    using floor [OF gross, THEN conjunct1] money [OF slippage_cost, THEN conjunct1]
      money [OF fee, THEN conjunct1] money [OF tax, THEN conjunct1] floor [OF net, THEN conjunct1]
      require_nonnegative_Inr [OF quantity] require_positive_Inr [OF price]
    by (simp add: c' sale_spec_def Let_def 5 1 [symmetric] 2 [symmetric] 3 [symmetric] 4 [symmetric])
qed

lemma sale_net_bounds:
  assumes "calculate_sale_proceeds quantity price fees slippage p = Inr c" and "policy_ok p"
    and "rates_ok fees slippage"
  shows "rval (sp_net_proceeds c) \<le> rval (sp_gross_value c) \<and>
         rval (sp_gross_value c) \<le> rval quantity * rval price \<and>
         0 \<le> rval (sp_slippage_cost c) \<and> rval (sp_slippage_cost c) \<le> rval (sp_gross_value c) \<and>
         0 \<le> rval (sp_fee c) \<and> 0 \<le> rval (sp_tax c)"
proof -
  have q: "0 < rval (money_quantum p)" using assms(2) by (simp add: policy_ok_def)
  note spec = sale_proceeds_Inr [OF assms(1,2)]
  let ?x = "rval quantity * rval price"
  let ?g = "F_of p ?x" and ?r = "rval (sale_rate slippage)"
  have x: "0 \<le> ?x" using spec by simp
  have g: "0 \<le> ?g" "?g \<le> ?x"
    using to_quantum_floor_greatest [OF q, of 0 ?x] to_quantum_floor_le [OF q] x by simp_all
  have r: "0 \<le> ?r" "?r \<le> 1" using assms(3) by (simp_all add: rates_ok_def)
  have "?g * ?r \<le> ?g" using g r by (simp add: mult_left_le)
  then have s: "0 \<le> M_of p (?g * ?r)" "M_of p (?g * ?r) \<le> ?g"
    using to_quantum_nonneg [OF q, of "?g * ?r"] to_quantum_mono [OF q, of "?g * ?r" ?g] g(1) r(1)
    by (simp_all add: to_quantum_again [OF q])
  moreover have "0 \<le> M_of p ((?g - M_of p (?g * ?r)) * rval (sale_fee_rate fees))"
    "0 \<le> M_of p ((?g - M_of p (?g * ?r)) * rval (sale_tax_rate fees))"
    using s assms(3) by (auto simp: rates_ok_def intro!: to_quantum_nonneg [OF q])
  ultimately show ?thesis using spec g by (simp add: sale_spec_def Let_def)
qed

subsection \<open>When the resource limits are not reached\<close>

text \<open>A value of at most \<open>k\<close> digits whose exponent lies within \<open>n\<close> of zero.\<close>

fun dec_within :: "nat \<Rightarrow> nat \<Rightarrow> decimal \<Rightarrow> bool" where
  "dec_within k n (Fin s c e) \<longleftrightarrow> c < 10 ^ k \<and> \<bar>e\<bar> \<le> int n"
| "dec_within k n _ \<longleftrightarrow> False"

lemma digit_count_le: "\<bar>c\<bar> < 10 ^ k \<Longrightarrow> 0 < k \<Longrightarrow> coefficient_digit_count c \<le> k"
  by (simp add: coefficient_digit_count_def ndigits_le_iff nat_less_iff)

lemma abs_dsigned: "\<bar>dsigned s c\<bar> = int c"
  by (simp add: dsigned_def)

lemma int_coefficient_bound: "int c < 10 ^ k \<longleftrightarrow> c < 10 ^ k"
  by (metis of_nat_less_iff of_nat_numeral of_nat_power)

lemma coefficient_within:
  assumes "dec_within k n d" and "0 < k" and "k \<le> 1000" and "n \<le> 1000"
  shows "\<exists>c. decimal_coefficient_and_exponent d f = Inr (c, dexp d) \<and> \<bar>c\<bar> < 10 ^ k \<and> \<bar>dexp d\<bar> \<le> int n \<and>
             is_finite d \<and> c = dsigned (dsign d) (dcoeff d)"
proof (cases d)
  case (Fin s c e)
  have "ndigits c \<le> k" using assms Fin by (simp add: ndigits_le_iff)
  with assms Fin show ?thesis
    by (auto simp: decimal_coefficient_and_exponent_def validate_rounding_decimal_def abs_dsigned
        int_coefficient_bound)
qed (use assms in auto)

lemma from_coefficient_within:
  assumes "\<bar>c\<bar> < 10 ^ k" and "\<bar>e\<bar> \<le> int n" and "0 < k" and "k \<le> 1000" and "n \<le> 1000"
  shows "\<exists>d. decimal_from_coefficient c e = Inr d \<and> dec_within k n d \<and> dexp d = e"
proof -
  have "nat \<bar>c\<bar> < 10 ^ k" using assms(1) by (simp add: nat_less_iff)
  then show ?thesis
    using assms digit_count_le [OF assms(1,3)] by (simp add: decimal_from_coefficient_def)
qed

lemma abs_mult_less:
  fixes a b :: int
  assumes "\<bar>a\<bar> < 10 ^ k" and "\<bar>b\<bar> < 10 ^ l"
  shows "\<bar>a * b\<bar> < 10 ^ (k + l)"
  using assms by (simp add: abs_mult power_add mult_strict_mono')

lemma multiply_within:
  assumes "dec_within k n a" and "dec_within l m b"
    and "0 < k" and "0 < l" and "k + l \<le> 1000" and "n + m \<le> 1000"
  shows "\<exists>d. multiply_decimals a b = Inr d \<and> dec_within (k + l) (n + m) d"
proof -
  obtain x where x: "decimal_coefficient_and_exponent a ''left Decimal'' = Inr (x, dexp a)"
    and xb: "\<bar>x\<bar> < 10 ^ k" "\<bar>dexp a\<bar> \<le> int n"
    using coefficient_within [OF assms(1)] assms by fastforce
  obtain y where y: "decimal_coefficient_and_exponent b ''right Decimal'' = Inr (y, dexp b)"
    and yb: "\<bar>y\<bar> < 10 ^ l" "\<bar>dexp b\<bar> \<le> int m"
    using coefficient_within [OF assms(2)] assms by fastforce
  have "\<bar>dexp a + dexp b\<bar> \<le> int (n + m)" using xb(2) yb(2) by linarith
  then obtain d where "decimal_from_coefficient (x * y) (dexp a + dexp b) = Inr d"
    and "dec_within (k + l) (n + m) d"
    using from_coefficient_within [OF abs_mult_less [OF xb(1) yb(1)], of "dexp a + dexp b" "n + m"]
      assms xb yb by auto
  moreover have "coefficient_digit_count x \<le> k" and "coefficient_digit_count y \<le> l"
    using digit_count_le xb yb assms by simp_all
  ultimately show ?thesis
    using x y xb yb assms by (simp add: multiply_decimals_def)
qed

lemma align_within:
  assumes "dec_within k n a" and "dec_within k n b" and "dexp a = dexp b"
    and "0 < k" and "k \<le> 1000" and "n \<le> 1000"
  shows "\<exists>x y. align_decimals a b = Inr (x, y, dexp a) \<and> \<bar>x\<bar> < 10 ^ k \<and> \<bar>y\<bar> < 10 ^ k \<and>
               \<bar>dexp a\<bar> \<le> int n"
proof -
  obtain x where x: "decimal_coefficient_and_exponent a ''left Decimal'' = Inr (x, dexp a)"
    and xb: "\<bar>x\<bar> < 10 ^ k" "\<bar>dexp a\<bar> \<le> int n"
    using coefficient_within [OF assms(1)] assms by fastforce
  obtain y where y: "decimal_coefficient_and_exponent b ''right Decimal'' = Inr (y, dexp b)"
    and yb: "\<bar>y\<bar> < 10 ^ k"
    using coefficient_within [OF assms(2)] assms by fastforce
  have "coefficient_digit_count x \<le> 1000" and "coefficient_digit_count y \<le> 1000"
    using digit_count_le [OF xb(1)] digit_count_le [OF yb] assms by linarith+
  then show ?thesis
    using x y xb yb assms(3) by (simp add: align_decimals_def validate_scaled_coefficient_def Let_def)
qed

lemma ten_power_double: "(2::int) * 10 ^ k \<le> 10 ^ Suc k"
  by simp

lemma add_within:
  assumes "dec_within k n a" and "dec_within k n b" and "dexp a = dexp b"
    and "0 < k" and "k < 1000" and "n \<le> 1000"
  shows "(\<exists>d. add_decimals a b = Inr d \<and> dec_within (Suc k) n d \<and> dexp d = dexp a) \<and>
         (\<exists>d. subtract_decimals a b = Inr d \<and> dec_within (Suc k) n d \<and> dexp d = dexp a)"
proof -
  obtain x y where a: "align_decimals a b = Inr (x, y, dexp a)" "\<bar>x\<bar> < 10 ^ k" "\<bar>y\<bar> < 10 ^ k"
    "\<bar>dexp a\<bar> \<le> int n"
    using align_within [OF assms(1-4)] assms by fastforce
  have "\<bar>x + y\<bar> < 10 ^ Suc k" and "\<bar>x - y\<bar> < 10 ^ Suc k"
    using a(2,3) ten_power_double [of k] by linarith+
  then show ?thesis
    using from_coefficient_within [OF _ a(4), of _ "Suc k"] a(1) assms
    by (simp add: add_decimals_def subtract_decimals_def)
qed

lemma dec_within_mono: "dec_within k n d \<Longrightarrow> k \<le> k' \<Longrightarrow> n \<le> n' \<Longrightarrow> dec_within k' n' d"
  by (cases d) (auto intro: less_le_trans power_increasing)

lemma abs_round_rat_le: "\<bar>x\<bar> \<le> of_int k \<Longrightarrow> \<bar>round_rat m x\<bar> \<le> k"
  using round_rat_mono [of x "of_int k" m] round_rat_mono [of "of_int (- k)" x m]
  by (simp only: round_rat_of_int) linarith

lemma abs_ratio_le:
  fixes n d :: int
  assumes "0 < d" shows "\<bar>of_int n / of_int d :: rat\<bar> \<le> of_int \<bar>n\<bar>"
proof -
  have "(1::rat) \<le> of_int d" using assms by simp
  then have "\<bar>of_int n :: rat\<bar> / of_int d \<le> \<bar>of_int n\<bar> / 1" by (intro divide_left_mono) simp_all
  then show ?thesis using assms by simp
qed

lemma abs_floor_le: "\<bar>x\<bar> \<le> of_int k \<Longrightarrow> \<bar>\<lfloor>x :: rat\<rfloor>\<bar> \<le> k"
  by linarith

text \<open>The money quantum of the bounded inputs: positive, of at most fifty digits.\<close>

definition small_quantum :: "decimal \<Rightarrow> bool" where
  "small_quantum q \<longleftrightarrow> dec_within 50 50 q \<and> 0 < rval q"

lemma quantum_ratio_within:
  assumes v: "dec_within k n v" and q: "small_quantum q"
    and "0 < k" and "k + n \<le> 900" and "n \<le> 900"
  shows "\<exists>a d qc. quantum_ratio v q = Inr (a, d, qc, dexp q) \<and> 0 < d \<and> \<bar>a\<bar> < 10 ^ (k + n + 50) \<and>
                  \<bar>qc\<bar> < 10 ^ 50 \<and> \<bar>dexp q\<bar> \<le> 50"
proof -
  obtain x where x: "decimal_coefficient_and_exponent v ''money value'' = Inr (x, dexp v)"
    and xb: "\<bar>x\<bar> < 10 ^ k" "\<bar>dexp v\<bar> \<le> int n"
    using coefficient_within [OF v] assms by fastforce
  obtain y where y: "decimal_coefficient_and_exponent q ''money_quantum'' = Inr (y, dexp q)"
    and yb: "\<bar>y\<bar> < 10 ^ 50" "\<bar>dexp q\<bar> \<le> 50" and "y = dsigned (dsign q) (dcoeff q)"
    using coefficient_within [of 50 50 q] q unfolding small_quantum_def by fastforce
  then have "0 < y" using q by (cases q) (auto simp: small_quantum_def zero_less_mult_iff not_less)
  let ?diff = "dexp v - dexp q"
  have diff: "\<bar>?diff\<bar> \<le> int (n + 50)" using xb(2) yb(2) by linarith
  have digits: "coefficient_digit_count x \<le> k" "coefficient_digit_count y \<le> 50"
    using digit_count_le [OF xb(1)] digit_count_le [OF yb(1)] assms by simp_all
  have ratio: "scaled_ratio (x, dexp v) ''money value'' (y, dexp q) ''money_quantum'' =
      Inr (if 0 \<le> ?diff then (x * 10 ^ nat ?diff, y) else (x, y * 10 ^ nat (- ?diff)))"
    using diff digits assms
    by (auto simp: scaled_ratio_def Let_def validate_scaled_coefficient_def)
  have "\<bar>x * 10 ^ nat ?diff\<bar> < 10 ^ (k + n + 50)" if "0 \<le> ?diff"
  proof -
    have "(10::int) ^ nat ?diff \<le> 10 ^ (n + 50)" using diff that by (intro power_increasing) auto
    then have "\<bar>x\<bar> * 10 ^ nat ?diff < 10 ^ k * 10 ^ (n + 50)"
      using xb(1) by (intro mult_less_le_imp_less) simp_all
    then show ?thesis by (simp add: abs_mult power_add mult.assoc)
  qed
  moreover have "\<bar>x\<bar> < 10 ^ (k + n + 50)"
    using xb(1) by (rule less_le_trans) (intro power_increasing, simp_all)
  ultimately show ?thesis
    using x y ratio \<open>0 < y\<close> yb by (auto simp: quantum_ratio_def)
qed

lemma money_within:
  assumes v: "dec_within k n v" and q: "small_quantum (money_quantum p)"
    and "0 < k" and "k + n \<le> 900" and "n \<le> 900"
  shows "(\<exists>d. policy_money p v = Inr d \<and> dec_within (k + n + 50 + 50) 50 d \<and>
              dexp d = dexp (money_quantum p)) \<and>
         (\<exists>d. policy_money_not_increasing p v = Inr d \<and> dec_within (k + n + 50 + 50) 50 d \<and>
              dexp d = dexp (money_quantum p))"
proof -
  let ?q = "money_quantum p"
  obtain a d qc where r: "quantum_ratio v ?q = Inr (a, d, qc, dexp ?q)" "0 < d"
    "\<bar>a\<bar> < 10 ^ (k + n + 50)" "\<bar>qc\<bar> < 10 ^ 50" "\<bar>dexp ?q\<bar> \<le> 50"
    using quantum_ratio_within [OF assms] by blast
  have "\<bar>round_ratio a d m\<bar> \<le> \<bar>a\<bar>" for m
    unfolding round_ratio_refines [OF r(2)] by (rule abs_round_rat_le [OF abs_ratio_le [OF r(2)]])
  then have "\<bar>round_ratio a d m\<bar> < 10 ^ (k + n + 50)" for m using r(3) le_less_trans by blast
  note rounded = abs_mult_less [OF this r(4)]
  have "\<bar>a div d\<bar> \<le> \<bar>a\<bar>"
    using abs_floor_le [OF abs_ratio_le [OF r(2), of a]] by (simp add: floor_ratio r(2))
  then have "\<bar>a div d\<bar> < 10 ^ (k + n + 50)" using r(3) by linarith
  note floored = abs_mult_less [OF this r(4)]
  have "is_finite v" using v by (cases v) auto
  then show ?thesis
    using from_coefficient_within [OF rounded, of "dexp ?q" 50]
      from_coefficient_within [OF floored, of "dexp ?q" 50] r assms
    by (simp add: policy_money_def policy_money_not_increasing_def round_to_quantum_def
        floor_to_quantum_def require_finite_decimal_def)
qed

text \<open>Inputs of at most fifty digits with exponents within fifty of zero.\<close>

abbreviation small_input :: "decimal \<Rightarrow> bool" where
  "small_input \<equiv> dec_within 50 50"

lemma dec_within_finite: "dec_within k n v \<Longrightarrow> is_finite v"
  by (cases v) auto

lemma small_nonnegative: "small_input v \<Longrightarrow> 0 \<le> rval v \<Longrightarrow> require_nonnegative v n = Inr ()"
  using dec_within_finite [of 50 50 v]
  by (simp add: require_nonnegative_def require_finite_decimal_def dec_compare)

lemma small_positive: "small_input v \<Longrightarrow> 0 < rval v \<Longrightarrow> require_positive v n = Inr ()"
  using small_nonnegative [of v n] dec_within_finite [of 50 50 v]
  by (simp add: require_positive_def dec_compare)

lemma purchase_cost_returns:
  assumes "small_input quantity" and "small_input price" and "0 \<le> rval quantity" and "0 < rval price"
    and "small_input (purchase_rate slippage)" and "small_input (purchase_fee_rate fees)"
    and q: "small_quantum (money_quantum p)"
  shows "\<exists>c. calculate_purchase_cost quantity price fees slippage p = Inr c"
proof -
  note money = money_within [OF _ q, THEN conjunct1]
  obtain product where product: "multiply_decimals quantity price = Inr product" "dec_within 100 100 product"
    using multiply_within [OF assms(1,2)] by auto
  obtain gross where gross: "policy_money p product = Inr gross" "dec_within 300 50 gross"
    "dexp gross = dexp (money_quantum p)"
    using money [OF product(2)] by auto
  obtain slip where slip: "multiply_decimals gross (purchase_rate slippage) = Inr slip"
    "dec_within 350 100 slip"
    using multiply_within [OF gross(2) assms(5)] by auto
  obtain sc where sc: "policy_money p slip = Inr sc" "dec_within 550 50 sc"
    "dexp sc = dexp (money_quantum p)"
    using money [OF slip(2)] by auto
  obtain base where base: "add_decimals gross sc = Inr base" "dec_within 551 50 base"
    "dexp base = dexp (money_quantum p)"
    using add_within [of 550 50 gross sc] dec_within_mono [OF gross(2), of 550 50] sc gross(3) by auto
  obtain raw where raw: "multiply_decimals base (purchase_fee_rate fees) = Inr raw" "dec_within 601 100 raw"
    using multiply_within [OF base(2) assms(6)] by auto
  obtain fee where fee: "policy_money p raw = Inr fee" "dec_within 801 50 fee"
    "dexp fee = dexp (money_quantum p)"
    using money [OF raw(2)] by auto
  obtain sum where sum: "add_decimals base fee = Inr sum" "dec_within 802 50 sum"
    using add_within [of 801 50 base fee] dec_within_mono [OF base(2), of 801 50] fee base(3) by auto
  obtain total where "policy_money p sum = Inr total"
    using money [OF sum(2)] by auto
  then show ?thesis
    using small_nonnegative [OF assms(1,3)] small_positive [OF assms(2,4)] product gross slip sc base raw fee sum
    by (simp add: calculate_purchase_cost_def)
qed

lemma sale_proceeds_return:
  assumes "small_input quantity" and "small_input price" and "0 \<le> rval quantity" and "0 < rval price"
    and "small_input (sale_rate slippage)" and "small_input (sale_fee_rate fees)"
    and "small_input (sale_tax_rate fees)" and q: "small_quantum (money_quantum p)"
  shows "\<exists>c. calculate_sale_proceeds quantity price fees slippage p = Inr c"
proof -
  note money = money_within [OF _ q, THEN conjunct1] and floor = money_within [OF _ q, THEN conjunct2]
  obtain product where product: "multiply_decimals quantity price = Inr product" "dec_within 100 100 product"
    using multiply_within [OF assms(1,2)] by auto
  obtain gross where gross: "policy_money_not_increasing p product = Inr gross" "dec_within 300 50 gross"
    "dexp gross = dexp (money_quantum p)"
    using floor [OF product(2)] by auto
  obtain slip where slip: "multiply_decimals gross (sale_rate slippage) = Inr slip"
    "dec_within 350 100 slip"
    using multiply_within [OF gross(2) assms(5)] by auto
  obtain sc where sc: "policy_money p slip = Inr sc" "dec_within 550 50 sc"
    "dexp sc = dexp (money_quantum p)"
    using money [OF slip(2)] by auto
  obtain post where post: "subtract_decimals gross sc = Inr post" "dec_within 551 50 post"
    "dexp post = dexp (money_quantum p)"
    using add_within [of 550 50 gross sc] dec_within_mono [OF gross(2), of 550 50] sc gross(3) by auto
  obtain raw where raw: "multiply_decimals post (sale_fee_rate fees) = Inr raw" "dec_within 601 100 raw"
    using multiply_within [OF post(2) assms(6)] by auto
  obtain fee where fee: "policy_money p raw = Inr fee" "dec_within 801 50 fee"
    "dexp fee = dexp (money_quantum p)"
    using money [OF raw(2)] by auto
  obtain raw' where raw': "multiply_decimals post (sale_tax_rate fees) = Inr raw'" "dec_within 601 100 raw'"
    using multiply_within [OF post(2) assms(7)] by auto
  obtain tax where tax: "policy_money p raw' = Inr tax" "dec_within 801 50 tax"
    "dexp tax = dexp (money_quantum p)"
    using money [OF raw'(2)] by auto
  obtain after_fee where after_fee: "subtract_decimals post fee = Inr after_fee" "dec_within 802 50 after_fee"
    "dexp after_fee = dexp (money_quantum p)"
    using add_within [of 801 50 post fee] dec_within_mono [OF post(2), of 801 50] fee post(3) by auto
  obtain after_tax where after_tax: "subtract_decimals after_fee tax = Inr after_tax"
    "dec_within 803 50 after_tax"
    using add_within [of 802 50 after_fee tax] dec_within_mono [OF tax(2), of 802 50] tax after_fee by auto
  obtain net where "policy_money_not_increasing p after_tax = Inr net"
    using floor [OF after_tax(2)] by auto
  then show ?thesis
    using small_nonnegative [OF assms(1,3)] small_positive [OF assms(2,4)] product gross slip sc post
      raw fee raw' tax after_fee after_tax
    by (simp add: calculate_sale_proceeds_def)
qed

subsection \<open>Concrete profiles\<close>

text \<open>A fee of 0.1425 percent, a sale tax of 0.3 percent, a slippage of 0.1 percent, whole money units.\<close>

definition sample_fees :: fee_tax_profile where
  "sample_fees = \<lparr>purchase_fee_rate = Fin False 1425 (-6), sale_fee_rate = Fin False 1425 (-6),
                  sale_tax_rate = Fin False 3 (-3)\<rparr>"

definition sample_slippage :: slippage_profile where
  "sample_slippage = \<lparr>purchase_rate = Fin False 1 (-3), sale_rate = Fin False 1 (-3)\<rparr>"

definition sample_policy :: rounding_policy where
  "sample_policy = \<lparr>money_quantum = Fin False 1 0, money_rounding = ROUND_HALF_UP,
                    quantity_rounding = ROUND_DOWN\<rparr>"

lemmas sample_costs_defs = sample_fees_def sample_slippage_def sample_policy_def

lemmas costs_eval = calculate_purchase_cost_def calculate_sale_proceeds_def policy_money_def
  policy_money_not_increasing_def round_to_quantum_def floor_to_quantum_def quantum_ratio_def
  scaled_ratio_def floor_divide_decimals_def add_decimals_def subtract_decimals_def
  multiply_decimals_def align_decimals_def decimal_coefficient_and_exponent_def
  validate_rounding_decimal_def validate_scaled_coefficient_def decimal_from_coefficient_def
  coefficient_digit_count_def round_ratio_def require_positive_def require_nonnegative_def
  require_finite_decimal_def dec_is_zero_def dsigned_def py_eval Let_def

lemma sample_policy_ok: "policy_ok sample_policy"
  by (simp add: policy_ok_def sample_policy_def dsigned_def)

lemma sample_rates_ok: "rates_ok sample_fees sample_slippage"
  by (simp add: rates_ok_def sample_costs_defs dsigned_def power_int_minus divide_simps)

lemma sample_purchase:
  "calculate_purchase_cost (Fin False 1000 0) (Fin False 655 (-1)) sample_fees sample_slippage
     sample_policy =
   Inr \<lparr>pc_gross_value = Fin False 65500 0, pc_slippage_cost = Fin False 66 0,
        pc_fee = Fin False 93 0, pc_total_cash = Fin False 65659 0\<rparr>"
  by (simp add: sample_costs_defs costs_eval)

lemma sample_sale_value:
  "calculate_sale_proceeds (Fin False 500 0) (Fin False 6505 (-1)) sample_fees sample_slippage
     sample_policy =
   Inr \<lparr>sp_gross_value = Fin False 325250 0, sp_slippage_cost = Fin False 325 0,
        sp_fee = Fin False 463 0, sp_tax = Fin False 975 0, sp_net_proceeds = Fin False 323487 0\<rparr>"
  by (simp add: sample_costs_defs costs_eval)

subsection \<open>Properties\<close>

text \<open>the decimal arithmetic of the cost model never rounds: whatever it returns is the exact sum,
  difference, product or floor quotient of its operands, and a quotient is only returned for a
  positive denominator.\<close>

theorem decimal_arithmetic_exact:
  "(add_decimals a b = Inr d \<longrightarrow> is_finite d \<and> rval d = rval a + rval b) \<and>
   (subtract_decimals a b = Inr d \<longrightarrow> is_finite d \<and> rval d = rval a - rval b) \<and>
   (multiply_decimals a b = Inr d \<longrightarrow> is_finite d \<and> rval d = rval a * rval b) \<and>
   (floor_divide_decimals a b = Inr k \<longrightarrow> 0 < rval b \<and> k = \<lfloor>rval a / rval b\<rfloor>)"
  using add_decimals_exact subtract_decimals_exact multiply_decimals_exact floor_divide_decimals_exact
  by blast

lemma decimal_arithmetic_exact_witness:
  "add_decimals (Fin False 15 (-1)) (Fin False 2 0) = Inr (Fin False 35 (-1)) \<and>
   rval (Fin False 35 (-1)) = rval (Fin False 15 (-1)) + rval (Fin False 2 0)"
proof -
  have "add_decimals (Fin False 15 (-1)) (Fin False 2 0) = Inr (Fin False 35 (-1))"
    by (simp add: costs_eval)
  then show ?thesis using decimal_arithmetic_exact by blast
qed

text \<open>C39: money is rounded to a multiple of the quantum by the mode of the policy: the multiple is the
  abstract rounding of the exact ratio, less than one quantum away (at most half a quantum for the
  two half modes); credits are rounded down to the greatest multiple that does not exceed them.\<close>

theorem money_rounding_correct:
  assumes p: "policy_ok p" and d: "policy_money p v = Inr d"
    and f: "policy_money_not_increasing p v = Inr f"
  shows "rval d = of_int (round_rat (money_rounding p) (rval v / rval (money_quantum p))) *
                  rval (money_quantum p) \<and>
         \<bar>rval d - rval v\<bar> < rval (money_quantum p) \<and>
         (money_rounding p \<noteq> ROUND_DOWN \<longrightarrow> \<bar>rval d - rval v\<bar> \<le> rval (money_quantum p) / 2) \<and>
         rval f \<le> rval v \<and> rval v < rval f + rval (money_quantum p) \<and>
         (\<forall>k. of_int k * rval (money_quantum p) \<le> rval v \<longrightarrow>
              of_int k * rval (money_quantum p) \<le> rval f)"
proof -
  let ?q = "rval (money_quantum p)" and ?m = "money_rounding p"
  have q: "0 < ?q" using p by (simp add: policy_ok_def)
  have d': "rval d = of_int (round_rat ?m (rval v / ?q)) * ?q"
    using policy_money_Inr [OF d q] by (simp add: to_quantum_def)
  have f': "rval f = F_of p (rval v)" using policy_money_not_increasing_Inr [OF f q] by simp
  have "\<bar>rval d - rval v\<bar> \<le> ?q / 2" if "?m \<noteq> ROUND_DOWN"
  proof -
    have "rval d - rval v = (of_int (round_rat ?m (rval v / ?q)) - rval v / ?q) * ?q"
      using q by (simp add: d' left_diff_distrib)
    then have "\<bar>rval d - rval v\<bar> = \<bar>of_int (round_rat ?m (rval v / ?q)) - rval v / ?q\<bar> * ?q"
      using q by (simp add: abs_mult)
    then show ?thesis
      using mult_right_mono [OF half_rounding_error [OF that, of "rval v / ?q"], of ?q] q by simp
  qed
  moreover have "rval v < rval f + ?q"
    using floor_rule.quantum_error [OF q, of "rval v"] by (simp add: f' to_quantum_def)
  ultimately show ?thesis
    using money_rule.quantum_error [OF q, of ?m "rval v"] to_quantum_floor_le [OF q, of "rval v"]
      to_quantum_floor_greatest [OF q, of _ "rval v"] d' f' by simp
qed

lemma money_rounding_correct_witness:
  "policy_money sample_policy (Fin False 655 (-1)) = Inr (Fin False 66 0) \<and>
   \<bar>rval (Fin False 66 0) - rval (Fin False 655 (-1))\<bar> \<le> 1 / 2"
proof -
  have d: "policy_money sample_policy (Fin False 655 (-1)) = Inr (Fin False 66 0)"
    and f: "policy_money_not_increasing sample_policy (Fin False 655 (-1)) = Inr (Fin False 65 0)"
    by (simp_all add: sample_policy_def costs_eval)
  from money_rounding_correct [OF sample_policy_ok d f] d show ?thesis
    by (simp add: sample_policy_def dsigned_def)
qed

text \<open>C38: the cost of a purchase is the specification on the rationals: the rounded gross value, slippage
  and fee, whose sum is the total cash exactly; the total covers the gross value.\<close>

theorem purchase_cost_correct:
  assumes p: "policy_ok p" and rates: "rates_ok fees slippage"
    and c: "calculate_purchase_cost quantity price fees slippage p = Inr c"
  shows "(rval (pc_gross_value c), rval (pc_slippage_cost c), rval (pc_fee c)) =
           purchase_spec (M_of p) (rval quantity) (rval price) (rval (purchase_rate slippage))
             (rval (purchase_fee_rate fees)) \<and>
         rval (pc_total_cash c) = rval (pc_gross_value c) + rval (pc_slippage_cost c) + rval (pc_fee c) \<and>
         0 \<le> rval (pc_gross_value c) \<and> rval (pc_gross_value c) \<le> rval (pc_total_cash c)"
proof -
  have q: "0 < rval (money_quantum p)" using p by (simp add: policy_ok_def)
  have r: "0 \<le> rval (purchase_rate slippage)" "0 \<le> rval (purchase_fee_rate fees)"
    using rates by (simp_all add: rates_ok_def)
  note spec = purchase_cost_Inr [OF c p]
  have "0 \<le> rval quantity" and "0 \<le> rval price" using spec by auto
  from purchase_total_ge_gross [OF q this r] spec show ?thesis
    by (auto simp: purchase_total_def purchase_spec_def Let_def)
qed

lemma purchase_cost_correct_witness:
  "\<exists>c. calculate_purchase_cost (Fin False 1000 0) (Fin False 655 (-1)) sample_fees sample_slippage
          sample_policy = Inr c \<and> rval (pc_total_cash c) = 65659 \<and>
       rval (pc_gross_value c) \<le> rval (pc_total_cash c)"
  using purchase_cost_correct [OF sample_policy_ok sample_rates_ok sample_purchase] sample_purchase
  by (simp add: dsigned_def)

text \<open>buying more never costs less: the total cash of a purchase is monotone in its quantity, through
  all three roundings.\<close>

theorem purchase_cost_monotone:
  assumes p: "policy_ok p" and rates: "rates_ok fees slippage"
    and c: "calculate_purchase_cost quantity price fees slippage p = Inr c"
    and c': "calculate_purchase_cost quantity' price fees slippage p = Inr c'"
    and le: "rval quantity \<le> rval quantity'"
  shows "rval (pc_total_cash c) \<le> rval (pc_total_cash c')"
proof -
  have q: "0 < rval (money_quantum p)" using p by (simp add: policy_ok_def)
  have r: "0 \<le> rval (purchase_rate slippage)" "0 \<le> rval (purchase_fee_rate fees)"
    using rates by (simp_all add: rates_ok_def)
  have "0 \<le> rval price" using purchase_cost_Inr [OF c p] by auto
  from purchase_total_mono [OF q le this r] purchase_cost_Inr [OF c p] purchase_cost_Inr [OF c' p]
  show ?thesis by auto
qed

lemma purchase_cost_monotone_witness:
  "\<exists>c c'. calculate_purchase_cost (Fin False 1 0) (Fin False 655 (-1)) sample_fees sample_slippage
             sample_policy = Inr c \<and>
          calculate_purchase_cost (Fin False 1000 0) (Fin False 655 (-1)) sample_fees sample_slippage
             sample_policy = Inr c' \<and> rval (pc_total_cash c) \<le> rval (pc_total_cash c')"
proof -
  have "\<exists>c. calculate_purchase_cost (Fin False 1 0) (Fin False 655 (-1)) sample_fees sample_slippage
          sample_policy = Inr c"
    by (rule purchase_cost_returns)
      (simp_all add: sample_costs_defs small_quantum_def dsigned_def)
  then obtain c where c: "calculate_purchase_cost (Fin False 1 0) (Fin False 655 (-1)) sample_fees
      sample_slippage sample_policy = Inr c" ..
  from purchase_cost_monotone [OF sample_policy_ok sample_rates_ok c sample_purchase] c sample_purchase
  show ?thesis by (simp add: dsigned_def)
qed

text \<open>the net proceeds of a sale are the gross value less slippage, fee and tax exactly, each
  rounded as the specification says; they never exceed the gross value, which never exceeds
  quantity times price.\<close>

theorem sale_proceeds_correct:
  assumes p: "policy_ok p" and rates: "rates_ok fees slippage"
    and c: "calculate_sale_proceeds quantity price fees slippage p = Inr c"
  shows "(rval (sp_gross_value c), rval (sp_slippage_cost c), rval (sp_fee c), rval (sp_tax c)) =
           sale_spec (F_of p) (M_of p) (rval quantity) (rval price) (rval (sale_rate slippage))
             (rval (sale_fee_rate fees)) (rval (sale_tax_rate fees)) \<and>
         rval (sp_net_proceeds c) =
           rval (sp_gross_value c) - rval (sp_slippage_cost c) - rval (sp_fee c) - rval (sp_tax c) \<and>
         rval (sp_net_proceeds c) \<le> rval (sp_gross_value c) \<and>
         rval (sp_gross_value c) \<le> rval quantity * rval price"
  using sale_proceeds_Inr [OF c p] sale_net_bounds [OF c p rates] by blast

lemma sale_proceeds_correct_witness:
  "\<exists>c. calculate_sale_proceeds (Fin False 500 0) (Fin False 6505 (-1)) sample_fees sample_slippage
          sample_policy = Inr c \<and> rval (sp_net_proceeds c) = 325250 - 325 - 463 - 975"
  using sale_proceeds_correct [OF sample_policy_ok sample_rates_ok sample_sale_value] sample_sale_value
  by (simp add: dsigned_def)

text \<open>the resource limits do not get in the way of real inputs: with at most fifty digits and
  exponents within fifty of zero everywhere, both calculations return.\<close>

theorem costs_return_within_limits:
  assumes "\<forall>d \<in> {quantity, price, purchase_rate slippage, sale_rate slippage, purchase_fee_rate fees,
                  sale_fee_rate fees, sale_tax_rate fees, money_quantum p}. dec_within 50 50 d"
    and "0 \<le> rval quantity" and "0 < rval price" and "0 < rval (money_quantum p)"
  shows "(\<exists>c. calculate_purchase_cost quantity price fees slippage p = Inr c) \<and>
         (\<exists>c. calculate_sale_proceeds quantity price fees slippage p = Inr c)"
  using assms purchase_cost_returns [of quantity price slippage fees p]
    sale_proceeds_return [of quantity price slippage fees p]
  by (simp add: small_quantum_def)

lemma costs_return_within_limits_witness:
  "\<exists>c. calculate_purchase_cost (Fin False 123456789 0) (Fin False 98765 (-4)) sample_fees
          sample_slippage sample_policy = Inr c"
  using costs_return_within_limits [of "Fin False 123456789 0" "Fin False 98765 (-4)" sample_slippage
      sample_fees sample_policy]
  by (simp add: sample_costs_defs dsigned_def)

end
