(* ===== verification/SizingBase.thy ===== *)
theory SizingBase
  imports Costs Invariants
begin

text \<open>
  The value objects of \<open>app/sizing/base.py\<close>: allocation stages in basis points, the sizing
  configuration, the request and the audit result, each with the validation its constructor runs.
\<close>

datatype odd_lot_policy = ODD_LOTS_ALLOWED | ODD_LOTS_PROHIBITED

datatype sizing_status = ACTIONABLE | INSUFFICIENT_CASH | NO_PURCHASE_QUANTITY

subsection \<open>Allocation stages\<close>

record sizing_stage =
  stg_stage_id :: string
  stg_basis_points :: nat

text \<open>\<open>SizingStage.__init__\<close>: the weight is stripped of trailing zeros and must be a whole number of
  basis points.\<close>

definition SizingStage :: "string \<Rightarrow> decimal \<Rightarrow> exn + sizing_stage" where
  "SizingStage stage_id allocation_weight =
     (if is_blank stage_id then Inl (SizingError ''stage_id must not be blank'')
      else if length (strip stage_id) > 256
      then Inl (SizingError ''stage_id must be at most 256 UTF-8 bytes'')
      else
        bindE (require_finite_decimal allocation_weight ''allocation_weight'') (\<lambda>_.
        if \<not> (dec_lt dec_zero allocation_weight \<and> dec_le allocation_weight dec_one)
        then Inl (SizingError ''allocation_weight must be between zero and one'')
        else case strip_zeros (dcoeff allocation_weight) (dexp allocation_weight) of
          (coefficient, exponent) \<Rightarrow>
            if exponent < -4
            then Inl (SizingError ''allocation_weight must be exactly representable in basis points'')
            else let basis_points = coefficient * 10 ^ nat (exponent + 4) in
              if \<not> (1 \<le> basis_points \<and> basis_points \<le> 10000)
              then Inl (SizingError ''allocation_weight must be between 1 and 10,000 basis points'')
              else Inr \<lparr>stg_stage_id = strip stage_id, stg_basis_points = basis_points\<rparr>))"

definition stage_allocation_weight :: "sizing_stage \<Rightarrow> decimal" where
  "stage_allocation_weight s = Fin False (stg_basis_points s) (-4)"

lemma rval_basis_points: "rval (Fin False n (-4)) = of_nat n / 10000"
  by (simp add: dsigned_def power_int_def power_divide)

lemma SizingStage_Inr:
  assumes "SizingStage i w = Inr s"
  shows "rval (stage_allocation_weight s) = rval w \<and> 1 \<le> stg_basis_points s \<and>
         stg_basis_points s \<le> 10000 \<and> stg_stage_id s = strip i"
proof -
  from assms obtain c e where
    strip: "strip_zeros (dcoeff w) (dexp w) = (c, e)" and e: "-4 \<le> e" and
    s: "s = \<lparr>stg_stage_id = strip i, stg_basis_points = c * 10 ^ nat (e + 4)\<rparr>" and
    "1 \<le> c * 10 ^ nat (e + 4)" "c * 10 ^ nat (e + 4) \<le> 10000" and
    w: "is_finite w" "dec_lt dec_zero w"
    by (auto simp: SizingStage_def exc_simps Let_def not_less split: if_splits prod.splits)
  moreover obtain sgn cw ew where fin: "w = Fin sgn cw ew" using w(1) by (auto simp: is_finite_iff)
  moreover have "\<not> sgn"
  proof
    assume "sgn"
    then have "rval w \<le> 0" by (simp add: fin dsigned_def)
    then show False using w by (simp add: dec_compare)
  qed
  moreover have "(of_nat c :: rat) * 10 ^ nat (e + 4) / 10000 = of_nat c * 10 powi e"
  proof -
    have "(10::rat) powi e = 10 ^ nat (e + 4) * 10 powi (-4)"
      using ten_powi_split [of "-4" e] e by simp
    moreover have "(10::rat) powi (-4) = 1 / 10000" by (simp add: power_int_def power_divide)
    ultimately show ?thesis by simp
  qed
  ultimately show ?thesis
    using strip_zeros_value [OF strip]
    by (simp add: stage_allocation_weight_def rval_basis_points dsigned_def del: rval.simps)
      (simp add: dsigned_def)
qed

subsection \<open>Configuration\<close>

record sizing_configuration =
  sc_stages :: "sizing_stage list"
  sc_fee_tax_profile :: fee_tax_profile
  sc_slippage_profile :: slippage_profile
  sc_reserve :: decimal
  sc_minimum_quantity :: decimal
  sc_lot_quantity :: decimal
  sc_odd_lot_policy :: odd_lot_policy
  sc_rounding :: rounding_policy

definition positive_quantity_check :: "decimal \<Rightarrow> string \<Rightarrow> exn + unit" where
  "positive_quantity_check v field_name =
     bindE (require_finite_decimal v field_name) (\<lambda>_.
     if dec_le v dec_zero then Inl (SizingError (field_name @ '' must be positive'')) else Inr ())"

definition sizing_configuration_post_init ::
    "sizing_configuration \<Rightarrow> exn + sizing_configuration" where
  "sizing_configuration_post_init c =
     (if sc_stages c = []
      then Inl (SizingError ''sizing configuration must contain at least one stage'')
      else if \<not> distinct (map stg_stage_id (sc_stages c))
      then Inl (SizingError ''stage ids must be unique'')
      else if (\<Sum>s\<leftarrow>sc_stages c. stg_basis_points s) \<noteq> 10000
      then Inl (SizingError ''stage allocation basis points must total exactly 10,000'')
      else
        bindE (require_finite_decimal (sc_reserve c) ''reserve'') (\<lambda>_.
        if dec_lt (sc_reserve c) dec_zero then Inl (SizingError ''reserve must not be negative'')
        else
          bindE (positive_quantity_check (sc_minimum_quantity c) ''minimum_quantity'') (\<lambda>_.
          bindE (positive_quantity_check (sc_lot_quantity c) ''lot_quantity'') (\<lambda>_.
          if dec_lt (sc_lot_quantity c) (sc_minimum_quantity c)
          then Inl (SizingError ''minimum_quantity must not exceed lot_quantity'')
          else Inr c))))"

text \<open>What a constructed configuration satisfies, its profiles and its policy included.\<close>

definition configuration_ok :: "sizing_configuration \<Rightarrow> bool" where
  "configuration_ok c \<longleftrightarrow>
     sc_stages c \<noteq> [] \<and> distinct (map stg_stage_id (sc_stages c)) \<and>
     (\<Sum>s\<leftarrow>sc_stages c. stg_basis_points s) = 10000 \<and>
     is_finite (sc_reserve c) \<and> 0 \<le> rval (sc_reserve c) \<and>
     is_finite (sc_minimum_quantity c) \<and> 0 < rval (sc_minimum_quantity c) \<and>
     is_finite (sc_lot_quantity c) \<and>
     rval (sc_minimum_quantity c) \<le> rval (sc_lot_quantity c) \<and>
     rates_ok (sc_fee_tax_profile c) (sc_slippage_profile c) \<and> policy_ok (sc_rounding c)"

lemma positive_quantity_check_Inr [exc_simps]:
  "positive_quantity_check v n = Inr u \<longleftrightarrow> is_finite v \<and> 0 < rval v"
  by (cases "is_finite v") (auto simp: positive_quantity_check_def exc_simps dec_compare not_le)

lemma sizing_configuration_post_init_Inr:
  assumes "sizing_configuration_post_init c = Inr c'"
    and "rates_ok (sc_fee_tax_profile c) (sc_slippage_profile c)" and "policy_ok (sc_rounding c)"
  shows "c' = c \<and> configuration_ok c"
  using assms
  by (auto simp: sizing_configuration_post_init_def exc_simps configuration_ok_def dec_compare not_less
      split: if_splits)

subsection \<open>Request and result\<close>

record sizing_request =
  sr_plan :: rotation_plan
  sr_candidate_group :: candidate_group
  sr_portfolio_owner_id :: uuid
  sr_source_position :: position
  sr_source_sale_quantity :: quantity
  sr_source_sale_price :: decimal
  sr_candidate :: instrument_ref
  sr_candidate_price :: decimal
  sr_available_cash :: decimal
  sr_configuration :: sizing_configuration

definition sizing_request_post_init :: "sizing_request \<Rightarrow> exn + sizing_request" where
  "sizing_request_post_init r =
     bindE (require_finite_decimal (sr_source_sale_price r) ''source_sale_price'') (\<lambda>_.
     bindE (require_finite_decimal (sr_candidate_price r) ''candidate_price'') (\<lambda>_.
     bindE (require_finite_decimal (sr_available_cash r) ''available_cash'') (\<lambda>_.
     if dec_le (sr_source_sale_price r) dec_zero \<or> dec_le (sr_candidate_price r) dec_zero
     then Inl (SizingError ''source_sale_price and candidate_price must be positive'')
     else if dec_lt (sr_available_cash r) dec_zero
     then Inl (SizingError ''available_cash must not be negative'')
     else Inr r)))"

definition request_ok :: "sizing_request \<Rightarrow> bool" where
  "request_ok r \<longleftrightarrow>
     quantity_ok (sr_source_sale_quantity r) \<and> quantity_ok (pos_quantity (sr_source_position r)) \<and>
     is_finite (sr_source_sale_price r) \<and> 0 < rval (sr_source_sale_price r) \<and>
     is_finite (sr_candidate_price r) \<and> 0 < rval (sr_candidate_price r) \<and>
     is_finite (sr_available_cash r) \<and> 0 \<le> rval (sr_available_cash r) \<and>
     configuration_ok (sr_configuration r)"

lemma sizing_request_post_init_Inr:
  assumes "sizing_request_post_init r = Inr r'" and "configuration_ok (sr_configuration r)"
    and "quantity_ok (sr_source_sale_quantity r)" and "quantity_ok (pos_quantity (sr_source_position r))"
  shows "r' = r \<and> request_ok r"
  using assms
  by (auto simp: sizing_request_post_init_def exc_simps request_ok_def dec_compare not_less not_le
      split: if_splits)

record source_sale_audit =
  ssa_source_position_id :: uuid
  ssa_quantity :: quantity
  ssa_gross_value :: decimal
  ssa_slippage_cost :: decimal
  ssa_fee :: decimal
  ssa_tax :: decimal
  ssa_net_proceeds :: decimal

record stage_sizing =
  ss_stage_id :: string
  ss_allocation_weight :: decimal
  ss_target_value :: decimal
  ss_purchase_quantity :: quantity
  ss_required_purchase_value :: decimal
  ss_slippage_cost :: decimal
  ss_fee :: decimal
  ss_total_cash :: decimal

record sizing_result =
  sz_status :: sizing_status
  sz_actionable :: bool
  sz_source_sale :: source_sale_audit
  sz_stages :: "stage_sizing list"
  sz_available_cash :: decimal
  sz_net_sale_proceeds :: decimal
  sz_reserve :: decimal
  sz_required_purchase_value :: decimal
  sz_configured_costs :: decimal
  sz_total_required_cash :: decimal
  sz_remaining_cash :: decimal
  sz_reason :: "string option"

definition nonnegative_check :: "decimal \<Rightarrow> string \<Rightarrow> exn + unit" where
  "nonnegative_check v field_name =
     bindE (require_finite_decimal v field_name) (\<lambda>_.
     if dec_lt v dec_zero then Inl (SizingError (field_name @ '' must not be negative'')) else Inr ())"

definition sizing_result_post_init :: "sizing_result \<Rightarrow> exn + sizing_result" where
  "sizing_result_post_init r =
     (if sz_actionable r \<noteq> (sz_status r = ACTIONABLE)
      then Inl (SizingError ''actionable must match an ACTIONABLE sizing status'')
      else if sz_stages r = []
      then Inl (SizingError ''sizing result must retain configured stage evidence'')
      else
        bindE (nonnegative_check (sz_available_cash r) ''available_cash'') (\<lambda>_.
        bindE (nonnegative_check (sz_net_sale_proceeds r) ''net_sale_proceeds'') (\<lambda>_.
        bindE (nonnegative_check (sz_reserve r) ''reserve'') (\<lambda>_.
        bindE (nonnegative_check (sz_required_purchase_value r) ''required_purchase_value'') (\<lambda>_.
        bindE (nonnegative_check (sz_configured_costs r) ''configured_costs'') (\<lambda>_.
        bindE (nonnegative_check (sz_total_required_cash r) ''total_required_cash'') (\<lambda>_.
        bindE (nonnegative_check (sz_remaining_cash r) ''remaining_cash'') (\<lambda>_.
        if sz_actionable r
        then bindE (add_decimals (sz_available_cash r) (sz_net_sale_proceeds r)) (\<lambda>funding.
             if dec_lt funding (sz_total_required_cash r)
             then Inl (SizingError ''actionable sizing result violates funding inequality'')
             else Inr r)
        else Inr r))))))))"

lemma nonnegative_check_Inr [exc_simps]:
  "nonnegative_check v n = Inr u \<longleftrightarrow> is_finite v \<and> 0 \<le> rval v"
  by (cases "is_finite v") (auto simp: nonnegative_check_def exc_simps dec_compare not_less)

end
