(* ===== verification/Sizing.thy ===== *)
theory Sizing
  imports SizingBase
begin

text \<open>
  The staged sizing engine of \<open>app/sizing/engine.py\<close>: the initial quantities from the stage targets,
  the reduction of the last stages first by a binary search over whole increments when the exact
  costs exceed the funding, and the audit result.

  The locale \<open>monotone_cost\<close> is the contract between the cost model and the search; it is
  interpreted on the cost of a purchase in a configuration.
\<close>

definition MAX_SIZING_ADJUSTMENT_SEARCH_STEPS :: nat where
  "MAX_SIZING_ADJUSTMENT_SEARCH_STEPS = 4096"

subsection \<open>The engine\<close>

definition quantity_increment :: "sizing_configuration \<Rightarrow> decimal" where
  "quantity_increment c =
     (if sc_odd_lot_policy c = ODD_LOTS_ALLOWED then sc_minimum_quantity c else sc_lot_quantity c)"

text \<open>\<open>calculate_purchase_cost\<close> with the profiles of the configuration, as each call site has it.\<close>

definition configured_purchase_cost ::
    "sizing_configuration \<Rightarrow> decimal \<Rightarrow> decimal \<Rightarrow> exn + purchase_cost" where
  "configured_purchase_cost c price quantity =
     calculate_purchase_cost quantity price (sc_fee_tax_profile c) (sc_slippage_profile c)
       (sc_rounding c)"

definition quantity_for_target ::
    "sizing_configuration \<Rightarrow> decimal \<Rightarrow> decimal \<Rightarrow> exn + decimal" where
  "quantity_for_target c target_value unit_cost =
     bindE (multiply_decimals unit_cost (quantity_increment c)) (\<lambda>increment_cost.
     bindE (floor_divide_decimals target_value increment_cost) (\<lambda>increments.
     bindE (multiply_decimals (dec_of_int increments) (quantity_increment c)) (\<lambda>quantity.
     if dec_lt quantity (sc_minimum_quantity c) then Inr dec_zero else Inr quantity)))"

definition stage_target :: "sizing_configuration \<Rightarrow> decimal \<Rightarrow> sizing_stage \<Rightarrow> exn + decimal" where
  "stage_target c spendable stage =
     bindE (multiply_decimals spendable (stage_allocation_weight stage)) (\<lambda>share.
     policy_money_not_increasing (sc_rounding c) share)"

definition initial_quantities ::
    "sizing_configuration \<Rightarrow> decimal \<Rightarrow> decimal \<Rightarrow> exn + decimal list" where
  "initial_quantities c price spendable =
     bindE (configured_purchase_cost c price dec_one) (\<lambda>unit.
     if dec_le (pc_total_cash unit) dec_zero then Inr (map (\<lambda>_. dec_zero) (sc_stages c))
     else mapE (\<lambda>stage. bindE (stage_target c spendable stage) (\<lambda>target.
            quantity_for_target c target (pc_total_cash unit))) (sc_stages c))"

definition stage_result ::
    "sizing_configuration \<Rightarrow> sizing_stage \<Rightarrow> decimal \<Rightarrow> decimal \<Rightarrow> decimal \<Rightarrow> exn + stage_sizing" where
  "stage_result c stage price target_value quantity =
     bindE (configured_purchase_cost c price quantity) (\<lambda>cost.
     bindE (Quantity quantity) (\<lambda>purchase_quantity.
     Inr \<lparr>ss_stage_id = stg_stage_id stage, ss_allocation_weight = stage_allocation_weight stage,
          ss_target_value = target_value, ss_purchase_quantity = purchase_quantity,
          ss_required_purchase_value = pc_gross_value cost, ss_slippage_cost = pc_slippage_cost cost,
          ss_fee = pc_fee cost, ss_total_cash = pc_total_cash cost\<rparr>))"

text \<open>\<open>zip(..., strict=True)\<close> raises when the lengths differ.\<close>

definition zip_strict :: "'a list \<Rightarrow> 'b list \<Rightarrow> exn + ('a \<times> 'b) list" where
  "zip_strict xs ys =
     (if length xs = length ys then Inr (zip xs ys)
      else Inl (ValueError ''zip() arguments have different lengths''))"

definition stage_results ::
    "sizing_configuration \<Rightarrow> decimal \<Rightarrow> decimal \<Rightarrow> decimal list \<Rightarrow> exn + stage_sizing list" where
  "stage_results c price spendable quantities =
     bindE (zip_strict (sc_stages c) quantities) (\<lambda>pairs.
     mapE (\<lambda>(stage, quantity). bindE (stage_target c spendable stage) (\<lambda>target.
       stage_result c stage price target quantity)) pairs)"

definition total_cash :: "sizing_configuration \<Rightarrow> decimal list \<Rightarrow> decimal \<Rightarrow> exn + decimal" where
  "total_cash c quantities price =
     foldE (\<lambda>purchase_total quantity.
       bindE (configured_purchase_cost c price quantity) (\<lambda>cost.
       add_decimals purchase_total (pc_total_cash cost))) (sc_reserve c) quantities"

text \<open>The loop of \<open>_max_affordable_stage_quantity\<close>: a binary search for the most increments of stage \<open>i\<close>
  that the funding covers.  \<open>Inr None\<close> is the exhausted step budget.\<close>

function search_increments ::
    "sizing_configuration \<Rightarrow> decimal list \<Rightarrow> decimal \<Rightarrow> decimal \<Rightarrow> nat \<Rightarrow> int \<Rightarrow> int \<Rightarrow> nat \<Rightarrow> exn + int option"
  where
  "search_increments c quantities price funding i lower upper steps =
     (if lower < upper
      then if steps \<ge> MAX_SIZING_ADJUSTMENT_SEARCH_STEPS then Inr None
      else let midpoint = (lower + upper + 1) div 2 in
        bindE (multiply_decimals (dec_of_int midpoint) (quantity_increment c)) (\<lambda>candidate.
        bindE (total_cash c (quantities[i := candidate]) price) (\<lambda>total.
        if dec_le total funding
        then search_increments c quantities price funding i midpoint upper (steps + 1)
        else search_increments c quantities price funding i lower (midpoint - 1) (steps + 1)))
      else Inr (Some lower))"
  by pat_completeness auto
termination
  by (relation "measure (\<lambda>(_, _, _, _, _, lower, upper, _). nat (upper - lower))") auto

declare search_increments.simps [simp del]

definition max_affordable_stage_quantity ::
    "sizing_configuration \<Rightarrow> decimal list \<Rightarrow> decimal \<Rightarrow> decimal \<Rightarrow> nat \<Rightarrow> exn + decimal option" where
  "max_affordable_stage_quantity c quantities price funding i =
     bindE (floor_divide_decimals (quantities ! i) (quantity_increment c)) (\<lambda>upper.
     bindE (search_increments c quantities price funding i 0 upper 0) (\<lambda>found.
     case found of
       None \<Rightarrow> Inr None
     | Some lower \<Rightarrow>
         bindE (multiply_decimals (dec_of_int lower) (quantity_increment c)) (\<lambda>quantity.
         Inr (Some quantity))))"

text \<open>The loop of \<open>_enforce_funding\<close> over the stage indices, the last stage first.\<close>

fun adjust_quantities ::
    "sizing_configuration \<Rightarrow> decimal \<Rightarrow> decimal \<Rightarrow> decimal list \<Rightarrow> nat list \<Rightarrow> exn + decimal list option"
  where
  "adjust_quantities c price funding quantities [] = Inr (Some quantities)"
| "adjust_quantities c price funding quantities (i # is) =
     bindE (total_cash c quantities price) (\<lambda>total.
     if dec_le total funding then Inr (Some quantities)
     else if dec_lt (quantities ! i) (sc_minimum_quantity c)
     then adjust_quantities c price funding quantities is
     else
       bindE (max_affordable_stage_quantity c quantities price funding i) (\<lambda>adjusted.
       case adjusted of
         None \<Rightarrow> Inr None
       | Some quantity \<Rightarrow> adjust_quantities c price funding (quantities[i := quantity]) is))"

definition zero_stage_results :: "sizing_configuration \<Rightarrow> decimal \<Rightarrow> nat \<Rightarrow> exn + stage_sizing list" where
  "zero_stage_results c price n = stage_results c price dec_zero (replicate n dec_zero)"

definition enforce_funding ::
    "sizing_configuration \<Rightarrow> decimal \<Rightarrow> decimal \<Rightarrow> stage_sizing list \<Rightarrow> exn + stage_sizing list" where
  "enforce_funding c price funding stages =
     bindE (adjust_quantities c price funding (map (\<lambda>s. qvalue (ss_purchase_quantity s)) stages)
              (rev [0..<length stages])) (\<lambda>adjusted.
     case adjusted of
       None \<Rightarrow> zero_stage_results c price (length stages)
     | Some quantities \<Rightarrow>
         bindE (total_cash c quantities price) (\<lambda>total.
         if dec_lt funding total then zero_stage_results c price (length stages)
         else
           bindE (zip_strict (sc_stages c) (zip stages quantities)) (\<lambda>rows.
           mapE (\<lambda>(configured, existing, quantity).
             stage_result c configured price (ss_target_value existing) quantity) rows)))"

definition source_sale :: "uuid \<Rightarrow> quantity \<Rightarrow> sale_proceeds \<Rightarrow> source_sale_audit" where
  "source_sale position_id q p =
     \<lparr>ssa_source_position_id = position_id, ssa_quantity = q, ssa_gross_value = sp_gross_value p,
      ssa_slippage_cost = sp_slippage_cost p, ssa_fee = sp_fee p, ssa_tax = sp_tax p,
      ssa_net_proceeds = sp_net_proceeds p\<rparr>"

definition build_result ::
    "sizing_status \<Rightarrow> source_sale_audit \<Rightarrow> stage_sizing list \<Rightarrow> decimal \<Rightarrow> decimal \<Rightarrow> decimal \<Rightarrow>
     string option \<Rightarrow> exn + sizing_result" where
  "build_result status sale stages available_cash net_sale_proceeds reserve reason =
     bindE (foldE (\<lambda>(required, total) stage.
              bindE (add_decimals required (ss_required_purchase_value stage)) (\<lambda>required'.
              bindE (add_decimals total (ss_total_cash stage)) (\<lambda>total'.
              Inr (required', total')))) (dec_zero, dec_zero) stages) (\<lambda>(required, total).
     bindE (subtract_decimals total required) (\<lambda>configured_costs.
     bindE (add_decimals total reserve) (\<lambda>total_required.
     bindE (add_decimals available_cash net_sale_proceeds) (\<lambda>funding.
     bindE (subtract_decimals funding total_required) (\<lambda>remaining.
     sizing_result_post_init
       \<lparr>sz_status = status, sz_actionable = (status = ACTIONABLE), sz_source_sale = sale,
        sz_stages = stages, sz_available_cash = available_cash,
        sz_net_sale_proceeds = net_sale_proceeds, sz_reserve = reserve,
        sz_required_purchase_value = required, sz_configured_costs = configured_costs,
        sz_total_required_cash = total_required,
        sz_remaining_cash = (if dec_lt remaining dec_zero then dec_zero else remaining),
        sz_reason = reason\<rparr>)))))"

definition non_actionable_result ::
    "sizing_request \<Rightarrow> source_sale_audit \<Rightarrow> decimal \<Rightarrow> sizing_status \<Rightarrow> string \<Rightarrow> exn + sizing_result" where
  "non_actionable_result r sale target_value status reason =
     (let c = sr_configuration r in
      bindE (mapE (\<lambda>stage. stage_result c stage (sr_candidate_price r) target_value dec_zero)
               (sc_stages c)) (\<lambda>zero_stages.
      build_result status sale zero_stages (sr_available_cash r) (ssa_net_proceeds sale)
        (sc_reserve c) (Some reason)))"

definition sizing_size :: "sizing_request \<Rightarrow> exn + sizing_result" where
  "sizing_size r =
     (let c = sr_configuration r; price = sr_candidate_price r in
      bindE (ensure_authorized_rotation_sale (sr_plan r) (sr_source_position r)
               (sr_source_sale_quantity r)) (\<lambda>_.
      bindE (ensure_candidate_instrument_is_authorized (sr_plan r) (sr_candidate_group r)
               (sr_candidate r) (sr_portfolio_owner_id r)) (\<lambda>_.
      bindE (calculate_sale_proceeds (qvalue (sr_source_sale_quantity r)) (sr_source_sale_price r)
               (sc_fee_tax_profile c) (sc_slippage_profile c) (sc_rounding c)) (\<lambda>proceeds.
      let sale = source_sale (pos_position_id (sr_source_position r)) (sr_source_sale_quantity r)
                   proceeds in
      bindE (add_decimals (sr_available_cash r) (sp_net_proceeds proceeds)) (\<lambda>funding.
      if dec_lt funding (sc_reserve c)
      then non_actionable_result r sale dec_zero INSUFFICIENT_CASH ''funding_does_not_cover_reserve''
      else
        bindE (subtract_decimals funding (sc_reserve c)) (\<lambda>spendable.
        bindE (initial_quantities c price spendable) (\<lambda>quantities.
        bindE (stage_results c price spendable quantities) (\<lambda>initial_stages.
        bindE (enforce_funding c price funding initial_stages) (\<lambda>stages.
        if list_all (\<lambda>s. dec_is_zero (qvalue (ss_purchase_quantity s))) stages
        then build_result NO_PURCHASE_QUANTITY sale stages (sr_available_cash r)
               (sp_net_proceeds proceeds) (sc_reserve c)
               (Some ''configured_minimum_or_lot_prevents_purchase'')
        else build_result ACTIONABLE sale stages (sr_available_cash r)
               (sp_net_proceeds proceeds) (sc_reserve c) None)))))))))"

subsection \<open>The contract between costs and the search\<close>

text \<open>What the search relies on: costs are monotone, never negative and nothing costs nothing.\<close>

definition affordable :: "(rat \<Rightarrow> rat) \<Rightarrow> rat \<Rightarrow> rat list \<Rightarrow> nat \<Rightarrow> rat \<Rightarrow> rat \<Rightarrow> int \<Rightarrow> bool" where
  "affordable cost reserve xs i increment funding k \<longleftrightarrow>
     reserve + (\<Sum>x\<leftarrow>xs[i := of_int k * increment]. cost x) \<le> funding"

locale monotone_cost =
  fixes cost :: "rat \<Rightarrow> rat"
  assumes cost_mono: "0 \<le> x \<Longrightarrow> x \<le> y \<Longrightarrow> cost x \<le> cost y"
    and cost_nonneg: "0 \<le> x \<Longrightarrow> 0 \<le> cost x"
    and cost_zero: "cost 0 = 0"
begin

lemma affordable_down:
  assumes "affordable cost reserve xs i increment funding k"
    and "0 \<le> j" and "j \<le> k" and "0 \<le> increment" and "i < length xs"
  shows "affordable cost reserve xs i increment funding j"
proof -
  have "cost (of_int j * increment) \<le> cost (of_int k * increment)"
    using assms by (intro cost_mono mult_right_mono) simp_all
  with assms show ?thesis by (simp add: affordable_def sum_list_update_le)
qed

lemma nothing_costs_nothing: "(\<forall>x \<in> set xs. x = 0) \<Longrightarrow> (\<Sum>x\<leftarrow>xs. cost x) = 0"
  by (induction xs) (auto simp: cost_zero)

lemma total_nonneg: "(\<forall>x \<in> set xs. 0 \<le> x) \<Longrightarrow> 0 \<le> (\<Sum>x\<leftarrow>xs. cost x)"
  by (induction xs) (auto simp: cost_nonneg)

end

text \<open>The cost of a purchase in a valid configuration, on the rationals.\<close>

definition stage_cost :: "sizing_configuration \<Rightarrow> rat \<Rightarrow> rat \<Rightarrow> rat" where
  "stage_cost c price x =
     (if configuration_ok c \<and> 0 \<le> price
      then purchase_total (M_of (sc_rounding c)) x price
             (rval (purchase_rate (sc_slippage_profile c)))
             (rval (purchase_fee_rate (sc_fee_tax_profile c)))
      else 0)"

lemma configuration_rates:
  assumes "configuration_ok c"
  shows "0 < rval (money_quantum (sc_rounding c))"
    and "0 \<le> rval (purchase_rate (sc_slippage_profile c))"
    and "0 \<le> rval (purchase_fee_rate (sc_fee_tax_profile c))"
  using assms by (auto simp: configuration_ok_def policy_ok_def rates_ok_def)

lemma purchase_total_zero: "purchase_total (to_quantum (round_rat m) q) 0 price sr fr = 0"
  by (simp add: purchase_total_def purchase_spec_def to_quantum_def round_rat_of_int [of m 0, simplified])

interpretation stage_costs: monotone_cost "stage_cost c price" for c price
proof
  fix x y :: rat
  assume "0 \<le> x" and "x \<le> y"
  then show "stage_cost c price x \<le> stage_cost c price y"
    using configuration_rates [of c] by (auto simp: stage_cost_def intro: purchase_total_mono)
next
  fix x :: rat
  assume "0 \<le> x"
  then show "0 \<le> stage_cost c price x"
    using purchase_total_ge_gross [of "sc_rounding c" x price] configuration_rates [of c]
    by (force simp: stage_cost_def)
next
  show "stage_cost c price 0 = 0" by (simp add: stage_cost_def purchase_total_zero)
qed

lemma configured_purchase_cost_Inr:
  assumes "configured_purchase_cost c price q = Inr cost" and "configuration_ok c"
  shows "is_finite (pc_total_cash cost) \<and> is_finite (pc_gross_value cost) \<and>
         is_finite (pc_slippage_cost cost) \<and> is_finite (pc_fee cost) \<and>
         rval (pc_total_cash cost) = stage_cost c (rval price) (rval q) \<and>
         rval (pc_total_cash cost) =
           rval (pc_gross_value cost) + rval (pc_slippage_cost cost) + rval (pc_fee cost) \<and>
         0 \<le> rval (pc_gross_value cost) \<and> rval (pc_gross_value cost) \<le> rval (pc_total_cash cost) \<and>
         0 \<le> rval q \<and> 0 < rval price"
proof -
  let ?p = "sc_rounding c"
  have p: "policy_ok ?p" using assms(2) by (simp add: configuration_ok_def)
  have cost: "calculate_purchase_cost q price (sc_fee_tax_profile c) (sc_slippage_profile c) ?p = Inr cost"
    using assms(1) by (simp add: configured_purchase_cost_def)
  note spec = purchase_cost_Inr [OF cost p] and rates = configuration_rates [OF assms(2)]
  have "0 \<le> rval q" and "0 < rval price" using spec by simp_all
  with spec purchase_total_ge_gross [OF rates(1) this(1) _ rates(2,3), of "rval price"] assms(2)
  show ?thesis
    by (auto simp: stage_cost_def purchase_total_def purchase_spec_def Let_def)
qed

lemma total_cash_fold:
  assumes "foldE (\<lambda>t q. bindE (configured_purchase_cost c price q) (\<lambda>cost.
             add_decimals t (pc_total_cash cost))) start qs = Inr t"
    and "configuration_ok c" and "is_finite start"
  shows "is_finite t \<and> rval t = rval start + (\<Sum>q\<leftarrow>qs. stage_cost c (rval price) (rval q)) \<and>
         (\<forall>q \<in> set qs. 0 \<le> rval q)"
  using assms(1,3)
proof (induction qs arbitrary: start)
  case (Cons q qs)
  from Cons.prems(1) obtain cost s where cost: "configured_purchase_cost c price q = Inr cost"
    and s: "add_decimals start (pc_total_cash cost) = Inr s"
    and rest: "foldE (\<lambda>t q. bindE (configured_purchase_cost c price q) (\<lambda>cost.
                 add_decimals t (pc_total_cash cost))) s qs = Inr t"
    by (auto simp: exc_simps)
  from Cons.IH [OF rest] add_decimals_exact [OF s] configured_purchase_cost_Inr [OF cost assms(2)]
  show ?case by simp
qed simp

lemma total_cash_Inr:
  assumes "total_cash c qs price = Inr t" and "configuration_ok c"
  shows "is_finite t \<and>
         rval t = rval (sc_reserve c) + (\<Sum>q\<leftarrow>qs. stage_cost c (rval price) (rval q)) \<and>
         (\<forall>q \<in> set qs. 0 \<le> rval q)"
  using total_cash_fold [of c price "sc_reserve c" qs t] assms
  by (simp add: total_cash_def configuration_ok_def)

subsection \<open>The binary search\<close>

lemma increment_ok:
  assumes "configuration_ok c"
  shows "is_finite (quantity_increment c) \<and> 0 < rval (quantity_increment c) \<and>
         rval (sc_minimum_quantity c) \<le> rval (quantity_increment c)"
  using assms by (auto simp: configuration_ok_def quantity_increment_def)

abbreviation stage_affordable ::
    "sizing_configuration \<Rightarrow> decimal list \<Rightarrow> decimal \<Rightarrow> decimal \<Rightarrow> nat \<Rightarrow> int \<Rightarrow> bool" where
  "stage_affordable c qs price funding i \<equiv>
     affordable (stage_cost c (rval price)) (rval (sc_reserve c)) (map rval qs) i
       (rval (quantity_increment c)) (rval funding)"

lemma candidate_total:
  assumes "multiply_decimals (dec_of_int k) (quantity_increment c) = Inr q"
    and "total_cash c (qs[i := q]) price = Inr t" and "configuration_ok c" and "is_finite funding"
    and "i < length qs"
  shows "dec_le t funding \<longleftrightarrow> stage_affordable c qs price funding i k"
proof -
  have "rval q = of_int k * rval (quantity_increment c)"
    using multiply_decimals_exact [OF assms(1)] by simp
  then have "map rval (qs[i := q]) = (map rval qs)[i := of_int k * rval (quantity_increment c)]"
    by (simp add: map_update)
  moreover have "rval t = rval (sc_reserve c) +
      (\<Sum>x\<leftarrow>map rval (qs[i := q]). stage_cost c (rval price) x)"
    using total_cash_Inr [OF assms(2,3)] by (simp add: comp_def)
  ultimately show ?thesis
    using total_cash_Inr [OF assms(2,3)] assms(4) by (simp add: affordable_def dec_compare)
qed

lemma search_increments_spec:
  assumes "search_increments c qs price funding i lower upper steps = Inr (Some k)"
    and "configuration_ok c" and "is_finite funding" and "i < length qs"
    and "0 \<le> lower" and "lower \<le> upper"
  shows "lower \<le> k \<and> k \<le> upper \<and> (k = lower \<or> stage_affordable c qs price funding i k) \<and>
         (\<forall>j. k < j \<longrightarrow> j \<le> upper \<longrightarrow> \<not> stage_affordable c qs price funding i j)"
  using assms
proof (induction c qs price funding i lower upper steps rule: search_increments.induct)
  case (1 c qs price funding i lower upper steps)
  note prems = "1.prems"
  show ?case
  proof (cases "lower < upper")
    case False
    then show ?thesis using prems by (simp add: search_increments.simps)
  next
    case True
    let ?mid = "(lower + upper + 1) div 2"
    have mid: "lower < ?mid" "?mid \<le> upper" using True by linarith+
    have steps: "\<not> steps \<ge> MAX_SIZING_ADJUSTMENT_SEARCH_STEPS"
      using prems(1) True by (auto simp: search_increments.simps [of c qs])
    from prems(1) True steps obtain q t where
      q: "multiply_decimals (dec_of_int ?mid) (quantity_increment c) = Inr q" and
      t: "total_cash c (qs[i := q]) price = Inr t" and
      rest: "(if dec_le t funding
              then search_increments c qs price funding i ?mid upper (steps + 1)
              else search_increments c qs price funding i lower (?mid - 1) (steps + 1)) =
             Inr (Some k)"
      by (auto simp: search_increments.simps [of c qs _ _ _ lower] Let_def exc_simps)
    note aff = candidate_total [OF q t prems(2,3,4)]
    show ?thesis
    proof (cases "dec_le t funding")
      case True
      then show ?thesis
        using "1.IH"(1) [OF \<open>lower < upper\<close> steps refl q t True] rest prems mid aff by auto
    next
      case False
      have over: "\<not> stage_affordable c qs price funding i j" if "?mid \<le> j" for j
      proof
        assume "stage_affordable c qs price funding i j"
        then have "stage_affordable c qs price funding i ?mid"
          using stage_costs.affordable_down that mid prems(4,5) increment_ok [OF prems(2)] by force
        then show False using False aff by simp
      qed
      from False rest have rest':
        "search_increments c qs price funding i lower (?mid - 1) (steps + 1) = Inr (Some k)" by simp
      have "lower \<le> ?mid - 1" using mid by simp
      note ih = "1.IH"(2) [OF \<open>lower < upper\<close> steps refl q t False rest' prems(2-5) this]
      moreover have "\<not> stage_affordable c qs price funding i j" if "k < j" and "j \<le> upper" for j
        using ih over that by (cases "j \<le> ?mid - 1") auto
      ultimately show ?thesis using mid by auto
    qed
  qed
qed

lemma search_increments_not_exhausted:
  assumes "upper - lower < 2 ^ (MAX_SIZING_ADJUSTMENT_SEARCH_STEPS - steps)"
    and "steps \<le> MAX_SIZING_ADJUSTMENT_SEARCH_STEPS"
  shows "search_increments c qs price funding i lower upper steps \<noteq> Inr None"
  using assms
proof (induction c qs price funding i lower upper steps rule: search_increments.induct)
  case (1 c qs price funding i lower upper steps)
  show ?case
  proof (cases "lower < upper")
    case False
    then show ?thesis by (simp add: search_increments.simps)
  next
    case True
    with "1.prems" have steps: "steps < MAX_SIZING_ADJUSTMENT_SEARCH_STEPS"
      by (cases "steps = MAX_SIZING_ADJUSTMENT_SEARCH_STEPS") auto
    let ?n = "MAX_SIZING_ADJUSTMENT_SEARCH_STEPS - (steps + 1)" and ?mid = "(lower + upper + 1) div 2"
    have "MAX_SIZING_ADJUSTMENT_SEARCH_STEPS - steps = Suc ?n" using steps by simp
    then have "upper - lower < 2 * 2 ^ ?n" using "1.prems"(1) by simp
    then have "upper - ?mid < 2 ^ ?n" and "?mid - 1 - lower < 2 ^ ?n" by linarith+
    then show ?thesis
      using "1.IH" True steps
      by (auto simp: search_increments.simps [of c qs _ _ _ lower] Let_def exc_simps)
  qed
qed

text \<open>A quotient has at most a thousand digits, so the step budget covers every search.\<close>

lemma digit_count_bound:
  assumes "coefficient_digit_count c \<le> k" shows "\<bar>c\<bar> < 10 ^ k"
proof -
  have "(10::nat) ^ ndigits (nat \<bar>c\<bar>) \<le> 10 ^ k"
    using assms by (intro power_increasing) (simp_all add: coefficient_digit_count_def)
  with ndigits_less have "nat \<bar>c\<bar> < 10 ^ k" by (rule less_le_trans)
  then show ?thesis by (simp add: nat_less_iff)
qed

lemma coefficient_bound:
  "decimal_coefficient_and_exponent v n = Inr (c, e) \<Longrightarrow> \<bar>c\<bar> < 10 ^ 1000"
  by (rule digit_count_bound)
    (auto simp: decimal_coefficient_and_exponent_def validate_rounding_decimal_def exc_simps
      coefficient_digit_count_def abs_dsigned split: decimal.splits if_splits)

lemma floor_divide_bound:
  assumes "floor_divide_decimals a b = Inr k" shows "\<bar>k\<bar> < 2 ^ 4096"
proof -
  from assms obtain num den n d where
    num: "decimal_coefficient_and_exponent a ''numerator'' = Inr num" and pos: "0 < fst den" and
    ratio: "scaled_ratio num ''numerator'' den ''denominator'' = Inr (n, d)" and k: "k = n div d"
    by (auto simp: floor_divide_decimals_def exc_simps not_le split: if_splits)
  have num_bound: "\<bar>n\<bar> < 10 ^ 1000"
  proof (cases "snd num - snd den \<ge> 0")
    case True
    let ?s = "snd num - snd den"
    from ratio True have n: "n = fst num * 10 ^ nat ?s"
      and digits: "int (coefficient_digit_count (fst num)) + ?s \<le> 1000"
      by (auto simp: scaled_ratio_def Let_def exc_simps validate_scaled_coefficient_def split: if_splits)
    have "\<bar>fst num\<bar> < 10 ^ nat (1000 - ?s)" using digits True by (intro digit_count_bound) simp
    then have less: "\<bar>n\<bar> < 10 ^ nat (1000 - ?s) * 10 ^ nat ?s" by (simp add: n abs_mult)
    have "nat (1000 - ?s) + nat ?s = 1000" using digits True by simp
    then have "(10::int) ^ nat (1000 - ?s) * 10 ^ nat ?s = 10 ^ 1000"
      by (metis power_add)
    with less show ?thesis by (rule ord_less_eq_trans)
  next
    case False
    with ratio have "n = fst num"
      by (auto simp: scaled_ratio_def Let_def exc_simps split: if_splits)
    have "decimal_coefficient_and_exponent a ''numerator'' = Inr (fst num, snd num)" using num by simp
    from coefficient_bound [OF this] show ?thesis unfolding \<open>n = fst num\<close> .
  qed
  have "0 < d"
    using scaled_ratio_Inr [of "fst num" "snd num" _ "fst den" "snd den"] ratio pos by simp
  then have "\<bar>k\<bar> \<le> \<bar>n\<bar>"
    using abs_floor_le [OF abs_ratio_le, of d n] by (simp add: k floor_ratio)
  then have "\<bar>k\<bar> < 10 ^ 1000" using num_bound by (rule le_less_trans)
  also have "(10::int) ^ 1000 \<le> (2 ^ 4) ^ 1000" by (rule power_mono) simp_all
  also have "((2::int) ^ 4) ^ 1000 \<le> 2 ^ 4096"
    unfolding power_mult [symmetric] by (rule power_increasing) simp_all
  finally show ?thesis .
qed

lemma max_affordable_spec:
  assumes "max_affordable_stage_quantity c qs price funding i = Inr r"
    and "configuration_ok c" and "is_finite funding" and "i < length qs" and "0 \<le> rval (qs ! i)"
  shows "\<exists>k q. r = Some q \<and> is_finite q \<and> rval q = of_int k * rval (quantity_increment c) \<and> 0 \<le> k \<and>
           k \<le> \<lfloor>rval (qs ! i) / rval (quantity_increment c)\<rfloor> \<and>
           (k = 0 \<or> stage_affordable c qs price funding i k) \<and>
           (\<forall>j. k < j \<longrightarrow> j \<le> \<lfloor>rval (qs ! i) / rval (quantity_increment c)\<rfloor> \<longrightarrow>
                \<not> stage_affordable c qs price funding i j)"
proof -
  from assms(1) obtain upper found where
    upper: "floor_divide_decimals (qs ! i) (quantity_increment c) = Inr upper" and
    search: "search_increments c qs price funding i 0 upper 0 = Inr found" and
    r: "(case found of None \<Rightarrow> Inr None
         | Some k \<Rightarrow> bindE (multiply_decimals (dec_of_int k) (quantity_increment c)) (\<lambda>q. Inr (Some q)))
        = Inr r"
    by (auto simp: max_affordable_stage_quantity_def exc_simps)
  have u: "upper = \<lfloor>rval (qs ! i) / rval (quantity_increment c)\<rfloor>"
    using floor_divide_decimals_exact [OF upper] by simp
  have "0 \<le> upper" using assms(5) increment_ok [OF assms(2)] by (simp add: u)
  have "upper - 0 < 2 ^ (MAX_SIZING_ADJUSTMENT_SEARCH_STEPS - 0)"
    using floor_divide_bound [OF upper] by (simp add: MAX_SIZING_ADJUSTMENT_SEARCH_STEPS_def)
  then obtain k where k: "found = Some k"
    using search_increments_not_exhausted [of upper 0 0] search by (cases found) auto
  with r obtain q where q: "multiply_decimals (dec_of_int k) (quantity_increment c) = Inr q"
    and "r = Some q" by (auto simp: exc_simps)
  with search_increments_spec [OF search [unfolded k] assms(2,3,4) order_refl \<open>0 \<le> upper\<close>]
    multiply_decimals_exact [OF q] u show ?thesis by auto
qed

subsection \<open>Quantities the engine recommends\<close>

text \<open>A quantity is zero, or at least the minimum and a whole number of increments.\<close>

definition tradable :: "sizing_configuration \<Rightarrow> decimal \<Rightarrow> bool" where
  "tradable c q \<longleftrightarrow>
     is_finite q \<and> 0 \<le> rval q \<and>
     (rval q = 0 \<or> rval (sc_minimum_quantity c) \<le> rval q) \<and>
     (\<exists>k. rval q = of_int k * rval (quantity_increment c))"

lemma tradable_zero: "tradable c dec_zero"
  by (auto simp: tradable_def intro: exI [of _ 0])

lemma tradable_increments:
  assumes "configuration_ok c" and "is_finite q" and "0 \<le> k"
    and "rval q = of_int k * rval (quantity_increment c)"
  shows "tradable c q"
proof -
  note inc = increment_ok [OF assms(1)]
  have "rval (sc_minimum_quantity c) \<le> rval q" if "k \<noteq> 0"
  proof -
    have "1 * rval (quantity_increment c) \<le> of_int k * rval (quantity_increment c)"
      using that assms(3) inc by (intro mult_right_mono) simp_all
    with inc have "rval (sc_minimum_quantity c) \<le> of_int k * rval (quantity_increment c)" by linarith
    then show ?thesis using assms(4) by simp
  qed
  then show ?thesis using assms inc by (auto simp: tradable_def)
qed

lemma quantity_for_target_tradable:
  assumes "quantity_for_target c target unit = Inr q" and "configuration_ok c"
  shows "tradable c q"
proof -
  from assms(1) obtain ic k m where "floor_divide_decimals target ic = Inr k"
    and m: "multiply_decimals (dec_of_int k) (quantity_increment c) = Inr m"
    and q: "q = (if dec_lt m (sc_minimum_quantity c) then dec_zero else m)"
    by (auto simp: quantity_for_target_def exc_simps split: if_splits)
  note m' = multiply_decimals_exact [OF m]
  show ?thesis
  proof (cases "dec_lt m (sc_minimum_quantity c)")
    case False
    then have "rval (sc_minimum_quantity c) \<le> rval m" and min: "0 < rval (sc_minimum_quantity c)"
      using m' assms(2) by (simp_all add: dec_compare configuration_ok_def not_less)
    then show ?thesis using q m' False by (auto simp: tradable_def)
  qed (simp add: q tradable_zero)
qed

lemma initial_quantities_tradable:
  assumes "initial_quantities c price spendable = Inr qs" and "configuration_ok c" and "q \<in> set qs"
  shows "tradable c q"
  using assms
  by (auto simp: initial_quantities_def exc_simps tradable_zero split: if_splits
      dest!: mapE_Inr_set intro: quantity_for_target_tradable)

lemma adjust_quantities_spec:
  assumes "adjust_quantities c price funding qs is = Inr r" and "configuration_ok c"
    and "is_finite funding" and "\<forall>i \<in> set is. i < length qs" and "\<forall>q \<in> set qs. tradable c q"
  shows "\<exists>qs'. r = Some qs' \<and> length qs' = length qs \<and> (\<forall>q \<in> set qs'. tradable c q) \<and>
               (\<forall>i < length qs. rval (qs' ! i) \<le> rval (qs ! i))"
  using assms
proof (induction c price funding qs "is" rule: adjust_quantities.induct)
  case (2 c price funding qs i "is")
  from "2.prems"(1) obtain total where total: "total_cash c qs price = Inr total" and
    rest: "(if dec_le total funding then Inr (Some qs)
            else if dec_lt (qs ! i) (sc_minimum_quantity c)
            then adjust_quantities c price funding qs is
            else bindE (max_affordable_stage_quantity c qs price funding i) (\<lambda>adjusted.
              case adjusted of None \<Rightarrow> Inr None
              | Some q \<Rightarrow> adjust_quantities c price funding (qs[i := q]) is)) = Inr r"
    by (auto simp: exc_simps)
  consider "dec_le total funding"
    | "\<not> dec_le total funding" "dec_lt (qs ! i) (sc_minimum_quantity c)"
    | "\<not> dec_le total funding" "\<not> dec_lt (qs ! i) (sc_minimum_quantity c)"
    by blast
  then show ?case
  proof cases
    case 1
    with rest "2.prems" show ?thesis by auto
  next
    case 2
    then show ?thesis using "2.IH"(1) [OF total 2] rest "2.prems" by simp
  next
    case 3
    with rest obtain adjusted where
      m: "max_affordable_stage_quantity c qs price funding i = Inr adjusted" and
      r: "(case adjusted of None \<Rightarrow> Inr None
           | Some q \<Rightarrow> adjust_quantities c price funding (qs[i := q]) is) = Inr r"
      by (auto simp: exc_simps)
    have i: "i < length qs" and nonneg: "0 \<le> rval (qs ! i)"
      using "2.prems" by (auto simp: tradable_def)
    obtain k q where q: "adjusted = Some q" "is_finite q"
      "rval q = of_int k * rval (quantity_increment c)" "0 \<le> k"
      "k \<le> \<lfloor>rval (qs ! i) / rval (quantity_increment c)\<rfloor>"
      using max_affordable_spec [OF m "2.prems"(2,3) i nonneg] by blast
    note inc = increment_ok [OF "2.prems"(2)]
    have "of_int k \<le> rval (qs ! i) / rval (quantity_increment c)" using q(5) by (simp add: le_floor_iff)
    then have le: "rval q \<le> rval (qs ! i)" using inc q(3) by (simp add: pos_le_divide_eq)
    have t: "\<forall>x \<in> set (qs[i := q]). tradable c x"
      using tradable_increments [OF "2.prems"(2) q(2,4,3)] "2.prems"(5) set_update_subset_insert [of qs i q]
      by blast
    have "\<exists>qs'. r = Some qs' \<and> length qs' = length (qs[i := q]) \<and> (\<forall>x \<in> set qs'. tradable c x) \<and>
        (\<forall>n < length (qs[i := q]). rval (qs' ! n) \<le> rval (qs[i := q] ! n))"
      using "2.IH"(2) [OF total 3 m q(1)] r q(1) "2.prems" t by simp
    then obtain qs' where qs': "r = Some qs'" "length qs' = length qs" "\<forall>x \<in> set qs'. tradable c x"
      "\<forall>n < length qs. rval (qs' ! n) \<le> rval (qs[i := q] ! n)" by auto
    have "rval (qs[i := q] ! n) \<le> rval (qs ! n)" if "n < length qs" for n
      using le i that by (cases "n = i") simp_all
    then have "\<forall>n < length qs. rval (qs' ! n) \<le> rval (qs ! n)" using qs'(4) by (meson order_trans)
    then show ?thesis using qs' by blast
  qed
qed auto

subsection \<open>Stages and funding\<close>

definition stage_ok :: "sizing_configuration \<Rightarrow> decimal \<Rightarrow> stage_sizing \<Rightarrow> bool" where
  "stage_ok c price s \<longleftrightarrow>
     tradable c (qvalue (ss_purchase_quantity s)) \<and>
     is_finite (ss_total_cash s) \<and> is_finite (ss_required_purchase_value s) \<and>
     rval (ss_total_cash s) = stage_cost c (rval price) (rval (qvalue (ss_purchase_quantity s))) \<and>
     rval (ss_total_cash s) =
       rval (ss_required_purchase_value s) + rval (ss_slippage_cost s) + rval (ss_fee s) \<and>
     0 \<le> rval (ss_required_purchase_value s) \<and>
     rval (ss_required_purchase_value s) \<le> rval (ss_total_cash s)"

abbreviation stage_quantity :: "stage_sizing \<Rightarrow> decimal" where
  "stage_quantity s \<equiv> qvalue (ss_purchase_quantity s)"

lemma stage_result_Inr:
  assumes "stage_result c stage price target q = Inr s" and "configuration_ok c" and "tradable c q"
  shows "stage_ok c price s \<and> stage_quantity s = q \<and> ss_target_value s = target \<and>
         ss_stage_id s = stg_stage_id stage \<and> ss_allocation_weight s = stage_allocation_weight stage"
proof -
  from assms(1) obtain cost where "configured_purchase_cost c price q = Inr cost"
    and "s = \<lparr>ss_stage_id = stg_stage_id stage, ss_allocation_weight = stage_allocation_weight stage,
           ss_target_value = target, ss_purchase_quantity = \<lparr>qvalue = q\<rparr>,
           ss_required_purchase_value = pc_gross_value cost, ss_slippage_cost = pc_slippage_cost cost,
           ss_fee = pc_fee cost, ss_total_cash = pc_total_cash cost\<rparr>"
    by (auto simp: stage_result_def exc_simps)
  with configured_purchase_cost_Inr [of c price q cost] assms(2,3) show ?thesis
    by (simp add: stage_ok_def)
qed

lemma zip_strict_Inr [exc_simps]:
  "zip_strict xs ys = Inr zs \<longleftrightarrow> length xs = length ys \<and> zs = zip xs ys"
  by (auto simp: zip_strict_def)

lemma stage_results_Inr:
  assumes "stage_results c price spendable qs = Inr ss" and "configuration_ok c"
    and "\<forall>q \<in> set qs. tradable c q"
  shows "length ss = length (sc_stages c) \<and> length qs = length (sc_stages c) \<and>
         map stage_quantity ss = qs \<and> (\<forall>s \<in> set ss. stage_ok c price s) \<and>
         map ss_stage_id ss = map stg_stage_id (sc_stages c)"
proof -
  let ?f = "\<lambda>(stage, q). bindE (stage_target c spendable stage) (\<lambda>target.
              stage_result c stage price target q)"
  from assms(1) have len: "length (sc_stages c) = length qs"
    and ss: "mapE ?f (zip (sc_stages c) qs) = Inr ss"
    by (auto simp: stage_results_def exc_simps)
  have each: "stage_ok c price (ss ! i) \<and> stage_quantity (ss ! i) = qs ! i \<and>
      ss_stage_id (ss ! i) = stg_stage_id (sc_stages c ! i)" if "i < length qs" for i
  proof -
    from mapE_nth [OF ss, of i] that len obtain target where
      "stage_result c (sc_stages c ! i) price target (qs ! i) = Inr (ss ! i)"
      by (auto simp: exc_simps)
    from stage_result_Inr [OF this assms(2)] that assms(3) show ?thesis by auto
  qed
  then show ?thesis
    using mapE_length [OF ss] len by (auto simp: in_set_conv_nth intro!: nth_equalityI)
qed

lemma funding_of_stages:
  assumes "\<forall>s \<in> set ss. stage_ok c price s"
  shows "(\<Sum>s\<leftarrow>ss. rval (ss_total_cash s)) =
         (\<Sum>q\<leftarrow>map stage_quantity ss. stage_cost c (rval price) (rval q))"
proof -
  have "map (\<lambda>s. rval (ss_total_cash s)) ss =
        map (\<lambda>s. stage_cost c (rval price) (rval (stage_quantity s))) ss"
    using assms by (auto simp: stage_ok_def)
  then have "sum_list (map (\<lambda>s. rval (ss_total_cash s)) ss) =
        sum_list (map (\<lambda>s. stage_cost c (rval price) (rval (stage_quantity s))) ss)"
    by (simp only:)
  then show ?thesis by (simp add: comp_def)
qed

lemma zero_stage_results_Inr:
  assumes "zero_stage_results c price n = Inr ss" and "configuration_ok c"
  shows "length ss = length (sc_stages c) \<and> (\<forall>s \<in> set ss. stage_ok c price s) \<and>
         (\<forall>s \<in> set ss. rval (stage_quantity s) = 0) \<and> (\<Sum>s\<leftarrow>ss. rval (ss_total_cash s)) = 0"
proof -
  have ok: "\<forall>q \<in> set (replicate n dec_zero). tradable c q" by (simp add: tradable_zero)
  note r = stage_results_Inr [OF _ assms(2) ok, of price dec_zero ss]
  have q: "map stage_quantity ss = replicate n dec_zero" and "\<forall>s \<in> set ss. stage_ok c price s"
    and "length ss = length (sc_stages c)"
    using r assms(1) by (simp_all add: zero_stage_results_def)
  moreover have "rval (stage_quantity s) = 0" if "s \<in> set ss" for s
  proof -
    have "stage_quantity s \<in> set (replicate n dec_zero)" using that q by (metis image_eqI list.set_map)
    then show ?thesis by simp
  qed
  moreover have "(\<Sum>x\<leftarrow>replicate n dec_zero. stage_cost c (rval price) (rval x)) = 0"
    using stage_costs.cost_zero by (induction n) simp_all
  ultimately show ?thesis using funding_of_stages [of ss c price] by simp
qed

lemma enforce_funding_Inr:
  assumes "enforce_funding c price funding stages = Inr ss" and "configuration_ok c"
    and "is_finite funding" and "rval (sc_reserve c) \<le> rval funding"
    and "\<forall>s \<in> set stages. stage_ok c price s"
  shows "length ss = length (sc_stages c) \<and> (\<forall>s \<in> set ss. stage_ok c price s) \<and>
         rval (sc_reserve c) + (\<Sum>s\<leftarrow>ss. rval (ss_total_cash s)) \<le> rval funding"
proof -
  let ?qs = "map stage_quantity stages"
  from assms(1) obtain adjusted where
    adj: "adjust_quantities c price funding ?qs (rev [0..<length stages]) = Inr adjusted" and
    rest: "(case adjusted of None \<Rightarrow> zero_stage_results c price (length stages)
       | Some qs \<Rightarrow> bindE (total_cash c qs price) (\<lambda>total.
           if dec_lt funding total then zero_stage_results c price (length stages)
           else bindE (zip_strict (sc_stages c) (zip stages qs)) (\<lambda>rows.
             mapE (\<lambda>(configured, existing, q).
               stage_result c configured price (ss_target_value existing) q) rows))) = Inr ss"
    by (auto simp: enforce_funding_def exc_simps)
  have "\<forall>q \<in> set ?qs. tradable c q" using assms(5) by (auto simp: stage_ok_def)
  then obtain qs where a: "adjusted = Some qs" and len: "length qs = length stages"
    and t: "\<forall>q \<in> set qs. tradable c q"
    using adjust_quantities_spec [OF adj assms(2,3)] by auto
  from rest a obtain total where total: "total_cash c qs price = Inr total" and
    r: "(if dec_lt funding total then zero_stage_results c price (length stages)
         else bindE (zip_strict (sc_stages c) (zip stages qs)) (\<lambda>rows.
             mapE (\<lambda>(configured, existing, q).
               stage_result c configured price (ss_target_value existing) q) rows)) = Inr ss"
    by (auto simp: exc_simps)
  note tot = total_cash_Inr [OF total assms(2)]
  show ?thesis
  proof (cases "dec_lt funding total")
    case True
    then show ?thesis using r zero_stage_results_Inr [of c price "length stages" ss] assms(2,4) by simp
  next
    case False
    with r have lenc: "length (sc_stages c) = length stages"
      and m: "mapE (\<lambda>(configured, existing, q).
               stage_result c configured price (ss_target_value existing) q)
             (zip (sc_stages c) (zip stages qs)) = Inr ss"
      using len by (auto simp: exc_simps)
    have each: "stage_ok c price (ss ! i) \<and> stage_quantity (ss ! i) = qs ! i" if "i < length qs" for i
      using mapE_nth [OF m, of i] stage_result_Inr [OF _ assms(2), of "sc_stages c ! i" price _ "qs ! i"]
        that len lenc t by auto
    have lens: "length ss = length qs" using mapE_length [OF m] len lenc by simp
    then have ok: "\<forall>s \<in> set ss. stage_ok c price s" and q: "map stage_quantity ss = qs"
      using each by (auto simp: in_set_conv_nth intro!: nth_equalityI)
    have "rval total \<le> rval funding" using False tot assms(3) by (simp add: dec_compare not_less)
    then show ?thesis using funding_of_stages [OF ok] q tot ok lens len lenc by simp
  qed
qed

subsection \<open>The audit result\<close>

lemma stage_sums:
  assumes "foldE (\<lambda>(required, total) stage.
              bindE (add_decimals required (ss_required_purchase_value stage)) (\<lambda>required'.
              bindE (add_decimals total (ss_total_cash stage)) (\<lambda>total'.
              Inr (required', total')))) (r, t) ss = Inr (r', t')"
    and "is_finite r" and "is_finite t"
  shows "is_finite r' \<and> is_finite t' \<and>
         rval r' = rval r + (\<Sum>s\<leftarrow>ss. rval (ss_required_purchase_value s)) \<and>
         rval t' = rval t + (\<Sum>s\<leftarrow>ss. rval (ss_total_cash s))"
  using assms
proof (induction ss arbitrary: r t)
  case (Cons s ss)
  from Cons.prems(1) obtain r1 t1 where
    r1: "add_decimals r (ss_required_purchase_value s) = Inr r1" and
    t1: "add_decimals t (ss_total_cash s) = Inr t1" and
    rest: "foldE (\<lambda>(required, total) stage.
              bindE (add_decimals required (ss_required_purchase_value stage)) (\<lambda>required'.
              bindE (add_decimals total (ss_total_cash stage)) (\<lambda>total'.
              Inr (required', total')))) (r1, t1) ss = Inr (r', t')"
    by (auto simp: exc_simps)
  from Cons.IH [OF rest] add_decimals_exact [OF r1] add_decimals_exact [OF t1] show ?case by simp
qed simp

text \<open>The figures of a result: every amount is the exact sum it stands for.\<close>

definition figures_ok :: "sizing_result \<Rightarrow> bool" where
  "figures_ok res \<longleftrightarrow>
     rval (sz_required_purchase_value res) =
       (\<Sum>s\<leftarrow>sz_stages res. rval (ss_required_purchase_value s)) \<and>
     rval (sz_configured_costs res) =
       (\<Sum>s\<leftarrow>sz_stages res. rval (ss_total_cash s)) - rval (sz_required_purchase_value res) \<and>
     rval (sz_total_required_cash res) =
       (\<Sum>s\<leftarrow>sz_stages res. rval (ss_total_cash s)) + rval (sz_reserve res) \<and>
     rval (sz_remaining_cash res) =
       max 0 (rval (sz_available_cash res) + rval (sz_net_sale_proceeds res) -
              rval (sz_total_required_cash res)) \<and>
     0 \<le> rval (sz_net_sale_proceeds res)"

lemma build_result_Inr:
  assumes "build_result status sale stages available net reserve reason = Inr res"
  shows "figures_ok res \<and> sz_status res = status \<and> sz_stages res = stages \<and>
         sz_source_sale res = sale \<and> sz_available_cash res = available \<and>
         sz_net_sale_proceeds res = net \<and> sz_reserve res = reserve \<and>
         sz_actionable res = (status = ACTIONABLE)"
proof -
  from assms obtain required total costs total_required funding remaining where
    sums: "foldE (\<lambda>(required, total) stage.
              bindE (add_decimals required (ss_required_purchase_value stage)) (\<lambda>required'.
              bindE (add_decimals total (ss_total_cash stage)) (\<lambda>total'.
              Inr (required', total')))) (dec_zero, dec_zero) stages = Inr (required, total)" and
    costs: "subtract_decimals total required = Inr costs" and
    total_required: "add_decimals total reserve = Inr total_required" and
    funding: "add_decimals available net = Inr funding" and
    remaining: "subtract_decimals funding total_required = Inr remaining" and
    post: "sizing_result_post_init
       \<lparr>sz_status = status, sz_actionable = (status = ACTIONABLE), sz_source_sale = sale,
        sz_stages = stages, sz_available_cash = available,
        sz_net_sale_proceeds = net, sz_reserve = reserve,
        sz_required_purchase_value = required, sz_configured_costs = costs,
        sz_total_required_cash = total_required,
        sz_remaining_cash = (if dec_lt remaining dec_zero then dec_zero else remaining),
        sz_reason = reason\<rparr> = Inr res"
    by (auto simp: build_result_def exc_simps)
  have res: "res = \<lparr>sz_status = status, sz_actionable = (status = ACTIONABLE), sz_source_sale = sale,
        sz_stages = stages, sz_available_cash = available,
        sz_net_sale_proceeds = net, sz_reserve = reserve,
        sz_required_purchase_value = required, sz_configured_costs = costs,
        sz_total_required_cash = total_required,
        sz_remaining_cash = (if dec_lt remaining dec_zero then dec_zero else remaining),
        sz_reason = reason\<rparr>" and "0 \<le> rval net"
    using post by (auto simp: sizing_result_post_init_def exc_simps split: if_splits)
  have "rval (if dec_lt remaining dec_zero then dec_zero else remaining) = max 0 (rval remaining)"
    using subtract_decimals_exact [OF remaining] by (simp add: dec_compare)
  then show ?thesis
    using stage_sums [OF sums] subtract_decimals_exact [OF costs] add_decimals_exact [OF total_required]
      add_decimals_exact [OF funding] subtract_decimals_exact [OF remaining] \<open>0 \<le> rval net\<close>
    by (simp add: res figures_ok_def)
qed

subsection \<open>The whole engine\<close>

lemma sizing_size_cases:
  assumes "sizing_size r = Inr res" and "request_ok r"
  defines "c \<equiv> sr_configuration r"
  shows "ensure_authorized_rotation_sale (sr_plan r) (sr_source_position r)
           (sr_source_sale_quantity r) = Inr () \<and>
         ensure_candidate_instrument_is_authorized (sr_plan r) (sr_candidate_group r)
           (sr_candidate r) (sr_portfolio_owner_id r) = Inr () \<and>
         figures_ok res \<and> sz_available_cash res = sr_available_cash r \<and>
         sz_reserve res = sc_reserve c \<and> sz_actionable res = (sz_status res = ACTIONABLE) \<and>
         length (sz_stages res) = length (sc_stages c) \<and>
         (\<forall>s \<in> set (sz_stages res). stage_ok c (sr_candidate_price r) s) \<and>
         (let funding = rval (sr_available_cash r) + rval (sz_net_sale_proceeds res) in
          case sz_status res of
            INSUFFICIENT_CASH \<Rightarrow> funding < rval (sc_reserve c) \<and>
              (\<forall>s \<in> set (sz_stages res). rval (stage_quantity s) = 0)
          | NO_PURCHASE_QUANTITY \<Rightarrow> rval (sc_reserve c) \<le> funding \<and>
              (\<forall>s \<in> set (sz_stages res). rval (stage_quantity s) = 0)
          | ACTIONABLE \<Rightarrow> rval (sz_total_required_cash res) \<le> funding \<and>
              (\<exists>s \<in> set (sz_stages res). 0 < rval (stage_quantity s)))"
proof -
  let ?price = "sr_candidate_price r"
  have c: "configuration_ok c" using assms(2) by (simp add: request_ok_def c_def)
  obtain proceeds funding where
    auth: "ensure_authorized_rotation_sale (sr_plan r) (sr_source_position r)
             (sr_source_sale_quantity r) = Inr ()"
      "ensure_candidate_instrument_is_authorized (sr_plan r) (sr_candidate_group r)
             (sr_candidate r) (sr_portfolio_owner_id r) = Inr ()" and
    funding: "add_decimals (sr_available_cash r) (sp_net_proceeds proceeds) = Inr funding" and
    rest: "(let sale = source_sale (pos_position_id (sr_source_position r))
                         (sr_source_sale_quantity r) proceeds in
      if dec_lt funding (sc_reserve c)
      then non_actionable_result r sale dec_zero INSUFFICIENT_CASH ''funding_does_not_cover_reserve''
      else
        bindE (subtract_decimals funding (sc_reserve c)) (\<lambda>spendable.
        bindE (initial_quantities c ?price spendable) (\<lambda>quantities.
        bindE (stage_results c ?price spendable quantities) (\<lambda>initial_stages.
        bindE (enforce_funding c ?price funding initial_stages) (\<lambda>stages.
        if list_all (\<lambda>s. dec_is_zero (stage_quantity s)) stages
        then build_result NO_PURCHASE_QUANTITY sale stages (sr_available_cash r)
               (sp_net_proceeds proceeds) (sc_reserve c)
               (Some ''configured_minimum_or_lot_prevents_purchase'')
        else build_result ACTIONABLE sale stages (sr_available_cash r)
               (sp_net_proceeds proceeds) (sc_reserve c) None))))) = Inr res"
    using assms(1) unfolding c_def sizing_size_def Let_def by (auto simp: bindE_Inr)
  let ?sale = "source_sale (pos_position_id (sr_source_position r)) (sr_source_sale_quantity r) proceeds"
  note fund = add_decimals_exact [OF funding]
  have reserve: "is_finite (sc_reserve c)" using c by (simp add: configuration_ok_def)
  show ?thesis
  proof (cases "dec_lt funding (sc_reserve c)")
    case True
    with rest obtain stages where
      stages: "mapE (\<lambda>stage. stage_result c stage ?price dec_zero dec_zero) (sc_stages c) = Inr stages" and
      res: "build_result INSUFFICIENT_CASH ?sale stages (sr_available_cash r) (sp_net_proceeds proceeds)
              (sc_reserve c) (Some ''funding_does_not_cover_reserve'') = Inr res"
      by (auto simp: non_actionable_result_def Let_def bindE_Inr source_sale_def c_def)
    have "stage_ok c ?price s \<and> stage_quantity s = dec_zero" if "s \<in> set stages" for s
      using mapE_Inr_set [OF stages that] stage_result_Inr [OF _ c tradable_zero] by blast
    moreover have "rval funding < rval (sc_reserve c)" using True fund reserve by (simp add: dec_compare)
    ultimately show ?thesis
      using build_result_Inr [OF res] mapE_length [OF stages] auth fund by (simp add: Let_def)
  next
    case False
    let ?all = "\<lambda>ss. list_all (\<lambda>s. dec_is_zero (stage_quantity s)) ss"
    let ?build = "\<lambda>stages. if ?all stages
        then build_result NO_PURCHASE_QUANTITY ?sale stages (sr_available_cash r)
               (sp_net_proceeds proceeds) (sc_reserve c)
               (Some ''configured_minimum_or_lot_prevents_purchase'')
        else build_result ACTIONABLE ?sale stages (sr_available_cash r)
               (sp_net_proceeds proceeds) (sc_reserve c) None"
    from False rest obtain spendable quantities initial stages where
      quantities: "initial_quantities c ?price spendable = Inr quantities" and
      initial: "stage_results c ?price spendable quantities = Inr initial" and
      stages: "enforce_funding c ?price funding initial = Inr stages" and
      build: "?build stages = Inr res"
      by (auto simp: Let_def bindE_Inr)
    define status where "status = (if ?all stages then NO_PURCHASE_QUANTITY else ACTIONABLE)"
    then obtain reason where
      res: "build_result status ?sale stages (sr_available_cash r) (sp_net_proceeds proceeds)
              (sc_reserve c) reason = Inr res"
      using build by (cases "?all stages") simp_all
    have le: "rval (sc_reserve c) \<le> rval funding"
      using False fund reserve by (simp add: dec_compare not_less)
    have "\<forall>q \<in> set quantities. tradable c q" using initial_quantities_tradable [OF quantities c] by blast
    note initial' = stage_results_Inr [OF initial c this]
    note enforced = enforce_funding_Inr [OF stages c _ le]
    have ok: "length stages = length (sc_stages c)" "\<forall>s \<in> set stages. stage_ok c ?price s"
      "rval (sc_reserve c) + (\<Sum>s\<leftarrow>stages. rval (ss_total_cash s)) \<le> rval funding"
      using enforced initial' fund by simp_all
    have zero: "dec_is_zero (stage_quantity s) \<longleftrightarrow> rval (stage_quantity s) = 0"
      if "s \<in> set stages" for s
      using ok(2) that by (auto simp: stage_ok_def tradable_def dec_compare)
    have "list_all (\<lambda>s. dec_is_zero (stage_quantity s)) stages \<longleftrightarrow>
          (\<forall>s \<in> set stages. rval (stage_quantity s) = 0)"
      using zero by (auto simp: list_all_iff)
    moreover have "0 \<le> rval (stage_quantity s)" if "s \<in> set stages" for s
      using ok(2) that by (auto simp: stage_ok_def tradable_def)
    ultimately have "status = ACTIONABLE \<longleftrightarrow> (\<exists>s \<in> set stages. 0 < rval (stage_quantity s))"
      and "status = NO_PURCHASE_QUANTITY \<longleftrightarrow> (\<forall>s \<in> set stages. rval (stage_quantity s) = 0)"
      and "status \<noteq> INSUFFICIENT_CASH"
      unfolding status_def by (force simp: less_le split: if_splits)+
    moreover have "rval (sz_total_required_cash res) \<le> rval funding"
      using build_result_Inr [OF res] ok(3) by (simp add: figures_ok_def)
    ultimately show ?thesis
      using build_result_Inr [OF res] ok auth fund le
      by (cases status) (simp_all add: Let_def)
  qed
qed

subsection \<open>Which sizing errors can occur\<close>

text \<open>A computation that never raises a \<open>SizingError\<close>.\<close>

definition no_sizing_error :: "exn + 'a \<Rightarrow> bool" where
  "no_sizing_error m \<longleftrightarrow> (\<forall>x. m \<noteq> Inl (SizingError x))"

lemma no_sizing_error_simps [simp]:
  "no_sizing_error (Inr x)"
  "no_sizing_error (Inl e) \<longleftrightarrow> (\<forall>x. e \<noteq> SizingError x)"
  "no_sizing_error (if b then m else n) \<longleftrightarrow> (b \<longrightarrow> no_sizing_error m) \<and> (\<not> b \<longrightarrow> no_sizing_error n)"
  by (auto simp: no_sizing_error_def)

lemma no_sizing_error_bind:
  "no_sizing_error m \<Longrightarrow> (\<And>x. m = Inr x \<Longrightarrow> no_sizing_error (f x)) \<Longrightarrow> no_sizing_error (bindE m f)"
  by (cases m) (auto simp: no_sizing_error_def)

lemma no_sizing_error_map:
  "(\<And>x. x \<in> set xs \<Longrightarrow> no_sizing_error (f x)) \<Longrightarrow> no_sizing_error (mapE f xs)"
  by (induction xs) (auto intro!: no_sizing_error_bind)

lemma no_sizing_error_fold:
  "(\<And>s x. x \<in> set xs \<Longrightarrow> no_sizing_error (f s x)) \<Longrightarrow> no_sizing_error (foldE f s xs)"
  by (induction xs arbitrary: s) (auto intro!: no_sizing_error_bind)

lemmas no_sizing_error_intros = no_sizing_error_bind no_sizing_error_map no_sizing_error_fold

lemma no_sizing_error_coefficient [intro!]: "no_sizing_error (decimal_coefficient_and_exponent v n)"
  by (auto simp: decimal_coefficient_and_exponent_def validate_rounding_decimal_def
      split: decimal.splits intro!: no_sizing_error_bind)

lemma no_sizing_error_from_coefficient [intro!]: "no_sizing_error (decimal_from_coefficient c e)"
  by (auto simp: decimal_from_coefficient_def)

lemma no_sizing_error_align [intro!]: "no_sizing_error (align_decimals a b)"
  by (auto simp: align_decimals_def Let_def validate_scaled_coefficient_def split: prod.splits
      intro!: no_sizing_error_bind)

lemma no_sizing_error_arith [intro!]:
  "no_sizing_error (add_decimals a b)" "no_sizing_error (subtract_decimals a b)"
  "no_sizing_error (multiply_decimals a b)"
  by (auto simp: add_decimals_def subtract_decimals_def multiply_decimals_def split: prod.splits
      intro!: no_sizing_error_bind)

lemma no_sizing_error_ratio [intro!]: "no_sizing_error (scaled_ratio a n b m)"
  by (auto simp: scaled_ratio_def Let_def validate_scaled_coefficient_def intro!: no_sizing_error_bind)

lemma no_sizing_error_divide [intro!]:
  "no_sizing_error (floor_divide_decimals a b)" "no_sizing_error (quantum_ratio a b)"
  by (auto simp: floor_divide_decimals_def quantum_ratio_def split: prod.splits
      intro!: no_sizing_error_bind)

lemma no_sizing_error_money [intro!]:
  "no_sizing_error (policy_money p v)" "no_sizing_error (policy_money_not_increasing p v)"
  by (auto simp: policy_money_def policy_money_not_increasing_def require_finite_decimal_def
      round_to_quantum_def floor_to_quantum_def split: prod.splits intro!: no_sizing_error_bind)

lemma no_sizing_error_require [intro!]:
  "no_sizing_error (require_nonnegative v n)" "no_sizing_error (require_positive v n)"
  by (auto simp: require_positive_def require_nonnegative_def require_finite_decimal_def
      intro!: no_sizing_error_bind)

lemma no_sizing_error_costs [intro!]:
  "no_sizing_error (calculate_purchase_cost q price f s p)"
  "no_sizing_error (calculate_sale_proceeds q price f s p)"
  by (auto simp: calculate_purchase_cost_def calculate_sale_proceeds_def intro!: no_sizing_error_bind)

lemma no_sizing_error_configured [intro!]: "no_sizing_error (configured_purchase_cost c price q)"
  by (auto simp: configured_purchase_cost_def)

lemma no_sizing_error_total [intro!]: "no_sizing_error (total_cash c qs price)"
  by (auto simp: total_cash_def intro!: no_sizing_error_intros)

lemma no_sizing_error_search [intro!]:
  "no_sizing_error (search_increments c qs price funding i lower upper steps)"
proof (induction c qs price funding i lower upper steps rule: search_increments.induct)
  case (1 c qs price funding i lower upper steps)
  then show ?case
    by (subst search_increments.simps) (auto simp: Let_def intro!: no_sizing_error_bind)
qed

lemma no_sizing_error_adjust [intro!]: "no_sizing_error (adjust_quantities c price funding qs is)"
  by (induction c price funding qs "is" rule: adjust_quantities.induct)
    (auto simp: max_affordable_stage_quantity_def split: option.splits intro!: no_sizing_error_bind)

lemma no_sizing_error_stage [intro!]:
  "no_sizing_error (stage_target c spendable stage)"
  "no_sizing_error (stage_result c stage price target q)"
  "no_sizing_error (stage_results c price spendable qs)"
  "no_sizing_error (zero_stage_results c price n)"
  by (auto simp: stage_target_def stage_result_def stage_results_def zero_stage_results_def
      zip_strict_def Quantity_def quantity_post_init_def require_finite_decimal_def
      intro!: no_sizing_error_intros split: prod.splits)

lemma no_sizing_error_engine [intro!]:
  "no_sizing_error (initial_quantities c price spendable)"
  "no_sizing_error (enforce_funding c price funding stages)"
  by (auto simp: initial_quantities_def quantity_for_target_def enforce_funding_def zip_strict_def
      intro!: no_sizing_error_intros split: option.splits prod.splits)

lemma no_sizing_error_authorization [intro!]:
  "no_sizing_error (ensure_authorized_rotation_sale plan p q)"
  "no_sizing_error (ensure_candidate_instrument_is_authorized plan g i owner)"
  by (auto simp: ensure_authorized_rotation_sale_def ensure_authorized_rotation_source_def
      ensure_candidate_instrument_is_authorized_def intro!: no_sizing_error_bind)

text \<open>The one check of the result that valid inputs can violate.\<close>

abbreviation negative_net_error :: exn where
  "negative_net_error \<equiv> SizingError ''net_sale_proceeds must not be negative''"

lemma nonnegative_check_ok: "is_finite v \<Longrightarrow> 0 \<le> rval v \<Longrightarrow> nonnegative_check v n = Inr ()"
  using nonnegative_check_Inr [of v n "()"] by simp

lemma build_result_error:
  assumes "build_result status sale stages available net reserve reason = Inl (SizingError m)"
    and "\<forall>s \<in> set stages. stage_ok c price s" and "stages \<noteq> []"
    and "is_finite available" and "0 \<le> rval available" and "is_finite net"
    and "is_finite reserve" and "0 \<le> rval reserve"
    and funded: "status = ACTIONABLE \<Longrightarrow>
           rval reserve + (\<Sum>s\<leftarrow>stages. rval (ss_total_cash s)) \<le> rval available + rval net"
  shows "SizingError m = negative_net_error"
proof -
  let ?sums = "foldE (\<lambda>(required, total) stage.
              bindE (add_decimals required (ss_required_purchase_value stage)) (\<lambda>required'.
              bindE (add_decimals total (ss_total_cash stage)) (\<lambda>total'.
              Inr (required', total')))) (dec_zero, dec_zero) stages"
  have "no_sizing_error ?sums" by (auto intro!: no_sizing_error_intros split: prod.splits)
  moreover have "no_sizing_error (add_decimals a b)" "no_sizing_error (subtract_decimals a b)" for a b
    by auto
  ultimately obtain required total costs total_required funding remaining where
    sums: "?sums = Inr (required, total)" and
    costs: "subtract_decimals total required = Inr costs" and
    total_required: "add_decimals total reserve = Inr total_required" and
    funding: "add_decimals available net = Inr funding" and
    remaining: "subtract_decimals funding total_required = Inr remaining" and
    post: "sizing_result_post_init
       \<lparr>sz_status = status, sz_actionable = (status = ACTIONABLE), sz_source_sale = sale,
        sz_stages = stages, sz_available_cash = available,
        sz_net_sale_proceeds = net, sz_reserve = reserve,
        sz_required_purchase_value = required, sz_configured_costs = costs,
        sz_total_required_cash = total_required,
        sz_remaining_cash = (if dec_lt remaining dec_zero then dec_zero else remaining),
        sz_reason = reason\<rparr> = Inl (SizingError m)"
    using assms(1) unfolding build_result_def
    by (auto simp: bindE_Inl no_sizing_error_def split: prod.splits)
  have parts: "0 \<le> (\<Sum>s\<leftarrow>stages. rval (ss_required_purchase_value s))"
    "(\<Sum>s\<leftarrow>stages. rval (ss_required_purchase_value s)) \<le> (\<Sum>s\<leftarrow>stages. rval (ss_total_cash s))"
    using assms(2) by (auto simp: stage_ok_def intro!: sum_list_nonneg sum_list_mono)
  have check: "nonnegative_check available n = Inr ()" "nonnegative_check reserve n = Inr ()"
    "nonnegative_check required n = Inr ()" "nonnegative_check costs n = Inr ()"
    "nonnegative_check total_required n = Inr ()"
    "nonnegative_check (if dec_lt remaining dec_zero then dec_zero else remaining) n = Inr ()" for n
    using stage_sums [OF sums] subtract_decimals_exact [OF costs] add_decimals_exact [OF total_required]
      subtract_decimals_exact [OF remaining] parts assms
    by (auto intro!: nonnegative_check_ok simp: dec_compare not_less)
  have "\<not> dec_lt funding total_required" if "status = ACTIONABLE"
    using funded [OF that] stage_sums [OF sums] add_decimals_exact [OF total_required]
      add_decimals_exact [OF funding] by (simp add: dec_compare not_less)
  then show ?thesis
    using post check assms(3,6) funding
    by (auto simp: sizing_result_post_init_def bindE_Inl nonnegative_check_def
        require_finite_decimal_def split: if_splits)
qed

lemma sizing_size_error:
  assumes "sizing_size r = Inl (SizingError m)" and "request_ok r"
  shows "SizingError m = negative_net_error"
proof -
  define c where "c = sr_configuration r"
  let ?price = "sr_candidate_price r"
  have c: "configuration_ok c" using assms(2) by (simp add: request_ok_def c_def)
  obtain proceeds funding where
    proceeds: "calculate_sale_proceeds (qvalue (sr_source_sale_quantity r)) (sr_source_sale_price r)
               (sc_fee_tax_profile c) (sc_slippage_profile c) (sc_rounding c) = Inr proceeds" and
    funding: "add_decimals (sr_available_cash r) (sp_net_proceeds proceeds) = Inr funding" and
    rest: "(let sale = source_sale (pos_position_id (sr_source_position r))
                         (sr_source_sale_quantity r) proceeds in
      if dec_lt funding (sc_reserve c)
      then non_actionable_result r sale dec_zero INSUFFICIENT_CASH ''funding_does_not_cover_reserve''
      else
        bindE (subtract_decimals funding (sc_reserve c)) (\<lambda>spendable.
        bindE (initial_quantities c ?price spendable) (\<lambda>quantities.
        bindE (stage_results c ?price spendable quantities) (\<lambda>initial_stages.
        bindE (enforce_funding c ?price funding initial_stages) (\<lambda>stages.
        if list_all (\<lambda>s. dec_is_zero (stage_quantity s)) stages
        then build_result NO_PURCHASE_QUANTITY sale stages (sr_available_cash r)
               (sp_net_proceeds proceeds) (sc_reserve c)
               (Some ''configured_minimum_or_lot_prevents_purchase'')
        else build_result ACTIONABLE sale stages (sr_available_cash r)
               (sp_net_proceeds proceeds) (sc_reserve c) None))))) = Inl (SizingError m)"
    using assms(1) no_sizing_error_authorization no_sizing_error_costs no_sizing_error_arith
    unfolding c_def sizing_size_def Let_def
    by (auto simp: bindE_Inl no_sizing_error_def)
  let ?sale = "source_sale (pos_position_id (sr_source_position r)) (sr_source_sale_quantity r) proceeds"
  note fund = add_decimals_exact [OF funding]
  have reserve: "is_finite (sc_reserve c)" "0 \<le> rval (sc_reserve c)" and stages_ne: "sc_stages c \<noteq> []"
    using c by (simp_all add: configuration_ok_def)
  have "policy_ok (sc_rounding c)" using c by (simp add: configuration_ok_def)
  then have net: "is_finite (sp_net_proceeds proceeds)" using sale_proceeds_Inr [OF proceeds] by simp
  have available: "is_finite (sr_available_cash r)" "0 \<le> rval (sr_available_cash r)"
    using assms(2) by (simp_all add: request_ok_def)
  note error = build_result_error [OF _ _ _ available net reserve, of _ _ _ _ m c ?price]
  show ?thesis
  proof (cases "dec_lt funding (sc_reserve c)")
    case True
    have "no_sizing_error (mapE (\<lambda>stage. stage_result c stage ?price dec_zero dec_zero) (sc_stages c))"
      by (auto intro!: no_sizing_error_intros)
    with True rest obtain stages where
      stages: "mapE (\<lambda>stage. stage_result c stage ?price dec_zero dec_zero) (sc_stages c) = Inr stages" and
      res: "build_result INSUFFICIENT_CASH ?sale stages (sr_available_cash r) (sp_net_proceeds proceeds)
              (sc_reserve c) (Some ''funding_does_not_cover_reserve'') = Inl (SizingError m)"
      by (auto simp: non_actionable_result_def Let_def bindE_Inl source_sale_def no_sizing_error_def
          c_def [symmetric])
    have "stage_ok c ?price s" if "s \<in> set stages" for s
      using mapE_Inr_set [OF stages that] stage_result_Inr [OF _ c tradable_zero] by blast
    moreover have "stages \<noteq> []" using mapE_length [OF stages] stages_ne by auto
    ultimately show ?thesis using error [OF res] by blast
  next
    case False
    let ?all = "\<lambda>ss. list_all (\<lambda>s. dec_is_zero (stage_quantity s)) ss"
    let ?build = "\<lambda>stages. if ?all stages
        then build_result NO_PURCHASE_QUANTITY ?sale stages (sr_available_cash r)
               (sp_net_proceeds proceeds) (sc_reserve c)
               (Some ''configured_minimum_or_lot_prevents_purchase'')
        else build_result ACTIONABLE ?sale stages (sr_available_cash r)
               (sp_net_proceeds proceeds) (sc_reserve c) None"
    from False rest obtain spendable quantities initial stages where
      quantities: "initial_quantities c ?price spendable = Inr quantities" and
      initial: "stage_results c ?price spendable quantities = Inr initial" and
      stages: "enforce_funding c ?price funding initial = Inr stages" and
      build: "?build stages = Inl (SizingError m)"
      using no_sizing_error_engine no_sizing_error_stage no_sizing_error_arith
      by (auto simp: Let_def bindE_Inl no_sizing_error_def)
    have le: "rval (sc_reserve c) \<le> rval funding"
      using False fund reserve by (simp add: dec_compare not_less)
    have "\<forall>q \<in> set quantities. tradable c q" using initial_quantities_tradable [OF quantities c] by blast
    from stage_results_Inr [OF initial c this] enforce_funding_Inr [OF stages c _ le] fund
    have ok: "length stages = length (sc_stages c)" "\<forall>s \<in> set stages. stage_ok c ?price s"
      "rval (sc_reserve c) + (\<Sum>s\<leftarrow>stages. rval (ss_total_cash s)) \<le> rval funding"
      by simp_all
    then have "stages \<noteq> []" using stages_ne by auto
    with ok fund show ?thesis
      using build error [of _ ?sale stages] by (cases "?all stages") auto
  qed
qed

subsection \<open>A concrete request\<close>

definition sample_group :: candidate_group where
  "sample_group = \<lparr>grp_candidate_group_id = 3, grp_user_id = 9,
                   grp_instruments = [\<lparr>instrument_id = 7\<rparr>], grp_created_at = Aware 0\<rparr>"

definition sample_configuration :: sizing_configuration where
  "sample_configuration =
     \<lparr>sc_stages = [\<lparr>stg_stage_id = ''first'', stg_basis_points = 6000\<rparr>,
                   \<lparr>stg_stage_id = ''second'', stg_basis_points = 4000\<rparr>],
      sc_fee_tax_profile = sample_fees, sc_slippage_profile = sample_slippage,
      sc_reserve = Fin False 10000 0, sc_minimum_quantity = Fin False 1 0,
      sc_lot_quantity = Fin False 1000 0, sc_odd_lot_policy = ODD_LOTS_ALLOWED,
      sc_rounding = sample_policy\<rparr>"

definition sample_price :: decimal where
  "sample_price = Fin False 655 (-1)"

definition sample_sizing_request :: sizing_request where
  "sample_sizing_request =
     \<lparr>sr_plan = sample_plan, sr_candidate_group = sample_group, sr_portfolio_owner_id = 9,
      sr_source_position = sample_position, sr_source_sale_quantity = sample_sale,
      sr_source_sale_price = Fin False 6505 (-1), sr_candidate = \<lparr>instrument_id = 7\<rparr>,
      sr_candidate_price = sample_price, sr_available_cash = Fin False 0 0,
      sr_configuration = sample_configuration\<rparr>"

lemma sample_request_ok: "request_ok sample_sizing_request"
  by (simp add: request_ok_def sample_sizing_request_def configuration_ok_def sample_configuration_def
      quantity_ok_def sample_policy_ok sample_rates_ok sample_defs sample_price_def dsigned_def)

lemma sample_costs:
  "configured_purchase_cost sample_configuration sample_price dec_one =
     Inr \<lparr>pc_gross_value = Fin False 66 0, pc_slippage_cost = Fin False 0 0, pc_fee = Fin False 0 0,
          pc_total_cash = Fin False 66 0\<rparr>"
  "configured_purchase_cost sample_configuration sample_price (Fin False 2849 0) =
     Inr \<lparr>pc_gross_value = Fin False 186610 0, pc_slippage_cost = Fin False 187 0,
          pc_fee = Fin False 266 0, pc_total_cash = Fin False 187063 0\<rparr>"
  "configured_purchase_cost sample_configuration sample_price (Fin False 1899 0) =
     Inr \<lparr>pc_gross_value = Fin False 124385 0, pc_slippage_cost = Fin False 124 0,
          pc_fee = Fin False 177 0, pc_total_cash = Fin False 124686 0\<rparr>"
  by (simp_all add: configured_purchase_cost_def sample_price_def sample_configuration_def sample_costs_defs
      costs_eval)

lemma sample_targets:
  "stage_target sample_configuration (Fin False 313487 0) \<lparr>stg_stage_id = i, stg_basis_points = 6000\<rparr> =
     Inr (Fin False 188092 0)"
  "stage_target sample_configuration (Fin False 313487 0) \<lparr>stg_stage_id = i, stg_basis_points = 4000\<rparr> =
     Inr (Fin False 125394 0)"
  by (simp_all add: stage_target_def stage_allocation_weight_def sample_configuration_def
      sample_policy_def costs_eval)

lemma sample_quantities:
  "quantity_for_target sample_configuration (Fin False 188092 0) (Fin False 66 0) = Inr (Fin False 2849 0)"
  "quantity_for_target sample_configuration (Fin False 125394 0) (Fin False 66 0) = Inr (Fin False 1899 0)"
  by (simp_all add: quantity_for_target_def quantity_increment_def dec_of_int_def
      sample_configuration_def costs_eval)

lemma sample_stages:
  "sc_stages sample_configuration =
     [\<lparr>stg_stage_id = ''first'', stg_basis_points = 6000\<rparr>,
      \<lparr>stg_stage_id = ''second'', stg_basis_points = 4000\<rparr>]"
  by (simp add: sample_configuration_def)

definition sample_stage_results :: "stage_sizing list" where
  "sample_stage_results =
     [\<lparr>ss_stage_id = ''first'', ss_allocation_weight = Fin False 6000 (-4),
       ss_target_value = Fin False 188092 0, ss_purchase_quantity = \<lparr>qvalue = Fin False 2849 0\<rparr>,
       ss_required_purchase_value = Fin False 186610 0, ss_slippage_cost = Fin False 187 0,
       ss_fee = Fin False 266 0, ss_total_cash = Fin False 187063 0\<rparr>,
      \<lparr>ss_stage_id = ''second'', ss_allocation_weight = Fin False 4000 (-4),
       ss_target_value = Fin False 125394 0, ss_purchase_quantity = \<lparr>qvalue = Fin False 1899 0\<rparr>,
       ss_required_purchase_value = Fin False 124385 0, ss_slippage_cost = Fin False 124 0,
       ss_fee = Fin False 177 0, ss_total_cash = Fin False 124686 0\<rparr>]"

lemma sample_initial:
  "initial_quantities sample_configuration sample_price (Fin False 313487 0) =
     Inr [Fin False 2849 0, Fin False 1899 0]"
  by (simp add: initial_quantities_def sample_costs sample_targets sample_quantities sample_stages
      dsigned_def del: One_nat_def)

lemma sample_stage_results_eval:
  "stage_results sample_configuration sample_price (Fin False 313487 0)
     [Fin False 2849 0, Fin False 1899 0] = Inr sample_stage_results"
  by (simp add: stage_results_def zip_strict_def sample_stages sample_targets stage_result_def
      sample_costs Quantity_def quantity_post_init_def require_finite_decimal_def dsigned_def
      stage_allocation_weight_def sample_stage_results_def)

lemma sample_total:
  "total_cash sample_configuration [Fin False 2849 0, Fin False 1899 0] sample_price =
     Inr (Fin False 321749 0)"
  by (simp add: total_cash_def sample_costs) (simp add: sample_configuration_def costs_eval)

lemma sample_funded:
  "enforce_funding sample_configuration sample_price (Fin False 323487 0) sample_stage_results =
     Inr sample_stage_results"
  by (simp add: enforce_funding_def sample_stage_results_def sample_total dsigned_def zip_strict_def
      sample_stages stage_result_def sample_costs Quantity_def quantity_post_init_def
      require_finite_decimal_def stage_allocation_weight_def)

definition sample_result :: sizing_result where
  "sample_result =
     \<lparr>sz_status = ACTIONABLE, sz_actionable = True,
      sz_source_sale = \<lparr>ssa_source_position_id = 4, ssa_quantity = sample_sale,
        ssa_gross_value = Fin False 325250 0, ssa_slippage_cost = Fin False 325 0,
        ssa_fee = Fin False 463 0, ssa_tax = Fin False 975 0, ssa_net_proceeds = Fin False 323487 0\<rparr>,
      sz_stages = sample_stage_results, sz_available_cash = dec_zero,
      sz_net_sale_proceeds = Fin False 323487 0, sz_reserve = Fin False 10000 0,
      sz_required_purchase_value = Fin False 310995 0, sz_configured_costs = Fin False 754 0,
      sz_total_required_cash = Fin False 321749 0, sz_remaining_cash = Fin False 1738 0,
      sz_reason = None\<rparr>"

lemma sample_build:
  "build_result ACTIONABLE (sz_source_sale sample_result) sample_stage_results dec_zero
     (Fin False 323487 0) (Fin False 10000 0) None = Inr sample_result"
  by (simp add: build_result_def sample_stage_results_def sample_result_def sizing_result_post_init_def
      nonnegative_check_def costs_eval)

lemma sample_candidate_authorized:
  "ensure_candidate_instrument_is_authorized sample_plan sample_group \<lparr>instrument_id = 7\<rparr> 9 = Inr ()"
  by (simp add: ensure_candidate_instrument_is_authorized_def sample_plan_def sample_group_def)

lemma sample_sale_proceeds:
  "calculate_sale_proceeds (qvalue sample_sale) (Fin False 6505 (-1))
     (sc_fee_tax_profile sample_configuration) (sc_slippage_profile sample_configuration)
     (sc_rounding sample_configuration) =
   Inr \<lparr>sp_gross_value = Fin False 325250 0, sp_slippage_cost = Fin False 325 0,
        sp_fee = Fin False 463 0, sp_tax = Fin False 975 0, sp_net_proceeds = Fin False 323487 0\<rparr>"
  using sample_sale_value by (simp add: sample_configuration_def sample_sale_def)

lemma sample_funding:
  "add_decimals dec_zero (Fin False 323487 0) = Inr (Fin False 323487 0)"
  "subtract_decimals (Fin False 323487 0) (Fin False 10000 0) = Inr (Fin False 313487 0)"
  by (simp_all add: costs_eval)

lemma sample_size: "sizing_size sample_sizing_request = Inr sample_result"
proof -
  have position: "pos_position_id sample_position = 4" by (simp add: sample_position_def)
  have reserve: "sc_reserve sample_configuration = Fin False 10000 0"
    by (simp add: sample_configuration_def)
  have bought: "\<not> list_all (\<lambda>s. dec_is_zero (stage_quantity s)) sample_stage_results"
    by (simp add: sample_stage_results_def dec_is_zero_def)
  have audit: "source_sale 4 sample_sale
     \<lparr>sp_gross_value = Fin False 325250 0, sp_slippage_cost = Fin False 325 0,
        sp_fee = Fin False 463 0, sp_tax = Fin False 975 0, sp_net_proceeds = Fin False 323487 0\<rparr> =
     sz_source_sale sample_result"
    by (simp add: source_sale_def sample_result_def)
  show ?thesis
    by (simp add: sizing_size_def sample_sizing_request_def Let_def sample_sale_authorized
        sample_candidate_authorized sample_sale_proceeds position reserve audit sample_funding
        sample_initial sample_stage_results_eval sample_funded bought sample_build dsigned_def)
qed

subsection \<open>Properties\<close>



text \<open>C22: a result is only ever given for an authorized rotation: the source is an open, unprotected
  position of the plan, the sale is positive and within the holding, and the candidate belongs to a
  candidate group of the plan and of the portfolio owner.\<close>

theorem sizing_needs_authorization:
  assumes "request_ok r" and "sizing_size r = Inr res"
  shows "rotation_source_ok (sr_plan r) (sr_source_position r) \<and>
         0 < rval (qvalue (sr_source_sale_quantity r)) \<and>
         rval (qvalue (sr_source_sale_quantity r)) \<le>
           rval (qvalue (pos_quantity (sr_source_position r))) \<and>
         candidate_ok (sr_plan r) (sr_candidate_group r) (sr_candidate r) (sr_portfolio_owner_id r)"
  using sizing_size_cases [OF assms(2,1)] assms(1)
  by (simp add: ensure_authorized_rotation_sale_Inr ensure_candidate_instrument_is_authorized_Inr
      request_ok_def quantity_ok_def)

lemma sizing_needs_authorization_witness:
  "rotation_source_ok sample_plan sample_position \<and> candidate_ok sample_plan sample_group \<lparr>instrument_id = 7\<rparr> 9"
  using sizing_needs_authorization [OF sample_request_ok sample_size]
  by (simp add: sample_sizing_request_def)

text \<open>C27: every stage of a result has a tradable quantity (zero, or at least the minimum and a whole
  number of increments), its total cash is the configured cost of that quantity at the candidate
  price and the exact sum of its parts, and the figures of the result are the exact sums.\<close>

theorem sizing_stages_are_tradable:
  assumes "request_ok r" and "sizing_size r = Inr res"
  shows "length (sz_stages res) = length (sc_stages (sr_configuration r)) \<and>
         (\<forall>s \<in> set (sz_stages res). stage_ok (sr_configuration r) (sr_candidate_price r) s) \<and>
         figures_ok res"
  using sizing_size_cases [OF assms(2,1)] by blast

lemma sizing_stages_are_tradable_witness:
  "list_all (\<lambda>s. tradable sample_configuration (stage_quantity s)) sample_stage_results"
  using sizing_stages_are_tradable [OF sample_request_ok sample_size]
  by (simp add: list_all_iff sample_result_def stage_ok_def sample_sizing_request_def)

text \<open>C23: the binary search always ends within its step budget, and finds the most increments of the
  stage, up to the initial quantity, whose cost together with the other stages and the reserve the
  funding covers.\<close>

theorem affordable_search_is_maximal:
  assumes "max_affordable_stage_quantity c qs price funding i = Inr r"
    and "configuration_ok c" and "is_finite funding" and "i < length qs" and "0 \<le> rval (qs ! i)"
  shows "\<exists>k q. r = Some q \<and> rval q = of_int k * rval (quantity_increment c) \<and> 0 \<le> k \<and>
           k \<le> \<lfloor>rval (qs ! i) / rval (quantity_increment c)\<rfloor> \<and>
           (k = 0 \<or> stage_affordable c qs price funding i k) \<and>
           (\<forall>j. k < j \<longrightarrow> j \<le> \<lfloor>rval (qs ! i) / rval (quantity_increment c)\<rfloor> \<longrightarrow>
                \<not> stage_affordable c qs price funding i j)"
  using max_affordable_spec [OF assms] by blast

lemma sample_search:
  "max_affordable_stage_quantity sample_configuration [Fin False 1 0, Fin False 2 0] sample_price
     (Fin False 10150 0) 1 = Inr (Some (Fin False 1 0))"
  by (simp add: max_affordable_stage_quantity_def search_increments.simps
      MAX_SIZING_ADJUSTMENT_SEARCH_STEPS_def total_cash_def configured_purchase_cost_def
      quantity_increment_def sample_configuration_def sample_price_def sample_costs_defs
      dec_of_int_def costs_eval)

lemma affordable_search_is_maximal_witness:
  "\<not> stage_affordable sample_configuration [Fin False 1 0, Fin False 2 0] sample_price
      (Fin False 10150 0) 1 2"
proof -
  have ok: "configuration_ok sample_configuration"
    using sample_request_ok by (simp add: request_ok_def sample_sizing_request_def)
  from affordable_search_is_maximal [OF sample_search ok] show ?thesis
    by (auto simp: quantity_increment_def sample_configuration_def dsigned_def)
qed

text \<open>C37: for a valid request the engine raises a \<open>SizingError\<close> for one reason only, negative net sale
  proceeds (rounded fees and taxes above the gross value); in particular the check that an actionable
  result violates the funding inequality can never fire.\<close>

theorem sizing_error_is_negative_net:
  assumes "request_ok r" and "sizing_size r = Inl (SizingError m)"
  shows "m = ''net_sale_proceeds must not be negative''"
  using sizing_size_error [OF assms(2,1)] by simp

text \<open>A sale whose rounded fee and tax exceed its value.\<close>

definition negative_net_request :: sizing_request where
  "negative_net_request =
     sample_sizing_request
       \<lparr>sr_source_sale_quantity := \<lparr>qvalue = Fin False 1 0\<rparr>, sr_source_sale_price := Fin False 1 0,
        sr_configuration := sample_configuration
          \<lparr>sc_fee_tax_profile := \<lparr>purchase_fee_rate = Fin False 0 0, sale_fee_rate = Fin False 5 (-1),
                                  sale_tax_rate = Fin False 5 (-1)\<rparr>\<rparr>\<rparr>"

lemma negative_net_request_fails:
  "request_ok negative_net_request"
  "sizing_size negative_net_request = Inl (SizingError ''net_sale_proceeds must not be negative'')"
  by (simp add: request_ok_def negative_net_request_def sample_sizing_request_def configuration_ok_def
      sample_configuration_def quantity_ok_def sample_policy_ok sample_slippage_def rates_ok_def
      sample_defs sample_price_def dsigned_def power_int_minus divide_simps)
    (simp add: sizing_size_def negative_net_request_def sample_sizing_request_def sample_configuration_def
      ensure_candidate_instrument_is_authorized_def sample_group_def non_actionable_result_def stage_result_def configured_purchase_cost_def
      build_result_def sizing_result_post_init_def nonnegative_check_def Quantity_def
      quantity_post_init_def source_sale_def sample_price_def ensure_authorized_rotation_sale_def
      ensure_authorized_rotation_source_def sample_defs sample_slippage_def sample_policy_def costs_eval)

lemma sizing_error_is_negative_net_witness:
  "\<exists>m. sizing_size negative_net_request = Inl (SizingError m) \<and>
       m = ''net_sale_proceeds must not be negative''"
  using sizing_error_is_negative_net [OF negative_net_request_fails] negative_net_request_fails(2)
  by blast

text \<open>the allocation weights of a configuration are kept exactly as basis points and sum to one, and
  the targets of the stages, rounded down, never exceed the spendable amount together.\<close>

theorem stage_targets_within_spendable:
  assumes "mapE (\<lambda>(i, w). SizingStage i w) inputs = Inr (sc_stages c)"
    and "sizing_configuration_post_init c = Inr c'" and "policy_ok (sc_rounding c)"
    and "mapE (stage_target c spendable) (sc_stages c) = Inr targets"
  shows "(\<Sum>(i, w)\<leftarrow>inputs. rval w) = 1 \<and> (\<Sum>t\<leftarrow>targets. rval t) \<le> rval spendable"
proof -
  let ?w = "\<lambda>s. rval (stage_allocation_weight s)"
  have q: "0 < rval (money_quantum (sc_rounding c))" using assms(3) by (simp add: policy_ok_def)
  have "(\<Sum>s\<leftarrow>sc_stages c. stg_basis_points s) = 10000"
    using assms(2) by (auto simp: sizing_configuration_post_init_def exc_simps split: if_splits)
  moreover have "(\<Sum>s\<leftarrow>ss. ?w s) = of_nat (\<Sum>s\<leftarrow>ss. stg_basis_points s) / 10000" for ss
    by (induction ss) (simp_all add: stage_allocation_weight_def rval_basis_points add_divide_distrib
        del: rval.simps)
  from this [of "sc_stages c"] have
    "(\<Sum>s\<leftarrow>sc_stages c. ?w s) = of_nat (\<Sum>s\<leftarrow>sc_stages c. stg_basis_points s) / 10000" .
  ultimately have one: "(\<Sum>s\<leftarrow>sc_stages c. ?w s) = 1" by simp
  have "map (\<lambda>(i, w). rval w) inputs = map ?w (sc_stages c)"
    using mapE_length [OF assms(1)] mapE_nth [OF assms(1)]
      SizingStage_Inr [of "fst (inputs ! i)" "snd (inputs ! i)" "sc_stages c ! i" for i]
    by (intro nth_equalityI) (simp_all add: split_beta)
  then have "(\<Sum>(i, w)\<leftarrow>inputs. rval w) = 1" using one by simp
  moreover have "rval (targets ! n) \<le> rval spendable * ?w (sc_stages c ! n)"
    if "n < length (sc_stages c)" for n
  proof -
    from mapE_nth [OF assms(4) that] obtain share where
      share: "multiply_decimals spendable (stage_allocation_weight (sc_stages c ! n)) = Inr share" and
      t: "policy_money_not_increasing (sc_rounding c) share = Inr (targets ! n)"
      by (auto simp: stage_target_def exc_simps)
    from policy_money_not_increasing_Inr [OF t q] multiply_decimals_exact [OF share]
      to_quantum_floor_le [OF q, of "rval share"] show ?thesis by simp
  qed
  then have "(\<Sum>t\<leftarrow>targets. rval t) \<le> (\<Sum>s\<leftarrow>sc_stages c. rval spendable * ?w s)"
    using mapE_length [OF assms(4)] by (auto simp: sum_list_sum_nth intro!: sum_mono)
  then have "(\<Sum>t\<leftarrow>targets. rval t) \<le> rval spendable * (\<Sum>s\<leftarrow>sc_stages c. ?w s)"
    by (simp add: sum_list_const_mult)
  ultimately show ?thesis using one by simp
qed

lemma sample_stage_inputs:
  "mapE (\<lambda>(i, w). SizingStage i w) [('' first'', Fin False 60 (-2)), (''second'', Fin False 4 (-1))] =
     Inr (sc_stages sample_configuration)"
  by (simp add: SizingStage_def sample_configuration_def require_finite_decimal_def dsigned_def
      strip_def is_blank_def byte_code_def ascii_space_def space2_def space3_def py_eval power_int_minus divide_simps)

lemma stage_targets_within_spendable_witness:
  "(\<Sum>(i, w)\<leftarrow>[('' first'', Fin False 60 (-2)), (''second'', Fin False 4 (-1))]. rval w) = 1"
proof -
  have "sizing_configuration_post_init sample_configuration = Inr sample_configuration"
    by (simp add: sizing_configuration_post_init_def sample_configuration_def
        require_finite_decimal_def positive_quantity_check_def dsigned_def)
  moreover have "policy_ok (sc_rounding sample_configuration)"
    using sample_policy_ok by (simp add: sample_configuration_def)
  moreover have "mapE (stage_target sample_configuration (Fin False 313487 0))
      (sc_stages sample_configuration) = Inr [Fin False 188092 0, Fin False 125394 0]"
    by (simp add: sample_stages sample_targets)
  ultimately show ?thesis
    by (rule stage_targets_within_spendable [OF sample_stage_inputs, THEN conjunct1])
qed

end
