(* ===== verification/DecimalContext.thy ===== *)
theory DecimalContext
  imports Costs
begin

text \<open>
  Decimal arithmetic under \<open>Context(prec=28, rounding=ROUND_HALF_EVEN)\<close>, which the scoring and the
  rule components create as \<open>_DECIMAL_CONTEXT\<close> and which is also Python's default context.  The
  context traps overflow, division by zero and invalid operations, so each operation returns or
  raises.

  \<open>ctx_fix\<close> is the rounding every operation ends with (\<open>_fix\<close> of the \<open>decimal\<close> module): to 28
  significant digits, within the exponent range.  Its value is monotone in the exact value, and the
  operations inherit that.
\<close>

definition ctx_prec :: int where "ctx_prec = 28"
definition ctx_etiny :: int where "ctx_etiny = -1000026"
definition ctx_etop :: int where "ctx_etop = 999972"
definition ctx_emax :: int where "ctx_emax = 999999"

lemmas ctx_limits [py_eval] = ctx_etiny_def ctx_etop_def ctx_emax_def

declare ctx_prec_def [simp]

text \<open>Division by a power of ten with ties to the even neighbour: the half-even rounding of the
  library, on a non-negative numerator.\<close>

definition half_even :: "nat \<Rightarrow> nat \<Rightarrow> nat" where
  "half_even c d =
     (let q = c div d; r = c mod d in
      if 2 * r < d \<or> (2 * r = d \<and> even q) then q else q + 1)"

definition ctx_fix :: "bool \<Rightarrow> nat \<Rightarrow> int \<Rightarrow> exn + decimal" where
  "ctx_fix s c e =
     (if c = 0 then Inr (Fin s 0 (min (max e ctx_etiny) ctx_emax))
      else
        let exp_min = int (ndigits c) + e - ctx_prec in
        if exp_min > ctx_etop then Inl DecimalOverflow
        else
          let m = max exp_min ctx_etiny in
          if e < m
          then
            let q = half_even c (10 ^ nat (m - e)) in
            if ndigits q > nat ctx_prec
            then if m + 1 > ctx_etop then Inl DecimalOverflow else Inr (Fin s (q div 10) (m + 1))
            else Inr (Fin s q m)
          else Inr (Fin s c e))"

text \<open>An exact integer coefficient at an exponent, rounded.\<close>

definition ctx_round :: "int \<Rightarrow> int \<Rightarrow> exn + decimal" where
  "ctx_round n e = ctx_fix (n < 0) (nat \<bar>n\<bar>) e"

subsection \<open>The operations\<close>

text \<open>Only finite operands occur in the program; the sign of a zero sum is negative only when both
  operands are negative zeros.\<close>

fun ctx_add :: "decimal \<Rightarrow> decimal \<Rightarrow> exn + decimal" where
  "ctx_add (Fin s c e) (Fin s' c' e') =
     (let m = min e e';
          n = dsigned s c * 10 ^ nat (e - m) + dsigned s' c' * 10 ^ nat (e' - m)
      in if n = 0 then ctx_fix (c = 0 \<and> c' = 0 \<and> s \<and> s') 0 m else ctx_round n m)"
| "ctx_add _ _ = Inl DecimalInvalidOperation"

fun dec_copy_negate :: "decimal \<Rightarrow> decimal" where
  "dec_copy_negate (Fin s c e) = Fin (\<not> s) c e"
| "dec_copy_negate (Infinite s) = Infinite (\<not> s)"
| "dec_copy_negate NotANumber = NotANumber"

definition ctx_subtract :: "decimal \<Rightarrow> decimal \<Rightarrow> exn + decimal" where
  "ctx_subtract a b = ctx_add a (dec_copy_negate b)"

fun ctx_multiply :: "decimal \<Rightarrow> decimal \<Rightarrow> exn + decimal" where
  "ctx_multiply (Fin s c e) (Fin s' c' e') = ctx_fix (s \<noteq> s') (c * c') (e + e')"
| "ctx_multiply _ _ = Inl DecimalInvalidOperation"

text \<open>The loop that brings an exact quotient close to its ideal exponent.\<close>

fun strip_towards :: "int \<Rightarrow> nat \<Rightarrow> int \<Rightarrow> nat \<times> int" where
  "strip_towards ideal c e =
     (if e < ideal \<and> c mod 10 = 0 \<and> c \<noteq> 0 then strip_towards ideal (c div 10) (e + 1) else (c, e))"

declare strip_towards.simps [simp del, py_eval]

fun ctx_divide :: "decimal \<Rightarrow> decimal \<Rightarrow> exn + decimal" where
  "ctx_divide (Fin s c e) (Fin s' c' e') =
     (if c' = 0 then Inl (if c = 0 then DecimalInvalidOperation else DecimalDivisionByZero)
      else if c = 0 then ctx_fix (s \<noteq> s') 0 (e - e')
      else
        let shift = int (ndigits c') - int (ndigits c) + ctx_prec + 1;
            num = c * 10 ^ nat shift;
            den = c' * 10 ^ nat (- shift);
            q = num div den
        in if num mod den \<noteq> 0
           then ctx_fix (s \<noteq> s') (if q mod 5 = 0 then q + 1 else q) (e - e' - shift)
           else case strip_towards (e - e') q (e - e' - shift) of
                  (q', x) \<Rightarrow> ctx_fix (s \<noteq> s') q' x)"
| "ctx_divide _ _ = Inl DecimalInvalidOperation"

text \<open>\<open>sum(values, Decimal("0"))\<close>.\<close>

definition ctx_sum :: "decimal list \<Rightarrow> exn + decimal" where
  "ctx_sum ds = foldE ctx_add dec_zero ds"

subsection \<open>Rounding is monotone\<close>

lemma half_even_refines:
  assumes "0 < d"
  shows "int (half_even c d) = round_rat ROUND_HALF_EVEN (of_nat c / of_nat d)"
proof -
  have q: "int c div int d = int (c div d)" by (simp add: zdiv_int)
  have r: "int c - int (c div d) * int d = int (c mod d)"
    by (metis minus_div_mult_eq_mod q zmod_int)
  have c1: "int (c mod d) * 2 - int d < 0 \<longleftrightarrow> 2 * (c mod d) < d" by linarith
  have c2: "int (c mod d) * 2 - int d > 0 \<longleftrightarrow> d < 2 * (c mod d)" by linarith
  have c3: "int (c div d) mod 2 = 0 \<longleftrightarrow> even (c div d)" by presburger
  have "round_ratio (int c) (int d) ROUND_HALF_EVEN = int (half_even c d)"
    unfolding round_ratio_def half_even_def Let_def q r c1 c2 c3 by auto
  then show ?thesis using round_ratio_refines [of "int d" "int c"] assms by simp
qed

text \<open>The rounding position of a positive value with \<open>n\<close> digits: the exponent its last kept digit has.\<close>

definition last_place :: "nat \<Rightarrow> int \<Rightarrow> int" where
  "last_place c e = max (int (ndigits c) + e - ctx_prec) ctx_etiny"

definition half_even_at :: "int \<Rightarrow> rat \<Rightarrow> rat" where
  "half_even_at m x = of_int (round_rat ROUND_HALF_EVEN (x / 10 powi m)) * 10 powi m"

lemma half_even_at_mono: "x \<le> y \<Longrightarrow> half_even_at m x \<le> half_even_at m y"
  unfolding half_even_at_def by (intro money_rule.quantum_mono) simp_all

lemma half_even_at_exact:
  assumes "m \<le> e" shows "half_even_at m (of_int n * 10 powi e) = of_int n * 10 powi e"
proof -
  have eq: "of_int n * (10::rat) powi e = of_int (n * 10 ^ nat (e - m)) * 10 powi m"
    using ten_powi_split [OF assms] by simp
  show ?thesis
    unfolding half_even_at_def eq by (rule money_rule.quantum_exact) simp
qed

lemma half_even_at_zero [simp]: "half_even_at m 0 = 0"
  using half_even_at_exact [of m m 0] by simp

lemma half_even_at_nonneg: "0 \<le> x \<Longrightarrow> 0 \<le> half_even_at m x"
  using half_even_at_mono [of 0 x m] by simp

lemma half_even_scaled:
  assumes "e \<le> m"
  shows "half_even_at m (of_nat c * 10 powi e) = of_nat (half_even c (10 ^ nat (m - e))) * 10 powi m"
proof -
  have "(10::rat) powi m = 10 ^ nat (m - e) * 10 powi e" by (rule ten_powi_split [OF assms])
  then have "of_nat c * (10::rat) powi e / 10 powi m = of_nat c / of_nat (10 ^ nat (m - e))" by simp
  then have "half_even_at m (of_nat c * 10 powi e) =
      of_int (int (half_even c (10 ^ nat (m - e)))) * 10 powi m"
    unfolding half_even_at_def half_even_refines [OF zero_less_power [OF zero_less_numeral]] by simp
  then show ?thesis by simp
qed

text \<open>Both bounds of a positive value by its digits.\<close>

lemma value_below: "of_nat c * (10::rat) powi e < 10 powi (int (ndigits c) + e)"
proof -
  have "(of_nat c :: rat) < 10 ^ ndigits c"
    using ndigits_less [of c] by (metis of_nat_less_iff of_nat_numeral of_nat_power)
  then show ?thesis by (simp add: power_int_add)
qed

lemma ten_ne: "(10::rat) \<noteq> 0"
  by simp

lemma value_above: "0 < c \<Longrightarrow> (10::rat) powi (int (ndigits c) + e - 1) \<le> of_nat c * 10 powi e"
proof -
  assume "0 < c"
  then have "(10::rat) ^ (ndigits c - 1) \<le> of_nat c"
    using ndigits_ge [of c] by (metis of_nat_le_iff of_nat_numeral of_nat_power neq0_conv)
  then have le: "(10::rat) ^ (ndigits c - 1) * 10 powi e \<le> of_nat c * 10 powi e"
    by (rule mult_right_mono) simp
  have "int (ndigits c) + e - 1 = int (ndigits c - 1) + e"
    by (simp add: int_ops Suc_leI)
  then have "(10::rat) powi (int (ndigits c) + e - 1) = 10 ^ (ndigits c - 1) * 10 powi e"
    by (simp only: power_int_add [OF disjI1 [OF ten_ne]] power_int_of_nat)
  with le show ?thesis by simp
qed

lemma rounded_below:
  assumes "int (ndigits c) + e - ctx_prec \<le> m"
  shows "half_even_at m (of_nat c * 10 powi e) \<le> 10 powi (m + ctx_prec)"
proof -
  have "(10::rat) powi (int (ndigits c) + e) \<le> 10 powi (m + ctx_prec)"
    using assms by (intro power_int_increasing) simp_all
  with value_below [of c e] have "of_nat c * (10::rat) powi e \<le> of_int 1 * 10 powi (m + ctx_prec)"
    by simp
  from half_even_at_mono [OF this, of m] half_even_at_exact [of m "m + ctx_prec" 1] show ?thesis
    by simp
qed

lemma last_place_mono:
  assumes "0 < c" and "0 < c'" and "of_nat c * (10::rat) powi e \<le> of_nat c' * 10 powi e'"
  shows "last_place c e \<le> last_place c' e'"
proof -
  have "(10::rat) powi (int (ndigits c) + e - 1) < 10 powi (int (ndigits c') + e')"
    using value_above [OF assms(1), of e] value_below [of c' e'] assms(3) by linarith
  then have "int (ndigits c) + e - 1 < int (ndigits c') + e'"
    using power_int_increasing [of "int (ndigits c') + e'" "int (ndigits c) + e - 1" "10::rat"]
    by (cases "int (ndigits c) + e - 1 < int (ndigits c') + e'") auto
  then show ?thesis by (simp add: last_place_def)
qed

lemma rounded_mono:
  assumes "0 < c" and "0 < c'" and "of_nat c * (10::rat) powi e \<le> of_nat c' * 10 powi e'"
  shows "half_even_at (last_place c e) (of_nat c * 10 powi e) \<le>
         half_even_at (last_place c' e') (of_nat c' * 10 powi e')"
proof (cases "last_place c e = last_place c' e'")
  case True
  then show ?thesis using half_even_at_mono [OF assms(3)] by simp
next
  case False
  let ?m = "last_place c e" and ?m' = "last_place c' e'"
  have less: "?m < ?m'" using last_place_mono [OF assms] False by simp
  then have m': "?m' = int (ndigits c') + e' - ctx_prec" by (auto simp: last_place_def)
  have "half_even_at ?m (of_nat c * 10 powi e) \<le> 10 powi (?m + ctx_prec)"
    by (rule rounded_below) (simp add: last_place_def)
  also have "\<dots> \<le> 10 powi (?m' + ctx_prec - 1)" using less by (intro power_int_increasing) simp_all
  also have "\<dots> = half_even_at ?m' (of_int 1 * 10 powi (?m' + ctx_prec - 1))"
    by (subst half_even_at_exact) simp_all
  also have "\<dots> \<le> half_even_at ?m' (of_nat c' * 10 powi e')"
    using value_above [OF assms(2), of e'] by (intro half_even_at_mono) (simp add: m')
  finally show ?thesis .
qed

lemma ctx_fix_value:
  assumes "ctx_fix s c e = Inr d"
  shows "is_finite d \<and> rval d = (if s then -1 else 1) * half_even_at (last_place c e) (of_nat c * 10 powi e)"
proof (cases "c = 0")
  case True
  then show ?thesis using assms by (auto simp: ctx_fix_def)
next
  case False
  let ?m = "last_place c e"
  have m: "max (int (ndigits c) + e - 28) ctx_etiny = ?m" by (simp add: last_place_def)
  show ?thesis
  proof (cases "e < ?m")
    case False
    then have "d = Fin s c e" using assms \<open>c \<noteq> 0\<close> by (auto simp: ctx_fix_def Let_def m split: if_splits)
    then show ?thesis
      using half_even_at_exact [of ?m e "int c"] False by (simp add: dsigned_def)
  next
    case True
    let ?q = "half_even c (10 ^ nat (?m - e))"
    have q: "half_even_at ?m (of_nat c * 10 powi e) = of_nat ?q * 10 powi ?m"
      using True by (intro half_even_scaled) simp
    show ?thesis
    proof (cases "ndigits ?q > 28")
      case False
      then have "d = Fin s ?q ?m"
        using assms True \<open>c \<noteq> 0\<close> by (auto simp: ctx_fix_def Let_def m split: if_splits)
      then show ?thesis by (simp add: q dsigned_def)
    next
      case big: True
      have "of_nat ?q * (10::rat) powi ?m \<le> 10 powi (?m + ctx_prec)"
        unfolding q [symmetric] by (rule rounded_below) (simp add: last_place_def)
      then have "(of_nat ?q :: rat) \<le> of_nat (10 ^ 28)" by (simp add: power_int_add)
      then have "?q \<le> 10 ^ 28" by (simp only: of_nat_le_iff)
      moreover have "10 ^ 28 \<le> ?q" using big ndigits_le_iff [of 28 ?q] by (simp add: not_less)
      ultimately have q10: "?q = 10 ^ 28" by simp
      have "d = Fin s (?q div 10) (?m + 1)"
        using assms True big \<open>c \<noteq> 0\<close> by (auto simp: ctx_fix_def Let_def m split: if_splits)
      then show ?thesis unfolding q by (simp add: q10 dsigned_def power_int_add)
    qed
  qed
qed

subsection \<open>What the operations return\<close>

text \<open>The value an operation returns for the exact non-negative result \<open>c * 10 ^ e\<close>.\<close>

definition rounded :: "nat \<Rightarrow> int \<Rightarrow> rat" where
  "rounded c e = half_even_at (last_place c e) (of_nat c * 10 powi e)"

lemma rounded_le:
  assumes "of_nat c * (10::rat) powi e \<le> of_nat c' * 10 powi e'"
  shows "rounded c e \<le> rounded c' e'"
proof (cases "c = 0")
  case True
  then show ?thesis by (simp add: rounded_def half_even_at_nonneg)
next
  case False
  then have "0 < of_nat c * (10::rat) powi e" by simp
  with assms have "0 < c'" by (cases "c' = 0") auto
  with False rounded_mono assms show ?thesis by (simp add: rounded_def)
qed

lemma rounded_cong: "of_nat c * (10::rat) powi e = of_nat c' * 10 powi e' \<Longrightarrow> rounded c e = rounded c' e'"
  by (intro order_antisym rounded_le) simp_all

lemma rounded_nonneg: "0 \<le> rounded c e"
  by (simp add: rounded_def half_even_at_nonneg)

lemma ctx_fix_rounded:
  "ctx_fix s c e = Inr d \<Longrightarrow> is_finite d \<and> rval d = (if s then -1 else 1) * rounded c e"
  using ctx_fix_value by (simp add: rounded_def)

lemma rounded_short: "c < 10 ^ 28 \<Longrightarrow> ctx_etiny \<le> e \<Longrightarrow> rounded c e = of_nat c * 10 powi e"
proof -
  assume "c < 10 ^ 28" and e: "ctx_etiny \<le> e"
  then have "ndigits c \<le> 28" by (simp add: ndigits_le_iff)
  then have "last_place c e \<le> e" using e by (simp add: last_place_def)
  from half_even_at_exact [OF this, of "int c"] show ?thesis by (simp add: rounded_def)
qed

lemma rounded_one: "rounded 1 0 = 1"
  using rounded_short [of 1 0] by (simp add: ctx_limits)

lemma abs_round_value:
  "ctx_round n e = Inr d \<Longrightarrow> is_finite d \<and> rval d = (if n < 0 then -1 else 1) * rounded (nat \<bar>n\<bar>) e"
  by (auto simp: ctx_round_def dest: ctx_fix_rounded)

lemma add_parts:
  assumes "ctx_add a b = Inr d"
  shows "\<exists>n m. rval a + rval b = of_int n * 10 powi m \<and> is_finite a \<and> is_finite b \<and> is_finite d \<and>
               rval d = (if n < 0 then -1 else 1) * rounded (nat \<bar>n\<bar>) m"
proof -
  from assms obtain s c e s' c' e' where ab: "a = Fin s c e" "b = Fin s' c' e'"
    by (cases a; cases b) auto
  let ?m = "min e e'"
  let ?n = "dsigned s c * 10 ^ nat (e - ?m) + dsigned s' c' * 10 ^ nat (e' - ?m)"
  have "rval a + rval b = of_int ?n * 10 powi ?m"
    using rval_aligned [of ?m e s c] rval_aligned [of ?m e' s' c']
    unfolding ab by (simp only: min.cobounded1 min.cobounded2 of_int_add distrib_right)
  moreover have "is_finite d \<and> rval d = (if ?n < 0 then -1 else 1) * rounded (nat \<bar>?n\<bar>) ?m"
  proof (cases "?n = 0")
    case True
    then have "ctx_fix (c = 0 \<and> c' = 0 \<and> s \<and> s') 0 ?m = Inr d"
      using assms by (simp add: ab Let_def)
    moreover have "rounded 0 ?m = 0" by (simp add: rounded_def)
    ultimately show ?thesis using True ctx_fix_rounded by fastforce
  next
    case False
    then have "ctx_round ?n ?m = Inr d" using assms by (simp add: ab Let_def)
    then show ?thesis by (rule abs_round_value)
  qed
  ultimately show ?thesis using ab by (intro exI [of _ ?n] exI [of _ ?m]) simp
qed

text \<open>Addition and subtraction are monotone, and the sum of non-negative values is non-negative.\<close>

lemma signed_rounded_mono:
  assumes "of_int n * (10::rat) powi m \<le> of_int n' * 10 powi m'"
  shows "(if n < 0 then -1 else 1) * rounded (nat \<bar>n\<bar>) m \<le>
         (if n' < 0 then -1 else 1) * rounded (nat \<bar>n'\<bar>) m'"
proof -
  have neg: "n < 0" if "n' < 0"
  proof -
    have "of_int n' * (10::rat) powi m' < 0" using that by (simp add: mult_less_0_iff)
    with assms have "of_int n * (10::rat) powi m < 0" by linarith
    then show ?thesis by (simp add: mult_less_0_iff)
  qed
  consider "n < 0" "0 \<le> n'" | "0 \<le> n" "0 \<le> n'" | "n < 0" "n' < 0" using neg by linarith
  then show ?thesis
  proof cases
    case 1
    then show ?thesis using rounded_nonneg [of "nat \<bar>n\<bar>" m] rounded_nonneg [of "nat \<bar>n'\<bar>" m'] by simp
  next
    case 2
    then show ?thesis using assms rounded_le [of "nat n" m "nat n'" m'] by simp
  next
    case 3
    then show ?thesis using assms rounded_le [of "nat (- n')" m' "nat (- n)" m] by simp
  qed
qed

lemma ctx_add_mono:
  assumes "ctx_add a b = Inr d" and "ctx_add a' b' = Inr d'"
    and "rval a + rval b \<le> rval a' + rval b'"
  shows "rval d \<le> rval d'"
proof -
  obtain n m where 1: "rval a + rval b = of_int n * 10 powi m"
    "rval d = (if n < 0 then -1 else 1) * rounded (nat \<bar>n\<bar>) m"
    using add_parts [OF assms(1)] by blast
  obtain n' m' where 2: "rval a' + rval b' = of_int n' * 10 powi m'"
    "rval d' = (if n' < 0 then -1 else 1) * rounded (nat \<bar>n'\<bar>) m'"
    using add_parts [OF assms(2)] by blast
  show ?thesis unfolding 1(2) 2(2) using assms(3) 1(1) 2(1) by (intro signed_rounded_mono) simp
qed

lemma ctx_add_finite: "ctx_add a b = Inr d \<Longrightarrow> is_finite a \<and> is_finite b \<and> is_finite d"
  using add_parts by blast

lemma rval_negate [simp]: "rval (dec_copy_negate d) = - rval d"
  by (cases d) (simp_all add: dsigned_def)

lemma ctx_add_nonneg:
  assumes "ctx_add a b = Inr d" and "0 \<le> rval a" and "0 \<le> rval b" shows "0 \<le> rval d"
proof -
  have "ctx_add dec_zero dec_zero = Inr dec_zero" by (simp add: ctx_fix_def ctx_limits)
  from ctx_add_mono [OF this assms(1)] assms(2,3) show ?thesis by simp
qed

subsection \<open>Correct rounding\<close>

text \<open>\<open>r\<close> is the non-negative value \<open>v\<close> rounded half-even to 28 significant digits, or at the smallest
  exponent when \<open>v\<close> is subnormal.\<close>

definition rounds_to :: "rat \<Rightarrow> rat \<Rightarrow> bool" where
  "rounds_to v r \<longleftrightarrow>
     (v = 0 \<and> r = 0) \<or>
     (\<exists>m. ctx_etiny \<le> m \<and> 0 < v \<and> v < 10 powi (m + ctx_prec) \<and>
          (m = ctx_etiny \<or> 10 powi (m + ctx_prec - 1) \<le> v) \<and> r = half_even_at m v)"

definition correctly_rounded :: "rat \<Rightarrow> rat \<Rightarrow> bool" where
  "correctly_rounded v r \<longleftrightarrow> (if v < 0 then rounds_to (- v) (- r) else rounds_to v r)"

lemma rounds_to_mono:
  assumes "rounds_to v r" and "rounds_to v' r'" and "v \<le> v'" shows "r \<le> r'"
proof (cases "v = 0")
  case True
  then have "r = 0" using assms(1) by (auto simp: rounds_to_def)
  then show ?thesis using assms(2) by (auto simp: rounds_to_def half_even_at_nonneg)
next
  case False
  with assms(1) obtain m where m: "ctx_etiny \<le> m" "0 < v" "v < 10 powi (m + ctx_prec)"
    "m = ctx_etiny \<or> 10 powi (m + ctx_prec - 1) \<le> v" "r = half_even_at m v"
    by (auto simp: rounds_to_def)
  with assms(2,3) obtain m' where m': "ctx_etiny \<le> m'" "v' < 10 powi (m' + ctx_prec)"
    "m' = ctx_etiny \<or> 10 powi (m' + ctx_prec - 1) \<le> v'" "r' = half_even_at m' v'"
    by (auto simp: rounds_to_def)
  show ?thesis
  proof (cases m m' rule: linorder_cases)
    case equal
    then show ?thesis using half_even_at_mono assms(3) m m' by simp
  next
    case less
    have "r \<le> half_even_at m (of_int 1 * 10 powi (m + ctx_prec))"
      unfolding m(5) using m(3) by (intro half_even_at_mono) simp
    also have "\<dots> = 10 powi (m + ctx_prec)" by (subst half_even_at_exact) simp_all
    also have "\<dots> \<le> (10::rat) powi (m' + ctx_prec - 1)" using less by (intro power_int_increasing) simp_all
    also have "\<dots> = half_even_at m' (of_int 1 * 10 powi (m' + ctx_prec - 1))"
      by (subst half_even_at_exact) simp_all
    also have "\<dots> \<le> r'" unfolding m'(4) using m' less m(1) by (intro half_even_at_mono) auto
    finally show ?thesis .
  next
    case greater
    then have "10 powi (m + ctx_prec - 1) \<le> v" using m m'(1) by auto
    moreover have "(10::rat) powi (m' + ctx_prec) \<le> 10 powi (m + ctx_prec - 1)"
      using greater by (intro power_int_increasing) simp_all
    ultimately have False using m'(2) assms(3) by linarith
    then show ?thesis ..
  qed
qed

lemma rounds_to_nonneg: "rounds_to v r \<Longrightarrow> 0 \<le> r"
  unfolding rounds_to_def by (elim disjE exE conjE) (simp_all add: half_even_at_nonneg)

lemma correctly_rounded_mono:
  assumes "correctly_rounded v r" and "correctly_rounded v' r'" and "v \<le> v'" shows "r \<le> r'"
proof -
  consider "v < 0" "v' < 0" | "v < 0" "0 \<le> v'" | "0 \<le> v" "0 \<le> v'" using assms(3) by linarith
  then show ?thesis
  proof cases
    case 1
    then show ?thesis using rounds_to_mono [of "- v'" "- r'" "- v" "- r"] assms
      by (simp add: correctly_rounded_def)
  next
    case 2
    then show ?thesis using rounds_to_nonneg [of "- v" "- r"] rounds_to_nonneg [of v' r'] assms
      by (simp add: correctly_rounded_def)
  next
    case 3
    then show ?thesis using rounds_to_mono assms by (simp add: correctly_rounded_def)
  qed
qed

lemma rounded_rounds_to: "rounds_to (of_nat c * 10 powi e) (rounded c e)"
proof (cases "c = 0")
  case True
  then show ?thesis by (simp add: rounds_to_def rounded_def)
next
  case False
  let ?m = "last_place c e"
  have "(10::rat) powi (int (ndigits c) + e) \<le> 10 powi (?m + ctx_prec)"
    by (intro power_int_increasing) (simp_all add: last_place_def)
  then have "of_nat c * (10::rat) powi e < 10 powi (?m + ctx_prec)"
    using value_below [of c e] by linarith
  moreover have "10 powi (?m + ctx_prec - 1) \<le> of_nat c * (10::rat) powi e" if "?m \<noteq> ctx_etiny"
  proof -
    from that have m: "?m = int (ndigits c) + e - ctx_prec" by (auto simp: last_place_def)
    show ?thesis unfolding m using value_above [of c e] False by (simp add: algebra_simps)
  qed
  moreover have "ctx_etiny \<le> ?m" by (simp add: last_place_def)
  ultimately show ?thesis using False by (auto simp: rounds_to_def rounded_def)
qed

lemma correctly_rounded_signed:
  assumes "v = (if s then -1 else 1) * (of_nat c * 10 powi e)" and "r = (if s then -1 else 1) * rounded c e"
  shows "correctly_rounded v r"
proof (cases "c = 0")
  case True
  then show ?thesis using assms by (auto simp: correctly_rounded_def rounds_to_def rounded_def)
next
  case False
  then have "0 < of_nat c * (10::rat) powi e" by simp
  then show ?thesis
    using assms rounded_rounds_to [of c e] by (auto simp: correctly_rounded_def)
qed

text \<open>A quotient cut off below the last place and marked by a digit that is no multiple of five rounds
  as the exact quotient does.\<close>

lemma sticky_rounding:
  fixes Q :: rat
  assumes "c mod 5 \<noteq> 0" and near: "\<bar>Q - of_nat c\<bar> < 1" and "0 < k"
  shows "round_rat ROUND_HALF_EVEN (Q / 10 ^ k) = round_rat ROUND_HALF_EVEN (of_nat c / 10 ^ k)"
proof -
  let ?P = "10 ^ k :: nat" and ?h = "5 * 10 ^ (k - 1) :: nat"
  have P: "?P = 2 * ?h" using assms(3) by (cases k) simp_all
  then have five: "?P mod 5 = 0" "?h mod 5 = 0" by (simp_all add: mod_mult_left_eq)
  let ?f = "c div ?P" and ?r = "c mod ?P"
  have c: "c = ?f * ?P + ?r" by (rule div_mult_mod_eq [symmetric])
  have r5: "?r mod 5 \<noteq> 0"
  proof
    assume "?r mod 5 = 0"
    then have "5 dvd ?r" and "5 dvd ?f * ?P" using five by (auto simp: mod_0_imp_dvd)
    then have "5 dvd c" using c by (metis dvd_add)
    then show False using assms(1) by (simp )
  qed
  then have r: "0 < ?r" "?r < ?P" "?r \<noteq> ?h" using five by (auto intro: Nat.gr0I)
  define t where "t = (Q - of_nat (?f * ?P)) / of_nat ?P"
  have Pr: "(0::rat) < of_nat ?P" by simp
  have near': "of_nat ?r - 1 < Q - of_nat (?f * ?P)" "Q - of_nat (?f * ?P) < of_nat ?r + 1"
  proof -
    have "(of_nat c :: rat) = of_nat (?f * ?P) + of_nat ?r" by (metis c of_nat_add)
    then show "of_nat ?r - 1 < Q - of_nat (?f * ?P)" "Q - of_nat (?f * ?P) < of_nat ?r + 1"
      using near by linarith+
  qed
  have "1 \<le> ?r" and "?r + 1 \<le> ?P" using r by linarith+
  then have "(1::rat) \<le> of_nat ?r" and "(of_nat ?r :: rat) + 1 \<le> of_nat ?P"
    by (metis of_nat_1 of_nat_le_iff, metis of_nat_1 of_nat_add of_nat_le_iff)
  then have t: "0 \<le> t" "t < 1" using near' Pr unfolding t_def by (simp_all add: field_simps)
  have u: "0 \<le> (of_nat ?r / of_nat ?P :: rat)" "(of_nat ?r / of_nat ?P :: rat) < 1"
    using r by (simp_all add: divide_less_eq flip: of_nat_power)
  have Q: "Q / 10 ^ k = of_int (int ?f) + t"
    unfolding t_def by (simp add: field_simps)
  have C: "(of_nat c :: rat) / 10 ^ k = of_int (int ?f) + of_nat ?r / of_nat ?P"
  proof -
    have "(of_nat c :: rat) = of_nat ?f * of_nat ?P + of_nat ?r" by (metis c of_nat_add of_nat_mult)
    then show ?thesis by (simp add: add_divide_distrib)
  qed
  have half: "t < 1 / 2 \<longleftrightarrow> ?r < ?h" "t \<noteq> 1 / 2" "of_nat ?r / of_nat ?P < (1 / 2 :: rat) \<longleftrightarrow> ?r < ?h"
    "of_nat ?r / of_nat ?P \<noteq> (1 / 2 :: rat)"
  proof -
    have P2: "(of_nat ?P :: rat) = 2 * of_nat ?h" by (metis P of_nat_mult of_nat_numeral)
    have hpos: "(0::rat) < of_nat ?h" by simp
    consider "?r + 1 \<le> ?h" | "?h + 1 \<le> ?r" using r(3) by linarith
    then have "(t < 1 / 2 \<longleftrightarrow> ?r < ?h) \<and> t \<noteq> 1 / 2"
    proof cases
      case 1
      then have "(of_nat ?r :: rat) + 1 \<le> of_nat ?h" by (metis of_nat_1 of_nat_add of_nat_le_iff)
      then have "t < 1 / 2" using near'(2) hpos unfolding t_def P2 by (simp add: divide_less_eq)
      then show ?thesis using 1 by simp
    next
      case 2
      then have "(of_nat ?h :: rat) + 1 \<le> of_nat ?r" by (metis of_nat_1 of_nat_add of_nat_le_iff)
      then have "1 / 2 < t" using near'(1) hpos unfolding t_def P2 by (simp add: less_divide_eq)
      then show ?thesis using 2 by simp
    qed
    then show "t < 1 / 2 \<longleftrightarrow> ?r < ?h" "t \<noteq> 1 / 2" by simp_all
    show "of_nat ?r / of_nat ?P < (1 / 2 :: rat) \<longleftrightarrow> ?r < ?h"
      unfolding P2 using hpos by (simp add: divide_less_eq del: of_nat_mult of_nat_power)
    show "of_nat ?r / of_nat ?P \<noteq> (1 / 2 :: rat)"
      unfolding P2 using hpos r(3) by (simp add: divide_eq_eq del: of_nat_mult of_nat_power)
  qed
  show ?thesis
    unfolding Q C round_rat_floor Let_def round_parts [OF t] round_parts [OF u] using half by simp
qed

lemma sticky_digits:
  assumes "c \<le> (Q :: rat)" and "Q < c + 1" and "c = of_nat q" and "0 < q"
    and "c' = (if q mod 5 = 0 then q + 1 else q)" and "ndigits c' = n" and "2 \<le> n"
  shows "10 ^ (n - 1) \<le> Q \<and> Q < 10 ^ n"
proof -
  have up: "(of_nat c' :: rat) \<le> 10 ^ n - 1"
  proof -
    have "c' + 1 \<le> 10 ^ n" using ndigits_less [of c'] assms(6) by simp
    then have "(of_nat (c' + 1) :: rat) \<le> of_nat (10 ^ n)" by (simp only: of_nat_le_iff)
    then show ?thesis by simp
  qed
  have low: "10 ^ (n - 1) \<le> c'" using ndigits_ge [of c'] assms(4,5,6) by (auto split: if_splits)
  have "10 ^ (n - 1) \<le> q"
  proof (cases "q mod 5 = 0")
    case True
    have "(10::nat) ^ (n - 1) mod 5 = 0"
      using assms(7) by (cases "n - 1") (simp_all add: mod_mult_left_eq)
    moreover have "(q + 1) mod 5 = 1" using True by presburger
    ultimately have "10 ^ (n - 1) \<noteq> q + 1" by (intro notI) simp
    then show ?thesis using low True assms(5) by simp
  next
    case False
    then show ?thesis using low assms(5) by simp
  qed
  then have "(of_nat (10 ^ (n - 1)) :: rat) \<le> of_nat q" by (simp only: of_nat_le_iff)
  then have "(10::rat) ^ (n - 1) \<le> of_nat q" by simp
  then have "10 ^ (n - 1) \<le> Q" using assms(1,3) by linarith
  moreover have "(of_nat q :: rat) \<le> of_nat c'" using assms(5) by simp
  then have "Q < 10 ^ n" using assms(2,3) up by linarith
  ultimately show ?thesis ..
qed

lemma sticky_correct:
  fixes q D N :: nat and x :: int
  assumes "0 < D" and q: "q = N div D" and inexact: "N mod D \<noteq> 0" and big: "10 ^ 28 \<le> q"
    and c': "c' = (if q mod 5 = 0 then q + 1 else q)"
  shows "rounds_to (of_nat N / of_nat D * 10 powi x) (rounded c' x)"
proof -
  let ?Q = "of_nat N / of_nat D :: rat" and ?m = "last_place c' x"
  have N: "N = q * D + N mod D" by (simp add: q)
  have "(of_nat N :: rat) = of_nat q * of_nat D + of_nat (N mod D)" by (metis N of_nat_add of_nat_mult)
  then have Q: "?Q = of_nat q + of_nat (N mod D) / of_nat D"
    using assms(1) by (simp add: add_divide_distrib)
  have part: "0 < (of_nat (N mod D) :: rat) / of_nat D" "(of_nat (N mod D) :: rat) / of_nat D < 1"
    using inexact assms(1) by (simp_all add: divide_less_eq)
  have bounds: "of_nat q \<le> ?Q" "?Q < of_nat q + 1" "of_nat q < ?Q" using Q part by simp_all
  have "0 < q" using big by (metis gr0I not_one_le_zero one_le_numeral one_le_power order_trans)
  have "q \<le> c'" using c' by simp
  then have n29: "28 < ndigits c'"
    using big ndigits_le_iff [of 28 c'] by (simp add: not_le [symmetric])
  let ?n = "ndigits c'"
  have Qn: "10 ^ (?n - 1) \<le> ?Q \<and> ?Q < 10 ^ ?n"
    using sticky_digits [OF bounds(1,2) refl \<open>0 < q\<close> c' refl] n29 by simp
  have less: "x < ?m" using n29 by (simp add: last_place_def)
  have near: "\<bar>?Q - of_nat c'\<bar> < 1" using bounds c' by auto
  have c5: "c' mod 5 \<noteq> 0" using c' by (auto simp: mod_Suc)
  let ?k = "nat (?m - x)"
  have split: "(10::rat) powi ?m = 10 ^ ?k * 10 powi x" using less by (intro ten_powi_split) simp
  have "half_even_at ?m (?Q * 10 powi x) = half_even_at ?m (of_nat c' * 10 powi x)"
    using sticky_rounding [OF c5 near, of ?k] less
    by (simp add: half_even_at_def split)
  then have r: "rounded c' x = half_even_at ?m (?Q * 10 powi x)" by (simp add: rounded_def)
  have "?Q * 10 powi x < 10 ^ ?n * 10 powi x"
    using Qn by (intro mult_strict_right_mono) simp_all
  also have "\<dots> = (10::rat) powi (int ?n + x)" by (simp add: power_int_add)
  also have "\<dots> \<le> 10 powi (?m + ctx_prec)"
    by (intro power_int_increasing) (simp_all add: last_place_def)
  finally have upper: "?Q * 10 powi x < 10 powi (?m + ctx_prec)" .
  have lower: "10 powi (?m + ctx_prec - 1) \<le> ?Q * 10 powi x" if "?m \<noteq> ctx_etiny"
  proof -
    have m: "?m + ctx_prec - 1 = int (?n - 1) + x"
      using that n29 by (auto simp: last_place_def)
    have "(10::rat) powi (int (?n - 1) + x) = 10 ^ (?n - 1) * 10 powi x"
      by (simp only: power_int_add [OF disjI1 [OF ten_ne]] power_int_of_nat)
    moreover have "10 ^ (?n - 1) * 10 powi x \<le> ?Q * 10 powi x"
      using Qn by (intro mult_right_mono) simp_all
    ultimately show ?thesis unfolding m by linarith
  qed
  have "ctx_etiny \<le> ?m" by (simp add: last_place_def)
  moreover have "0 < ?Q * 10 powi x"
  proof -
    have "(0::rat) < of_nat q" using \<open>0 < q\<close> by simp
    then have "0 < ?Q" using bounds(1) by linarith
    then show ?thesis by (rule mult_pos_pos) simp
  qed
  ultimately show ?thesis using upper lower r unfolding rounds_to_def by blast
qed

lemma strip_towards_value:
  "strip_towards i c e = (c', e') \<Longrightarrow> (of_nat c' :: rat) * 10 powi e' = of_nat c * 10 powi e"
proof (induction i c e rule: strip_towards.induct)
  case (1 i c e)
  show ?case
  proof (cases "e < i \<and> c mod 10 = 0 \<and> c \<noteq> 0")
    case True
    with 1 have IH: "(of_nat c' :: rat) * 10 powi e' = of_nat (c div 10) * 10 powi (e + 1)"
      by (simp add: strip_towards.simps [of i c e])
    from True have "c = (c div 10) * 10" by auto
    then have "(of_nat c :: rat) = of_nat (c div 10) * 10" by (metis of_nat_mult of_nat_numeral)
    with IH show ?thesis by (simp add: power_int_add mult.assoc)
  next
    case False
    with "1.prems" show ?thesis by (auto simp: strip_towards.simps [of i c e] split: if_splits)
  qed
qed

text \<open>The scaled quotient has at least 29 digits.\<close>

lemma scaled_quotient_big:
  assumes "0 < c" and "0 < c'"
    and shift: "shift = int (ndigits c') - int (ndigits c) + 29"
  shows "10 ^ 28 \<le> c * 10 ^ nat shift div (c' * 10 ^ nat (- shift))"
proof -
  have c: "10 ^ (ndigits c - 1) \<le> c" and c': "c' \<le> 10 ^ ndigits c'"
    using ndigits_ge [of c] assms(1) ndigits_less [of c'] by simp_all
  have "28 + ndigits c' + nat (- shift) = ndigits c - 1 + nat shift"
    unfolding shift using ndigits_pos [of c] by arith
  then have "(10::nat) ^ 28 * (10 ^ ndigits c' * 10 ^ nat (- shift)) = 10 ^ (ndigits c - 1) * 10 ^ nat shift"
    by (metis add.assoc power_add)
  moreover have "10 ^ 28 * (c' * 10 ^ nat (- shift)) \<le> (10::nat) ^ 28 * (10 ^ ndigits c' * 10 ^ nat (- shift))"
    using c' by simp
  moreover have "10 ^ (ndigits c - 1) * 10 ^ nat shift \<le> c * 10 ^ nat shift" using c by simp
  ultimately have "10 ^ 28 * (c' * 10 ^ nat (- shift)) \<le> c * 10 ^ nat shift" by linarith
  then have "(10 ^ 28 * (c' * 10 ^ nat (- shift))) div (c' * 10 ^ nat (- shift))
      \<le> c * 10 ^ nat shift div (c' * 10 ^ nat (- shift))" by (rule div_le_mono)
  then show ?thesis using assms(2) by simp
qed

lemma powi_ratio: "(10::rat) powi s = 10 ^ nat s / 10 ^ nat (- s)"
proof (cases "0 \<le> s")
  case False
  then have "nat s = 0" by simp
  moreover have "(10::rat) powi s = inverse 10 ^ nat (- s)"
    using False by (simp only: power_int_def if_False)
  ultimately show ?thesis by (simp only: power_one_over power_0 inverse_eq_divide)
qed (simp add: power_int_def)

lemma shifted_ratio:
  "of_nat c / of_nat c' * (10::rat) powi x =
   of_nat (c * 10 ^ nat s) / of_nat (c' * 10 ^ nat (- s)) * 10 powi (x - s)"
proof -
  have "(10::rat) powi x = 10 powi (s + (x - s))" by simp
  also have "\<dots> = 10 powi s * 10 powi (x - s)" by (rule power_int_add) simp
  finally have "(10::rat) powi x = 10 ^ nat s / 10 ^ nat (- s) * 10 powi (x - s)"
    unfolding powi_ratio [of s] .
  then show ?thesis by simp
qed

lemma ctx_divide_parts:
  assumes "ctx_divide a b = Inr d"
  shows "is_finite a \<and> is_finite b \<and> is_finite d \<and> rval b \<noteq> 0 \<and>
         correctly_rounded (rval a / rval b) (rval d)"
proof -
  from assms obtain s c e s' c' e' where ab: "a = Fin s c e" "b = Fin s' c' e'"
    by (cases a; cases b) auto
  have c': "c' \<noteq> 0" using assms by (cases "c' = 0") (auto simp: ab)
  have sign: "rval a / rval b = (if s \<noteq> s' then -1 else 1) * (of_nat c / of_nat c' * 10 powi (e - e'))"
    by (auto simp: ab dsigned_def power_int_diff)
  show ?thesis
  proof (cases "c = 0")
    case True
    then have "ctx_fix (s \<noteq> s') 0 (e - e') = Inr d" using assms c' by (simp add: ab)
    from ctx_fix_rounded [OF this] True c' show ?thesis
      by (auto simp: ab correctly_rounded_def rounds_to_def rounded_def)
  next
    case False
    define sh where "sh = int (ndigits c') - int (ndigits c) + ctx_prec + 1"
    define N where "N = c * 10 ^ nat sh"
    define D where "D = c' * 10 ^ nat (- sh)"
    define q where "q = N div D"
    have D: "0 < D" using c' by (simp add: D_def)
    have big: "10 ^ 28 \<le> q"
      unfolding q_def N_def D_def using False c' by (intro scaled_quotient_big) (simp_all add: sh_def)
    have exact: "of_nat c / of_nat c' * (10::rat) powi (e - e') = of_nat N / of_nat D * 10 powi (e - e' - sh)"
      unfolding N_def D_def by (rule shifted_ratio)
    have step: "(if N mod D \<noteq> 0
           then ctx_fix (s \<noteq> s') (if q mod 5 = 0 then q + 1 else q) (e - e' - sh)
           else case strip_towards (e - e') q (e - e' - sh) of
                  (q', x) \<Rightarrow> ctx_fix (s \<noteq> s') q' x) = Inr d"
      using assms c' False
      unfolding ab ctx_divide.simps Let_def sh_def [symmetric] N_def [symmetric] D_def [symmetric]
        q_def [symmetric]
      by simp
    show ?thesis
    proof (cases "N mod D = 0")
      case False
      define q5 where "q5 = (if q mod 5 = 0 then q + 1 else q)"
      have "ctx_fix (s \<noteq> s') q5 (e - e' - sh) = Inr d" using step False by (simp add: q5_def)
      note fixed = ctx_fix_rounded [OF this]
      have r: "rounds_to (of_nat c / of_nat c' * 10 powi (e - e')) (rounded q5 (e - e' - sh))"
        unfolding exact by (rule sticky_correct [OF D q_def False big q5_def])
      have "0 < of_nat c / of_nat c' * (10::rat) powi (e - e')" using c' \<open>c \<noteq> 0\<close> by simp
      then have "correctly_rounded (rval a / rval b) (rval d)"
        using fixed r unfolding sign by (auto simp: correctly_rounded_def)
      then show ?thesis using fixed c' by (simp add: ab)
    next
      case True
      obtain q' x where strip: "strip_towards (e - e') q (e - e' - sh) = (q', x)" by fastforce
      have "ctx_fix (s \<noteq> s') q' x = Inr d" using step True strip by simp
      note fixed = ctx_fix_rounded [OF this]
      have "N = q * D" using True by (metis add.right_neutral div_mult_mod_eq q_def)
      then have "(of_nat N :: rat) / of_nat D = of_nat q" using D by simp
      with strip_towards_value [OF strip] have
        eq: "of_nat c / of_nat c' * (10::rat) powi (e - e') = of_nat q' * 10 powi x" unfolding exact by simp
      have "correctly_rounded (rval a / rval b) (rval d)"
        using fixed unfolding sign eq by (intro correctly_rounded_signed [OF refl]) simp
      then show ?thesis using fixed c' by (simp add: ab)
    qed
  qed
qed

lemma ctx_multiply_parts:
  assumes "ctx_multiply a b = Inr d"
  shows "is_finite a \<and> is_finite b \<and> is_finite d \<and> correctly_rounded (rval a * rval b) (rval d)"
proof -
  from assms obtain s c e s' c' e' where ab: "a = Fin s c e" "b = Fin s' c' e'"
    by (cases a; cases b) auto
  have "ctx_fix (s \<noteq> s') (c * c') (e + e') = Inr d" using assms by (simp add: ab)
  note fixed = ctx_fix_rounded [OF this]
  have "rval a * rval b = (if s \<noteq> s' then -1 else 1) * (of_nat (c * c') * 10 powi (e + e'))"
    by (auto simp: ab dsigned_def power_int_add)
  from correctly_rounded_signed [OF this fixed [THEN conjunct2]] fixed ab show ?thesis by simp
qed

lemma ctx_add_parts:
  assumes "ctx_add a b = Inr d"
  shows "is_finite a \<and> is_finite b \<and> is_finite d \<and> correctly_rounded (rval a + rval b) (rval d)"
proof -
  obtain n m where 1: "rval a + rval b = of_int n * 10 powi m"
    "rval d = (if n < 0 then -1 else 1) * rounded (nat \<bar>n\<bar>) m"
    using add_parts [OF assms] by blast
  have "(of_int n :: rat) = (if n < 0 then -1 else 1) * of_nat (nat \<bar>n\<bar>)" by simp
  then have "rval a + rval b = (if n < 0 then -1 else 1) * (of_nat (nat \<bar>n\<bar>) * 10 powi m)"
    using 1(1) by (metis mult.assoc)
  then show ?thesis using ctx_add_finite [OF assms] 1(2) by (blast intro: correctly_rounded_signed)
qed

lemma ctx_subtract_parts:
  assumes "ctx_subtract a b = Inr d"
  shows "is_finite a \<and> is_finite b \<and> is_finite d \<and> correctly_rounded (rval a - rval b) (rval d)"
proof -
  have "is_finite (dec_copy_negate b) = is_finite b" by (cases b) simp_all
  then show ?thesis using ctx_add_parts [OF assms [unfolded ctx_subtract_def]] by simp
qed

lemma correctly_rounded_zero: "correctly_rounded 0 0"
  by (simp add: correctly_rounded_def rounds_to_def)

lemma correctly_rounded_one: "correctly_rounded 1 1"
  using rounded_rounds_to [of 1 0] rounded_one by (simp add: correctly_rounded_def)

lemma correctly_rounded_nonneg: "correctly_rounded v r \<Longrightarrow> 0 \<le> v \<Longrightarrow> 0 \<le> r"
  using correctly_rounded_mono [OF correctly_rounded_zero] by blast

lemma correctly_rounded_unit: "correctly_rounded v r \<Longrightarrow> 0 \<le> v \<Longrightarrow> v \<le> 1 \<Longrightarrow> 0 \<le> r \<and> r \<le> 1"
  using correctly_rounded_mono [OF _ correctly_rounded_one] correctly_rounded_nonneg by blast

subsection \<open>Properties\<close>

text \<open>Every operation of the 28-digit context returns the exact result rounded half-even to 28
  significant digits (or at the smallest exponent), the quotient included, although the code rounds
  a truncated quotient with a sticky digit; and the rounding is monotone, so no operation ever
  reverses the order of two exact results.\<close>

theorem context_arithmetic_correctly_rounded:
  "(ctx_add a b = Inr d \<longrightarrow> correctly_rounded (rval a + rval b) (rval d)) \<and>
   (ctx_subtract a b = Inr d \<longrightarrow> correctly_rounded (rval a - rval b) (rval d)) \<and>
   (ctx_multiply a b = Inr d \<longrightarrow> correctly_rounded (rval a * rval b) (rval d)) \<and>
   (ctx_divide a b = Inr d \<longrightarrow> rval b \<noteq> 0 \<and> correctly_rounded (rval a / rval b) (rval d)) \<and>
   (correctly_rounded v r \<longrightarrow> correctly_rounded v' r' \<longrightarrow> v \<le> v' \<longrightarrow> r \<le> r')"
  using ctx_add_parts ctx_subtract_parts ctx_multiply_parts ctx_divide_parts correctly_rounded_mono
  by blast

lemma sample_quotient:
  "ctx_divide (Fin False 2 0) (Fin False 3 0) = Inr (Fin False 6666666666666666666666666667 (-28))"
  by (simp add: ctx_fix_def half_even_def py_eval Let_def)

lemma context_arithmetic_correctly_rounded_witness:
  "correctly_rounded (rval (Fin False 2 0) / rval (Fin False 3 0))
     (rval (Fin False 6666666666666666666666666667 (-28)))"
  using context_arithmetic_correctly_rounded sample_quotient by blast

end
