(* ===== verification/Scoring.thy ===== *)
theory Scoring
  imports DecimalContext Invariants "HOL-Library.Product_Lexorder"
begin

text \<open>
  Candidate scoring: the value objects of \<open>app/scoring/base.py\<close> and the engine of
  \<open>app/scoring/engine.py\<close>.

  A metric of a candidate is any Python object; only a finite \<open>Decimal\<close> can be scored, so the model
  distinguishes \<open>MDecimal\<close> from everything else.  \<open>str.isidentifier\<close> is computed on ASCII text; for
  other text it depends on the Unicode tables, which are the parameter \<open>unicode_id\<close>.
\<close>

definition is_identifier :: "(string \<Rightarrow> bool) \<Rightarrow> string \<Rightarrow> bool" where
  "is_identifier unicode_id s =
     (if is_ascii s
      then (case s of [] \<Rightarrow> False | ch # rest \<Rightarrow> identifier_start ch \<and> list_all identifier_part rest)
      else unicode_id s)"

definition require_factor_identifier :: "(string \<Rightarrow> bool) \<Rightarrow> string \<Rightarrow> string \<Rightarrow> exn + unit" where
  "require_factor_identifier unicode_id v field_name =
     (if \<not> is_identifier unicode_id v
      then Inl (ScoringError (field_name @ '' must be a Python-identifier-like configured key''))
      else if length v > MAX_IDENTIFIER_UTF8_BYTES
      then Inl (ScoringError (field_name @ '' exceeds the 256-byte UTF-8 limit''))
      else Inr ())"

subsection \<open>Configuration\<close>

datatype factor_direction = HIGHER_IS_BETTER | LOWER_IS_BETTER

datatype tie_break_policy = INSTRUMENT_ID_ASCENDING

datatype factor_score_status = FACTOR_SCORED | FACTOR_MISSING | FACTOR_INVALID

datatype candidate_score_status = RANKED | MISSING_METRIC | INVALID_METRIC

record linear_normalization =
  norm_lower_bound :: decimal
  norm_upper_bound :: decimal

definition linear_normalization_post_init ::
    "linear_normalization \<Rightarrow> exn + linear_normalization" where
  "linear_normalization_post_init n =
     bindE (require_finite_decimal (norm_lower_bound n) ''normalization lower_bound'') (\<lambda>_.
     bindE (require_finite_decimal (norm_upper_bound n) ''normalization upper_bound'') (\<lambda>_.
     if dec_le (norm_upper_bound n) (norm_lower_bound n)
     then Inl (ScoringError ''normalization lower_bound must be smaller than upper_bound'')
     else Inr n))"

definition normalize :: "linear_normalization \<Rightarrow> decimal \<Rightarrow> exn + decimal" where
  "normalize n v =
     bindE (require_finite_decimal v ''factor metric'') (\<lambda>_.
     bindE (ctx_subtract v (norm_lower_bound n)) (\<lambda>num.
     bindE (ctx_subtract (norm_upper_bound n) (norm_lower_bound n)) (\<lambda>den.
     bindE (ctx_divide num den) (\<lambda>normalized.
     if dec_lt normalized dec_zero then Inr dec_zero
     else if dec_lt dec_one normalized then Inr dec_one
     else Inr normalized))))"

record factor_configuration =
  fac_factor_id :: string
  fac_weight :: decimal
  fac_direction :: factor_direction
  fac_normalization :: linear_normalization

definition factor_configuration_post_init ::
    "(string \<Rightarrow> bool) \<Rightarrow> factor_configuration \<Rightarrow> exn + factor_configuration" where
  "factor_configuration_post_init uid f =
     bindE (require_factor_identifier uid (fac_factor_id f) ''factor_id'') (\<lambda>_.
     bindE (require_finite_decimal (fac_weight f) ''factor weight'') (\<lambda>_.
     if dec_le (fac_weight f) dec_zero then Inl (ScoringError ''factor weight must be positive'')
     else Inr f))"

record scoring_configuration =
  scf_factors :: "factor_configuration list"
  scf_tie_breaker :: tie_break_policy

definition scoring_configuration_post_init ::
    "scoring_configuration \<Rightarrow> exn + scoring_configuration" where
  "scoring_configuration_post_init c =
     (if scf_factors c = []
      then Inl (ScoringError ''scoring configuration must contain at least one factor'')
      else if \<not> distinct (map fac_factor_id (scf_factors c))
      then Inl (ScoringError ''factor ids must be unique'')
      else Inr c)"

datatype metric_value = MDecimal decimal | MOther

record candidate_metrics =
  cm_instrument :: instrument_ref
  cm_metrics :: "(string \<times> metric_value) list"

definition candidate_metrics_post_init ::
    "(string \<Rightarrow> bool) \<Rightarrow> candidate_metrics \<Rightarrow> exn + candidate_metrics" where
  "candidate_metrics_post_init uid c =
     bindE (mapE (\<lambda>(key, _). require_factor_identifier uid key ''metric key'') (cm_metrics c)) (\<lambda>_. Inr c)"

record scoring_request =
  scr_plan :: rotation_plan
  scr_candidate_group :: candidate_group
  scr_portfolio_owner_id :: uuid
  scr_configuration :: scoring_configuration
  scr_candidates :: "candidate_metrics list"

definition scoring_request_post_init :: "scoring_request \<Rightarrow> exn + scoring_request" where
  "scoring_request_post_init r =
     (if scr_candidates r = []
      then Inl (ScoringError ''scoring request must contain at least one candidate'')
      else if \<not> distinct (map (\<lambda>c. instrument_id (cm_instrument c)) (scr_candidates r))
      then Inl (ScoringError ''candidates must be unique by instrument'')
      else Inr r)"

subsection \<open>Outcomes\<close>

record factor_contribution =
  fc_factor_id :: string
  fc_status :: factor_score_status
  fc_weight :: decimal
  fc_metric_value :: "decimal option"
  fc_normalized_value :: "decimal option"
  fc_contribution :: "decimal option"
  fc_reason :: "string option"

definition require_scored_value :: "decimal option \<Rightarrow> string \<Rightarrow> exn + unit" where
  "require_scored_value v field_name =
     (case v of
        None \<Rightarrow> Inl (ScoringError (''scored factor requires '' @ field_name))
      | Some d \<Rightarrow> bindE (require_finite_decimal d field_name) (\<lambda>_. Inr ()))"

definition factor_contribution_post_init ::
    "(string \<Rightarrow> bool) \<Rightarrow> factor_contribution \<Rightarrow> exn + factor_contribution" where
  "factor_contribution_post_init uid f =
     bindE (require_factor_identifier uid (fc_factor_id f) ''factor contribution factor_id'') (\<lambda>_.
     bindE (require_finite_decimal (fc_weight f) ''factor contribution weight'') (\<lambda>_.
     if fc_status f = FACTOR_SCORED
     then
       bindE (require_scored_value (fc_metric_value f) ''metric_value'') (\<lambda>_.
       bindE (require_scored_value (fc_normalized_value f) ''normalized_value'') (\<lambda>_.
       bindE (require_scored_value (fc_contribution f) ''contribution'') (\<lambda>_.
       if fc_reason f \<noteq> None then Inl (ScoringError ''scored factor cannot have a reason'')
       else Inr f)))
     else if fc_normalized_value f \<noteq> None \<or> fc_contribution f \<noteq> None
     then Inl (ScoringError ''unavailable factor cannot have a normalized value or contribution'')
     else if (case fc_reason f of None \<Rightarrow> True | Some t \<Rightarrow> is_blank t)
     then Inl (ScoringError ''unavailable factor requires an audit reason'')
     else case fc_metric_value f of
       None \<Rightarrow> Inr f
     | Some d \<Rightarrow> bindE (require_finite_decimal d ''metric_value'') (\<lambda>_. Inr f)))"

record candidate_score =
  csc_instrument :: instrument_ref
  csc_status :: candidate_score_status
  csc_score :: "decimal option"
  csc_rank :: "nat option"
  csc_factor_contributions :: "factor_contribution list"

definition candidate_score_post_init :: "candidate_score \<Rightarrow> exn + candidate_score" where
  "candidate_score_post_init c =
     (if csc_factor_contributions c = []
      then Inl (ScoringError ''candidate score must retain factor contributions'')
      else if csc_status c = RANKED
      then (case (csc_score c, csc_rank c) of
              (Some score, Some rank) \<Rightarrow>
                if rank < 1
                then Inl (ScoringError ''ranked candidate requires a score and positive rank'')
                else bindE (require_finite_decimal score ''candidate score'') (\<lambda>_. Inr c)
            | _ \<Rightarrow> Inl (ScoringError ''ranked candidate requires a score and positive rank''))
      else if csc_score c \<noteq> None \<or> csc_rank c \<noteq> None
      then Inl (ScoringError ''non-rankable candidate cannot have a score or rank'')
      else Inr c)"

record scoring_result =
  sres_candidates :: "candidate_score list"
  sres_tie_breaker :: tie_break_policy
  sres_actionable :: bool

definition scoring_result_post_init :: "scoring_result \<Rightarrow> exn + scoring_result" where
  "scoring_result_post_init r =
     (if sres_candidates r = []
      then Inl (ScoringError ''scoring result must contain candidate outcomes'')
      else if sres_actionable r \<noteq> list_ex (\<lambda>c. csc_status c = RANKED) (sres_candidates r)
      then Inl (ScoringError ''actionable must match whether a candidate was ranked'')
      else Inr r)"

subsection \<open>The engine\<close>

definition score_contribution ::
    "(string \<Rightarrow> bool) \<Rightarrow> factor_configuration \<Rightarrow> candidate_metrics \<Rightarrow> exn + factor_contribution" where
  "score_contribution uid f c =
     (let unavailable = \<lambda>status reason. factor_contribution_post_init uid
            \<lparr>fc_factor_id = fac_factor_id f, fc_status = status, fc_weight = fac_weight f,
             fc_metric_value = None, fc_normalized_value = None, fc_contribution = None,
             fc_reason = Some reason\<rparr> in
      case map_of (cm_metrics c) (fac_factor_id f) of
        None \<Rightarrow> unavailable FACTOR_MISSING ''metric_not_supplied''
      | Some MOther \<Rightarrow> unavailable FACTOR_INVALID ''metric_must_be_finite_decimal''
      | Some (MDecimal raw) \<Rightarrow>
          if \<not> is_finite raw then unavailable FACTOR_INVALID ''metric_must_be_finite_decimal''
          else
            bindE (normalize (fac_normalization f) raw) (\<lambda>clamped.
            bindE (if fac_direction f = LOWER_IS_BETTER then ctx_subtract dec_one clamped
                   else Inr clamped) (\<lambda>normalized.
            bindE (ctx_multiply normalized (fac_weight f)) (\<lambda>contribution.
            factor_contribution_post_init uid
              \<lparr>fc_factor_id = fac_factor_id f, fc_status = FACTOR_SCORED, fc_weight = fac_weight f,
               fc_metric_value = Some raw, fc_normalized_value = Some normalized,
               fc_contribution = Some contribution, fc_reason = None\<rparr>))))"

definition score_candidate ::
    "(string \<Rightarrow> bool) \<Rightarrow> scoring_request \<Rightarrow> candidate_metrics \<Rightarrow> exn + candidate_score" where
  "score_candidate uid r c =
     bindE (ensure_candidate_instrument_is_authorized (scr_plan r) (scr_candidate_group r)
              (cm_instrument c) (scr_portfolio_owner_id r)) (\<lambda>_.
     bindE (mapE (\<lambda>f. score_contribution uid f c) (scf_factors (scr_configuration r))) (\<lambda>contributions.
     if list_ex (\<lambda>i. fc_status i = FACTOR_INVALID) contributions
     then candidate_score_post_init
            \<lparr>csc_instrument = cm_instrument c, csc_status = INVALID_METRIC, csc_score = None,
             csc_rank = None, csc_factor_contributions = contributions\<rparr>
     else if list_ex (\<lambda>i. fc_status i = FACTOR_MISSING) contributions
     then candidate_score_post_init
            \<lparr>csc_instrument = cm_instrument c, csc_status = MISSING_METRIC, csc_score = None,
             csc_rank = None, csc_factor_contributions = contributions\<rparr>
     else
       bindE (ctx_sum (List.map_filter fc_contribution contributions)) (\<lambda>total.
       candidate_score_post_init
            \<lparr>csc_instrument = cm_instrument c, csc_status = RANKED, csc_score = Some total,
             csc_rank = Some 1, csc_factor_contributions = contributions\<rparr>)))"

text \<open>The sort key \<open>(-score, str(instrument_id))\<close>: tuples of exactly compared decimals and of strings of
  fixed width, whose order is the order of the identifiers.\<close>

definition rank_key :: "candidate_score \<Rightarrow> rat \<times> nat" where
  "rank_key c =
     (rval (dec_copy_negate (case csc_score c of None \<Rightarrow> dec_zero | Some s \<Rightarrow> s)),
      instrument_id (csc_instrument c))"

text \<open>\<open>enumerate(ordered, start=1)\<close> with the rank set.\<close>

definition rank_candidates :: "candidate_score list \<Rightarrow> exn + candidate_score list" where
  "rank_candidates cs =
     mapE (\<lambda>(index, c). candidate_score_post_init (c\<lparr>csc_rank := Some index\<rparr>))
       (enumerate 1 (sort_key rank_key cs))"

definition scoring_score :: "(string \<Rightarrow> bool) \<Rightarrow> scoring_request \<Rightarrow> exn + scoring_result" where
  "scoring_score uid r =
     bindE (mapE (score_candidate uid r) (scr_candidates r)) (\<lambda>outcomes.
     let ranked = filter (\<lambda>c. csc_status c = RANKED) outcomes;
         non_ranked = filter (\<lambda>c. csc_status c \<noteq> RANKED) outcomes in
     bindE (rank_candidates ranked) (\<lambda>ordered.
     scoring_result_post_init
       \<lparr>sres_candidates = ordered @ non_ranked,
        sres_tie_breaker = scf_tie_breaker (scr_configuration r),
        sres_actionable = (ordered \<noteq> [])\<rparr>))"

subsection \<open>Normalization\<close>

lemma normalize_Inr:
  assumes "normalize n v = Inr x"
  obtains num den q where "ctx_subtract v (norm_lower_bound n) = Inr num"
    and "ctx_subtract (norm_upper_bound n) (norm_lower_bound n) = Inr den"
    and "ctx_divide num den = Inr q"
    and "is_finite x" and "rval x = max 0 (min 1 (rval q))"
proof -
  from assms obtain num den q where *: "ctx_subtract v (norm_lower_bound n) = Inr num"
    "ctx_subtract (norm_upper_bound n) (norm_lower_bound n) = Inr den" "ctx_divide num den = Inr q"
    and x: "(if dec_lt q dec_zero then Inr dec_zero else if dec_lt dec_one q then Inr dec_one
             else (Inr q :: exn + decimal)) = Inr x"
    by (auto simp: normalize_def exc_simps)
  have "is_finite q" using ctx_divide_parts [OF *(3)] by simp
  with x have "is_finite x \<and> rval x = max 0 (min 1 (rval q))"
    by (auto simp: dec_compare dsigned_def split: if_splits)
  with * that show ?thesis by blast
qed

lemma normalize_unit: "normalize n v = Inr x \<Longrightarrow> is_finite x \<and> 0 \<le> rval x \<and> rval x \<le> 1"
  by (erule normalize_Inr) simp

lemma linear_normalization_post_init_Inr [exc_simps]:
  "linear_normalization_post_init n = Inr m \<longleftrightarrow>
     m = n \<and> is_finite (norm_lower_bound n) \<and> is_finite (norm_upper_bound n) \<and>
     rval (norm_lower_bound n) < rval (norm_upper_bound n)"
  by (auto simp: linear_normalization_post_init_def exc_simps dec_compare)

text \<open>The width of a valid range is positive after rounding, or the division raises.\<close>

lemma normalize_width_pos:
  assumes "rval (norm_lower_bound n) < rval (norm_upper_bound n)"
    and "ctx_subtract (norm_upper_bound n) (norm_lower_bound n) = Inr den"
    and "ctx_divide num den = Inr q"
  shows "0 < rval den"
proof -
  have "0 \<le> rval den"
    using ctx_subtract_parts [OF assms(2)] correctly_rounded_nonneg assms(1) by fastforce
  moreover have "rval den \<noteq> 0" using ctx_divide_parts [OF assms(3)] by simp
  ultimately show ?thesis by simp
qed

lemma normalize_mono:
  assumes "rval (norm_lower_bound n) < rval (norm_upper_bound n)"
    and v: "normalize n v = Inr x" and w: "normalize n w = Inr y" and le: "rval v \<le> rval w"
  shows "rval x \<le> rval y"
proof -
  from v obtain num den q where 1: "ctx_subtract v (norm_lower_bound n) = Inr num"
    "ctx_subtract (norm_upper_bound n) (norm_lower_bound n) = Inr den" "ctx_divide num den = Inr q"
    "rval x = max 0 (min 1 (rval q))" by (rule normalize_Inr)
  from w obtain num' den' q' where 2: "ctx_subtract w (norm_lower_bound n) = Inr num'"
    "ctx_subtract (norm_upper_bound n) (norm_lower_bound n) = Inr den'" "ctx_divide num' den' = Inr q'"
    "rval y = max 0 (min 1 (rval q'))" by (rule normalize_Inr)
  have den: "den' = den" using 1(2) 2(2) by simp
  have pos: "0 < rval den" by (rule normalize_width_pos [OF assms(1) 1(2,3)])
  have "rval num \<le> rval num'"
    by (rule correctly_rounded_mono [where v = "rval v - rval (norm_lower_bound n)"
          and v' = "rval w - rval (norm_lower_bound n)"])
      (use ctx_subtract_parts [OF 1(1)] ctx_subtract_parts [OF 2(1)] le in simp_all)
  then have "rval num / rval den \<le> rval num' / rval den" using pos by (simp add: divide_right_mono)
  then have "rval q \<le> rval q'"
    using ctx_divide_parts [OF 1(3)] ctx_divide_parts [OF 2(3)] den correctly_rounded_mono by blast
  then show ?thesis unfolding 1(4) 2(4) by linarith
qed

lemma normalize_below:
  assumes "rval (norm_lower_bound n) < rval (norm_upper_bound n)"
    and v: "normalize n v = Inr x" and le: "rval v \<le> rval (norm_lower_bound n)"
  shows "rval x = 0"
proof -
  from v obtain num den q where 1: "ctx_subtract v (norm_lower_bound n) = Inr num"
    "ctx_subtract (norm_upper_bound n) (norm_lower_bound n) = Inr den" "ctx_divide num den = Inr q"
    "rval x = max 0 (min 1 (rval q))" by (rule normalize_Inr)
  have pos: "0 < rval den" by (rule normalize_width_pos [OF assms(1) 1(2,3)])
  have "rval num \<le> 0"
    by (rule correctly_rounded_mono [OF _ correctly_rounded_zero])
      (use ctx_subtract_parts [OF 1(1)] le in auto)
  then have "rval num / rval den \<le> 0" using pos by (simp add: divide_nonpos_pos)
  then have "rval q \<le> 0"
    using ctx_divide_parts [OF 1(3)] correctly_rounded_mono [OF _ correctly_rounded_zero] by blast
  then show ?thesis unfolding 1(4) by simp
qed

lemma normalize_above:
  assumes "rval (norm_lower_bound n) < rval (norm_upper_bound n)"
    and v: "normalize n v = Inr x" and le: "rval (norm_upper_bound n) \<le> rval v"
  shows "rval x = 1"
proof -
  from v obtain num den q where 1: "ctx_subtract v (norm_lower_bound n) = Inr num"
    "ctx_subtract (norm_upper_bound n) (norm_lower_bound n) = Inr den" "ctx_divide num den = Inr q"
    "rval x = max 0 (min 1 (rval q))" by (rule normalize_Inr)
  have pos: "0 < rval den" by (rule normalize_width_pos [OF assms(1) 1(2,3)])
  have "rval den \<le> rval num"
    by (rule correctly_rounded_mono [where v = "rval (norm_upper_bound n) - rval (norm_lower_bound n)"
          and v' = "rval v - rval (norm_lower_bound n)"])
      (use ctx_subtract_parts [OF 1(1)] ctx_subtract_parts [OF 1(2)] le in simp_all)
  then have "1 \<le> rval num / rval den" using pos by simp
  then have "1 \<le> rval q"
    using ctx_divide_parts [OF 1(3)] correctly_rounded_mono [OF correctly_rounded_one] by blast
  then show ?thesis unfolding 1(4) by simp
qed

subsection \<open>Contributions of one candidate\<close>

text \<open>The data state of a factor on a candidate, and the candidates that can be ranked.\<close>

definition metric_state :: "factor_configuration \<Rightarrow> candidate_metrics \<Rightarrow> factor_score_status" where
  "metric_state f c =
     (case map_of (cm_metrics c) (fac_factor_id f) of
        None \<Rightarrow> FACTOR_MISSING
      | Some MOther \<Rightarrow> FACTOR_INVALID
      | Some (MDecimal raw) \<Rightarrow> if is_finite raw then FACTOR_SCORED else FACTOR_INVALID)"

definition scorable :: "scoring_configuration \<Rightarrow> candidate_metrics \<Rightarrow> bool" where
  "scorable conf c \<longleftrightarrow> list_all (\<lambda>f. metric_state f c = FACTOR_SCORED) (scf_factors conf)"

lemma factor_contribution_post_init_same:
  "factor_contribution_post_init uid f = Inr g \<Longrightarrow> g = f"
  by (auto simp: factor_contribution_post_init_def exc_simps split: if_splits option.splits)

lemma candidate_score_post_init_same: "candidate_score_post_init c = Inr d \<Longrightarrow> d = c"
  by (auto simp: candidate_score_post_init_def exc_simps split: if_splits option.splits)

lemma scoring_result_post_init_Inr [exc_simps]:
  "scoring_result_post_init r = Inr s \<longleftrightarrow> s = r \<and> sres_candidates r \<noteq> [] \<and>
     sres_actionable r = list_ex (\<lambda>c. csc_status c = RANKED) (sres_candidates r)"
  by (auto simp: scoring_result_post_init_def)

lemma score_contribution_Inr:
  assumes "score_contribution uid f c = Inr k"
  shows "fc_status k = metric_state f c"
    and "metric_state f c \<noteq> FACTOR_SCORED \<Longrightarrow> fc_contribution k = None"
    and "metric_state f c = FACTOR_SCORED \<Longrightarrow> \<exists>raw clamped x d.
       map_of (cm_metrics c) (fac_factor_id f) = Some (MDecimal raw) \<and> is_finite raw \<and>
       normalize (fac_normalization f) raw = Inr clamped \<and>
       (if fac_direction f = LOWER_IS_BETTER then ctx_subtract dec_one clamped else Inr clamped) = Inr x \<and>
       ctx_multiply x (fac_weight f) = Inr d \<and> fc_contribution k = Some d"
  using assms unfolding score_contribution_def metric_state_def Let_def
  by (auto simp: exc_simps dest!: factor_contribution_post_init_same
      split: option.splits metric_value.splits if_splits)

lemma score_candidate_Inr:
  assumes "score_candidate uid r c = Inr o'"
  obtains ks where "candidate_ok (scr_plan r) (scr_candidate_group r) (cm_instrument c) (scr_portfolio_owner_id r)"
    and "mapE (\<lambda>f. score_contribution uid f c) (scf_factors (scr_configuration r)) = Inr ks"
    and "csc_instrument o' = cm_instrument c" and "csc_factor_contributions o' = ks"
    and "csc_status o' = RANKED \<longleftrightarrow> scorable (scr_configuration r) c"
    and "csc_status o' = RANKED \<Longrightarrow> \<exists>total. csc_score o' = Some total \<and>
           ctx_sum (List.map_filter fc_contribution ks) = Inr total"
    and "csc_status o' \<noteq> RANKED \<Longrightarrow> csc_score o' = None \<and> csc_rank o' = None"
proof -
  from assms obtain ks where ks: "mapE (\<lambda>f. score_contribution uid f c) (scf_factors (scr_configuration r)) = Inr ks"
    and ok: "candidate_ok (scr_plan r) (scr_candidate_group r) (cm_instrument c) (scr_portfolio_owner_id r)"
    by (auto simp: score_candidate_def exc_simps)
  have all: "scorable (scr_configuration r) c \<longleftrightarrow> (\<forall>k \<in> set ks. fc_status k = FACTOR_SCORED)"
    unfolding scorable_def list_all_iff using score_contribution_Inr(1) mapE_Inr_set [OF ks] mapE_set_Inr [OF ks]
    by metis
  have inv: "list_ex (\<lambda>i. fc_status i = FACTOR_INVALID) ks \<or> list_ex (\<lambda>i. fc_status i = FACTOR_MISSING) ks
     \<longleftrightarrow> \<not> scorable (scr_configuration r) c"
    unfolding all list_ex_iff using factor_score_status.exhaust by (metis factor_score_status.distinct(1,3))
  show thesis
  proof (cases "scorable (scr_configuration r) c")
    case True
    then obtain total where "ctx_sum (List.map_filter fc_contribution ks) = Inr total"
      and "o' = \<lparr>csc_instrument = cm_instrument c, csc_status = RANKED, csc_score = Some total,
             csc_rank = Some 1, csc_factor_contributions = ks\<rparr>"
      using assms ks inv by (auto simp: score_candidate_def exc_simps dest: candidate_score_post_init_same)
    with True ok ks show thesis by (intro that) simp_all
  next
    case False
    then have "csc_instrument o' = cm_instrument c \<and> csc_factor_contributions o' = ks \<and>
        csc_status o' \<noteq> RANKED \<and> csc_score o' = None \<and> csc_rank o' = None"
      using assms ks inv
      by (auto simp: score_candidate_def exc_simps dest!: candidate_score_post_init_same split: if_splits)
    with False ok ks show thesis by (intro that) simp_all
  qed
qed

subsection \<open>The ranking\<close>

lemma rank_candidates_Inr:
  assumes "rank_candidates cs = Inr os"
  shows "os = map (\<lambda>(i, c). c\<lparr>csc_rank := Some i\<rparr>) (enumerate 1 (sort_key rank_key cs))"
proof -
  from assms have "list_all2 (\<lambda>x y. y = (case x of (i, c) \<Rightarrow> c\<lparr>csc_rank := Some i\<rparr>))
      (enumerate 1 (sort_key rank_key cs)) os"
    unfolding rank_candidates_def mapE_Inr_iff
    by (rule list_all2_mono) (auto dest: candidate_score_post_init_same)
  then show ?thesis by (simp add: list_all2_conv_all_nth list_eq_iff_nth_eq del: One_nat_def)
qed

lemma rank_candidates_nth:
  assumes "rank_candidates cs = Inr os" and "i < length cs"
  shows "os ! i = (sort_key rank_key cs ! i)\<lparr>csc_rank := Some (i + 1)\<rparr>"
  using rank_candidates_Inr [OF assms(1)] assms(2) by (simp add: nth_enumerate_eq)

lemma rank_candidates_length: "rank_candidates cs = Inr os \<Longrightarrow> length os = length cs"
  using rank_candidates_Inr by fastforce

lemma rank_key_rank [simp]: "rank_key (c\<lparr>csc_rank := x\<rparr>) = rank_key c"
  by (simp add: rank_key_def)

lemma rank_candidates_map:
  assumes "rank_candidates cs = Inr os" and "\<And>c x. f (c\<lparr>csc_rank := x\<rparr>) = f c"
  shows "map f os = map f (sort_key rank_key cs)"
  by (rule nth_equalityI)
    (simp_all add: rank_candidates_length [OF assms(1)] rank_candidates_nth [OF assms(1)] assms(2))

lemma rank_candidates_mset:
  assumes "rank_candidates cs = Inr os" and "\<And>c x. f (c\<lparr>csc_rank := x\<rparr>) = f c"
  shows "mset (map f os) = mset (map f cs)"
  by (simp only: rank_candidates_map [OF assms] mset_map mset_sort)

lemma rank_candidates_sorted: "rank_candidates cs = Inr os \<Longrightarrow> sorted (map rank_key os)"
  by (subst rank_candidates_map) simp_all

lemma rank_candidates_status:
  assumes "rank_candidates cs = Inr os" shows "csc_status ` set os = csc_status ` set cs"
proof -
  have "set_mset (mset (map csc_status os)) = set_mset (mset (map csc_status cs))"
    by (subst rank_candidates_mset [OF assms]) simp_all
  then show ?thesis by simp
qed

subsection \<open>The result\<close>

definition ranked_part :: "scoring_result \<Rightarrow> candidate_score list" where
  "ranked_part res = filter (\<lambda>c. csc_status c = RANKED) (sres_candidates res)"

definition unranked_part :: "scoring_result \<Rightarrow> candidate_score list" where
  "unranked_part res = filter (\<lambda>c. csc_status c \<noteq> RANKED) (sres_candidates res)"

lemma scoring_score_Inr:
  assumes "scoring_score uid r = Inr res"
  obtains outcomes where "mapE (score_candidate uid r) (scr_candidates r) = Inr outcomes"
    and "rank_candidates (filter (\<lambda>c. csc_status c = RANKED) outcomes) = Inr (ranked_part res)"
    and "unranked_part res = filter (\<lambda>c. csc_status c \<noteq> RANKED) outcomes"
    and "sres_candidates res = ranked_part res @ unranked_part res"
    and "sres_actionable res \<longleftrightarrow> ranked_part res \<noteq> []"
proof -
  from assms obtain outcomes ordered where o: "mapE (score_candidate uid r) (scr_candidates r) = Inr outcomes"
    and ord: "rank_candidates (filter (\<lambda>c. csc_status c = RANKED) outcomes) = Inr ordered"
    and res: "sres_candidates res = ordered @ filter (\<lambda>c. csc_status c \<noteq> RANKED) outcomes"
    and act: "sres_actionable res \<longleftrightarrow> ordered \<noteq> []"
    unfolding scoring_score_def Let_def bindE_Inr scoring_result_post_init_Inr by fastforce
  have "csc_status k = RANKED" if "k \<in> set ordered" for k
    using that rank_candidates_status [OF ord] by (auto simp: image_iff)
  then have "ranked_part res = ordered"
    and "unranked_part res = filter (\<lambda>c. csc_status c \<noteq> RANKED) outcomes"
    unfolding ranked_part_def unranked_part_def res by (simp_all add: filter_empty_conv)
  with o ord res act that show ?thesis by simp
qed

lemma scored_outcomes:
  assumes "mapE (score_candidate uid r) cs = Inr os"
  shows "map csc_instrument (filter (\<lambda>k. csc_status k = RANKED) os) =
           map cm_instrument (filter (scorable (scr_configuration r)) cs)"
    and "map csc_instrument (filter (\<lambda>k. csc_status k \<noteq> RANKED) os) =
           map cm_instrument (filter (\<lambda>c. \<not> scorable (scr_configuration r) c) cs)"
    and "map csc_instrument os = map cm_instrument cs"
proof -
  have "list_all2 (\<lambda>c k. score_candidate uid r c = Inr k) cs os" using assms by (simp add: mapE_Inr_iff)
  then have "map csc_instrument (filter (\<lambda>k. csc_status k = RANKED) os) =
           map cm_instrument (filter (scorable (scr_configuration r)) cs) \<and>
     map csc_instrument (filter (\<lambda>k. csc_status k \<noteq> RANKED) os) =
           map cm_instrument (filter (\<lambda>c. \<not> scorable (scr_configuration r) c) cs) \<and>
     map csc_instrument os = map cm_instrument cs"
    by (induction rule: list_all2_induct) (auto elim: score_candidate_Inr)
  then show "map csc_instrument (filter (\<lambda>k. csc_status k = RANKED) os) =
           map cm_instrument (filter (scorable (scr_configuration r)) cs)"
    and "map csc_instrument (filter (\<lambda>k. csc_status k \<noteq> RANKED) os) =
           map cm_instrument (filter (\<lambda>c. \<not> scorable (scr_configuration r) c) cs)"
    and "map csc_instrument os = map cm_instrument cs" by simp_all
qed

text \<open>Every entry of the ranked part is the outcome of a candidate, with its rank set.\<close>

lemma ranked_part_member:
  assumes "scoring_score uid r = Inr res" and "k \<in> set (ranked_part res)"
  shows "\<exists>c o' total. c \<in> set (scr_candidates r) \<and> score_candidate uid r c = Inr o' \<and>
     csc_status o' = RANKED \<and> csc_instrument k = cm_instrument c \<and>
     csc_score o' = Some total \<and> csc_score k = Some total"
proof -
  obtain outcomes where o: "mapE (score_candidate uid r) (scr_candidates r) = Inr outcomes"
    and ord: "rank_candidates (filter (\<lambda>c. csc_status c = RANKED) outcomes) = Inr (ranked_part res)"
    using assms(1) by (rule scoring_score_Inr)
  have "set_mset (mset (map (\<lambda>k. (csc_instrument k, csc_score k)) (ranked_part res))) =
     set_mset (mset (map (\<lambda>k. (csc_instrument k, csc_score k)) (filter (\<lambda>c. csc_status c = RANKED) outcomes)))"
    by (subst rank_candidates_mset [OF ord]) simp_all
  then have "(\<lambda>k. (csc_instrument k, csc_score k)) ` set (ranked_part res) =
     (\<lambda>k. (csc_instrument k, csc_score k)) ` {k \<in> set outcomes. csc_status k = RANKED}" by simp
  with assms(2) obtain o' where o': "o' \<in> set outcomes" "csc_status o' = RANKED"
    "csc_instrument k = csc_instrument o'" "csc_score k = csc_score o'" by (auto simp: set_eq_iff image_iff)
  from mapE_Inr_set [OF o o'(1)] obtain c where "c \<in> set (scr_candidates r)"
    and c: "score_candidate uid r c = Inr o'" by blast
  with o' show ?thesis by (rule_tac score_candidate_Inr [OF c]) auto
qed

lemma ranked_part_instruments:
  assumes "scoring_score uid r = Inr res"
  shows "mset (map csc_instrument (ranked_part res)) =
         mset (map cm_instrument (filter (scorable (scr_configuration r)) (scr_candidates r)))"
proof -
  obtain outcomes where o: "mapE (score_candidate uid r) (scr_candidates r) = Inr outcomes"
    and ord: "rank_candidates (filter (\<lambda>c. csc_status c = RANKED) outcomes) = Inr (ranked_part res)"
    using assms by (rule scoring_score_Inr)
  have "mset (map csc_instrument (ranked_part res)) =
        mset (map csc_instrument (filter (\<lambda>c. csc_status c = RANKED) outcomes))"
    by (rule rank_candidates_mset [OF ord]) simp
  then show ?thesis by (simp only: scored_outcomes(1) [OF o])
qed

lemma ranked_part_sorted: "scoring_score uid r = Inr res \<Longrightarrow> sorted (map rank_key (ranked_part res))"
  by (erule scoring_score_Inr) (rule rank_candidates_sorted)

lemma ranked_part_ranks:
  assumes "scoring_score uid r = Inr res" and "i < length (ranked_part res)"
  shows "csc_rank (ranked_part res ! i) = Some (i + 1)"
proof -
  obtain outcomes where
    ord: "rank_candidates (filter (\<lambda>c. csc_status c = RANKED) outcomes) = Inr (ranked_part res)"
    using assms(1) by (rule scoring_score_Inr)
  show ?thesis
    using rank_candidates_nth [OF ord] rank_candidates_length [OF ord] assms(2) by simp
qed

subsection \<open>Dominance\<close>

text \<open>On factor \<open>f\<close> the metric of \<open>c\<close> is at least as good as that of \<open>c'\<close>, in the factor's
  direction.\<close>

definition metric_at_least :: "factor_configuration \<Rightarrow> candidate_metrics \<Rightarrow> candidate_metrics \<Rightarrow> bool" where
  "metric_at_least f c c' =
     (case (map_of (cm_metrics c) (fac_factor_id f), map_of (cm_metrics c') (fac_factor_id f)) of
        (Some (MDecimal v), Some (MDecimal w)) \<Rightarrow>
          if fac_direction f = LOWER_IS_BETTER then rval v \<le> rval w else rval w \<le> rval v
      | _ \<Rightarrow> False)"

definition dominates :: "scoring_configuration \<Rightarrow> candidate_metrics \<Rightarrow> candidate_metrics \<Rightarrow> bool" where
  "dominates conf c c' \<longleftrightarrow> list_all (\<lambda>f. metric_at_least f c c') (scf_factors conf)"

text \<open>A configuration whose parts have all passed their validation.\<close>

definition valid_scoring_configuration :: "(string \<Rightarrow> bool) \<Rightarrow> scoring_configuration \<Rightarrow> bool" where
  "valid_scoring_configuration uid conf \<longleftrightarrow>
     scoring_configuration_post_init conf = Inr conf \<and>
     list_all (\<lambda>f. factor_configuration_post_init uid f = Inr f \<and>
       linear_normalization_post_init (fac_normalization f) = Inr (fac_normalization f)) (scf_factors conf)"

lemma factor_configuration_post_init_Inr:
  "factor_configuration_post_init uid f = Inr g \<Longrightarrow> is_finite (fac_weight f) \<and> 0 < rval (fac_weight f)"
  by (auto simp: factor_configuration_post_init_def exc_simps dec_compare split: if_splits)

lemma score_contribution_mono:
  assumes c: "score_contribution uid f c = Inr k" and c': "score_contribution uid f c' = Inr k'"
    and "metric_state f c = FACTOR_SCORED" and "metric_state f c' = FACTOR_SCORED"
    and better: "metric_at_least f c c'"
    and fac: "factor_configuration_post_init uid f = Inr f"
    and norm: "linear_normalization_post_init (fac_normalization f) = Inr (fac_normalization f)"
  shows "\<exists>d d'. fc_contribution k = Some d \<and> fc_contribution k' = Some d' \<and> rval d' \<le> rval d"
proof -
  obtain v x y d where 1: "map_of (cm_metrics c) (fac_factor_id f) = Some (MDecimal v)"
    "normalize (fac_normalization f) v = Inr x"
    "(if fac_direction f = LOWER_IS_BETTER then ctx_subtract dec_one x else Inr x) = Inr y"
    "ctx_multiply y (fac_weight f) = Inr d" "fc_contribution k = Some d"
    using score_contribution_Inr(3) [OF c assms(3)] by blast
  obtain w x' y' d' where 2: "map_of (cm_metrics c') (fac_factor_id f) = Some (MDecimal w)"
    "normalize (fac_normalization f) w = Inr x'"
    "(if fac_direction f = LOWER_IS_BETTER then ctx_subtract dec_one x' else Inr x') = Inr y'"
    "ctx_multiply y' (fac_weight f) = Inr d'" "fc_contribution k' = Some d'"
    using score_contribution_Inr(3) [OF c' assms(4)] by blast
  have width: "rval (norm_lower_bound (fac_normalization f)) < rval (norm_upper_bound (fac_normalization f))"
    using norm by (simp add: exc_simps)
  have "rval y' \<le> rval y"
  proof (cases "fac_direction f = LOWER_IS_BETTER")
    case True
    then have "rval x \<le> rval x'"
      using better 1(1) 2(1) normalize_mono [OF width 1(2) 2(2)] by (simp add: metric_at_least_def)
    then show ?thesis
      using True 1(3) 2(3) ctx_subtract_parts [of dec_one x y] ctx_subtract_parts [of dec_one x' y']
        correctly_rounded_mono [of "rval dec_one - rval x'" "rval y'" "rval dec_one - rval x" "rval y"] by simp
  next
    case False
    then have "rval x' \<le> rval x"
      using better 1(1) 2(1) normalize_mono [OF width 2(2) 1(2)] by (simp add: metric_at_least_def)
    then show ?thesis using False 1(3) 2(3) by simp
  qed
  then have "rval y' * rval (fac_weight f) \<le> rval y * rval (fac_weight f)"
    using factor_configuration_post_init_Inr [OF fac] by (simp add: mult_right_mono)
  then have "rval d' \<le> rval d"
    using ctx_multiply_parts [OF 1(4)] ctx_multiply_parts [OF 2(4)] correctly_rounded_mono by blast
  with 1(5) 2(5) show ?thesis by blast
qed

lemma ctx_fold_mono:
  assumes "list_all2 (\<lambda>x y. rval x \<le> rval y) xs ys" and "rval a \<le> rval b"
    and "foldE ctx_add a xs = Inr s" and "foldE ctx_add b ys = Inr t"
  shows "rval s \<le> rval t"
  using assms
proof (induction arbitrary: a b rule: list_all2_induct)
  case (Cons x xs y ys)
  from Cons.prems obtain a' b' where "ctx_add a x = Inr a'" "foldE ctx_add a' xs = Inr s"
    "ctx_add b y = Inr b'" "foldE ctx_add b' ys = Inr t" by (auto simp: exc_simps)
  moreover from this have "rval a' \<le> rval b'"
    using Cons.hyps(1) Cons.prems(1) by (intro ctx_add_mono [of a x a' b y b']) simp_all
  ultimately show ?case by (intro Cons.IH)
qed simp

lemma ctx_sum_mono:
  "list_all2 (\<lambda>x y. rval x \<le> rval y) xs ys \<Longrightarrow> ctx_sum xs = Inr s \<Longrightarrow> ctx_sum ys = Inr t \<Longrightarrow> rval s \<le> rval t"
  unfolding ctx_sum_def by (rule ctx_fold_mono) simp_all

lemma map_filter_Some:
  "list_all2 (\<lambda>k k'. \<exists>d d'. g k = Some d \<and> g k' = Some d' \<and> R d' d) ks ks' \<Longrightarrow>
   list_all2 R (List.map_filter g ks') (List.map_filter g ks)"
  by (induction rule: list_all2_induct) (auto simp: List.map_filter_def)

lemma score_candidate_mono:
  assumes valid: "valid_scoring_configuration uid (scr_configuration r)"
    and c: "score_candidate uid r c = Inr k" and c': "score_candidate uid r c' = Inr k'"
    and rk: "csc_status k = RANKED" "csc_status k' = RANKED"
    and dom: "dominates (scr_configuration r) c c'"
    and tot: "csc_score k = Some s" "csc_score k' = Some s'"
  shows "rval s' \<le> rval s"
proof -
  let ?fs = "scf_factors (scr_configuration r)"
  obtain ks where 1: "mapE (\<lambda>f. score_contribution uid f c) ?fs = Inr ks"
    "scorable (scr_configuration r) c" "ctx_sum (List.map_filter fc_contribution ks) = Inr s"
    using c rk(1) tot(1) by (auto elim!: score_candidate_Inr)
  obtain ks' where 2: "mapE (\<lambda>f. score_contribution uid f c') ?fs = Inr ks'"
    "scorable (scr_configuration r) c'" "ctx_sum (List.map_filter fc_contribution ks') = Inr s'"
    using c' rk(2) tot(2) by (auto elim!: score_candidate_Inr)
  have "\<exists>d d'. fc_contribution (ks ! i) = Some d \<and> fc_contribution (ks' ! i) = Some d' \<and> rval d' \<le> rval d"
    if i: "i < length ?fs" for i
    using valid 1(2) 2(2) dom i
    by (intro score_contribution_mono [OF mapE_nth [OF 1(1) i] mapE_nth [OF 2(1) i]])
      (simp_all add: scorable_def dominates_def valid_scoring_configuration_def list_all_length)
  then have "list_all2 (\<lambda>k k'. \<exists>d d'. fc_contribution k = Some d \<and> fc_contribution k' = Some d' \<and>
      rval d' \<le> rval d) ks ks'"
    using mapE_length [OF 1(1)] mapE_length [OF 2(1)] by (simp add: list_all2_conv_all_nth)
  from ctx_sum_mono [OF map_filter_Some [OF this] 2(3) 1(3)] show ?thesis .
qed

lemma ranked_ids_distinct:
  assumes "scoring_request_post_init r = Inr r" and "scoring_score uid r = Inr res"
  shows "distinct (map (\<lambda>k. instrument_id (csc_instrument k)) (ranked_part res))"
proof -
  have "distinct (map (\<lambda>c. instrument_id (cm_instrument c)) (scr_candidates r))"
    using assms(1) by (simp add: scoring_request_post_init_def split: if_splits)
  then have "distinct (map instrument_id (map cm_instrument
      (filter (scorable (scr_configuration r)) (scr_candidates r))))"
    by (simp add: distinct_map_filter o_def)
  moreover have "mset (map instrument_id (map csc_instrument (ranked_part res))) =
      mset (map instrument_id (map cm_instrument (filter (scorable (scr_configuration r)) (scr_candidates r))))"
    by (simp only: mset_map [of instrument_id] ranked_part_instruments [OF assms(2)])
  ultimately have "distinct (map instrument_id (map csc_instrument (ranked_part res)))"
    by (metis mset_eq_imp_distinct_iff)
  then show ?thesis by (simp add: o_def)
qed

lemma ranked_part_outcome:
  assumes "scoring_request_post_init r = Inr r" and "scoring_score uid r = Inr res"
    and "c \<in> set (scr_candidates r)" and "k \<in> set (ranked_part res)"
    and "csc_instrument k = cm_instrument c"
  shows "\<exists>o' s. score_candidate uid r c = Inr o' \<and> csc_status o' = RANKED \<and>
     csc_score o' = Some s \<and> csc_score k = Some s"
proof -
  obtain d o' s where d: "d \<in> set (scr_candidates r)" "score_candidate uid r d = Inr o'"
    "csc_status o' = RANKED" "csc_instrument k = cm_instrument d" "csc_score o' = Some s" "csc_score k = Some s"
    using ranked_part_member [OF assms(2,4)] by blast
  have "inj_on (\<lambda>c. instrument_id (cm_instrument c)) (set (scr_candidates r))"
    using assms(1) by (simp add: scoring_request_post_init_def distinct_map split: if_splits)
  then have "d = c" using d(1,4) assms(3,5) by (simp add: inj_on_def)
  with d show ?thesis by blast
qed

subsection \<open>A concrete evaluation\<close>

definition sample_mom :: factor_configuration where
  "sample_mom =
     \<lparr>fac_factor_id = ''mom'', fac_weight = Fin False 6 (-1), fac_direction = HIGHER_IS_BETTER,
      fac_normalization = \<lparr>norm_lower_bound = Fin False 0 0, norm_upper_bound = Fin False 10 0\<rparr>\<rparr>"

definition sample_vol :: factor_configuration where
  "sample_vol =
     \<lparr>fac_factor_id = ''vol'', fac_weight = Fin False 4 (-1), fac_direction = LOWER_IS_BETTER,
      fac_normalization = \<lparr>norm_lower_bound = Fin False 0 0, norm_upper_bound = Fin False 10 0\<rparr>\<rparr>"

definition sample_candidate :: "uuid \<Rightarrow> metric_value list \<Rightarrow> candidate_metrics" where
  "sample_candidate i ms =
     \<lparr>cm_instrument = \<lparr>instrument_id = i\<rparr>, cm_metrics = zip [''mom'', ''vol''] ms\<rparr>"

abbreviation first_candidate :: candidate_metrics where
  "first_candidate \<equiv> sample_candidate 20 [MDecimal (Fin False 5 0), MDecimal (Fin False 5 0)]"

abbreviation second_candidate :: candidate_metrics where
  "second_candidate \<equiv> sample_candidate 10 [MDecimal (Fin False 8 0), MDecimal (Fin False 5 0)]"

abbreviation third_candidate :: candidate_metrics where
  "third_candidate \<equiv> sample_candidate 30 [MDecimal (Fin False 8 0), MOther]"

definition sample_scoring_request :: scoring_request where
  "sample_scoring_request =
     \<lparr>scr_plan = sample_plan,
      scr_candidate_group = \<lparr>grp_candidate_group_id = 3, grp_user_id = 9,
        grp_instruments = [\<lparr>instrument_id = 10\<rparr>, \<lparr>instrument_id = 20\<rparr>, \<lparr>instrument_id = 30\<rparr>],
        grp_created_at = Aware 0\<rparr>,
      scr_portfolio_owner_id = 9,
      scr_configuration = \<lparr>scf_factors = [sample_mom, sample_vol], scf_tie_breaker = INSTRUMENT_ID_ASCENDING\<rparr>,
      scr_candidates = [first_candidate, second_candidate, third_candidate]\<rparr>"

lemmas sample_scoring_defs = sample_scoring_request_def sample_mom_def sample_vol_def sample_candidate_def sample_plan_def

lemma sample_quotients [py_eval]:
  "ctx_divide (Fin False 5 0) (Fin False 10 0) = Inr (Fin False 5 (-1))"
  "ctx_divide (Fin False 8 0) (Fin False 10 0) = Inr (Fin False 8 (-1))"
  by (simp_all add: ctx_fix_def half_even_def py_eval Let_def)

lemma sample_differences [py_eval]:
  "ctx_subtract (Fin False 5 0) (Fin False 0 0) = Inr (Fin False 5 0)"
  "ctx_subtract (Fin False 8 0) (Fin False 0 0) = Inr (Fin False 8 0)"
  "ctx_subtract (Fin False 10 0) (Fin False 0 0) = Inr (Fin False 10 0)"
  "ctx_subtract (Fin False (Suc 0) 0) (Fin False 5 (-1)) = Inr (Fin False 5 (-1))"
  by (simp_all add: ctx_subtract_def ctx_round_def dsigned_def ctx_fix_def py_eval Let_def)

lemma sample_normalized [py_eval]:
  "normalize \<lparr>norm_lower_bound = Fin False 0 0, norm_upper_bound = Fin False 10 0\<rparr> (Fin False 5 0) =
     Inr (Fin False 5 (-1))"
  "normalize \<lparr>norm_lower_bound = Fin False 0 0, norm_upper_bound = Fin False 10 0\<rparr> (Fin False 8 0) =
     Inr (Fin False 8 (-1))"
  by (simp_all add: normalize_def require_finite_decimal_def py_eval dec_compare dsigned_def
      del: ctx_divide.simps)

lemma sample_products [py_eval]:
  "ctx_multiply (Fin False 5 (-1)) (Fin False 6 (-1)) = Inr (Fin False 30 (-2))"
  "ctx_multiply (Fin False 8 (-1)) (Fin False 6 (-1)) = Inr (Fin False 48 (-2))"
  "ctx_multiply (Fin False 5 (-1)) (Fin False 4 (-1)) = Inr (Fin False 20 (-2))"
  by (simp_all add: ctx_fix_def py_eval Let_def)

lemma sample_sums [py_eval]:
  "ctx_sum [Fin False 30 (-2), Fin False 20 (-2)] = Inr (Fin False 50 (-2))"
  "ctx_sum [Fin False 48 (-2), Fin False 20 (-2)] = Inr (Fin False 68 (-2))"
  by (simp_all add: ctx_sum_def ctx_round_def dsigned_def ctx_fix_def py_eval Let_def)

lemma sample_identifiers [py_eval]:
  "require_factor_identifier uid ''mom'' n = Inr ()" "require_factor_identifier uid ''vol'' n = Inr ()"
  by (simp_all add: require_factor_identifier_def is_identifier_def is_ascii_def identifier_part_def
      identifier_start_def Let_def byte_code_def MAX_IDENTIFIER_UTF8_BYTES_def)

lemma sample_reason [py_eval]: "is_blank ''metric_must_be_finite_decimal'' = False"
  by code_simp

definition sample_contribution ::
    "string \<Rightarrow> decimal \<Rightarrow> decimal \<Rightarrow> decimal \<Rightarrow> decimal \<Rightarrow> factor_contribution" where
  "sample_contribution i w v x k =
     \<lparr>fc_factor_id = i, fc_status = FACTOR_SCORED, fc_weight = w, fc_metric_value = Some v,
      fc_normalized_value = Some x, fc_contribution = Some k, fc_reason = None\<rparr>"

lemma sample_contributions [py_eval]:
  "score_contribution uid sample_mom first_candidate =
     Inr (sample_contribution ''mom'' (Fin False 6 (-1)) (Fin False 5 0) (Fin False 5 (-1)) (Fin False 30 (-2)))"
  "score_contribution uid sample_vol first_candidate =
     Inr (sample_contribution ''vol'' (Fin False 4 (-1)) (Fin False 5 0) (Fin False 5 (-1)) (Fin False 20 (-2)))"
  "score_contribution uid sample_mom second_candidate =
     Inr (sample_contribution ''mom'' (Fin False 6 (-1)) (Fin False 8 0) (Fin False 8 (-1)) (Fin False 48 (-2)))"
  "score_contribution uid sample_vol second_candidate =
     Inr (sample_contribution ''vol'' (Fin False 4 (-1)) (Fin False 5 0) (Fin False 5 (-1)) (Fin False 20 (-2)))"
  by (simp_all add: score_contribution_def sample_contribution_def sample_candidate_def sample_mom_def sample_vol_def
      factor_contribution_post_init_def require_scored_value_def require_finite_decimal_def py_eval Let_def
      del: ctx_multiply.simps)

lemma sample_unscored:
  "\<exists>k. score_contribution uid sample_mom third_candidate = Inr k \<and> fc_status k = FACTOR_SCORED"
  "\<exists>k. score_contribution uid sample_vol third_candidate = Inr k \<and> fc_status k = FACTOR_INVALID"
  by (simp_all add: score_contribution_def sample_contribution_def sample_candidate_def sample_mom_def sample_vol_def
      factor_contribution_post_init_def require_scored_value_def require_finite_decimal_def py_eval Let_def
      del: ctx_multiply.simps)

definition sample_outcome :: "uuid \<Rightarrow> decimal \<Rightarrow> nat \<Rightarrow> factor_contribution list \<Rightarrow> candidate_score" where
  "sample_outcome i s n ks =
     \<lparr>csc_instrument = \<lparr>instrument_id = i\<rparr>, csc_status = RANKED, csc_score = Some s, csc_rank = Some n,
      csc_factor_contributions = ks\<rparr>"

lemma sample_authorized [py_eval]:
  "i \<in> {10, 20, 30} \<Longrightarrow> ensure_candidate_instrument_is_authorized sample_plan
     (scr_candidate_group sample_scoring_request) \<lparr>instrument_id = i\<rparr> 9 = Inr ()"
  by (auto simp: exc_simps candidate_ok_def sample_scoring_request_def sample_plan_def)

lemma sample_outcomes:
  "\<exists>ks. score_candidate uid sample_scoring_request first_candidate =
     Inr (sample_outcome 20 (Fin False 50 (-2)) 1 ks) \<and> ks \<noteq> []"
  "\<exists>ks. score_candidate uid sample_scoring_request second_candidate =
     Inr (sample_outcome 10 (Fin False 68 (-2)) 1 ks) \<and> ks \<noteq> []"
  "\<exists>k. score_candidate uid sample_scoring_request third_candidate = Inr k \<and>
     csc_status k = INVALID_METRIC \<and> csc_instrument k = \<lparr>instrument_id = 30\<rparr>"
proof -
  let ?r = sample_scoring_request
  have r: "scr_plan ?r = sample_plan" "scr_portfolio_owner_id ?r = 9"
    "scf_factors (scr_configuration ?r) = [sample_mom, sample_vol]" by (simp_all add: sample_scoring_request_def)
  have c: "cm_instrument (sample_candidate i ms) = \<lparr>instrument_id = i\<rparr>" for i ms
    by (simp add: sample_candidate_def)
  show "\<exists>ks. score_candidate uid ?r first_candidate = Inr (sample_outcome 20 (Fin False 50 (-2)) 1 ks) \<and> ks \<noteq> []"
    and "\<exists>ks. score_candidate uid ?r second_candidate = Inr (sample_outcome 10 (Fin False 68 (-2)) 1 ks) \<and> ks \<noteq> []"
    by (simp_all add: score_candidate_def r c py_eval sample_contribution_def List.map_filter_def
        candidate_score_post_init_def require_finite_decimal_def sample_outcome_def)
  obtain k k' where k: "score_contribution uid sample_mom third_candidate = Inr k" "fc_status k = FACTOR_SCORED"
    "score_contribution uid sample_vol third_candidate = Inr k'" "fc_status k' = FACTOR_INVALID"
    using sample_unscored by blast
  show "\<exists>k. score_candidate uid ?r third_candidate = Inr k \<and> csc_status k = INVALID_METRIC \<and>
    csc_instrument k = \<lparr>instrument_id = 30\<rparr>"
    by (simp add: score_candidate_def r c k py_eval candidate_score_post_init_def)
qed

lemma sample_ranking:
  "ks \<noteq> [] \<Longrightarrow> ks' \<noteq> [] \<Longrightarrow>
   rank_candidates [sample_outcome 20 (Fin False 50 (-2)) 1 ks, sample_outcome 10 (Fin False 68 (-2)) 1 ks'] =
     Inr [sample_outcome 10 (Fin False 68 (-2)) 1 ks', sample_outcome 20 (Fin False 50 (-2)) 2 ks]"
  by (simp add: rank_candidates_def sample_outcome_def rank_key_def dsigned_def
      candidate_score_post_init_def require_finite_decimal_def power_int_def)

lemma sample_scoring:
  "\<exists>res ks ks'. scoring_score uid sample_scoring_request = Inr res \<and>
     ranked_part res = [sample_outcome 10 (Fin False 68 (-2)) 1 ks', sample_outcome 20 (Fin False 50 (-2)) 2 ks]"
proof -
  obtain ks ks' k where o:
    "score_candidate uid sample_scoring_request first_candidate = Inr (sample_outcome 20 (Fin False 50 (-2)) 1 ks)"
    "score_candidate uid sample_scoring_request second_candidate = Inr (sample_outcome 10 (Fin False 68 (-2)) 1 ks')"
    "score_candidate uid sample_scoring_request third_candidate = Inr k" "csc_status k = INVALID_METRIC"
    "ks \<noteq> []" "ks' \<noteq> []"
    using sample_outcomes [of uid] by blast
  have c: "scr_candidates sample_scoring_request = [first_candidate, second_candidate, third_candidate]"
    by (simp add: sample_scoring_request_def)
  have s: "csc_status (sample_outcome i x n js) = RANKED" for i x n js by (simp add: sample_outcome_def)
  show ?thesis
    by (simp add: scoring_score_def c o s sample_ranking scoring_result_post_init_def ranked_part_def
        del: One_nat_def) blast
qed

lemma sample_request_valid: "scoring_request_post_init sample_scoring_request = Inr sample_scoring_request"
  by (simp add: scoring_request_post_init_def sample_scoring_request_def sample_candidate_def)

subsection \<open>Properties\<close>

text \<open>C28: normalization maps every metric into zero to one and never reverses two metrics, in spite of
  the three roundings it makes; metrics outside the range are clamped to exactly zero and one.\<close>

theorem normalization_clamps_and_preserves_order:
  assumes "linear_normalization_post_init n = Inr n" and "normalize n v = Inr x"
  shows "is_finite x \<and> 0 \<le> rval x \<and> rval x \<le> 1 \<and>
    (rval v \<le> rval (norm_lower_bound n) \<longrightarrow> rval x = 0) \<and>
    (rval (norm_upper_bound n) \<le> rval v \<longrightarrow> rval x = 1) \<and>
    (\<forall>w y. normalize n w = Inr y \<longrightarrow> rval v \<le> rval w \<longrightarrow> rval x \<le> rval y)"
proof -
  have width: "rval (norm_lower_bound n) < rval (norm_upper_bound n)" using assms(1) by (simp add: exc_simps)
  show ?thesis
    using normalize_unit [OF assms(2)] normalize_below [OF width assms(2)]
      normalize_above [OF width assms(2)] normalize_mono [OF width assms(2)] by blast
qed

lemma normalization_clamps_and_preserves_order_witness:
  "rval (Fin False 5 (-1)) \<le> rval (Fin False 8 (-1))"
proof -
  have "linear_normalization_post_init (fac_normalization sample_mom) = Inr (fac_normalization sample_mom)"
    by (simp add: exc_simps sample_mom_def dsigned_def)
  from normalization_clamps_and_preserves_order [OF this, of "Fin False 5 0" "Fin False 5 (-1)"] show ?thesis
    by (simp add: sample_mom_def py_eval dsigned_def)
qed

text \<open>C25: the ranked part of a scoring result holds exactly the candidates for which every configured
  factor has a finite decimal, the rest follow in request order without score or rank, and every
  candidate of a result that was produced is authorized by the plan's candidate group.\<close>

theorem scoring_ranks_exactly_the_scorable:
  assumes "scoring_score uid r = Inr res"
  shows "sres_candidates res = ranked_part res @ unranked_part res \<and>
    mset (map csc_instrument (ranked_part res)) =
      mset (map cm_instrument (filter (scorable (scr_configuration r)) (scr_candidates r))) \<and>
    map csc_instrument (unranked_part res) =
      map cm_instrument (filter (\<lambda>c. \<not> scorable (scr_configuration r) c) (scr_candidates r)) \<and>
    (\<forall>k \<in> set (unranked_part res). csc_score k = None \<and> csc_rank k = None) \<and>
    (sres_actionable res \<longleftrightarrow> (\<exists>c \<in> set (scr_candidates r). scorable (scr_configuration r) c)) \<and>
    (\<forall>c \<in> set (scr_candidates r).
       candidate_ok (scr_plan r) (scr_candidate_group r) (cm_instrument c) (scr_portfolio_owner_id r))"
proof -
  obtain outcomes where o: "mapE (score_candidate uid r) (scr_candidates r) = Inr outcomes"
    and un: "unranked_part res = filter (\<lambda>c. csc_status c \<noteq> RANKED) outcomes"
    and parts: "sres_candidates res = ranked_part res @ unranked_part res"
    and act: "sres_actionable res \<longleftrightarrow> ranked_part res \<noteq> []"
    using assms by (rule scoring_score_Inr)
  note ranked = ranked_part_instruments [OF assms]
  have "ranked_part res = [] \<longleftrightarrow> filter (scorable (scr_configuration r)) (scr_candidates r) = []"
    using arg_cong [OF ranked, of size] by (simp only: size_mset length_map flip: length_0_conv)
  then have "sres_actionable res \<longleftrightarrow> (\<exists>c \<in> set (scr_candidates r). scorable (scr_configuration r) c)"
    using act by (simp add: filter_empty_conv)
  moreover have "csc_score k = None \<and> csc_rank k = None" if "k \<in> set (unranked_part res)" for k
    using that un mapE_Inr_set [OF o] by (auto elim: score_candidate_Inr)
  moreover have "candidate_ok (scr_plan r) (scr_candidate_group r) (cm_instrument c) (scr_portfolio_owner_id r)"
    if "c \<in> set (scr_candidates r)" for c
    using mapE_set_Inr [OF o that] by (auto elim: score_candidate_Inr)
  ultimately show ?thesis using parts ranked un scored_outcomes(2) [OF o] by simp
qed

lemma scoring_ranks_exactly_the_scorable_witness:
  "\<exists>res. scoring_score (\<lambda>_. False) sample_scoring_request = Inr res \<and>
     map csc_instrument (unranked_part res) = [\<lparr>instrument_id = 30\<rparr>]"
proof -
  obtain res where res: "scoring_score (\<lambda>_. False) sample_scoring_request = Inr res"
    using sample_scoring by blast
  have "filter (\<lambda>c. \<not> scorable (scr_configuration sample_scoring_request) c)
     (scr_candidates sample_scoring_request) = [third_candidate]"
    by (simp add: sample_scoring_request_def scorable_def metric_state_def sample_candidate_def
        sample_mom_def sample_vol_def)
  with scoring_ranks_exactly_the_scorable [OF res] res show ?thesis
    by (simp add: sample_candidate_def)
qed

text \<open>C26: the ranking is a strict total order on the ranked candidates: ranks are \<open>1..n\<close> by position,
  the score never increases down the list, and equal scores are ordered by ascending instrument id.\<close>

theorem ranking_is_strict:
  assumes "scoring_request_post_init r = Inr r" and "scoring_score uid r = Inr res"
    and "i < j" and "j < length (ranked_part res)"
  shows "csc_rank (ranked_part res ! i) = Some (i + 1) \<and> csc_rank (ranked_part res ! j) = Some (j + 1) \<and>
    (\<exists>s s'. csc_score (ranked_part res ! i) = Some s \<and> csc_score (ranked_part res ! j) = Some s' \<and>
      (rval s' < rval s \<or> rval s' = rval s \<and>
       instrument_id (csc_instrument (ranked_part res ! i)) <
       instrument_id (csc_instrument (ranked_part res ! j))))"
proof -
  let ?k = "ranked_part res ! i" and ?k' = "ranked_part res ! j"
  obtain s s' where s: "csc_score ?k = Some s" "csc_score ?k' = Some s'"
    using ranked_part_member [OF assms(2) nth_mem] assms(3,4) by (meson less_trans)
  have "rank_key ?k \<le> rank_key ?k'"
    using sorted_nth_mono [OF ranked_part_sorted [OF assms(2)], of i j] assms(3,4) by simp
  then have "rval s' < rval s \<or> rval s' = rval s \<and>
      instrument_id (csc_instrument ?k) \<le> instrument_id (csc_instrument ?k')"
    by (auto simp: rank_key_def s)
  moreover have "instrument_id (csc_instrument ?k) \<noteq> instrument_id (csc_instrument ?k')"
    using assms(3,4) ranked_ids_distinct [OF assms(1,2)] by (simp add: distinct_conv_nth)
  ultimately show ?thesis
    using s ranked_part_ranks [OF assms(2)] assms(3,4) by fastforce
qed

lemma ranking_is_strict_witness:
  "\<exists>res. scoring_score (\<lambda>_. False) sample_scoring_request = Inr res \<and>
     csc_rank (ranked_part res ! 0) = Some 1 \<and> csc_rank (ranked_part res ! 1) = Some 2"
proof -
  obtain res ks ks' where res: "scoring_score (\<lambda>_. False) sample_scoring_request = Inr res"
    "ranked_part res = [sample_outcome 10 (Fin False 68 (-2)) 1 ks', sample_outcome 20 (Fin False 50 (-2)) 2 ks]"
    using sample_scoring by blast
  have "1 < length (ranked_part res)" by (simp add: res(2))
  from ranking_is_strict [OF sample_request_valid res(1) zero_less_one this] res(1) show ?thesis
    by (simp add: numeral_2_eq_2)
qed

text \<open>C24: a candidate whose metrics are at least as good as another's on every factor never scores
  lower, and with the smaller instrument id it is ranked before the other; the roundings of the
  normalization, the weighting and the sum cannot overturn dominance.\<close>

theorem dominating_candidate_ranks_first:
  assumes "valid_scoring_configuration uid (scr_configuration r)" and "scoring_request_post_init r = Inr r"
    and "scoring_score uid r = Inr res"
    and "c \<in> set (scr_candidates r)" and "c' \<in> set (scr_candidates r)"
    and "dominates (scr_configuration r) c c'"
    and "i < length (ranked_part res)" and "csc_instrument (ranked_part res ! i) = cm_instrument c"
    and "j < length (ranked_part res)" and "csc_instrument (ranked_part res ! j) = cm_instrument c'"
  shows "\<exists>s s'. csc_score (ranked_part res ! i) = Some s \<and> csc_score (ranked_part res ! j) = Some s' \<and>
    rval s' \<le> rval s \<and>
    (instrument_id (cm_instrument c) < instrument_id (cm_instrument c') \<longrightarrow> i < j)"
proof -
  obtain o1 s where 1: "score_candidate uid r c = Inr o1" "csc_status o1 = RANKED"
    "csc_score o1 = Some s" "csc_score (ranked_part res ! i) = Some s"
    using ranked_part_outcome [OF assms(2,3,4) nth_mem [OF assms(7)] assms(8)] by blast
  obtain o2 s' where 2: "score_candidate uid r c' = Inr o2" "csc_status o2 = RANKED"
    "csc_score o2 = Some s'" "csc_score (ranked_part res ! j) = Some s'"
    using ranked_part_outcome [OF assms(2,3,5) nth_mem [OF assms(9)] assms(10)] by blast
  have le: "rval s' \<le> rval s"
    by (rule score_candidate_mono [OF assms(1) 1(1) 2(1) 1(2) 2(2) assms(6) 1(3) 2(3)])
  have "i < j" if "instrument_id (cm_instrument c) < instrument_id (cm_instrument c')"
  proof (rule ccontr)
    assume "\<not> i < j"
    then have "rank_key (ranked_part res ! j) \<le> rank_key (ranked_part res ! i)"
      using sorted_nth_mono [OF ranked_part_sorted [OF assms(3)], of j i] assms(7,9) by simp
    then show False using le that by (auto simp: rank_key_def 1(4) 2(4) assms(8,10))
  qed
  with le 1(4) 2(4) show ?thesis by blast
qed

lemma dominating_candidate_ranks_first_witness:
  "\<exists>res i j. scoring_score (\<lambda>_. False) sample_scoring_request = Inr res \<and> i < j \<and>
     csc_instrument (ranked_part res ! i) = cm_instrument second_candidate \<and>
     csc_instrument (ranked_part res ! j) = cm_instrument first_candidate"
proof -
  let ?r = sample_scoring_request and ?uid = "\<lambda>_ :: string. False"
  obtain res ks ks' where res: "scoring_score ?uid ?r = Inr res"
    "ranked_part res = [sample_outcome 10 (Fin False 68 (-2)) 1 ks', sample_outcome 20 (Fin False 50 (-2)) 2 ks]"
    using sample_scoring by blast
  have valid: "valid_scoring_configuration ?uid (scr_configuration ?r)"
    by (simp add: valid_scoring_configuration_def sample_scoring_request_def sample_mom_def sample_vol_def
        scoring_configuration_post_init_def factor_configuration_post_init_def exc_simps py_eval dec_compare
        require_finite_decimal_def dsigned_def)
  have members: "second_candidate \<in> set (scr_candidates ?r)" "first_candidate \<in> set (scr_candidates ?r)"
    by (simp_all add: sample_scoring_request_def)
  have dom: "dominates (scr_configuration ?r) second_candidate first_candidate"
    by (simp add: dominates_def metric_at_least_def sample_scoring_request_def sample_candidate_def
        sample_mom_def sample_vol_def dsigned_def)
  have len: "0 < length (ranked_part res)" "1 < length (ranked_part res)" by (simp_all add: res(2))
  have ins: "csc_instrument (ranked_part res ! 0) = cm_instrument second_candidate"
    "csc_instrument (ranked_part res ! 1) = cm_instrument first_candidate"
    by (simp_all add: res(2) sample_outcome_def sample_candidate_def)
  have "(0::nat) < 1"
    using dominating_candidate_ranks_first [OF valid sample_request_valid res(1) members dom len(1) ins(1) len(2) ins(2)]
    by simp
  with res(1) ins show ?thesis by blast
qed
end
