(* ===== verification/PyJson.thy ===== *)
theory PyJson
  imports Domain "HOL-Library.List_Lexorder" "HOL-Library.Char_ord"
begin

text \<open>
  Python values as the transport and evidence code sees them, the chunks that
  \<open>json.JSONEncoder(ensure_ascii=False, sort_keys=True, separators=(",", ":"), allow_nan=False)\<close>
  yields for them, and the incremental size measurement of \<open>app/domain/evidence_payload.py\<close>.

  A \<open>float\<close> is its \<open>repr\<close>, which is also what the encoder writes and what the code passes to
  \<open>Decimal\<close>.  The keys of a mapping are strings.  \<open>PyObject\<close> is any other object, with the name of
  its type.
\<close>

datatype (plugins only: code size) pyval =
    PyNone
  | PyBool bool
  | PyInt int
  | PyFloat string
  | PyStr string
  | PyDecimal decimal
  | PyUuid uuid
  | PyDatetime datetime
  | PyDict "(string \<times> pyval) list"
  | PyList "pyval list"
  | PyTuple "pyval list"
  | PyObject string

subsection \<open>Numbers as text\<close>

definition digit_char :: "nat \<Rightarrow> char" where
  "digit_char d = char_of (48 + d)"

fun nat_text :: "nat \<Rightarrow> string" where
  "nat_text n = (if n < 10 then [digit_char n] else nat_text (n div 10) @ [digit_char (n mod 10)])"

declare nat_text.simps [simp del]

lemma nat_text_length: "length (nat_text n) = ndigits n"
  by (induction n rule: nat_text.induct) (simp add: nat_text.simps ndigits.simps)

definition int_text :: "int \<Rightarrow> string" where
  "int_text n = (if n < 0 then ''-'' else []) @ nat_text (nat \<bar>n\<bar>)"

text \<open>\<open>str\<close> of an integer raises beyond the interpreter's limit of 4300 digits.\<close>

definition python_int_text :: "int \<Rightarrow> exn + string" where
  "python_int_text n =
     (if ndigits (nat \<bar>n\<bar>) > 4300
      then Inl (ValueError ''Exceeds the limit (4300 digits) for integer string conversion'')
      else Inr (int_text n))"

subsection \<open>The JSON encoder\<close>

definition hex_char :: "nat \<Rightarrow> char" where
  "hex_char d = ''0123456789abcdef'' ! d"

definition json_escape :: "char \<Rightarrow> string" where
  "json_escape c =
     (let n = byte_code c in
      if n = 92 then [char_of (92::nat), char_of (92::nat)]
      else if n = 34 then [char_of (92::nat), char_of (34::nat)]
      else if n = 8 then [char_of (92::nat), CHR ''b'']
      else if n = 12 then [char_of (92::nat), CHR ''f'']
      else if n = 10 then [char_of (92::nat), CHR ''n'']
      else if n = 13 then [char_of (92::nat), CHR ''r'']
      else if n = 9 then [char_of (92::nat), CHR ''t'']
      else if n < 32 then char_of (92::nat) # ''u00'' @ [hex_char (n div 16), hex_char (n mod 16)]
      else [c])"

definition json_string :: "string \<Rightarrow> string" where
  "json_string s = char_of (34::nat) # concat (map json_escape s) @ [char_of (34::nat)]"

definition float_is_finite :: "string \<Rightarrow> bool" where
  "float_is_finite t \<longleftrightarrow> t \<notin> {''nan'', ''inf'', ''-inf''}"

text \<open>The values the encoder writes in one piece, with the exception it may raise instead.\<close>

fun json_scalar :: "pyval \<Rightarrow> (exn + string) option" where
  "json_scalar PyNone = Some (Inr ''null'')"
| "json_scalar (PyBool b) = Some (Inr (if b then ''true'' else ''false''))"
| "json_scalar (PyInt n) = Some (python_int_text n)"
| "json_scalar (PyFloat t) =
     Some (if float_is_finite t then Inr t
           else Inl (ValueError ''Out of range float values are not JSON compliant''))"
| "json_scalar (PyStr s) = Some (Inr (json_string s))"
| "json_scalar _ = None"

text \<open>A piece of the output with the text buffered before it.\<close>

definition json_prefixed :: "string \<Rightarrow> exn + string \<Rightarrow> exn + string" where
  "json_prefixed buf r = bindE r (\<lambda>t. Inr (buf @ t))"

fun type_name :: "pyval \<Rightarrow> string" where
  "type_name PyNone = ''NoneType''"
| "type_name (PyBool _) = ''bool''"
| "type_name (PyInt _) = ''int''"
| "type_name (PyFloat _) = ''float''"
| "type_name (PyStr _) = ''str''"
| "type_name (PyDecimal _) = ''Decimal''"
| "type_name (PyUuid _) = ''UUID''"
| "type_name (PyDatetime _) = ''datetime''"
| "type_name (PyDict _) = ''dict''"
| "type_name (PyList _) = ''list''"
| "type_name (PyTuple _) = ''tuple''"
| "type_name (PyObject t) = t"

definition not_serializable :: "pyval \<Rightarrow> exn + string" where
  "not_serializable v =
     Inl (TypeError (''Object of type '' @ type_name v @ '' is not JSON serializable''))"

text \<open>An element of an array with the opening bracket or comma buffered before it, and a member of an
  object.\<close>

definition json_element :: "string \<Rightarrow> pyval \<times> (exn + string) list \<Rightarrow> (exn + string) list" where
  "json_element buf e =
     (case json_scalar (fst e) of Some r \<Rightarrow> [json_prefixed buf r] | None \<Rightarrow> Inr buf # snd e)"

fun json_array :: "(pyval \<times> (exn + string) list) list \<Rightarrow> (exn + string) list" where
  "json_array [] = [Inr ''[]'']"
| "json_array (e # es) = json_element ''['' e @ concat (map (json_element '','') es) @ [Inr '']'']"

definition json_member :: "string \<times> pyval \<times> (exn + string) list \<Rightarrow> (exn + string) list" where
  "json_member m =
     Inr (json_string (fst m)) # Inr '':'' #
     (case json_scalar (fst (snd m)) of Some r \<Rightarrow> [r] | None \<Rightarrow> snd (snd m))"

fun json_object :: "(string \<times> pyval \<times> (exn + string) list) list \<Rightarrow> (exn + string) list" where
  "json_object [] = [Inr ''{}'']"
| "json_object (m # ms) =
     Inr ''{'' # json_member m @ concat (map (\<lambda>m. Inr '','' # json_member m) ms) @ [Inr ''}'']"

text \<open>\<open>JSONEncoder.iterencode\<close>: the chunks in order; the first \<open>Inl\<close> ends the iteration.\<close>

fun json_chunks :: "pyval \<Rightarrow> (exn + string) list" where
  "json_chunks (PyList xs) = json_array (map (\<lambda>x. (x, json_chunks x)) xs)"
| "json_chunks (PyTuple xs) = json_array (map (\<lambda>x. (x, json_chunks x)) xs)"
| "json_chunks (PyDict kvs) =
     json_object (map (\<lambda>kv. (fst kv, snd kv, json_chunks (snd kv))) (sort_key fst kvs))"
| "json_chunks v = (case json_scalar v of Some r \<Rightarrow> [r] | None \<Rightarrow> [not_serializable v])"

subsection \<open>Measuring the encoding\<close>

definition validate_size_limit :: "string \<Rightarrow> exn + unit" where
  "validate_size_limit boundary =
     (if boundary = [] then Inl (ValueError ''boundary must be a non-blank string'') else Inr ())"

fun measure_from :: "nat \<Rightarrow> nat \<Rightarrow> string \<Rightarrow> (exn + string) list \<Rightarrow> exn + nat" where
  "measure_from seen limit_bytes boundary [] = Inr seen"
| "measure_from seen limit_bytes boundary (chunk # chunks) =
     bindE chunk (\<lambda>text.
     let total_bytes = seen + length text in
     if total_bytes > limit_bytes then Inl (CanonicalJsonSizeLimitError boundary limit_bytes total_bytes)
     else measure_from total_bytes limit_bytes boundary chunks)"

definition measure_json_chunks :: "(exn + string) list \<Rightarrow> nat \<Rightarrow> string \<Rightarrow> exn + nat" where
  "measure_json_chunks chunks limit_bytes boundary =
     bindE (validate_size_limit boundary) (\<lambda>_. measure_from 0 limit_bytes boundary chunks)"

definition measure_json_bytes :: "pyval \<Rightarrow> nat \<Rightarrow> string \<Rightarrow> exn + nat" where
  "measure_json_bytes v limit_bytes boundary =
     measure_json_chunks (json_chunks v) limit_bytes boundary"

text \<open>The incremental measurement returns exactly when the whole text can be produced and fits.\<close>

lemma measure_from_Inr:
  "measure_from seen cap b chunks = Inr n \<longleftrightarrow>
     (\<exists>texts. chunks = map Inr texts \<and> n = seen + length (concat texts) \<and>
       (texts = [] \<or> n \<le> cap))"
proof (induction chunks arbitrary: seen)
  case (Cons c cs)
  show ?case
  proof (cases c)
    case (Inl e)
    then show ?thesis by (simp add: Cons_eq_map_conv)
  next
    case (Inr t)
    have step: "measure_from seen cap b (c # cs) = Inr n \<longleftrightarrow> seen + length t \<le> cap \<and>
      (\<exists>ts. cs = map Inr ts \<and> n = seen + length t + length (concat ts) \<and> (ts = [] \<or> n \<le> cap))"
      by (simp add: Inr Let_def Cons.IH not_less)
    show ?thesis
    proof
      assume "measure_from seen cap b (c # cs) = Inr n"
      then obtain ts where ts: "seen + length t \<le> cap" "cs = map Inr ts"
        "n = seen + length t + length (concat ts)" "ts = [] \<or> n \<le> cap"
        using step by blast
      then have "n \<le> cap" by auto
      with ts Inr show "\<exists>texts. c # cs = map Inr texts \<and> n = seen + length (concat texts) \<and>
          (texts = [] \<or> n \<le> cap)" by (intro exI [of _ "t # ts"]) simp
    next
      assume "\<exists>texts. c # cs = map Inr texts \<and> n = seen + length (concat texts) \<and>
          (texts = [] \<or> n \<le> cap)"
      then obtain ts where "cs = map Inr ts" "n = seen + length (concat (t # ts))" "n \<le> cap"
        using Inr by (auto simp: Cons_eq_map_conv)
      then show "measure_from seen cap b (c # cs) = Inr n" using step by (simp add: add.assoc)
    qed
  qed
qed auto

lemma measure_from_error:
  "measure_from seen cap b chunks = Inl e \<Longrightarrow> Inl e \<notin> set chunks \<Longrightarrow>
     \<exists>n > cap. e = CanonicalJsonSizeLimitError b cap n"
  by (induction chunks arbitrary: seen) (auto simp: exc_simps Let_def split: if_splits)

subsection \<open>Values that always have an encoding\<close>

text \<open>\<open>json_clean v\<close>: only constants, strings and containers of them, for which no chunk is an error.\<close>

fun json_clean :: "pyval \<Rightarrow> bool" where
  "json_clean PyNone \<longleftrightarrow> True"
| "json_clean (PyBool _) \<longleftrightarrow> True"
| "json_clean (PyStr _) \<longleftrightarrow> True"
| "json_clean (PyList xs) \<longleftrightarrow> list_all json_clean xs"
| "json_clean (PyTuple xs) \<longleftrightarrow> list_all json_clean xs"
| "json_clean (PyDict kvs) \<longleftrightarrow> list_all (\<lambda>kv. json_clean (snd kv)) kvs"
| "json_clean _ \<longleftrightarrow> False"

lemma json_scalar_clean: "json_clean v \<Longrightarrow> json_scalar v = Some r \<Longrightarrow> \<exists>t. r = Inr t"
  by (cases v) auto

lemma json_element_clean:
  "json_clean (fst e) \<Longrightarrow> \<forall>x \<in> set (snd e). \<exists>t. x = Inr t \<Longrightarrow> x \<in> set (json_element b e) \<Longrightarrow> \<exists>t. x = Inr t"
  by (auto simp: json_element_def json_prefixed_def dest!: json_scalar_clean split: option.splits)

lemma json_member_clean:
  "json_clean (fst (snd m)) \<Longrightarrow> \<forall>x \<in> set (snd (snd m)). \<exists>t. x = Inr t \<Longrightarrow> x \<in> set (json_member m) \<Longrightarrow>
     \<exists>t. x = Inr t"
  by (auto simp: json_member_def dest!: json_scalar_clean split: option.splits)

lemma json_array_clean:
  assumes ok: "\<And>e. e \<in> set es \<Longrightarrow> json_clean (fst e) \<and> (\<forall>x \<in> set (snd e). \<exists>t. x = Inr t)"
    and x: "x \<in> set (json_array es)"
  shows "\<exists>t. x = Inr t"
proof (cases es)
  case Nil
  with x show ?thesis by simp
next
  case (Cons e es')
  with x consider "x \<in> set (json_element ''['' e)" | e' where "e' \<in> set es'" "x \<in> set (json_element '','' e')"
    | "x = Inr '']''" by auto
  then show ?thesis
  proof cases
    case 1
    with ok [of e] Cons show ?thesis using json_element_clean [of e x] by simp
  next
    case 2
    with ok [of e'] Cons show ?thesis using json_element_clean [of e' x] by simp
  qed simp
qed

lemma json_object_clean:
  assumes ok: "\<And>m. m \<in> set ms \<Longrightarrow> json_clean (fst (snd m)) \<and> (\<forall>x \<in> set (snd (snd m)). \<exists>t. x = Inr t)"
    and x: "x \<in> set (json_object ms)"
  shows "\<exists>t. x = Inr t"
proof -
  have members: "(\<And>m. m \<in> set ms \<Longrightarrow> list_all P (json_member m)) \<Longrightarrow> P (Inr ''{}'') \<Longrightarrow> P (Inr ''{'') \<Longrightarrow>
      P (Inr '','') \<Longrightarrow> P (Inr ''}'') \<Longrightarrow> list_all P (json_object ms)" for P
    by (cases ms) (simp_all add: list_all_iff ball_Un, blast)
  have "list_all (\<lambda>x. \<exists>t. x = Inr t) (json_object ms)"
  proof (rule members)
    fix m assume "m \<in> set ms"
    with ok [of m] show "list_all (\<lambda>x. \<exists>t. x = Inr t) (json_member m)"
      using json_member_clean [of m] by (simp add: list_all_iff)
  qed simp_all
  with x show ?thesis by (simp add: list_all_iff)
qed

lemma json_chunks_clean: "json_clean v \<Longrightarrow> x \<in> set (json_chunks v) \<Longrightarrow> \<exists>t. x = Inr t"
proof (induction v arbitrary: x rule: json_chunks.induct)
  case (1 xs)
  show ?case by (rule json_array_clean [OF _ "1.prems"(2) [unfolded json_chunks.simps]])
      (use 1 in \<open>auto simp: list_all_iff\<close>)
next
  case (2 xs)
  show ?case by (rule json_array_clean [OF _ "2.prems"(2) [unfolded json_chunks.simps]])
      (use 2 in \<open>auto simp: list_all_iff\<close>)
next
  case (3 kvs)
  show ?case by (rule json_object_clean [OF _ "3.prems"(2) [unfolded json_chunks.simps]])
      (use 3 in \<open>auto simp: list_all_iff\<close>)
qed auto

lemma measure_json_bytes_clean:
  assumes "measure_json_bytes v cap b = Inl e" and "json_clean v" and "b \<noteq> []"
  shows "\<exists>n > cap. e = CanonicalJsonSizeLimitError b cap n"
  using assms json_chunks_clean [of v "Inl e"]
  by (auto simp: measure_json_bytes_def measure_json_chunks_def validate_size_limit_def intro!: measure_from_error)
end
