(* ===== verification/RuleSchema.thy ===== *)
theory RuleSchema
  imports PyJson
begin

text \<open>
  The types of the restricted rule language, \<open>app/rules/schema.py\<close>: evidence kinds, the fixed
  registry of evidence paths, the typed expression tree, rules, and the text and decimal limits.

  \<open>scalar\<close> is the Python union \<open>Decimal | bool | datetime | str | None\<close> of literal and evidence
  values, with \<open>SOther\<close> for any other object.  The operator of an expression is kept as the string it is, because a tree built outside the
  parser may carry any string there.
\<close>

definition MAX_EXPRESSION_DEPTH :: nat where "MAX_EXPRESSION_DEPTH = 16"
definition MAX_AST_NODES :: nat where "MAX_AST_NODES = 128"
definition MAX_RAW_TRANSPORT_DEPTH :: nat where "MAX_RAW_TRANSPORT_DEPTH = 32"
definition MAX_RAW_TRANSPORT_NODES :: nat where "MAX_RAW_TRANSPORT_NODES = 512"
definition MAX_RULESET_RULES :: nat where "MAX_RULESET_RULES = 512"
definition MAX_RULESET_AST_NODES :: nat where "MAX_RULESET_AST_NODES = 512"
definition MAX_EVALUATION_STEPS :: nat where "MAX_EVALUATION_STEPS = 512"
definition MAX_DECIMAL_COEFFICIENT_DIGITS :: nat where "MAX_DECIMAL_COEFFICIENT_DIGITS = 256"
definition MAX_DECIMAL_ABSOLUTE_EXPONENT :: int where "MAX_DECIMAL_ABSOLUTE_EXPONENT = 256"
definition MAX_DECIMAL_SERIALIZED_CHARACTERS :: int where "MAX_DECIMAL_SERIALIZED_CHARACTERS = 512"
definition MAX_DSL_EXPRESSION_UTF8_BYTES :: nat where "MAX_DSL_EXPRESSION_UTF8_BYTES = 128 * 1024"
definition MAX_DSL_RULESET_UTF8_BYTES :: nat where "MAX_DSL_RULESET_UTF8_BYTES = 128 * 1024"
definition MAX_RULE_INPUT_UTF8_BYTES :: nat where "MAX_RULE_INPUT_UTF8_BYTES = 128 * 1024"
definition MAX_RULE_EVALUATION_UTF8_BYTES :: nat where "MAX_RULE_EVALUATION_UTF8_BYTES = 128 * 1024"

subsection \<open>Text limits\<close>

text \<open>\<open>_require_utf8_limit\<close>; the error constructor is the argument \<open>error_type\<close> of the source.\<close>

definition require_utf8_limit ::
    "string \<Rightarrow> string \<Rightarrow> nat \<Rightarrow> (string \<Rightarrow> nat \<Rightarrow> nat \<Rightarrow> exn) \<Rightarrow> exn + unit" where
  "require_utf8_limit v boundary limit_bytes error_type =
     (if length v > limit_bytes then Inl (error_type boundary limit_bytes (length v)) else Inr ())"

definition require_rule_text :: "string \<Rightarrow> string \<Rightarrow> exn + string" where
  "require_rule_text v boundary =
     bindE (require_utf8_limit v boundary MAX_STRING_UTF8_BYTES RuleTextResourceLimitError) (\<lambda>_. Inr v)"

definition require_rule_identifier :: "string \<Rightarrow> string \<Rightarrow> exn + string" where
  "require_rule_identifier v boundary =
     bindE (require_utf8_limit v boundary MAX_IDENTIFIER_UTF8_BYTES RuleTextResourceLimitError) (\<lambda>_. Inr v)"

definition require_rule_evidence_text :: "string \<Rightarrow> string \<Rightarrow> bool \<Rightarrow> exn + string" where
  "require_rule_evidence_text v boundary identifier =
     bindE (require_utf8_limit v boundary
              (if identifier then MAX_IDENTIFIER_UTF8_BYTES else MAX_STRING_UTF8_BYTES)
              RuleEvidenceResourceLimitError) (\<lambda>_. Inr v)"

lemma require_rule_text_Inr [exc_simps]:
  "require_rule_text v b = Inr w \<longleftrightarrow> length v \<le> MAX_STRING_UTF8_BYTES \<and> w = v"
  by (auto simp: require_rule_text_def require_utf8_limit_def)

lemma require_rule_identifier_Inr [exc_simps]:
  "require_rule_identifier v b = Inr w \<longleftrightarrow> length v \<le> MAX_IDENTIFIER_UTF8_BYTES \<and> w = v"
  by (auto simp: require_rule_identifier_def require_utf8_limit_def)

lemma require_rule_evidence_text_Inr [exc_simps]:
  "require_rule_evidence_text v b i = Inr w \<longleftrightarrow>
     length v \<le> (if i then MAX_IDENTIFIER_UTF8_BYTES else MAX_STRING_UTF8_BYTES) \<and> w = v"
  by (auto simp: require_rule_evidence_text_def require_utf8_limit_def)

subsection \<open>Decimal limits\<close>

definition rule_serialized_characters :: "nat \<Rightarrow> int \<Rightarrow> bool \<Rightarrow> int" where
  "rule_serialized_characters coefficient_digits exponent negative =
     (let sign_characters = (if negative then 1 else 0) in
      if exponent \<ge> 0 then sign_characters + int coefficient_digits + exponent
      else
        let decimal_point = int coefficient_digits + exponent in
        if decimal_point > 0 then sign_characters + int coefficient_digits + 1
        else sign_characters + 2 + (- decimal_point) + int coefficient_digits)"

fun require_bounded_decimal :: "decimal \<Rightarrow> exn + decimal" where
  "require_bounded_decimal (Fin s c e) =
     (if ndigits c > MAX_DECIMAL_COEFFICIENT_DIGITS
      then Inl (DecimalResourceLimitError ''Decimal coefficient exceeds the fixed digit limit'')
      else if \<bar>e\<bar> > MAX_DECIMAL_ABSOLUTE_EXPONENT
      then Inl (DecimalResourceLimitError ''Decimal exponent exceeds the fixed magnitude limit'')
      else if rule_serialized_characters (ndigits c) e s > MAX_DECIMAL_SERIALIZED_CHARACTERS
      then Inl (DecimalResourceLimitError ''Decimal canonical form exceeds the fixed size limit'')
      else Inr (Fin s c e))"
| "require_bounded_decimal _ = Inl (DecimalResourceLimitError ''Decimal values must be finite'')"

definition bounded :: "decimal \<Rightarrow> bool" where
  "bounded d \<longleftrightarrow> require_bounded_decimal d = Inr d"

lemma require_bounded_decimal_Inr [exc_simps]:
  "require_bounded_decimal d = Inr d' \<longleftrightarrow> bounded d \<and> d' = d"
  by (cases d) (auto simp: bounded_def)

lemma require_bounded_decimal_error:
  "require_bounded_decimal d = Inl e \<Longrightarrow> \<exists>m. e = DecimalResourceLimitError m"
  by (cases d) (auto split: if_splits)

lemma bounded_finite: "bounded d \<Longrightarrow> is_finite d"
  by (cases d) (auto simp: bounded_def)

lemma bounded_zero [simp]: "bounded (Fin s 0 0)"
  by (cases s) (simp_all add: bounded_def MAX_DECIMAL_COEFFICIENT_DIGITS_def MAX_DECIMAL_ABSOLUTE_EXPONENT_def
      MAX_DECIMAL_SERIALIZED_CHARACTERS_def rule_serialized_characters_def py_eval)

lemma bounded_Fin:
  "bounded (Fin s c e) \<longleftrightarrow> ndigits c \<le> 256 \<and> \<bar>e\<bar> \<le> 256 \<and> \<not> (s \<and> ndigits c = 256 \<and> e = 256)"
  unfolding bounded_def
  by (auto simp: MAX_DECIMAL_COEFFICIENT_DIGITS_def MAX_DECIMAL_ABSOLUTE_EXPONENT_def
      MAX_DECIMAL_SERIALIZED_CHARACTERS_def rule_serialized_characters_def Let_def)

subsection \<open>Kinds and the registry\<close>

datatype evidence_kind = KIND_BOOLEAN | KIND_DECIMAL | KIND_DATETIME | KIND_STRING | KIND_NULL

fun kind_text :: "evidence_kind \<Rightarrow> string" where
  "kind_text KIND_BOOLEAN = ''boolean''"
| "kind_text KIND_DECIMAL = ''decimal''"
| "kind_text KIND_DATETIME = ''datetime''"
| "kind_text KIND_STRING = ''string''"
| "kind_text KIND_NULL = ''null''"

definition M0_M1_FIELD_KINDS :: "(string \<times> evidence_kind) list" where
  "M0_M1_FIELD_KINDS =
     [(''source.last_price'', KIND_DECIMAL),
      (''source.last_price_as_of'', KIND_DATETIME),
      (''source.same_time_volume_ratio'', KIND_DECIMAL),
      (''source.session_vwap'', KIND_DECIMAL),
      (''market.data_quality.bars_complete'', KIND_BOOLEAN),
      (''market.data_quality.confidence'', KIND_DECIMAL),
      (''market.data_quality.source_timestamp'', KIND_DATETIME),
      (''market.data_quality.stale'', KIND_BOOLEAN),
      (''market.is_actionable'', KIND_BOOLEAN),
      (''market.provider'', KIND_STRING),
      (''market.snapshot_id'', KIND_STRING)]"

text \<open>\<open>path.split(".")\<close>.\<close>

fun split_dots :: "string \<Rightarrow> string list" where
  "split_dots [] = [[]]"
| "split_dots (c # s) =
     (if c = CHR ''.'' then [] # split_dots s
      else case split_dots s of w # ws \<Rightarrow> (c # w) # ws | [] \<Rightarrow> [[c]])"

definition ascii_identifier :: "string \<Rightarrow> bool" where
  "ascii_identifier s \<longleftrightarrow>
     (case s of [] \<Rightarrow> False | c # rest \<Rightarrow> identifier_start c \<and> list_all identifier_part rest)"

text \<open>The full match of \<open>_PATH_PATTERN\<close>: a root and at least one identifier, joined by dots.\<close>

definition path_pattern_matches :: "string \<Rightarrow> bool" where
  "path_pattern_matches path \<longleftrightarrow>
     (case split_dots path of
        first # segment # segments \<Rightarrow>
          first \<in> {''source'', ''candidate'', ''market'', ''run''} \<and>
          list_all ascii_identifier (segment # segments)
      | _ \<Rightarrow> False)"

definition validate_registered_path :: "string \<Rightarrow> exn + unit" where
  "validate_registered_path path =
     bindE (require_rule_text path ''evidence path'') (\<lambda>_.
     if \<not> path_pattern_matches path
     then Inl (RuleSemanticError ''evidence paths must use an allowed root and identifier segments'')
     else if list_ex (\<lambda>segment. take 2 segment = ''__'') (split_dots path)
     then Inl (RuleSemanticError ''dunder-style evidence paths are not permitted'')
     else Inr ())"

text \<open>\<open>EvidenceSchema.__post_init__\<close> on the fields it is given (distinct keys): the comparison with the
  registry is that of dictionaries, and the stored mapping is sorted by path.\<close>

definition evidence_schema_post_init ::
    "(string \<times> evidence_kind) list \<Rightarrow> exn + (string \<times> evidence_kind) list" where
  "evidence_schema_post_init schema_fields =
     bindE (mapE (\<lambda>(path, kind). bindE (validate_registered_path path) (\<lambda>_.
              if kind = KIND_NULL
              then Inl (TypeError ''evidence schema field kinds must be non-null EvidenceKind values'')
              else Inr (path, kind))) schema_fields) (\<lambda>normalized.
     if \<not> (set normalized = set M0_M1_FIELD_KINDS)
     then Inl (RuleSemanticError ''evidence schema is fixed to the M0/M1 registry'')
     else Inr (sort_key fst normalized))"

text \<open>\<open>M0M1EvidenceRegistry.schema()\<close>: the default fields, sorted.\<close>

definition registry_schema :: "(string \<times> evidence_kind) list" where
  "registry_schema = sort_key fst M0_M1_FIELD_KINDS"

definition kind_for :: "(string \<times> evidence_kind) list \<Rightarrow> string \<Rightarrow> exn + evidence_kind" where
  "kind_for schema_fields path =
     (case map_of schema_fields path of
        Some kind \<Rightarrow> Inr kind
      | None \<Rightarrow> Inl (RuleSemanticError (''evidence path is not registered: '' @ path)))"

definition controlled_values :: "(string \<times> pyval) list \<Rightarrow> exn + (string \<times> pyval) list" where
  "controlled_values values =
     bindE (mapE (\<lambda>(path, v). bindE (kind_for registry_schema path) (\<lambda>_. Inr (path, v))) values)
       (\<lambda>normalized. Inr (sort_key fst normalized))"

subsection \<open>Expressions and rules\<close>

datatype scalar = SDecimal decimal | SBool bool | SDatetime datetime | SString string | SNone | SOther

datatype expression =
    LiteralExpression evidence_kind scalar
  | PathExpression string evidence_kind
  | OperationExpression string "expression list" evidence_kind

fun expr_kind :: "expression \<Rightarrow> evidence_kind" where
  "expr_kind (LiteralExpression k _) = k"
| "expr_kind (PathExpression _ k) = k"
| "expr_kind (OperationExpression _ _ k) = k"

record rule =
  rule_rule_id :: string
  rule_expression :: expression
  rule_weight :: decimal

definition rule_post_init :: "rule \<Rightarrow> exn + rule" where
  "rule_post_init r =
     (if is_blank (rule_rule_id r) then Inl (RuleSemanticError ''rule id must be a non-blank string'')
      else
        bindE (require_rule_identifier (rule_rule_id r) ''rule id'') (\<lambda>_.
        if \<not> is_finite (rule_weight r)
        then Inl (RuleSemanticError ''rule weight must be a finite Decimal'')
        else
          bindE (require_bounded_decimal (rule_weight r)) (\<lambda>_.
          if dec_le (rule_weight r) dec_zero
          then Inl (RuleSemanticError ''rule weight must be positive'')
          else if expr_kind (rule_expression r) \<noteq> KIND_BOOLEAN
          then Inl (RuleSemanticError ''rule expression must evaluate to a Boolean'')
          else Inr (r\<lparr>rule_rule_id := strip (rule_rule_id r)\<rparr>))))"

lemma rule_post_init_Inr [exc_simps]:
  "rule_post_init r = Inr q \<longleftrightarrow>
     \<not> is_blank (rule_rule_id r) \<and> length (rule_rule_id r) \<le> MAX_IDENTIFIER_UTF8_BYTES \<and>
     bounded (rule_weight r) \<and> 0 < rval (rule_weight r) \<and>
     expr_kind (rule_expression r) = KIND_BOOLEAN \<and> q = r\<lparr>rule_rule_id := strip (rule_rule_id r)\<rparr>"
  using bounded_finite [of "rule_weight r"]
  by (auto simp: rule_post_init_def exc_simps dec_compare)

subsection \<open>The registry\<close>

lemma map_of_sort_key_fst:
  assumes "distinct (map fst xs)" shows "map_of (sort_key fst xs) = map_of xs"
proof -
  have "mset (map fst (sort_key fst xs)) = mset (map fst xs)" by simp
  then have "distinct (map fst (sort_key fst xs))" using assms mset_eq_imp_distinct_iff by metis
  with assms show ?thesis by (simp add: map_of_inject_set)
qed

lemma registry_lookup: "map_of registry_schema path = map_of M0_M1_FIELD_KINDS path"
  unfolding registry_schema_def by (subst map_of_sort_key_fst) (simp_all add: M0_M1_FIELD_KINDS_def)

lemma registry_kind_not_null: "kind_for registry_schema path = Inr k \<Longrightarrow> k \<noteq> KIND_NULL"
  by (auto simp: kind_for_def registry_lookup M0_M1_FIELD_KINDS_def split: option.splits if_splits)

end
