(* ===== verification/PyTime.thy ===== *)
theory PyTime
  imports PyJson
begin

text \<open>
  The proleptic Gregorian calendar of \<open>datetime\<close>: the civil date of a day number counted from
  1970-01-01, and \<open>isoformat\<close> of an instant in UTC.  The arithmetic counts years from March, so that
  the leap day is the last day of a year.
\<close>

text \<open>The 400-year era, the day of the era, the year of the era and the day of the year of a day
  number.\<close>

definition civil_from_days :: "int \<Rightarrow> int \<times> int \<times> int" where
  "civil_from_days days =
     (let z = days + 719468;
          era = z div 146097;
          doe = z mod 146097;
          yoe = (doe - doe div 1460 + doe div 36524 - doe div 146096) div 365;
          doy = doe - (365 * yoe + yoe div 4 - yoe div 100);
          mp = (5 * doy + 2) div 153;
          d = doy - (153 * mp + 2) div 5 + 1;
          m = (if mp < 10 then mp + 3 else mp - 9)
      in (yoe + era * 400 + (if m \<le> 2 then 1 else 0), m, d))"

definition days_from_civil :: "int \<Rightarrow> int \<Rightarrow> int \<Rightarrow> int" where
  "days_from_civil y m d =
     (let y' = (if m \<le> 2 then y - 1 else y);
          era = y' div 400;
          yoe = y' mod 400;
          doy = (153 * (if m > 2 then m - 3 else m + 9) + 2) div 5 + d - 1;
          doe = yoe * 365 + yoe div 4 - yoe div 100 + doy
      in era * 146097 + doe - 719468)"

text \<open>\<open>date.isoweekday() - 1\<close>, that is \<open>date.weekday()\<close>: Monday is 0; day 0 is a Thursday.\<close>

definition weekday :: "date \<Rightarrow> int" where
  "weekday days = (days + 3) mod 7"

definition padded_text :: "nat \<Rightarrow> int \<Rightarrow> string" where
  "padded_text width n =
     (let t = nat_text (nat n) in replicate (width - length t) CHR ''0'' @ t)"

definition date_isoformat :: "date \<Rightarrow> string" where
  "date_isoformat days =
     (case civil_from_days days of (y, m, d) \<Rightarrow>
        padded_text 4 y @ ''-'' @ padded_text 2 m @ ''-'' @ padded_text 2 d)"

text \<open>\<open>isoformat\<close> of an aware datetime in UTC, from its microseconds since the epoch.\<close>

definition utc_isoformat :: "int \<Rightarrow> string" where
  "utc_isoformat t =
     (let seconds = t div 1000000; micros = t mod 1000000; s = seconds mod 86400 in
      date_isoformat (seconds div 86400) @ ''T'' @
      padded_text 2 (s div 3600) @ '':'' @ padded_text 2 (s div 60 mod 60) @ '':'' @
      padded_text 2 (s mod 60) @
      (if micros = 0 then [] else ''.'' @ padded_text 6 micros) @ ''+00:00'')"

lemma civil_examples:
  "civil_from_days 0 = (1970, 1, 1)" "civil_from_days 11016 = (2000, 2, 29)"
  "civil_from_days 20514 = (2026, 3, 2)" "days_from_civil 2026 3 2 = 20514" "weekday 20514 = 0"
  by code_simp+

end
