(* ===== verification/PyDecimalText.thy ===== *)
theory PyDecimalText
  imports PyJson
begin

text \<open>
  \<open>str(Decimal)\<close> and \<open>Decimal(str)\<close>: the scientific-string rendering of the \<open>decimal\<close> module and
  its parser, on ASCII digits.  The round trip is what the evidence codec and the numeric literals of
  the rule transport rely on.
\<close>

definition is_digit :: "char \<Rightarrow> bool" where
  "is_digit c \<longleftrightarrow> 48 \<le> byte_code c \<and> byte_code c \<le> 57"

definition digit_value :: "char \<Rightarrow> nat" where
  "digit_value c = byte_code c - 48"

definition number_of_digits :: "string \<Rightarrow> nat" where
  "number_of_digits ds = foldl (\<lambda>n c. 10 * n + digit_value c) 0 ds"

text \<open>\<open>Decimal.__str__\<close>.\<close>

fun dec_text :: "decimal \<Rightarrow> string" where
  "dec_text (Fin s c e) =
     (let digits = nat_text c;
          leftdigits = e + int (length digits);
          dotplace = (if e \<le> 0 \<and> leftdigits > -6 then leftdigits else 1);
          body = (if dotplace \<le> 0 then ''0.'' @ replicate (nat (- dotplace)) CHR ''0'' @ digits
                  else if dotplace \<ge> int (length digits)
                  then digits @ replicate (nat dotplace - length digits) CHR ''0''
                  else take (nat dotplace) digits @ ''.'' @ drop (nat dotplace) digits);
          exponent = (if leftdigits = dotplace then []
                      else ''E'' @ (if leftdigits < dotplace then [] else ''+'') @
                           int_text (leftdigits - dotplace))
      in (if s then ''-'' else []) @ body @ exponent)"
| "dec_text (Infinite s) = (if s then ''-Infinity'' else ''Infinity'')"
| "dec_text NotANumber = ''NaN''"

text \<open>The limits of the \<open>decimal\<close> module on exact conversion.\<close>

definition in_decimal_range :: "nat \<Rightarrow> int \<Rightarrow> bool" where
  "in_decimal_range c e \<longleftrightarrow>
     c = 0 \<or> (e + int (ndigits c) - 1 \<le> 999999999999999999 \<and> -1999999999999999997 \<le> e)"

definition split_sign :: "string \<Rightarrow> bool \<times> string" where
  "split_sign t =
     (case t of [] \<Rightarrow> (False, [])
      | c # rest \<Rightarrow> if c = CHR ''-'' then (True, rest) else if c = CHR ''+'' then (False, rest)
                   else (False, t))"

definition parse_exponent :: "string \<Rightarrow> int option" where
  "parse_exponent t =
     (case t of [] \<Rightarrow> Some 0
      | c # rest \<Rightarrow>
          if c \<noteq> CHR ''E'' \<and> c \<noteq> CHR ''e'' then None
          else let (negative, ds) = split_sign rest in
            if ds = [] \<or> \<not> list_all is_digit ds then None
            else Some ((if negative then -1 else 1) * int (number_of_digits ds)))"

definition is_nan_text :: "string \<Rightarrow> bool" where
  "is_nan_text t \<longleftrightarrow>
     (take 3 t = ''nan'' \<and> list_all is_digit (drop 3 t)) \<or>
     (take 4 t = ''snan'' \<and> list_all is_digit (drop 4 t))"

definition parse_number :: "bool \<Rightarrow> string \<Rightarrow> decimal option" where
  "parse_number negative t =
     (let int_part = takeWhile is_digit t;
          rest = dropWhile is_digit t;
          (fraction, tail) =
            (case rest of
               c # rest' \<Rightarrow> if c = CHR ''.'' then (takeWhile is_digit rest', dropWhile is_digit rest')
                           else ([], rest)
             | [] \<Rightarrow> ([], []))
      in if int_part = [] \<and> fraction = [] then None
         else case parse_exponent tail of
           None \<Rightarrow> None
         | Some x \<Rightarrow>
             let c = number_of_digits (int_part @ fraction); e = x - int (length fraction)
             in if in_decimal_range c e then Some (Fin negative c e) else None)"

text \<open>\<open>Decimal(text)\<close>; \<open>None\<close> is \<open>InvalidOperation\<close>.\<close>

definition decimal_of_text :: "string \<Rightarrow> decimal option" where
  "decimal_of_text text =
     (let (negative, body) = split_sign (filter (\<lambda>c. c \<noteq> CHR ''_'') (strip text));
          lowered = lower_ascii body
      in if lowered = ''inf'' \<or> lowered = ''infinity'' then Some (Infinite negative)
         else if is_nan_text lowered then Some NotANumber
         else parse_number negative body)"

subsection \<open>Digits\<close>

lemma digit_char_value: "d < 10 \<Longrightarrow> is_digit (digit_char d) \<and> digit_value (digit_char d) = d"
  by (simp add: is_digit_def digit_value_def digit_char_def byte_code_def)

lemma nat_text_digits: "list_all is_digit (nat_text n)"
proof (induction n rule: nat_text.induct)
  case (1 n)
  then show ?case by (cases "n < 10") (simp_all add: nat_text.simps [of n] digit_char_value)
qed

lemma number_of_digits_append1: "number_of_digits (ds @ [c]) = 10 * number_of_digits ds + digit_value c"
  by (simp add: number_of_digits_def)

lemma number_of_nat_text [simp]: "number_of_digits (nat_text n) = n"
proof (induction n rule: nat_text.induct)
  case (1 n)
  show ?case
  proof (cases "n < 10")
    case True
    then show ?thesis by (simp add: nat_text.simps [of n] number_of_digits_def digit_char_value)
  next
    case False
    with 1 have "number_of_digits (nat_text (n div 10)) = n div 10" by simp
    with False show ?thesis
      by (simp add: nat_text.simps [of n] number_of_digits_append1 digit_char_value)
  qed
qed

lemma nat_text_nonempty [simp]: "nat_text n \<noteq> []"
  by (subst nat_text.simps) simp

lemma number_of_digits_zeros: "number_of_digits (replicate k CHR ''0'' @ ds) = number_of_digits ds"
  by (induction k) (simp_all add: number_of_digits_def digit_value_def byte_code_def)

subsection \<open>The round trip\<close>

text \<open>Text of visible ASCII characters is not stripped.\<close>

definition visible :: "char \<Rightarrow> bool" where
  "visible c \<longleftrightarrow> 33 \<le> byte_code c \<and> byte_code c < 127"

lemma lstrip_visible: "list_all visible s \<Longrightarrow> lstrip s = s"
  by (cases s rule: lstrip.cases) (simp_all add: visible_def ascii_space_def space2_def space3_def)

lemma lstrip_rev_visible: "list_all visible s \<Longrightarrow> lstrip_rev s = s"
  by (cases s rule: lstrip_rev.cases) (simp_all add: visible_def ascii_space_def space2_def space3_def)

lemma strip_visible: "list_all visible s \<Longrightarrow> strip s = s"
  by (simp add: strip_def lstrip_visible lstrip_rev_visible list_all_iff)

lemma digit_visible: "is_digit c \<Longrightarrow> visible c \<and> c \<noteq> CHR ''_'' \<and> c \<noteq> CHR ''-'' \<and> c \<noteq> CHR ''+'' \<and>
   c \<noteq> CHR ''.'' \<and> c \<noteq> CHR ''E'' \<and> c \<noteq> CHR ''e''"
  by (auto simp: is_digit_def visible_def byte_code_def)

lemma int_text_sign: "int_text k = (if k < 0 then CHR ''-'' # nat_text (nat (- k)) else nat_text (nat k))"
  by (simp add: int_text_def)

lemma nat_text_hd: "is_digit (hd (nat_text n))"
  using nat_text_digits [of n] by (cases "nat_text n") simp_all

lemma split_sign_digits: "is_digit (hd ds) \<Longrightarrow> ds \<noteq> [] \<Longrightarrow> split_sign ds = (False, ds)"
  using digit_visible by (cases ds) (auto simp: split_sign_def)

lemma split_sign_minus [simp]: "split_sign (CHR ''-'' # t) = (True, t)"
  and split_sign_plus [simp]: "split_sign (CHR ''+'' # t) = (False, t)"
  by (simp_all add: split_sign_def)

lemma parse_exponent_text:
  "parse_exponent (CHR ''E'' # (if k < 0 then [] else ''+'') @ int_text k) = Some k"
  by (simp add: parse_exponent_def int_text_sign nat_text_digits)

lemma parse_exponent_Nil [simp]: "parse_exponent [] = Some 0"
  by (simp add: parse_exponent_def)

text \<open>Text that ends the digits: empty or an exponent part.\<close>

definition exponent_part :: "string \<Rightarrow> int \<Rightarrow> bool" where
  "exponent_part t k \<longleftrightarrow> parse_exponent t = Some k \<and> (t = [] \<or> hd t = CHR ''E'')"

lemma exponent_part_stop: "exponent_part t k \<Longrightarrow> takeWhile is_digit t = [] \<and> dropWhile is_digit t = t"
  by (cases t) (auto simp: exponent_part_def is_digit_def byte_code_def)

lemma parse_number_integer:
  assumes "list_all is_digit ds" and "ds \<noteq> []" and "exponent_part t k"
    and "in_decimal_range (number_of_digits ds) k"
  shows "parse_number s (ds @ t) = Some (Fin s (number_of_digits ds) k)"
proof -
  have "takeWhile is_digit (ds @ t) = ds" "dropWhile is_digit (ds @ t) = t"
    using assms(1) exponent_part_stop [OF assms(3)] by (simp_all add: list_all_iff)
  note split = this
  show ?thesis
  proof (cases t)
    case Nil
    have "takeWhile is_digit ds = ds" "dropWhile is_digit ds = []"
      using split Nil by simp_all
    note td = this
    show ?thesis using assms(2-) Nil unfolding parse_number_def by (simp add: td exponent_part_def)
  next
    case (Cons a t')
    then have "a = CHR ''E''" "parse_exponent (CHR ''E'' # t') = Some k"
      using assms(3) by (auto simp: exponent_part_def)
    then show ?thesis using assms(2,4) split Cons by (simp add: parse_number_def)
  qed
qed

lemma parse_number_fraction:
  assumes "list_all is_digit ds" and "ds \<noteq> []" and "list_all is_digit fs" and "exponent_part t k"
    and "in_decimal_range (number_of_digits (ds @ fs)) (k - int (length fs))"
  shows "parse_number s (ds @ CHR ''.'' # fs @ t) =
     Some (Fin s (number_of_digits (ds @ fs)) (k - int (length fs)))"
proof -
  have "takeWhile is_digit (ds @ CHR ''.'' # fs @ t) = ds"
    "dropWhile is_digit (ds @ CHR ''.'' # fs @ t) = CHR ''.'' # fs @ t"
    using assms(1) by (simp_all add: list_all_iff is_digit_def byte_code_def)
  moreover have "takeWhile is_digit (fs @ t) = fs" "dropWhile is_digit (fs @ t) = t"
    using assms(3) exponent_part_stop [OF assms(4)] by (simp_all add: list_all_iff)
  ultimately show ?thesis
    using assms by (simp add: parse_number_def exponent_part_def)
qed

text \<open>The unsigned part of the rendering: digits, perhaps a point with digits, perhaps an exponent.\<close>

definition number_text :: "nat \<Rightarrow> int \<Rightarrow> string" where
  "number_text c e = dec_text (Fin False c e)"

lemma dec_text_sign: "dec_text (Fin s c e) = (if s then ''-'' else []) @ number_text c e"
  by (simp add: number_text_def Let_def)

lemma number_text_scientific:
  assumes "nat_text c = d # ds" and "\<not> (e \<le> 0 \<and> e + int (length (d # ds)) > -6)"
  shows "number_text c e = [d] @ (if ds = [] then [] else CHR ''.'' # ds) @
     CHR ''E'' # (if e + int (length ds) < 0 then [] else ''+'') @ int_text (e + int (length ds))"
proof (cases "ds = []")
  case True
  then show ?thesis using assms by (auto simp: number_text_def Let_def)
next
  case False
  then have "0 < length ds" by simp
  then show ?thesis using assms False by (auto simp: number_text_def Let_def)
qed

lemma exponent_visible:
  "list_all visible (CHR ''E'' # (if k < 0 then [] else ''+'') @ int_text k) \<and>
   CHR ''_'' \<notin> set (CHR ''E'' # (if k < 0 then [] else ''+'') @ int_text k)"
proof -
  have "visible c \<and> c \<noteq> CHR ''_''" if "c \<in> set (nat_text n)" for c n
    using that nat_text_digits [of n] digit_visible by (simp add: list_all_iff)
  then show ?thesis by (auto simp: int_text_def list_all_iff visible_def byte_code_def)
qed

lemma number_text_shapes:
  obtains (integer) ds t k where "number_text c e = ds @ t" and "list_all is_digit ds" and "ds \<noteq> []"
      and "exponent_part t k" and "number_of_digits ds = c" and "k = e"
      and "list_all visible t" and "CHR ''_'' \<notin> set t"
  | (fraction) ds fs t k where "number_text c e = ds @ CHR ''.'' # fs @ t" and "list_all is_digit ds"
      and "ds \<noteq> []" and "list_all is_digit fs" and "exponent_part t k"
      and "number_of_digits (ds @ fs) = c" and "k - int (length fs) = e"
      and "list_all visible t" and "CHR ''_'' \<notin> set t"
proof -
  let ?ds = "nat_text c" and ?L = "length (nat_text c)"
  define left where "left = e + int ?L"
  note digits = nat_text_digits [of c]
  have nil: "exponent_part [] 0" by (simp add: exponent_part_def)
  show thesis
  proof (cases "e \<le> 0 \<and> left > -6")
    case plain: True
    consider "left \<le> 0" | "0 < left" "int ?L \<le> left" | "0 < left" "left < int ?L" by linarith
    then show thesis
    proof cases
      case 1
      let ?fs = "replicate (nat (- left)) CHR ''0'' @ ?ds"
      have "number_text c e = ''0'' @ CHR ''.'' # ?fs @ []"
        using plain 1 by (simp add: number_text_def Let_def left_def)
      moreover have "list_all is_digit ?fs" using digits
        by (simp add: list_all_iff [of _ "replicate n x" for n x] is_digit_def [of "CHR ''0''"] byte_code_def)
      moreover have "number_of_digits (''0'' @ ?fs) = c"
        using number_of_digits_zeros [of "Suc (nat (- left))" ?ds] by simp
      moreover have "0 - int (length ?fs) = e" using 1 by (simp add: left_def)
      ultimately show thesis using nil by (intro fraction [of "''0''" ?fs "[]" 0]) (simp_all add: is_digit_def byte_code_def)
    next
      case 2
      then have "e = 0" using plain by (simp add: left_def)
      then have "number_text c e = ?ds @ []"
        using 2 plain by (simp add: number_text_def Let_def left_def)
      then show thesis using nil digits \<open>e = 0\<close> by (intro integer [of ?ds "[]" 0]) simp_all
    next
      case 3
      let ?d = "take (nat left) ?ds" and ?f = "drop (nat left) ?ds"
      have "number_text c e = ?d @ CHR ''.'' # ?f @ []"
        using plain 3 by (simp add: number_text_def Let_def left_def)
      moreover have "list_all is_digit ?d" "list_all is_digit ?f"
        using digits by (auto simp: list_all_iff dest: in_set_takeD in_set_dropD)
      moreover have "?d \<noteq> []" using 3 by simp
      moreover have "0 - int (length ?f) = e" using 3 by (simp add: left_def)
      ultimately show thesis using nil by (intro fraction [of ?d ?f "[]" 0]) simp_all
    qed
  next
    case False
    show thesis
    proof (cases "nat_text c")
      case (Cons d ds)
      define k where "k = e + int (length ds)"
      let ?t = "CHR ''E'' # (if k < 0 then [] else ''+'') @ int_text k"
      have shape: "number_text c e = [d] @ (if ds = [] then [] else CHR ''.'' # ds) @ ?t"
        using number_text_scientific [OF Cons] False unfolding k_def left_def Cons by simp
      have t: "exponent_part ?t k" using parse_exponent_text by (simp add: exponent_part_def)
      have vis: "list_all visible ?t \<and> CHR ''_'' \<notin> set ?t" by (rule exponent_visible)
      have d: "list_all is_digit [d]" "list_all is_digit ds" using digits Cons by simp_all
      have c: "number_of_digits ([d] @ ds) = c" using number_of_nat_text [of c] Cons by simp
      show thesis
      proof (cases "ds = []")
        case True
        show thesis
          by (rule integer [of "[d]" ?t k]) (use shape d t vis c True in \<open>simp_all add: k_def\<close>)
      next
        case False
        show thesis
          by (rule fraction [of "[d]" ds ?t k]) (use shape d t vis c False in \<open>simp_all add: k_def\<close>)
      qed
    qed simp
  qed
qed

lemma number_text_ok:
  "list_all visible (number_text c e) \<and> CHR ''_'' \<notin> set (number_text c e) \<and>
   number_text c e \<noteq> [] \<and> is_digit (hd (number_text c e))"
proof -
  have digits: "list_all visible ds \<and> CHR ''_'' \<notin> set ds" if "list_all is_digit ds" for ds
    using that digit_visible by (auto simp: list_all_iff)
  have dot: "visible CHR ''.''" by (simp add: visible_def byte_code_def)
  have head: "is_digit (hd (ds @ t))" if "list_all is_digit ds" "ds \<noteq> []" for ds t
    using that by (cases ds) simp_all
  show ?thesis
  proof (cases rule: number_text_shapes [of c e])
    case (integer ds t k)
    then show ?thesis using digits [of ds] head [of ds t] by simp
  next
    case (fraction ds fs t k)
    then show ?thesis using digits [of ds] digits [of fs] dot head [of ds "CHR ''.'' # fs @ t"] by simp
  qed
qed

lemma parse_number_text:
  assumes "in_decimal_range c e" shows "parse_number s (number_text c e) = Some (Fin s c e)"
proof (cases rule: number_text_shapes [of c e])
  case (integer ds t k)
  then show ?thesis using parse_number_integer [of ds t k s] assms by simp
next
  case (fraction ds fs t k)
  then show ?thesis using parse_number_fraction [of ds fs t k s] assms by (simp del: of_nat_diff)
qed

lemma lower_digit: "is_digit c \<Longrightarrow> lower_ascii (c # t) = c # lower_ascii t"
  by (simp add: lower_ascii_def is_digit_def)

theorem decimal_text_roundtrip:
  assumes "in_decimal_range c e"
  shows "decimal_of_text (dec_text (Fin s c e)) = Some (Fin s c e)"
proof -
  note ok = number_text_ok [of c e]
  have "list_all visible (dec_text (Fin s c e))"
    using ok unfolding dec_text_sign by (simp add: visible_def byte_code_def)
  then have strip: "strip (dec_text (Fin s c e)) = dec_text (Fin s c e)" by (rule strip_visible)
  have "filter (\<lambda>c. c \<noteq> CHR ''_'') (dec_text (Fin s c e)) = dec_text (Fin s c e)"
    using ok unfolding dec_text_sign by (auto simp: filter_id_conv)
  moreover have "split_sign (dec_text (Fin s c e)) = (s, number_text c e)"
    using ok split_sign_digits [of "number_text c e"] unfolding dec_text_sign by simp
  moreover obtain d t where dt: "number_text c e = d # t" "is_digit d"
    using ok by (cases "number_text c e") simp_all
  then have "lower_ascii (number_text c e) \<noteq> ''inf''" "lower_ascii (number_text c e) \<noteq> ''infinity''"
    "\<not> is_nan_text (lower_ascii (number_text c e))"
    by (auto simp: lower_digit is_nan_text_def is_digit_def byte_code_def)
  ultimately show ?thesis
    using parse_number_text [OF assms, of s] unfolding decimal_of_text_def strip by simp
qed

end
