(* ===== verification/RuleEvidence.thy ===== *)
theory RuleEvidence
  imports RuleSchema PyTime PyDecimalText
begin

text \<open>
  The audit evidence of the rule evaluator, \<open>app/rules/evidence.py\<close>: typed values, the paths read,
  the record of one rule and of a whole evaluation, with the size limit on its canonical JSON.
\<close>

datatype evidence_status = EVIDENCE_MATCHED | EVIDENCE_FAILED | EVIDENCE_MISSING

datatype ruleset_status = RULESET_MATCHED | RULESET_FAILED | RULESET_INSUFFICIENT

fun evidence_status_text :: "evidence_status \<Rightarrow> string" where
  "evidence_status_text EVIDENCE_MATCHED = ''matched''"
| "evidence_status_text EVIDENCE_FAILED = ''failed''"
| "evidence_status_text EVIDENCE_MISSING = ''missing''"

fun ruleset_status_text :: "ruleset_status \<Rightarrow> string" where
  "ruleset_status_text RULESET_MATCHED = ''matched''"
| "ruleset_status_text RULESET_FAILED = ''failed''"
| "ruleset_status_text RULESET_INSUFFICIENT = ''insufficient''"

definition canonical_decimal :: "decimal \<Rightarrow> exn + decimal" where
  "canonical_decimal v =
     (if \<not> is_finite v then Inl (RuleEvaluationError ''Decimal evidence must be finite'')
      else bindE (require_bounded_decimal v) (\<lambda>_. Inr (canonical v)))"

definition evidence_require_aware :: "datetime \<Rightarrow> string \<Rightarrow> exn + unit" where
  "evidence_require_aware v field_name =
     (if \<not> is_aware v then Inl (RuleEvaluationError (field_name @ '' must be timezone-aware''))
      else Inr ())"

definition validate_value_type :: "evidence_kind \<Rightarrow> scalar \<Rightarrow> exn + unit" where
  "validate_value_type kind v =
     (case kind of
        KIND_DECIMAL \<Rightarrow>
          (case v of
             SDecimal d \<Rightarrow> if is_finite d then Inr ()
                          else Inl (RuleEvaluationError ''Decimal evidence must be a finite Decimal'')
           | _ \<Rightarrow> Inl (RuleEvaluationError ''Decimal evidence must be a finite Decimal''))
      | KIND_BOOLEAN \<Rightarrow>
          (case v of SBool _ \<Rightarrow> Inr ()
           | _ \<Rightarrow> Inl (RuleEvaluationError ''Boolean evidence must be a Boolean''))
      | KIND_STRING \<Rightarrow>
          (case v of SString _ \<Rightarrow> Inr ()
           | _ \<Rightarrow> Inl (RuleEvaluationError ''string evidence must be a string''))
      | KIND_DATETIME \<Rightarrow>
          (case v of SDatetime t \<Rightarrow> evidence_require_aware t ''datetime evidence''
           | _ \<Rightarrow> Inl (RuleEvaluationError ''datetime evidence must be a datetime''))
      | KIND_NULL \<Rightarrow>
          (case v of SNone \<Rightarrow> Inr ()
           | _ \<Rightarrow> Inl (RuleEvaluationError ''null evidence must be None'')))"

subsection \<open>Values\<close>

record evidence_value =
  ev_kind :: evidence_kind
  ev_value :: scalar
  ev_is_missing :: bool

text \<open>\<open>EvidenceValue.__post_init__\<close>; an aware datetime keeps its instant under \<open>astimezone(UTC)\<close>.\<close>

definition evidence_value_post_init :: "evidence_value \<Rightarrow> exn + evidence_value" where
  "evidence_value_post_init ev =
     (if ev_is_missing ev
      then if ev_value ev \<noteq> SNone \<or> ev_kind ev = KIND_NULL
           then Inl (RuleEvaluationError ''missing evidence requires a non-null type and no value'')
           else Inr ev
      else
        bindE (validate_value_type (ev_kind ev) (ev_value ev)) (\<lambda>_.
        case ev_value ev of
          SString s \<Rightarrow>
            bindE (require_rule_evidence_text s ''EvidenceValue string'' False) (\<lambda>_. Inr ev)
        | SDecimal d \<Rightarrow>
            bindE (canonical_decimal d) (\<lambda>c. Inr (ev\<lparr>ev_value := SDecimal c\<rparr>))
        | _ \<Rightarrow> Inr ev))"

definition EvidenceValue :: "evidence_kind \<Rightarrow> scalar \<Rightarrow> exn + evidence_value" where
  "EvidenceValue kind v =
     evidence_value_post_init \<lparr>ev_kind = kind, ev_value = v, ev_is_missing = False\<rparr>"

text \<open>\<open>EvidenceValue.missing\<close>.\<close>

definition missing_evidence :: "evidence_kind \<Rightarrow> exn + evidence_value" where
  "missing_evidence kind =
     evidence_value_post_init \<lparr>ev_kind = kind, ev_value = SNone, ev_is_missing = True\<rparr>"

record evaluated_path =
  ep_path :: string
  ep_value :: evidence_value

definition evaluated_path_post_init :: "evaluated_path \<Rightarrow> exn + evaluated_path" where
  "evaluated_path_post_init p =
     (if ep_path p = [] then Inl (ValueError ''evaluated path must be a non-blank string'')
      else bindE (require_rule_evidence_text (ep_path p) ''evaluated path'' True) (\<lambda>_. Inr p))"

subsection \<open>Records\<close>

record rule_evidence =
  re_rule_id :: string
  re_status :: evidence_status
  re_operands :: "evidence_value list"
  re_evaluated_paths :: "evaluated_path list"
  re_evaluated_at :: datetime

definition rule_evidence_post_init :: "rule_evidence \<Rightarrow> exn + rule_evidence" where
  "rule_evidence_post_init r =
     (if is_blank (re_rule_id r) then Inl (ValueError ''rule evidence id must be a non-blank string'')
      else
        bindE (require_rule_evidence_text (re_rule_id r) ''rule evidence id'' True) (\<lambda>_.
        bindE (evidence_require_aware (re_evaluated_at r) ''evaluated_at'') (\<lambda>_.
        Inr (r\<lparr>re_rule_id := strip (re_rule_id r)\<rparr>))))"

record rule_evaluation =
  rev_status :: ruleset_status
  rev_total_score :: decimal
  rev_threshold :: decimal
  rev_matched_rule_ids :: "string list"
  rev_failed_rule_ids :: "string list"
  rev_missing_rule_ids :: "string list"
  rev_rule_evidence :: "rule_evidence list"
  rev_evaluated_at :: datetime

text \<open>\<open>evidence_value_payload\<close>: an explicit JSON representation of a value.\<close>

definition evidence_value_payload :: "evidence_value \<Rightarrow> pyval" where
  "evidence_value_payload ev =
     PyDict
       [(''is_missing'', PyBool (ev_is_missing ev)),
        (''kind'', PyStr (kind_text (ev_kind ev))),
        (''value'',
           if ev_is_missing ev then PyNone
           else (case ev_value ev of
               SDecimal d \<Rightarrow> PyStr (dec_text d)
             | SDatetime t \<Rightarrow> PyStr (utc_isoformat (instant t))
             | SBool b \<Rightarrow> PyBool b
             | SString s \<Rightarrow> PyStr s
             | _ \<Rightarrow> PyNone))]"

definition rule_record_payload :: "rule_evidence \<Rightarrow> exn + pyval" where
  "rule_record_payload r =
     bindE (EvidenceValue KIND_DATETIME (SDatetime (re_evaluated_at r))) (\<lambda>evaluated_at.
     Inr (PyDict
       [(''evaluated_at'', evidence_value_payload evaluated_at),
        (''evaluated_paths'', PyList (map (\<lambda>p. PyDict
           [(''path'', PyStr (ep_path p)), (''value'', evidence_value_payload (ep_value p))])
           (re_evaluated_paths r))),
        (''operands'', PyList (map evidence_value_payload (re_operands r))),
        (''rule_id'', PyStr (re_rule_id r)),
        (''status'', PyStr (evidence_status_text (re_status r)))]))"

text \<open>\<open>CanonicalJsonSizeLimitError\<close> becomes the evidence limit error.\<close>

definition measure_evidence :: "pyval \<Rightarrow> nat \<Rightarrow> string \<Rightarrow> exn + nat" where
  "measure_evidence payload limit_bytes boundary =
     (case measure_json_bytes payload limit_bytes boundary of
        Inl (CanonicalJsonSizeLimitError b l n) \<Rightarrow> Inl (RuleEvidenceResourceLimitError b l n)
      | r \<Rightarrow> r)"

definition measure_rule_evaluation :: "rule_evaluation \<Rightarrow> exn + unit" where
  "measure_rule_evaluation v =
     bindE (mapE rule_record_payload (rev_rule_evidence v)) (\<lambda>records.
     bindE (EvidenceValue KIND_DECIMAL (SDecimal (rev_threshold v))) (\<lambda>threshold.
     bindE (EvidenceValue KIND_DECIMAL (SDecimal (rev_total_score v))) (\<lambda>total_score.
     bindE (measure_evidence
       (PyDict
         [(''failed_rule_ids'', PyList (map PyStr (rev_failed_rule_ids v))),
          (''matched_rule_ids'', PyList (map PyStr (rev_matched_rule_ids v))),
          (''missing_rule_ids'', PyList (map PyStr (rev_missing_rule_ids v))),
          (''rules'', PyList records),
          (''status'', PyStr (ruleset_status_text (rev_status v))),
          (''threshold'', evidence_value_payload threshold),
          (''total_score'', evidence_value_payload total_score)])
       MAX_RULE_EVALUATION_UTF8_BYTES ''RuleEvaluation'') (\<lambda>_. Inr ()))))"

definition require_score_value :: "decimal \<Rightarrow> string \<Rightarrow> exn + unit" where
  "require_score_value v label =
     (if \<not> is_finite v then Inl (RuleEvaluationError (label @ '' must be a finite Decimal''))
      else if dec_lt v dec_zero then Inl (RuleEvaluationError (label @ '' must not be negative''))
      else Inr ())"

definition rule_evaluation_post_init :: "rule_evaluation \<Rightarrow> exn + rule_evaluation" where
  "rule_evaluation_post_init v =
     bindE (require_score_value (rev_total_score v) ''total_score'') (\<lambda>_.
     bindE (require_score_value (rev_threshold v) ''threshold'') (\<lambda>_.
     bindE (evidence_require_aware (rev_evaluated_at v) ''evaluated_at'') (\<lambda>_.
     bindE (canonical_decimal (rev_total_score v)) (\<lambda>total_score.
     bindE (canonical_decimal (rev_threshold v)) (\<lambda>threshold.
     bindE (mapE (\<lambda>rule_id. require_rule_evidence_text rule_id ''RuleEvaluation rule id'' True)
       (rev_matched_rule_ids v @ rev_failed_rule_ids v @ rev_missing_rule_ids v)) (\<lambda>_.
     let stored = v\<lparr>rev_total_score := total_score, rev_threshold := threshold\<rparr> in
     bindE (measure_rule_evaluation stored) (\<lambda>_. Inr stored)))))))"

subsection \<open>Inversion\<close>

lemma evidence_require_aware_Inr [exc_simps]: "evidence_require_aware v n = Inr u \<longleftrightarrow> is_aware v"
  by (simp add: evidence_require_aware_def)

lemma canonical_decimal_Inr [exc_simps]: "canonical_decimal d = Inr c \<longleftrightarrow> bounded d \<and> c = canonical d"
  using bounded_finite by (auto simp: canonical_decimal_def exc_simps)

lemma canonical_decimal_error:
  "canonical_decimal d = Inl e \<Longrightarrow> is_finite d \<Longrightarrow> \<exists>m. e = DecimalResourceLimitError m"
  using require_bounded_decimal_error by (auto simp: canonical_decimal_def exc_simps)

lemma missing_evidence_Inr [exc_simps]:
  "missing_evidence k = Inr ev \<longleftrightarrow>
     k \<noteq> KIND_NULL \<and> ev = \<lparr>ev_kind = k, ev_value = SNone, ev_is_missing = True\<rparr>"
  by (auto simp: missing_evidence_def evidence_value_post_init_def)

text \<open>A value whose scalar has the type of its kind.\<close>

definition scalar_has_kind :: "evidence_kind \<Rightarrow> scalar \<Rightarrow> bool" where
  "scalar_has_kind kind v \<longleftrightarrow>
     (case v of
        SDecimal d \<Rightarrow> kind = KIND_DECIMAL \<and> is_finite d
      | SBool _ \<Rightarrow> kind = KIND_BOOLEAN
      | SDatetime t \<Rightarrow> kind = KIND_DATETIME \<and> is_aware t
      | SString s \<Rightarrow> kind = KIND_STRING
      | SNone \<Rightarrow> kind = KIND_NULL
      | SOther \<Rightarrow> False)"

lemma validate_value_type_Inr [exc_simps]: "validate_value_type k v = Inr u \<longleftrightarrow> scalar_has_kind k v"
  by (cases k; cases v) (auto simp: validate_value_type_def scalar_has_kind_def exc_simps)

definition evidence_ok :: "evidence_value \<Rightarrow> bool" where
  "evidence_ok ev \<longleftrightarrow>
     (if ev_is_missing ev then ev_value ev = SNone \<and> ev_kind ev \<noteq> KIND_NULL
      else scalar_has_kind (ev_kind ev) (ev_value ev))"

lemma EvidenceValue_Inr:
  assumes "EvidenceValue k v = Inr ev"
  shows "evidence_ok ev \<and> ev_kind ev = k \<and> \<not> ev_is_missing ev"
  using assms
  by (cases v) (auto simp: EvidenceValue_def evidence_value_post_init_def exc_simps evidence_ok_def
      scalar_has_kind_def bounded_finite)

lemma EvidenceValue_error:
  assumes "EvidenceValue k v = Inl e" and "scalar_has_kind k v"
  shows "(\<exists>m. e = DecimalResourceLimitError m) \<or> (\<exists>b l n. e = RuleEvidenceResourceLimitError b l n)"
  using assms canonical_decimal_error
  by (cases v) (fastforce simp: EvidenceValue_def evidence_value_post_init_def exc_simps
      scalar_has_kind_def require_rule_evidence_text_def require_utf8_limit_def
      validate_value_type_def evidence_require_aware_def split: if_splits)+

lemma EvidenceValue_bool [simp]:
  "EvidenceValue KIND_BOOLEAN (SBool b) =
     Inr \<lparr>ev_kind = KIND_BOOLEAN, ev_value = SBool b, ev_is_missing = False\<rparr>"
  by (simp add: EvidenceValue_def evidence_value_post_init_def validate_value_type_def)

end
