(* ===== verification/RuleParser.thy ===== *)
theory RuleParser
  imports RuleSchema PyDecimalText DecimalContext
begin

text \<open>
  The transport and semantic validation of rules, \<open>app/rules/parser.py\<close>: the iterative preflight of
  raw transport, the recursive parser with its shared node budget, the operator typing, the iterative
  revalidation of a public tree, and the parsing of rules and rulesets.

  The stacks of the source are lists with the top first.  The JSON Schema validator is a library: the
  parameter \<open>schema_valid\<close> says whether \<open>RULE_EXPRESSION_JSON_SCHEMA\<close> accepts a value.
\<close>

definition ALLOWED_OPERATORS :: "string list" where
  "ALLOWED_OPERATORS =
     [''and'', ''or'', ''not'', ''eq'', ''ne'', ''lt'', ''lte'', ''gt'', ''gte'', ''add'', ''subtract'',
      ''multiply'', ''divide'', ''in'', ''exists'', ''if'']"

subsection \<open>Raw transport limits\<close>

fun pynodes :: "pyval \<Rightarrow> nat" where
  "pynodes (PyDict kvs) = 1 + (\<Sum>kv\<leftarrow>kvs. pynodes (snd kv))"
| "pynodes (PyList xs) = 1 + (\<Sum>x\<leftarrow>xs. pynodes x)"
| "pynodes (PyTuple xs) = 1 + (\<Sum>x\<leftarrow>xs. pynodes x)"
| "pynodes _ = 1"

lemma pynodes_pos: "0 < pynodes v"
  by (cases v) simp_all

definition require_raw_container_fits_node_budget :: "nat \<Rightarrow> nat \<Rightarrow> exn + unit" where
  "require_raw_container_fits_node_budget node_count container_length =
     (if int container_length > int MAX_RAW_TRANSPORT_NODES - int node_count
      then Inl (RuleSafetyError ''raw transport node count exceeds 512'')
      else Inr ())"

text \<open>The checks at one node and the children it pushes.\<close>

definition preflight_children :: "nat \<Rightarrow> pyval \<Rightarrow> exn + pyval list" where
  "preflight_children node_count node =
     (case node of
        PyDict kvs \<Rightarrow>
          bindE (require_raw_container_fits_node_budget node_count (length kvs)) (\<lambda>_.
          bindE (mapE (\<lambda>kv. require_rule_text (fst kv) ''object key'') (rev kvs)) (\<lambda>_.
          Inr (map snd kvs)))
      | PyList xs \<Rightarrow>
          bindE (require_raw_container_fits_node_budget node_count (length xs)) (\<lambda>_. Inr xs)
      | PyTuple xs \<Rightarrow>
          bindE (require_raw_container_fits_node_budget node_count (length xs)) (\<lambda>_. Inr xs)
      | PyStr s \<Rightarrow> bindE (require_rule_text s ''literal'') (\<lambda>_. Inr [])
      | _ \<Rightarrow> Inr [])"

lemma preflight_children_nodes:
  "preflight_children n node = Inr children \<Longrightarrow> (\<Sum>c\<leftarrow>children. pynodes c) + 1 = pynodes node"
  by (cases node) (auto simp: preflight_children_def exc_simps o_def)

function preflight_loop :: "(pyval \<times> nat) list \<Rightarrow> nat \<Rightarrow> exn + nat" where
  "preflight_loop [] node_count = Inr node_count"
| "preflight_loop ((node, depth) # stack) node_count =
     (if depth > MAX_RAW_TRANSPORT_DEPTH then Inl (RuleSafetyError ''raw transport depth exceeds 32'')
      else if node_count + 1 > MAX_RAW_TRANSPORT_NODES
      then Inl (RuleSafetyError ''raw transport node count exceeds 512'')
      else bindE (preflight_children (node_count + 1) node) (\<lambda>children.
        preflight_loop (map (\<lambda>c. (c, depth + 1)) children @ stack) (node_count + 1)))"
  by pat_completeness auto
termination
  by (relation "measure (\<lambda>(stack, _). \<Sum>p\<leftarrow>stack. pynodes (fst p))")
    (auto dest!: preflight_children_nodes simp: o_def)

definition preflight_raw_transport :: "pyval \<Rightarrow> exn + nat" where
  "preflight_raw_transport raw = preflight_loop [(raw, 1)] 0"

definition measure_rule_text :: "pyval \<Rightarrow> nat \<Rightarrow> string \<Rightarrow> exn + nat" where
  "measure_rule_text v limit_bytes boundary =
     (case measure_json_bytes v limit_bytes boundary of
        Inl (CanonicalJsonSizeLimitError b l n) \<Rightarrow> Inl (RuleTextResourceLimitError b l n)
      | Inl (TypeError _) \<Rightarrow> Inl (RuleTransportError ''rule transport must be JSON-compatible'')
      | Inl (ValueError _) \<Rightarrow> Inl (RuleTransportError ''rule transport must be JSON-compatible'')
      | r \<Rightarrow> r)"

definition validate_expression_transport :: "(pyval \<Rightarrow> bool) \<Rightarrow> pyval \<Rightarrow> exn + unit" where
  "validate_expression_transport schema_valid raw =
     bindE (preflight_raw_transport raw) (\<lambda>_.
     bindE (measure_rule_text raw MAX_DSL_EXPRESSION_UTF8_BYTES ''expression'') (\<lambda>_.
     if \<not> schema_valid raw
     then Inl (RuleTransportError ''rule expression fails JSON Schema transport validation'')
     else Inr ()))"

subsection \<open>Numbers\<close>

definition parser_canonical_decimal :: "decimal \<Rightarrow> exn + decimal" where
  "parser_canonical_decimal v = bindE (require_bounded_decimal v) (\<lambda>_. Inr (canonical v))"

definition decimal_of_number_text :: "exn + string \<Rightarrow> string \<Rightarrow> exn + decimal" where
  "decimal_of_number_text text label =
     (case text of
        Inl _ \<Rightarrow> Inl (RuleTransportError (label @ '' must be Decimal-compatible''))
      | Inr t \<Rightarrow>
          (case decimal_of_text t of
             None \<Rightarrow> Inl (RuleTransportError (label @ '' must be Decimal-compatible''))
           | Some d \<Rightarrow>
               if \<not> is_finite d then Inl (RuleTransportError (label @ '' must be finite''))
               else parser_canonical_decimal d))"

text \<open>\<open>_decimal_from_json_number\<close>, on the two numeric types it is called with.\<close>

fun decimal_from_json_number :: "pyval \<Rightarrow> string \<Rightarrow> exn + decimal" where
  "decimal_from_json_number (PyInt n) label = decimal_of_number_text (python_int_text n) label"
| "decimal_from_json_number (PyFloat t) label =
     (if \<not> float_is_finite t then Inl (RuleTransportError (label @ '' must be finite''))
      else decimal_of_number_text (Inr t) label)"
| "decimal_from_json_number _ label = Inl (TypeError label)"

subsection \<open>Operator typing\<close>

definition require_arity :: "string \<Rightarrow> expression list \<Rightarrow> nat \<Rightarrow> exn + unit" where
  "require_arity operator operands expected =
     (if length operands \<noteq> expected
      then Inl (RuleSemanticError (operator @ '' requires exactly '' @ nat_text expected @ '' operands''))
      else Inr ())"

definition require_minimum_arity :: "string \<Rightarrow> expression list \<Rightarrow> nat \<Rightarrow> exn + unit" where
  "require_minimum_arity operator operands minimum =
     (if length operands < minimum
      then Inl (RuleSemanticError (operator @ '' requires at least '' @ nat_text minimum @ '' operands''))
      else Inr ())"

definition require_all_kinds :: "string \<Rightarrow> evidence_kind list \<Rightarrow> evidence_kind \<Rightarrow> exn + unit" where
  "require_all_kinds operator operand_kinds expected =
     (if list_ex (\<lambda>kind. kind \<noteq> expected) operand_kinds
      then Inl (RuleSemanticError (operator @ '' operands must all be '' @ kind_text expected))
      else Inr ())"

text \<open>The value of an arithmetic operator on the constant operands, in the 28-digit context; \<open>None\<close> for a
  division by zero and for the operators that are not arithmetic.\<close>

definition static_result :: "string \<Rightarrow> decimal list \<Rightarrow> exn + decimal option" where
  "static_result operator values =
     (let canonical_some = \<lambda>r. bindE r (\<lambda>d. bindE (parser_canonical_decimal d) (\<lambda>c. Inr (Some c))) in
      if operator = ''add'' then canonical_some (ctx_sum values)
      else if operator = ''subtract''
      then (case values of a # b # _ \<Rightarrow> canonical_some (ctx_subtract a b)
            | _ \<Rightarrow> Inl (IndexError ''tuple index out of range''))
      else if operator = ''multiply'' then canonical_some (foldE ctx_multiply dec_one values)
      else if operator = ''divide''
      then (case values of
              a # b # _ \<Rightarrow> if dec_is_zero b then Inr None else canonical_some (ctx_divide a b)
            | _ \<Rightarrow> Inl (IndexError ''tuple index out of range''))
      else Inr None)"

fun static_decimal :: "expression \<Rightarrow> exn + decimal option" where
  "static_decimal (LiteralExpression kind v) =
     (if kind \<noteq> KIND_DECIMAL then Inr None
      else case v of SDecimal d \<Rightarrow> Inr (Some d) | _ \<Rightarrow> Inl (AssertionError []))"
| "static_decimal (PathExpression path kind) = Inr None"
| "static_decimal (OperationExpression operator operands kind) =
     (if kind \<noteq> KIND_DECIMAL then Inr None
      else
        bindE (mapE static_decimal operands) (\<lambda>values.
        if list_ex (\<lambda>v. v = None) values then Inr None
        else static_result operator (List.map_filter id values)))"

definition validate_operator :: "string \<Rightarrow> expression list \<Rightarrow> exn + evidence_kind" where
  "validate_operator operator operands =
     (let kinds = map expr_kind operands in
      if operator = ''and'' \<or> operator = ''or''
      then
        bindE (require_minimum_arity operator operands 1) (\<lambda>_.
        bindE (require_all_kinds operator kinds KIND_BOOLEAN) (\<lambda>_. Inr KIND_BOOLEAN))
      else if operator = ''not''
      then
        bindE (require_arity operator operands 1) (\<lambda>_.
        bindE (require_all_kinds operator kinds KIND_BOOLEAN) (\<lambda>_. Inr KIND_BOOLEAN))
      else if operator = ''eq'' \<or> operator = ''ne''
      then
        bindE (require_arity operator operands 2) (\<lambda>_.
        if kinds ! 0 \<noteq> kinds ! 1
        then Inl (RuleSemanticError (operator @ '' operands must have the same type''))
        else Inr KIND_BOOLEAN)
      else if operator = ''lt'' \<or> operator = ''lte'' \<or> operator = ''gt'' \<or> operator = ''gte''
      then
        bindE (require_arity operator operands 2) (\<lambda>_.
        if kinds ! 0 \<noteq> kinds ! 1 \<or> (kinds ! 0 \<noteq> KIND_DECIMAL \<and> kinds ! 0 \<noteq> KIND_DATETIME)
        then Inl (RuleSemanticError (operator @ '' operands must both be Decimal or datetime''))
        else Inr KIND_BOOLEAN)
      else if operator = ''add'' \<or> operator = ''multiply''
      then
        bindE (require_minimum_arity operator operands 2) (\<lambda>_.
        bindE (require_all_kinds operator kinds KIND_DECIMAL) (\<lambda>_. Inr KIND_DECIMAL))
      else if operator = ''subtract'' \<or> operator = ''divide''
      then
        bindE (require_arity operator operands 2) (\<lambda>_.
        bindE (require_all_kinds operator kinds KIND_DECIMAL) (\<lambda>_.
        if operator = ''divide''
        then
          bindE (static_decimal (operands ! 1)) (\<lambda>denominator.
          if (case denominator of None \<Rightarrow> False | Some d \<Rightarrow> dec_is_zero d)
          then Inl (RuleSemanticError ''divide denominator is statically zero'')
          else Inr KIND_DECIMAL)
        else Inr KIND_DECIMAL))
      else if operator = ''in''
      then
        bindE (require_arity operator operands 2) (\<lambda>_.
        bindE (require_all_kinds operator kinds KIND_STRING) (\<lambda>_. Inr KIND_BOOLEAN))
      else if operator = ''exists''
      then bindE (require_arity operator operands 1) (\<lambda>_. Inr KIND_BOOLEAN)
      else if operator = ''if''
      then
        bindE (require_arity operator operands 3) (\<lambda>_.
        if kinds ! 0 \<noteq> KIND_BOOLEAN then Inl (RuleSemanticError ''if condition must be Boolean'')
        else if kinds ! 1 \<noteq> kinds ! 2
        then Inl (RuleSemanticError ''if branches must have the same type'')
        else Inr (kinds ! 1))
      else Inl (AssertionError ''all allowed operators are validated above''))"

subsection \<open>Parsing\<close>

definition consume_node :: "nat \<Rightarrow> nat \<Rightarrow> exn + nat" where
  "consume_node nodes depth =
     (if depth > MAX_EXPRESSION_DEPTH then Inl (RuleSafetyError ''expression depth exceeds 16'')
      else if nodes + 1 > MAX_AST_NODES then Inl (RuleSafetyError ''expression node count exceeds 128'')
      else Inr (nodes + 1))"

lemma consume_node_Inr [exc_simps]:
  "consume_node nodes depth = Inr n \<longleftrightarrow>
     depth \<le> MAX_EXPRESSION_DEPTH \<and> nodes < MAX_AST_NODES \<and> n = nodes + 1"
  by (auto simp: consume_node_def)

text \<open>\<open>_parse_expression\<close> and the comprehension over the operands; the node counter of \<open>_ParseBudget\<close> is
  threaded through.\<close>

fun parse_node :: "pyval \<Rightarrow> nat \<Rightarrow> nat \<Rightarrow> exn + expression \<times> nat"
  and parse_operands :: "pyval list \<Rightarrow> nat \<Rightarrow> nat \<Rightarrow> exn + expression list \<times> nat" where
  "parse_node raw nodes depth =
     bindE (consume_node nodes depth) (\<lambda>nodes.
     case raw of
       PyNone \<Rightarrow> Inr (LiteralExpression KIND_NULL SNone, nodes)
     | PyBool b \<Rightarrow> Inr (LiteralExpression KIND_BOOLEAN (SBool b), nodes)
     | PyStr s \<Rightarrow> Inr (LiteralExpression KIND_STRING (SString s), nodes)
     | PyInt n \<Rightarrow> bindE (decimal_from_json_number raw ''literal'') (\<lambda>d.
         Inr (LiteralExpression KIND_DECIMAL (SDecimal d), nodes))
     | PyFloat t \<Rightarrow> bindE (decimal_from_json_number raw ''literal'') (\<lambda>d.
         Inr (LiteralExpression KIND_DECIMAL (SDecimal d), nodes))
     | PyDict [(key, v)] \<Rightarrow>
         if key = ''var''
         then (case v of
                 PyStr path \<Rightarrow> bindE (kind_for registry_schema path) (\<lambda>kind.
                   Inr (PathExpression path kind, nodes))
               | _ \<Rightarrow> Inl (RuleTransportError ''var path must be a string''))
         else if key \<notin> set ALLOWED_OPERATORS
         then Inl (RuleTransportError ''operator is not allowed'')
         else (case v of
                 PyList operands \<Rightarrow>
                   if \<not> (1 \<le> length operands \<and> length operands \<le> 32)
                   then Inl (RuleTransportError ''operator operands must contain between 1 and 32 values'')
                   else
                     bindE (parse_operands operands nodes (depth + 1)) (\<lambda>(parsed, nodes).
                     bindE (validate_operator key parsed) (\<lambda>result_kind.
                     Inr (OperationExpression key parsed result_kind, nodes)))
               | _ \<Rightarrow> Inl (RuleTransportError ''operator operands must be a JSON array''))
     | PyDict _ \<Rightarrow>
         Inl (RuleTransportError ''operator objects must contain exactly one allowed operator'')
     | _ \<Rightarrow> Inl (RuleTransportError ''expressions must be JSON scalar values or objects''))"
| "parse_operands [] nodes depth = Inr ([], nodes)"
| "parse_operands (raw # raws) nodes depth =
     bindE (parse_node raw nodes depth) (\<lambda>(e, nodes).
     bindE (parse_operands raws nodes depth) (\<lambda>(es, nodes). Inr (e # es, nodes)))"

declare parse_node.simps [simp del]

definition parse_expression :: "(pyval \<Rightarrow> bool) \<Rightarrow> pyval \<Rightarrow> exn + expression" where
  "parse_expression schema_valid raw =
     bindE (validate_expression_transport schema_valid raw) (\<lambda>_.
     bindE (parse_node raw 0 1) (\<lambda>(e, _). Inr e))"

definition parse_rule :: "(pyval \<Rightarrow> bool) \<Rightarrow> pyval \<Rightarrow> exn + rule" where
  "parse_rule schema_valid raw =
     (case raw of
        PyDict kvs \<Rightarrow>
          if \<not> set (map fst kvs) \<subseteq> {''id'', ''expression'', ''weight''} \<or>
             ''id'' \<notin> set (map fst kvs) \<or> ''expression'' \<notin> set (map fst kvs)
          then Inl (RuleTransportError ''rule must contain only id, expression, and optional weight'')
          else (case map_of kvs ''id'' of
              Some (PyStr rule_id) \<Rightarrow>
                if is_blank rule_id then Inl (RuleTransportError ''rule id must be a non-blank string'')
                else
                  bindE (require_rule_identifier rule_id ''rule id'') (\<lambda>_.
                  let raw_weight = (case map_of kvs ''weight'' of Some w \<Rightarrow> w | None \<Rightarrow> PyInt 1) in
                  if \<not> (case raw_weight of PyInt _ \<Rightarrow> True | PyFloat _ \<Rightarrow> True | _ \<Rightarrow> False)
                  then Inl (RuleTransportError ''rule weight must be a JSON number'')
                  else
                    bindE (decimal_from_json_number raw_weight ''rule weight'') (\<lambda>weight.
                    if dec_le weight dec_zero
                    then Inl (RuleSemanticError ''rule weight must be positive'')
                    else
                      bindE (parse_expression schema_valid (the (map_of kvs ''expression''))) (\<lambda>e.
                      rule_post_init
                        \<lparr>rule_rule_id = rule_id, rule_expression = e, rule_weight = weight\<rparr>)))
            | _ \<Rightarrow> Inl (RuleTransportError ''rule id must be a non-blank string''))
      | _ \<Rightarrow> Inl (RuleTransportError ''rule must be a JSON object''))"

text \<open>\<open>_count_expression_ast_nodes\<close>: the count stops as soon as it exceeds the ruleset limit.\<close>

fun expr_nodes :: "expression \<Rightarrow> nat" where
  "expr_nodes (OperationExpression operator operands kind) = 1 + (\<Sum>e\<leftarrow>operands. expr_nodes e)"
| "expr_nodes _ = 1"

lemma expr_nodes_pos: "0 < expr_nodes e"
  by (cases e) simp_all

fun expr_operands :: "expression \<Rightarrow> expression list" where
  "expr_operands (OperationExpression operator operands kind) = operands"
| "expr_operands _ = []"

lemma expr_nodes_operands: "expr_nodes e = 1 + (\<Sum>o'\<leftarrow>expr_operands e. expr_nodes o')"
  by (cases e) simp_all

lemma stack_nodes_less:
  "(\<Sum>e\<leftarrow>expr_operands node @ stack. expr_nodes e) < (\<Sum>e\<leftarrow>node # stack. expr_nodes e)"
  using expr_nodes_operands [of node] by simp

function count_loop :: "expression list \<Rightarrow> nat \<Rightarrow> nat" where
  "count_loop [] node_count = node_count"
| "count_loop (node # stack) node_count =
     (if node_count + 1 > MAX_RULESET_AST_NODES then node_count + 1
      else count_loop (expr_operands node @ stack) (node_count + 1))"
  by pat_completeness auto
termination
  by (relation "measure (\<lambda>(stack, _). \<Sum>e\<leftarrow>stack. expr_nodes e)")
    (use stack_nodes_less in simp_all)

definition count_expression_ast_nodes :: "expression \<Rightarrow> nat" where
  "count_expression_ast_nodes e = count_loop [e] 0"

text \<open>The loop of \<open>parse_rules\<close> with the running node total.\<close>

fun parse_rules_from :: "(pyval \<Rightarrow> bool) \<Rightarrow> nat \<Rightarrow> pyval list \<Rightarrow> exn + rule list" where
  "parse_rules_from schema_valid total_nodes [] = Inr []"
| "parse_rules_from schema_valid total_nodes (raw_rule # raws) =
     bindE (parse_rule schema_valid raw_rule) (\<lambda>rule.
     let total_nodes = total_nodes + count_expression_ast_nodes (rule_expression rule) in
     if total_nodes > MAX_RULESET_AST_NODES
     then Inl (RuleSafetyError ''ruleset AST node count exceeds 512'')
     else bindE (parse_rules_from schema_valid total_nodes raws) (\<lambda>rules. Inr (rule # rules)))"

fun sequence_items :: "pyval \<Rightarrow> pyval list option" where
  "sequence_items (PyList xs) = Some xs"
| "sequence_items (PyTuple xs) = Some xs"
| "sequence_items _ = None"

definition parse_rules :: "(pyval \<Rightarrow> bool) \<Rightarrow> pyval \<Rightarrow> exn + rule list" where
  "parse_rules schema_valid raw_rules =
     (case sequence_items raw_rules of
        None \<Rightarrow> Inl (RuleTransportError ''rules must be a JSON array'')
      | Some raws \<Rightarrow>
          if length raws > MAX_RULESET_RULES
          then Inl (RuleSafetyError ''ruleset rule count exceeds 512'')
          else
            bindE (preflight_raw_transport raw_rules) (\<lambda>_.
            bindE (measure_rule_text raw_rules MAX_DSL_RULESET_UTF8_BYTES ''ruleset'') (\<lambda>_.
            bindE (parse_rules_from schema_valid 0 raws) (\<lambda>rules.
            if \<not> distinct (map rule_rule_id rules) then Inl (RuleSemanticError ''rule ids must be unique'')
            else Inr rules))))"

subsection \<open>Revalidation of a public tree\<close>

definition validate_public_literal :: "evidence_kind \<Rightarrow> scalar \<Rightarrow> exn + unit" where
  "validate_public_literal kind v =
     (if kind = KIND_DECIMAL
      then (case v of
              SDecimal d \<Rightarrow> bindE (require_bounded_decimal d) (\<lambda>_. Inr ())
            | _ \<Rightarrow> Inl (RuleSemanticError ''public Decimal literals must hold Decimal values''))
      else Inr ())"

text \<open>The checks at one node of the walk.\<close>

definition ast_node_check :: "expression \<Rightarrow> exn + unit" where
  "ast_node_check node =
     (case node of
        LiteralExpression kind v \<Rightarrow> validate_public_literal kind v
      | PathExpression path kind \<Rightarrow>
          bindE (kind_for registry_schema path) (\<lambda>expected_kind.
          if kind \<noteq> expected_kind
          then Inl (RuleSemanticError ''public path expression kind does not match the registry'')
          else Inr ())
      | OperationExpression operator operands kind \<Rightarrow>
          if operator \<notin> set ALLOWED_OPERATORS
          then Inl (RuleSemanticError ''public operation expression has an unsupported operator'')
          else Inr ())"

text \<open>The walk; it returns the operations in the reversed order in which the second loop visits
  them.\<close>

function ast_walk :: "(expression \<times> nat) list \<Rightarrow> nat \<Rightarrow> expression list \<Rightarrow> exn + expression list" where
  "ast_walk [] node_count operations = Inr operations"
| "ast_walk ((node, depth) # stack) node_count operations =
     (if depth > MAX_EXPRESSION_DEPTH then Inl (RuleSafetyError ''expression depth exceeds 16'')
      else if node_count + 1 > MAX_AST_NODES
      then Inl (RuleSafetyError ''expression node count exceeds 128'')
      else bindE (ast_node_check node) (\<lambda>_.
        ast_walk (map (\<lambda>o'. (o', depth + 1)) (expr_operands node) @ stack) (node_count + 1)
          (case node of OperationExpression _ _ _ \<Rightarrow> node # operations | _ \<Rightarrow> operations)))"
  by pat_completeness auto
termination
  by (relation "measure (\<lambda>(stack, _). \<Sum>p\<leftarrow>stack. expr_nodes (fst p))")
    (use stack_nodes_less [of _ "map fst stack" for stack] in \<open>simp_all add: o_def\<close>)

definition operation_check :: "expression \<Rightarrow> exn + unit" where
  "operation_check operation =
     (case operation of
        OperationExpression operator operands kind \<Rightarrow>
          bindE (validate_operator operator operands) (\<lambda>result_kind.
          if kind \<noteq> result_kind
          then Inl (RuleSemanticError ''public operation result kind does not match its operands'')
          else Inr ())
      | _ \<Rightarrow> Inr ())"

definition validate_expression_ast :: "expression \<Rightarrow> exn + unit" where
  "validate_expression_ast e =
     bindE (ast_walk [(e, 1)] 0 []) (\<lambda>operations.
     bindE (mapE operation_check operations) (\<lambda>_. Inr ()))"

subsection \<open>The preflight is exact\<close>

fun pychildren :: "pyval \<Rightarrow> pyval list" where
  "pychildren (PyDict kvs) = map snd kvs"
| "pychildren (PyList xs) = xs"
| "pychildren (PyTuple xs) = xs"
| "pychildren _ = []"

fun pydepth :: "pyval \<Rightarrow> nat" where
  "pydepth (PyDict kvs) = Suc (foldr (\<lambda>kv. max (pydepth (snd kv))) kvs 0)"
| "pydepth (PyList xs) = Suc (foldr (\<lambda>x. max (pydepth x)) xs 0)"
| "pydepth (PyTuple xs) = Suc (foldr (\<lambda>x. max (pydepth x)) xs 0)"
| "pydepth _ = 1"

fun pytexts_ok :: "pyval \<Rightarrow> bool" where
  "pytexts_ok (PyDict kvs) =
     list_all (\<lambda>kv. length (fst kv) \<le> MAX_STRING_UTF8_BYTES \<and> pytexts_ok (snd kv)) kvs"
| "pytexts_ok (PyList xs) = list_all pytexts_ok xs"
| "pytexts_ok (PyTuple xs) = list_all pytexts_ok xs"
| "pytexts_ok (PyStr s) = (length s \<le> MAX_STRING_UTF8_BYTES)"
| "pytexts_ok _ = True"

text \<open>The limit on a node itself: of its own text, or of its keys.\<close>

definition pytext_local :: "pyval \<Rightarrow> bool" where
  "pytext_local v =
     (case v of
        PyDict kvs \<Rightarrow> list_all (\<lambda>kv. length (fst kv) \<le> MAX_STRING_UTF8_BYTES) kvs
      | PyStr s \<Rightarrow> length s \<le> MAX_STRING_UTF8_BYTES
      | _ \<Rightarrow> True)"

lemma foldr_max_le: "foldr (\<lambda>x. max (f x)) xs 0 \<le> (k::nat) \<longleftrightarrow> (\<forall>x \<in> set xs. f x \<le> k)"
  by (induction xs) auto

lemma pydepth_le: "d + pydepth v \<le> Suc k \<longleftrightarrow> d \<le> k \<and> (\<forall>c \<in> set (pychildren v). Suc d + pydepth c \<le> Suc k)"
proof -
  have *: "d + foldr (\<lambda>x. max (f x)) xs 0 \<le> k \<longleftrightarrow> d \<le> k \<and> (\<forall>x \<in> set xs. d + f x \<le> k)"
    for f :: "'a \<Rightarrow> nat" and xs
    using foldr_max_le [of f xs "k - d"] by (auto simp: le_diff_conv2 add.commute)
  show ?thesis by (cases v) (simp_all add: * del: foldr.simps)
qed

lemma pytexts_ok_children:
  "pytexts_ok v \<longleftrightarrow> pytext_local v \<and> (\<forall>c \<in> set (pychildren v). pytexts_ok c)"
  by (cases v) (auto simp: pytext_local_def list_all_iff)

lemma pynodes_children: "pynodes v = Suc (\<Sum>c\<leftarrow>pychildren v. pynodes c)"
  by (cases v) (simp_all add: o_def)

lemma mapE_ignoring:
  "mapE f xs = Inr ys \<Longrightarrow> (\<And>x y. f x = Inr y \<Longrightarrow> P x) \<Longrightarrow> \<forall>x \<in> set xs. P x"
  by (auto dest: mapE_set_Inr)

lemma preflight_children_Inr:
  assumes "n \<le> 512"
  shows "preflight_children n v = Inr cs \<longleftrightarrow>
     cs = pychildren v \<and> pytext_local v \<and> (pychildren v = [] \<or> n + length cs \<le> 512)"
proof (cases v)
  case (PyDict kvs)
  have "(\<exists>ys. mapE (\<lambda>kv. require_rule_text (fst kv) ''object key'') (rev kvs) = Inr ys) \<longleftrightarrow>
      list_all (\<lambda>kv. length (fst kv) \<le> MAX_STRING_UTF8_BYTES) kvs"
  proof
    assume "\<exists>ys. mapE (\<lambda>kv. require_rule_text (fst kv) ''object key'') (rev kvs) = Inr ys"
    then have "\<forall>kv \<in> set (rev kvs). length (fst kv) \<le> MAX_STRING_UTF8_BYTES"
      by (elim exE mapE_ignoring) (simp add: exc_simps)
    then show "list_all (\<lambda>kv. length (fst kv) \<le> MAX_STRING_UTF8_BYTES) kvs" by (simp add: list_all_iff)
  next
    assume "list_all (\<lambda>kv. length (fst kv) \<le> MAX_STRING_UTF8_BYTES) kvs"
    then have "mapE (\<lambda>kv. require_rule_text (fst kv) ''object key'') (rev kvs) = Inr (map fst (rev kvs))"
      by (intro mapE_all_Inr) (simp add: exc_simps list_all_iff)
    then show "\<exists>ys. mapE (\<lambda>kv. require_rule_text (fst kv) ''object key'') (rev kvs) = Inr ys" by blast
  qed
  then show ?thesis
    using assms unfolding PyDict preflight_children_def pytext_local_def require_raw_container_fits_node_budget_def
      MAX_RAW_TRANSPORT_NODES_def
    by (auto simp: exc_simps)
qed (use assms in \<open>auto simp: preflight_children_def pytext_local_def exc_simps
    require_raw_container_fits_node_budget_def MAX_RAW_TRANSPORT_NODES_def\<close>)

lemma preflight_loop_Inr:
  "preflight_loop stack n = Inr m \<longleftrightarrow>
     m = n + (\<Sum>p\<leftarrow>stack. pynodes (fst p)) \<and> (stack = [] \<or> m \<le> 512) \<and>
     (\<forall>p \<in> set stack. snd p + pydepth (fst p) \<le> 33 \<and> pytexts_ok (fst p))"
proof (induction stack n rule: preflight_loop.induct)
  case (2 node depth stack n)
  let ?cs = "pychildren node"
  have nodes: "(\<Sum>p\<leftarrow>(node, depth) # stack. pynodes (fst p)) =
      1 + (\<Sum>p\<leftarrow>map (\<lambda>c. (c, depth + 1)) ?cs @ stack. pynodes (fst p))"
    using pynodes_children [of node] by (simp add: o_def)
  have len: "length ?cs \<le> (\<Sum>p\<leftarrow>map (\<lambda>c. (c, depth + 1)) ?cs @ stack. pynodes (fst p))"
  proof -
    have "length cs \<le> (\<Sum>c\<leftarrow>cs. pynodes c)" for cs
      proof (induction cs)
      case (Cons c cs)
      then show ?case using pynodes_pos [of c] by simp
    qed simp
    then show ?thesis by (simp add: o_def trans_le_add1)
  qed
  show ?case
  proof (cases "depth \<le> 32 \<and> n < 512")
    case True
    have children: "preflight_children (n + 1) node = Inr cs \<longleftrightarrow>
        cs = ?cs \<and> pytext_local node \<and> (?cs = [] \<or> n + 1 + length cs \<le> 512)" for cs
      using True by (intro preflight_children_Inr) simp
    have all: "(\<forall>p \<in> set ((node, depth) # stack). snd p + pydepth (fst p) \<le> 33 \<and> pytexts_ok (fst p)) \<longleftrightarrow>
        pytext_local node \<and> (\<forall>p \<in> set (map (\<lambda>c. (c, depth + 1)) ?cs @ stack).
          snd p + pydepth (fst p) \<le> 33 \<and> pytexts_ok (fst p))"
      using True pydepth_le [of depth node 32] by (simp add: pytexts_ok_children [of node] ball_Un) blast
    show ?thesis
    proof (cases "pytext_local node \<and> (?cs = [] \<or> n + 1 + length ?cs \<le> 512)")
      case fits: True
      then have "preflight_children (n + 1) node = Inr ?cs" using children by blast
      then have "preflight_loop ((node, depth) # stack) n = Inr m \<longleftrightarrow>
          preflight_loop (map (\<lambda>c. (c, depth + 1)) ?cs @ stack) (n + 1) = Inr m"
        using True by (simp add: MAX_RAW_TRANSPORT_DEPTH_def MAX_RAW_TRANSPORT_NODES_def)
      also have "\<dots> \<longleftrightarrow> m = n + 1 + (\<Sum>p\<leftarrow>map (\<lambda>c. (c, depth + 1)) ?cs @ stack. pynodes (fst p)) \<and>
          (map (\<lambda>c. (c, depth + 1)) ?cs @ stack = [] \<or> m \<le> 512) \<and>
          (\<forall>p \<in> set (map (\<lambda>c. (c, depth + 1)) ?cs @ stack). snd p + pydepth (fst p) \<le> 33 \<and> pytexts_ok (fst p))"
        using True \<open>preflight_children (n + 1) node = Inr ?cs\<close>
        by (intro 2) (simp_all add: MAX_RAW_TRANSPORT_DEPTH_def MAX_RAW_TRANSPORT_NODES_def)
      finally show ?thesis unfolding all nodes using fits True by auto
    next
      case False
      then have "\<not> preflight_loop ((node, depth) # stack) n = Inr m"
        using True children by (auto simp: bindE_Inr)
      moreover have "\<not> (m = n + (\<Sum>p\<leftarrow>(node, depth) # stack. pynodes (fst p)) \<and> m \<le> 512 \<and> pytext_local node)"
        using False len nodes by auto
      ultimately show ?thesis unfolding all by blast
    qed
  next
    case False
    then have "\<not> preflight_loop ((node, depth) # stack) n = Inr m"
      by (auto simp: MAX_RAW_TRANSPORT_DEPTH_def MAX_RAW_TRANSPORT_NODES_def)
    moreover have "\<not> (m = n + (\<Sum>p\<leftarrow>(node, depth) # stack. pynodes (fst p)) \<and> m \<le> 512 \<and> depth + pydepth node \<le> 33)"
      using False pynodes_pos [of node] pydepth_le [of depth node 32] by auto
    ultimately show ?thesis by auto
  qed
qed auto

lemma preflight_raw_transport_Inr:
  "preflight_raw_transport raw = Inr m \<longleftrightarrow>
     m = pynodes raw \<and> pynodes raw \<le> MAX_RAW_TRANSPORT_NODES \<and>
     pydepth raw \<le> MAX_RAW_TRANSPORT_DEPTH \<and> pytexts_ok raw"
  unfolding preflight_raw_transport_def preflight_loop_Inr MAX_RAW_TRANSPORT_NODES_def
    MAX_RAW_TRANSPORT_DEPTH_def by auto

subsection \<open>The revalidation of a public tree is exact\<close>

fun expr_depth :: "expression \<Rightarrow> nat" where
  "expr_depth (OperationExpression operator operands kind) =
     Suc (foldr (\<lambda>e. max (expr_depth e)) operands 0)"
| "expr_depth _ = 1"

text \<open>The recursive specification of an accepted tree.\<close>

fun ast_ok :: "expression \<Rightarrow> bool" where
  "ast_ok (LiteralExpression kind v) \<longleftrightarrow> validate_public_literal kind v = Inr ()"
| "ast_ok (PathExpression path kind) \<longleftrightarrow> map_of M0_M1_FIELD_KINDS path = Some kind"
| "ast_ok (OperationExpression operator operands kind) \<longleftrightarrow>
     operator \<in> set ALLOWED_OPERATORS \<and> list_all ast_ok operands \<and>
     validate_operator operator operands = Inr kind"

text \<open>The two loops separately: what the walk accepts, and the operations in its order.\<close>

fun walk_ok :: "expression \<Rightarrow> bool" where
  "walk_ok (OperationExpression operator operands kind) \<longleftrightarrow>
     operator \<in> set ALLOWED_OPERATORS \<and> list_all walk_ok operands"
| "walk_ok e \<longleftrightarrow> ast_node_check e = Inr ()"

fun expr_operations :: "expression \<Rightarrow> expression list" where
  "expr_operations (OperationExpression operator operands kind) =
     OperationExpression operator operands kind # concat (map expr_operations operands)"
| "expr_operations _ = []"

lemma expr_depth_le:
  "d + expr_depth e \<le> Suc k \<longleftrightarrow> d \<le> k \<and> (\<forall>c \<in> set (expr_operands e). Suc d + expr_depth c \<le> Suc k)"
proof (cases e)
  case (OperationExpression operator operands kind)
  have "d + foldr (\<lambda>x. max (expr_depth x)) operands 0 \<le> k \<longleftrightarrow>
      d \<le> k \<and> (\<forall>x \<in> set operands. d + expr_depth x \<le> k)"
    using foldr_max_le [of expr_depth operands "k - d"] by (auto simp: le_diff_conv2 add.commute)
  with OperationExpression show ?thesis by simp
qed simp_all

lemma walk_ok_step:
  "walk_ok e \<longleftrightarrow> ast_node_check e = Inr () \<and> (\<forall>c \<in> set (expr_operands e). walk_ok c)"
  by (cases e) (auto simp: ast_node_check_def list_all_iff)

lemma expr_operations_step:
  "expr_operations e =
     (case e of OperationExpression _ _ _ \<Rightarrow> [e] | _ \<Rightarrow> []) @ concat (map expr_operations (expr_operands e))"
  by (cases e) simp_all

lemma ast_walk_Inr:
  "ast_walk stack n ops = Inr r \<longleftrightarrow>
     r = rev (concat (map (expr_operations \<circ> fst) stack)) @ ops \<and>
     (stack = [] \<or> n + (\<Sum>p\<leftarrow>stack. expr_nodes (fst p)) \<le> 128) \<and>
     (\<forall>p \<in> set stack. snd p + expr_depth (fst p) \<le> 17 \<and> walk_ok (fst p))"
proof (induction stack n ops rule: ast_walk.induct)
  case (2 node depth stack n ops)
  let ?cs = "expr_operands node"
  let ?next = "map (\<lambda>c. (c, depth + 1)) ?cs @ stack"
  let ?ops = "case node of OperationExpression _ _ _ \<Rightarrow> node # ops | _ \<Rightarrow> ops"
  have nodes: "(\<Sum>p\<leftarrow>(node, depth) # stack. expr_nodes (fst p)) = 1 + (\<Sum>p\<leftarrow>?next. expr_nodes (fst p))"
    using expr_nodes_operands [of node] by (simp add: o_def)
  have operations: "rev (concat (map (expr_operations \<circ> fst) ((node, depth) # stack))) @ ops =
      rev (concat (map (expr_operations \<circ> fst) ?next)) @ ?ops"
    using expr_operations_step [of node] by (cases node) (simp_all add: o_def)
  show ?case
  proof (cases "depth \<le> 16 \<and> n < 128")
    case True
    have all: "(\<forall>p \<in> set ((node, depth) # stack). snd p + expr_depth (fst p) \<le> 17 \<and> walk_ok (fst p)) \<longleftrightarrow>
        ast_node_check node = Inr () \<and> (\<forall>p \<in> set ?next. snd p + expr_depth (fst p) \<le> 17 \<and> walk_ok (fst p))"
      using True expr_depth_le [of depth node 16] by (simp add: walk_ok_step [of node] ball_Un) blast
    show ?thesis
    proof (cases "ast_node_check node")
      case (Inl e)
      then have "\<not> ast_walk ((node, depth) # stack) n ops = Inr r" using True by simp
      with Inl show ?thesis unfolding all by simp
    next
      case (Inr u)
      then have "ast_walk ((node, depth) # stack) n ops = Inr r \<longleftrightarrow> ast_walk ?next (n + 1) ?ops = Inr r"
        using True by (simp add: MAX_EXPRESSION_DEPTH_def MAX_AST_NODES_def)
      also have "\<dots> \<longleftrightarrow> r = rev (concat (map (expr_operations \<circ> fst) ?next)) @ ?ops \<and>
          (?next = [] \<or> n + 1 + (\<Sum>p\<leftarrow>?next. expr_nodes (fst p)) \<le> 128) \<and>
          (\<forall>p \<in> set ?next. snd p + expr_depth (fst p) \<le> 17 \<and> walk_ok (fst p))"
        using True Inr by (intro 2) (simp_all add: MAX_EXPRESSION_DEPTH_def MAX_AST_NODES_def)
      finally show ?thesis unfolding all operations nodes using Inr True by auto
    qed
  next
    case False
    then have "\<not> ast_walk ((node, depth) # stack) n ops = Inr r"
      by (auto simp: MAX_EXPRESSION_DEPTH_def MAX_AST_NODES_def)
    moreover have "\<not> (n + (\<Sum>p\<leftarrow>(node, depth) # stack. expr_nodes (fst p)) \<le> 128 \<and>
        depth + expr_depth node \<le> 17)"
      using False expr_nodes_pos [of node] expr_depth_le [of depth node 16] by auto
    ultimately show ?thesis by auto
  qed
qed auto

lemma operation_check_Inr:
  "operation_check (OperationExpression operator operands kind) = Inr u \<longleftrightarrow>
     validate_operator operator operands = Inr kind"
  by (auto simp: operation_check_def exc_simps)

lemma ast_ok_split:
  "ast_ok e \<longleftrightarrow> walk_ok e \<and> (\<forall>o' \<in> set (expr_operations e). operation_check o' = Inr ())"
proof (induction e)
  case (OperationExpression operator operands kind)
  have "list_all ast_ok operands \<longleftrightarrow> list_all walk_ok operands \<and>
      (\<forall>o' \<in> set (concat (map expr_operations operands)). operation_check o' = Inr ())"
    using OperationExpression by (auto simp: list_all_iff)
  then show ?case by (auto simp: operation_check_Inr)
next
  case (PathExpression path kind)
  then show ?case by (auto simp: ast_node_check_def kind_for_def registry_lookup exc_simps split: option.splits)
qed (simp add: ast_node_check_def)

lemma mapE_units: "(\<exists>ys. mapE f xs = Inr ys) \<longleftrightarrow> (\<forall>x \<in> set xs. \<exists>y. f x = Inr y)"
  by (induction xs) (auto simp: exc_simps)

lemma validate_expression_ast_Inr:
  "validate_expression_ast e = Inr () \<longleftrightarrow>
     ast_ok e \<and> expr_nodes e \<le> MAX_AST_NODES \<and> expr_depth e \<le> MAX_EXPRESSION_DEPTH"
proof -
  have "validate_expression_ast e = Inr () \<longleftrightarrow>
     (\<exists>ops. ast_walk [(e, 1)] 0 [] = Inr ops \<and> (\<exists>us. mapE operation_check ops = Inr us))"
    unfolding validate_expression_ast_def by (auto simp: exc_simps)
  also have "\<dots> \<longleftrightarrow> (\<forall>o' \<in> set (expr_operations e). operation_check o' = Inr ()) \<and>
      expr_nodes e \<le> 128 \<and> expr_depth e \<le> 16 \<and> walk_ok e"
    unfolding ast_walk_Inr mapE_units by auto
  finally show ?thesis
    unfolding MAX_AST_NODES_def MAX_EXPRESSION_DEPTH_def ast_ok_split [of e] by blast
qed

subsection \<open>What the parser returns\<close>

text \<open>A tree built by the parser: every literal has the type of its kind, with canonical decimals, every
  path is registered, and every operation is well typed.\<close>

fun parsed :: "expression \<Rightarrow> bool" where
  "parsed (LiteralExpression kind v) \<longleftrightarrow>
     (case v of
        SDecimal d \<Rightarrow> kind = KIND_DECIMAL \<and> is_finite d \<and> canonical d = d
      | SBool _ \<Rightarrow> kind = KIND_BOOLEAN
      | SString _ \<Rightarrow> kind = KIND_STRING
      | SNone \<Rightarrow> kind = KIND_NULL
      | _ \<Rightarrow> False)"
| "parsed (PathExpression path kind) \<longleftrightarrow> map_of M0_M1_FIELD_KINDS path = Some kind"
| "parsed (OperationExpression operator operands kind) \<longleftrightarrow>
     operator \<in> set ALLOWED_OPERATORS \<and> list_all parsed operands \<and>
     validate_operator operator operands = Inr kind"

fun literals_bounded :: "expression \<Rightarrow> bool" where
  "literals_bounded (LiteralExpression kind v) \<longleftrightarrow> (case v of SDecimal d \<Rightarrow> bounded d | _ \<Rightarrow> True)"
| "literals_bounded (PathExpression path kind) \<longleftrightarrow> True"
| "literals_bounded (OperationExpression operator operands kind) \<longleftrightarrow> list_all literals_bounded operands"

lemma parsed_ast_ok: "parsed e \<Longrightarrow> ast_ok e \<longleftrightarrow> literals_bounded e"
  by (induction e) (auto simp: validate_public_literal_def exc_simps list_all_iff split: scalar.splits)

lemma decimal_from_json_number_Inr:
  assumes "decimal_from_json_number v label = Inr d"
  shows "\<exists>b. bounded b \<and> d = canonical b"
proof -
  have "decimal_of_number_text t label = Inr d \<Longrightarrow> \<exists>b. bounded b \<and> d = canonical b" for t
    by (auto simp: decimal_of_number_text_def parser_canonical_decimal_def exc_simps
        split: sum.splits option.splits if_splits)
  with assms show ?thesis by (cases v) (auto split: if_splits)
qed

lemma number_literal_parsed:
  "decimal_from_json_number v label = Inr d \<Longrightarrow> parsed (LiteralExpression KIND_DECIMAL (SDecimal d))"
  using decimal_from_json_number_Inr bounded_finite by fastforce

text \<open>The counter after parsing is the number of nodes of the tree, within the limits.\<close>

lemma parse_node_Inr:
  "parse_node raw n d = Inr (e, m) \<Longrightarrow>
     parsed e \<and> m = n + expr_nodes e \<and> m \<le> MAX_AST_NODES \<and> d + expr_depth e \<le> Suc MAX_EXPRESSION_DEPTH"
  and parse_operands_Inr:
  "parse_operands raws n d = Inr (es, m) \<Longrightarrow> n \<le> MAX_AST_NODES \<Longrightarrow>
     list_all parsed es \<and> m = n + (\<Sum>e\<leftarrow>es. expr_nodes e) \<and> m \<le> MAX_AST_NODES \<and>
     (\<forall>e \<in> set es. d + expr_depth e \<le> Suc MAX_EXPRESSION_DEPTH)"
proof (induction raw n d and raws n d arbitrary: e m and es m rule: parse_node_parse_operands.induct)
  case (1 raw n d)
  from "1.prems" obtain n' where n': "consume_node n d = Inr n'" by (auto simp: parse_node.simps bindE_Inr)
  then have le: "d \<le> MAX_EXPRESSION_DEPTH" "n < MAX_AST_NODES" and n'_eq: "n' = n + 1"
    by (auto simp: exc_simps)
  show ?case
  proof (cases "\<exists>key v. raw = PyDict [(key, v)]")
    case True
    then obtain key v where raw: "raw = PyDict [(key, v)]" by blast
    show ?thesis
    proof (cases "key = ''var''")
      case True
      with "1.prems" raw n' le n'_eq show ?thesis
        by (auto simp: parse_node.simps bindE_Inr kind_for_def registry_lookup split: pyval.splits option.splits)
    next
      case False
      with "1.prems" raw n' obtain operands es k where v: "v = PyList operands"
        and op: "key \<in> set ALLOWED_OPERATORS" and len: "1 \<le> length operands \<and> length operands \<le> 32"
        and es: "parse_operands operands n' (d + 1) = Inr (es, m)"
        and k: "validate_operator key es = Inr k" and e: "e = OperationExpression key es k"
        by (auto simp: parse_node.simps bindE_Inr split: pyval.splits if_splits)
      have "list_all parsed es \<and> m = n' + (\<Sum>e\<leftarrow>es. expr_nodes e) \<and> m \<le> MAX_AST_NODES \<and>
          (\<forall>e \<in> set es. d + 1 + expr_depth e \<le> Suc MAX_EXPRESSION_DEPTH)"
        using le n'_eq op len False by (intro "1.IH" [OF n' raw refl refl refl _ _ v _ es]) auto
      with k e op n'_eq le show ?thesis
        using expr_depth_le [of d e MAX_EXPRESSION_DEPTH] by simp
    qed
  next
    case False
    with "1.prems" n' le n'_eq number_literal_parsed show ?thesis
      by (auto simp: parse_node.simps bindE_Inr simp del: decimal_from_json_number.simps
          split: pyval.splits list.splits prod.splits)
  qed
next
  case (3 raw raws n d)
  from "3.prems"(1) obtain e n' es' where e: "parse_node raw n d = Inr (e, n')"
    and es': "parse_operands raws n' d = Inr (es', m)" and es: "es = e # es'"
    by (auto simp: bindE_Inr)
  note head = "3.IH"(1) [OF e]
  with "3.IH"(2) [OF e refl es'] es show ?case by simp
qed simp

subsection \<open>Rulesets\<close>

lemma count_loop_min:
  "n \<le> 512 \<Longrightarrow> count_loop stack n = min (n + (\<Sum>e\<leftarrow>stack. expr_nodes e)) 513"
proof (induction stack n rule: count_loop.induct)
  case (2 node stack n)
  have nodes: "(\<Sum>e\<leftarrow>node # stack. expr_nodes e) = 1 + (\<Sum>e\<leftarrow>expr_operands node @ stack. expr_nodes e)"
    using expr_nodes_operands [of node] by simp
  show ?case
  proof (cases "n < 512")
    case True
    then have "count_loop (node # stack) n = count_loop (expr_operands node @ stack) (n + 1)"
      by (simp add: MAX_RULESET_AST_NODES_def)
    also have "\<dots> = min (n + 1 + (\<Sum>e\<leftarrow>expr_operands node @ stack. expr_nodes e)) 513"
      using True by (intro 2) (simp_all add: MAX_RULESET_AST_NODES_def)
    finally show ?thesis unfolding nodes by simp
  next
    case False
    with "2.prems" have "n = 512" by simp
    then show ?thesis unfolding nodes by (simp add: MAX_RULESET_AST_NODES_def)
  qed
qed simp

lemma count_expression_ast_nodes_min: "count_expression_ast_nodes e = min (expr_nodes e) 513"
  by (simp add: count_expression_ast_nodes_def count_loop_min del: count_loop.simps)

text \<open>What every rule that was parsed satisfies.\<close>

definition rule_ok :: "rule \<Rightarrow> bool" where
  "rule_ok r \<longleftrightarrow>
     parsed (rule_expression r) \<and> expr_kind (rule_expression r) = KIND_BOOLEAN \<and>
     expr_nodes (rule_expression r) \<le> MAX_AST_NODES \<and>
     expr_depth (rule_expression r) \<le> MAX_EXPRESSION_DEPTH \<and>
     bounded (rule_weight r) \<and> 0 < rval (rule_weight r) \<and>
     length (rule_rule_id r) \<le> MAX_IDENTIFIER_UTF8_BYTES \<and>
     \<not> is_blank (rule_rule_id r) \<and> strip (rule_rule_id r) = rule_rule_id r"

lemma parse_expression_Inr:
  assumes "parse_expression sv raw = Inr e"
  shows "parsed e \<and> expr_nodes e \<le> MAX_AST_NODES \<and> expr_depth e \<le> MAX_EXPRESSION_DEPTH"
proof -
  from assms obtain n where "parse_node raw 0 1 = Inr (e, n)"
    by (auto simp: parse_expression_def exc_simps)
  from parse_node_Inr [OF this] show ?thesis by simp
qed

lemma parse_rule_Inr:
  assumes "parse_rule sv raw = Inr r" shows "rule_ok r"
proof -
  from assms obtain i e w where e: "parse_expression sv (the (map_of (case raw of PyDict kvs \<Rightarrow> kvs) ''expression'')) = Inr e"
    and r: "rule_post_init \<lparr>rule_rule_id = i, rule_expression = e, rule_weight = w\<rparr> = Inr r"
    by (auto simp: parse_rule_def bindE_Inr Let_def split: pyval.splits if_splits option.splits)
  from parse_expression_Inr [OF e] r strip_length [of i] show ?thesis
    by (auto simp: rule_post_init_Inr rule_ok_def)
qed

lemma parse_rules_from_Inr:
  "parse_rules_from sv n raws = Inr rules \<Longrightarrow> n \<le> MAX_RULESET_AST_NODES \<Longrightarrow>
     list_all rule_ok rules \<and> length rules = length raws \<and>
     n + (\<Sum>r\<leftarrow>rules. expr_nodes (rule_expression r)) \<le> MAX_RULESET_AST_NODES"
proof (induction sv n raws arbitrary: rules rule: parse_rules_from.induct)
  case (2 sv n raw raws)
  from "2.prems"(1) obtain r rs where r: "parse_rule sv raw = Inr r"
    and fits: "n + count_expression_ast_nodes (rule_expression r) \<le> MAX_RULESET_AST_NODES"
    and rs: "parse_rules_from sv (n + count_expression_ast_nodes (rule_expression r)) raws = Inr rs"
    and rules: "rules = r # rs"
    by (auto simp: bindE_Inr Let_def split: if_splits)
  have count: "count_expression_ast_nodes (rule_expression r) = expr_nodes (rule_expression r)"
    using fits by (simp add: count_expression_ast_nodes_min MAX_RULESET_AST_NODES_def)
  have "list_all rule_ok rs \<and> length rs = length raws \<and>
      n + count_expression_ast_nodes (rule_expression r) +
        (\<Sum>r\<leftarrow>rs. expr_nodes (rule_expression r)) \<le> MAX_RULESET_AST_NODES"
    using "2.IH" [OF r refl _ rs fits] fits by simp
  with parse_rule_Inr [OF r] rules show ?case unfolding count by simp
qed simp

lemma parse_rules_Inr:
  assumes "parse_rules sv raw = Inr rules"
  shows "list_all rule_ok rules \<and> distinct (map rule_rule_id rules) \<and> length rules \<le> MAX_RULESET_RULES \<and>
    (\<Sum>r\<leftarrow>rules. expr_nodes (rule_expression r)) \<le> MAX_RULESET_AST_NODES"
proof -
  from assms obtain raws where raws: "\<not> MAX_RULESET_RULES < length raws"
    "parse_rules_from sv 0 raws = Inr rules" "distinct (map rule_rule_id rules)"
    by (cases "sequence_items raw") (auto simp: parse_rules_def bindE_Inr split: if_splits)
  from parse_rules_from_Inr [OF raws(2)] raws show ?thesis by simp
qed

subsection \<open>A concrete rule\<close>

definition sample_raw_expression :: pyval where
  "sample_raw_expression =
     PyDict [(''gt'', PyList [PyDict [(''var'', PyStr ''source.last_price'')], PyInt 100])]"

definition sample_expression :: expression where
  "sample_expression =
     OperationExpression ''gt''
       [PathExpression ''source.last_price'' KIND_DECIMAL,
        LiteralExpression KIND_DECIMAL (SDecimal (Fin False 100 0))] KIND_BOOLEAN"

lemma sample_transport: "validate_expression_transport (\<lambda>_. True) sample_raw_expression = Inr ()"
proof -
  have "\<exists>n. preflight_raw_transport sample_raw_expression = Inr n"
    by (simp add: preflight_raw_transport_Inr sample_raw_expression_def MAX_RAW_TRANSPORT_NODES_def
        MAX_RAW_TRANSPORT_DEPTH_def MAX_STRING_UTF8_BYTES_def)
  moreover have "\<exists>n. measure_rule_text sample_raw_expression MAX_DSL_EXPRESSION_UTF8_BYTES ''expression'' = Inr n"
    by (simp add: measure_rule_text_def measure_json_bytes_def measure_json_chunks_def validate_size_limit_def
        sample_raw_expression_def json_element_def json_member_def json_prefixed_def json_string_def
        json_escape_def byte_code_def python_int_text_def int_text_def nat_text.simps ndigits.simps
        digit_char_def Let_def MAX_DSL_EXPRESSION_UTF8_BYTES_def)
  ultimately show ?thesis by (auto simp: validate_expression_transport_def)
qed

lemma sample_number: "decimal_from_json_number (PyInt 100) label = Inr (Fin False 100 0)"
proof -
  have "dec_text (Fin False 100 0) = int_text 100"
    by (simp add: int_text_def nat_text.simps)
  moreover have "decimal_of_text (dec_text (Fin False 100 0)) = Some (Fin False 100 0)"
    by (rule decimal_text_roundtrip) (simp add: in_decimal_range_def py_eval)
  ultimately have "decimal_of_text (int_text 100) = Some (Fin False 100 0)" by (simp only:)
  then show ?thesis
    by (simp add: decimal_of_number_text_def python_int_text_def parser_canonical_decimal_def
        MAX_DECIMAL_COEFFICIENT_DIGITS_def MAX_DECIMAL_ABSOLUTE_EXPONENT_def
        MAX_DECIMAL_SERIALIZED_CHARACTERS_def rule_serialized_characters_def py_eval)
qed

lemma sample_parse: "parse_expression (\<lambda>_. True) sample_raw_expression = Inr sample_expression"
proof -
  have "parse_node sample_raw_expression 0 1 = Inr (sample_expression, 3)"
    by (simp add: sample_raw_expression_def sample_expression_def parse_node.simps consume_node_def
        MAX_EXPRESSION_DEPTH_def MAX_AST_NODES_def ALLOWED_OPERATORS_def kind_for_def registry_lookup
        M0_M1_FIELD_KINDS_def sample_number validate_operator_def require_arity_def
        del: decimal_from_json_number.simps)
  then show ?thesis by (simp add: parse_expression_def sample_transport)
qed

definition sample_raw_rules :: pyval where
  "sample_raw_rules =
     PyList [PyDict [(''id'', PyStr ''high''), (''expression'', sample_raw_expression), (''weight'', PyInt 100)]]"

definition sample_rules :: "rule list" where
  "sample_rules = [\<lparr>rule_rule_id = ''high'', rule_expression = sample_expression, rule_weight = Fin False 100 0\<rparr>]"

lemma sample_rule_ok:
  "rule_post_init (sample_rules ! 0) = Inr (sample_rules ! 0)"
  by (simp add: rule_post_init_Inr sample_rules_def sample_expression_def is_blank_def strip_visible visible_def
      byte_code_def MAX_IDENTIFIER_UTF8_BYTES_def bounded_Fin dsigned_def py_eval)

lemma sample_parse_rules: "parse_rules (\<lambda>_. True) sample_raw_rules = Inr sample_rules"
proof -
  have "\<exists>n. preflight_raw_transport sample_raw_rules = Inr n"
    by (simp add: preflight_raw_transport_Inr sample_raw_rules_def sample_raw_expression_def
        MAX_RAW_TRANSPORT_NODES_def MAX_RAW_TRANSPORT_DEPTH_def MAX_STRING_UTF8_BYTES_def)
  moreover have "\<exists>n. measure_rule_text sample_raw_rules MAX_DSL_RULESET_UTF8_BYTES ''ruleset'' = Inr n"
    by (simp add: measure_rule_text_def measure_json_bytes_def measure_json_chunks_def validate_size_limit_def
        sample_raw_rules_def sample_raw_expression_def json_element_def json_member_def json_prefixed_def
        json_string_def json_escape_def byte_code_def python_int_text_def int_text_def nat_text.simps
        ndigits.simps digit_char_def Let_def MAX_DSL_RULESET_UTF8_BYTES_def)
  moreover have "parse_rule (\<lambda>_. True) (PyDict [(''id'', PyStr ''high''),
      (''expression'', sample_raw_expression), (''weight'', PyInt 100)]) = Inr (sample_rules ! 0)"
    using sample_rule_ok
    by (simp add: parse_rule_def sample_number sample_parse exc_simps is_blank_def strip_visible visible_def
        byte_code_def require_rule_identifier_def require_utf8_limit_def MAX_IDENTIFIER_UTF8_BYTES_def
        dec_compare dsigned_def sample_rules_def del: decimal_from_json_number.simps)
  ultimately show ?thesis
    by (auto simp: parse_rules_def sample_raw_rules_def MAX_RULESET_RULES_def MAX_RULESET_AST_NODES_def
        count_expression_ast_nodes_min sample_rules_def sample_expression_def)
qed

subsection \<open>Properties\<close>

text \<open>C34: the iterative preflight of raw transport accepts exactly the values with at most 512 nodes, depth
  at most 32 and text within the limits, and returns the number of nodes: the budget check on each
  container never rejects a value the totals allow, and the walk always ends.\<close>

theorem raw_preflight_is_exact:
  "preflight_raw_transport raw = Inr m \<longleftrightarrow>
     m = pynodes raw \<and> pynodes raw \<le> MAX_RAW_TRANSPORT_NODES \<and>
     pydepth raw \<le> MAX_RAW_TRANSPORT_DEPTH \<and> pytexts_ok raw"
  by (rule preflight_raw_transport_Inr)

text \<open>C33: the iterative revalidation of a public tree accepts exactly the trees that the recursive typing
  accepts within the depth and node limits.\<close>

theorem public_ast_validation_is_exact:
  "validate_expression_ast e = Inr () \<longleftrightarrow>
     ast_ok e \<and> expr_nodes e \<le> MAX_AST_NODES \<and> expr_depth e \<le> MAX_EXPRESSION_DEPTH"
  by (rule validate_expression_ast_Inr)

text \<open>C35: a parsed expression is well typed, reads only registered paths and stays within the limits; the
  evaluator's revalidation accepts it exactly when its decimal literals fit the decimal limits in
  canonical form.\<close>

theorem parsed_expression_is_typed:
  assumes "parse_expression schema_valid raw = Inr e"
  shows "parsed e \<and> expr_nodes e \<le> MAX_AST_NODES \<and> expr_depth e \<le> MAX_EXPRESSION_DEPTH \<and>
    (validate_expression_ast e = Inr () \<longleftrightarrow> literals_bounded e)"
  using parse_expression_Inr [OF assms] parsed_ast_ok [of e] validate_expression_ast_Inr [of e] by blast

lemma parsed_expression_is_typed_witness: "validate_expression_ast sample_expression = Inr ()"
proof -
  have "literals_bounded sample_expression"
    by (simp add: sample_expression_def bounded_Fin ndigits.simps)
  with parsed_expression_is_typed [OF sample_parse] show ?thesis by blast
qed

text \<open>A literal of \<open>1e256\<close> is within the decimal limits when it is parsed, but its canonical form has 257
  digits, so the evaluator rejects every rule that contains it.\<close>

lemma parsed_literal_may_be_rejected:
  "\<exists>e. parse_expression (\<lambda>_. True) (PyFloat ''1e+256'') = Inr e \<and> validate_expression_ast e \<noteq> Inr ()"
proof -
  have lit: "decimal_of_text ''1e+256'' = Some (Fin False 1 256)"
    by (simp add: decimal_of_text_def strip_visible visible_def byte_code_def split_sign_def lower_ascii_def
        is_nan_text_def parse_number_def parse_exponent_def is_digit_def number_of_digits_def digit_value_def
        in_decimal_range_def ndigits.simps Let_def)
  define d where "d = canonical (Fin False 1 256)"
  have d: "d = Fin False (10 ^ 256) 0" by (simp add: d_def strip_zeros.simps del: power_numeral)
  let ?e = "LiteralExpression KIND_DECIMAL (SDecimal d)"
  have "bounded (Fin False 1 256)" by (simp add: bounded_Fin ndigits.simps)
  then have canonical: "parser_canonical_decimal (Fin False 1 256) = Inr d"
    unfolding parser_canonical_decimal_def bounded_def by (simp only: bindE.simps d_def)
  then have "decimal_from_json_number (PyFloat ''1e+256'') ''literal'' = Inr d"
    by (simp add: float_is_finite_def decimal_of_number_text_def lit canonical del: One_nat_def)
  then have "parse_node (PyFloat ''1e+256'') 0 1 = Inr (?e, 1)"
    by (simp add: parse_node.simps consume_node_def MAX_EXPRESSION_DEPTH_def MAX_AST_NODES_def
        del: decimal_from_json_number.simps)
  moreover have "\<exists>n. preflight_raw_transport (PyFloat ''1e+256'') = Inr n"
    by (simp add: preflight_raw_transport_Inr MAX_RAW_TRANSPORT_NODES_def MAX_RAW_TRANSPORT_DEPTH_def)
  moreover have "\<exists>n. measure_rule_text (PyFloat ''1e+256'') MAX_DSL_EXPRESSION_UTF8_BYTES ''expression'' = Inr n"
    by (simp add: measure_rule_text_def measure_json_bytes_def measure_json_chunks_def validate_size_limit_def
        float_is_finite_def MAX_DSL_EXPRESSION_UTF8_BYTES_def)
  ultimately have parse: "parse_expression (\<lambda>_. True) (PyFloat ''1e+256'') = Inr ?e"
    by (auto simp: parse_expression_def validate_expression_transport_def)
  have "\<not> ndigits (10 ^ 256) \<le> 256" by (subst ndigits_le_iff) simp_all
  then have "\<not> literals_bounded ?e" by (simp add: d bounded_Fin del: power_numeral)
  then have "validate_expression_ast ?e \<noteq> Inr ()"
    using parsed_ast_ok [of ?e] parse_expression_Inr [OF parse] validate_expression_ast_Inr [of ?e] by blast
  with parse show ?thesis by blast
qed

text \<open>C36: a parsed ruleset holds at most 512 rules with distinct ids and at most 512 expression nodes
  together, and every rule has a positive bounded weight and a well-typed Boolean expression.\<close>

theorem parsed_ruleset_is_bounded:
  assumes "parse_rules schema_valid raw = Inr rules"
  shows "list_all rule_ok rules \<and> distinct (map rule_rule_id rules) \<and> length rules \<le> MAX_RULESET_RULES \<and>
    (\<Sum>r\<leftarrow>rules. expr_nodes (rule_expression r)) \<le> MAX_RULESET_AST_NODES"
  by (rule parse_rules_Inr [OF assms])

lemma parsed_ruleset_is_bounded_witness: "rule_ok (sample_rules ! 0)"
  using parsed_ruleset_is_bounded [OF sample_parse_rules] by (simp add: sample_rules_def)

end
