(* ===== verification/RuleEngine.thy ===== *)
theory RuleEngine
  imports RuleEvidence RuleParser
begin

text \<open>
  The evaluation of parsed rules, \<open>app/rules/engine.py\<close>: the controlled input, the budgeted and traced
  evaluation of expressions, and the aggregation of a ruleset against its threshold.

  The mutable budget and trace of one evaluation are the state record \<open>eval_state\<close>, passed through
  the evaluation in the order of the source; an exception ends the whole evaluation.
\<close>

datatype evaluation_purpose = PURPOSE_ANALYSIS | PURPOSE_SELL | PURPOSE_ACTION

record rule_input =
  ri_values :: "(string \<times> pyval) list"
  ri_protected_source :: bool
  ri_purpose :: evaluation_purpose

text \<open>A Python object as an evidence scalar.\<close>

fun scalar_of :: "pyval \<Rightarrow> scalar" where
  "scalar_of (PyDecimal d) = SDecimal d"
| "scalar_of (PyBool b) = SBool b"
| "scalar_of (PyDatetime t) = SDatetime t"
| "scalar_of (PyStr s) = SString s"
| "scalar_of PyNone = SNone"
| "scalar_of _ = SOther"

text \<open>The loop body of \<open>RuleInput.__post_init__\<close> that types one value and renders its payload.\<close>

definition rule_input_entry :: "string \<times> pyval \<Rightarrow> exn + string \<times> pyval" where
  "rule_input_entry entry =
     (case entry of (path, raw_value) \<Rightarrow>
       bindE (kind_for registry_schema path) (\<lambda>kind.
       bindE (EvidenceValue kind (scalar_of raw_value)) (\<lambda>v.
       bindE (if path = ''market.provider'' \<or> path = ''market.snapshot_id''
              then (case ev_value v of
                      SString s \<Rightarrow> bindE (require_rule_evidence_text s (''RuleInput '' @ path) True) (\<lambda>_. Inr ())
                    | _ \<Rightarrow> Inl (AssertionError []))
              else Inr ()) (\<lambda>_.
       Inr (path, evidence_value_payload v)))))"

definition rule_input_post_init :: "rule_input \<Rightarrow> exn + rule_input" where
  "rule_input_post_init r =
     (if ri_protected_source r
      then Inl (ProtectedRuleInputError ''a protected source cannot be used for rule evaluation'')
      else
        bindE (mapE (\<lambda>(path, _). require_rule_evidence_text path ''RuleInput evidence path'' True)
                 (ri_values r)) (\<lambda>_.
        bindE (controlled_values (ri_values r)) (\<lambda>normalized_values.
        bindE (mapE rule_input_entry normalized_values) (\<lambda>payload.
        bindE (measure_evidence (PyDict [(''values'', PyDict payload)]) MAX_RULE_INPUT_UTF8_BYTES
                 ''RuleInput'') (\<lambda>_.
        Inr (r\<lparr>ri_values := normalized_values\<rparr>))))))"

text \<open>\<open>_prepare_values\<close>: the typed value of every supplied path.\<close>

definition prepare_values :: "(string \<times> pyval) list \<Rightarrow> exn + (string \<times> evidence_value) list" where
  "prepare_values values =
     bindE (mapE (\<lambda>(path, raw_value).
       bindE (case kind_for registry_schema path of
                Inl _ \<Rightarrow> Inl (RuleEvaluationError (''evidence path is not registered: '' @ path))
              | Inr kind \<Rightarrow> Inr kind) (\<lambda>kind.
       bindE (EvidenceValue kind (scalar_of raw_value)) (\<lambda>v. Inr (path, v)))) values) (\<lambda>normalized.
     Inr (sort_key fst normalized))"

subsection \<open>Operators\<close>

definition boolean_value :: "evidence_value \<Rightarrow> exn + bool" where
  "boolean_value v =
     (case (ev_kind v, ev_value v) of
        (KIND_BOOLEAN, SBool b) \<Rightarrow> Inr b
      | _ \<Rightarrow> Inl (RuleEvaluationError ''Boolean operator received non-Boolean evidence''))"

definition decimal_value :: "evidence_value \<Rightarrow> exn + decimal" where
  "decimal_value v =
     (case (ev_kind v, ev_value v) of
        (KIND_DECIMAL, SDecimal d) \<Rightarrow> Inr d
      | _ \<Rightarrow> Inl (RuleEvaluationError ''Decimal operator received non-Decimal evidence''))"

definition datetime_value :: "evidence_value \<Rightarrow> exn + datetime" where
  "datetime_value v =
     (case (ev_kind v, ev_value v) of
        (KIND_DATETIME, SDatetime t) \<Rightarrow> Inr t
      | _ \<Rightarrow> Inl (RuleEvaluationError ''datetime operator received non-datetime evidence''))"

definition string_value :: "evidence_value \<Rightarrow> exn + string" where
  "string_value v =
     (case (ev_kind v, ev_value v) of
        (KIND_STRING, SString s) \<Rightarrow> Inr s
      | _ \<Rightarrow> Inl (RuleEvaluationError ''string operator received non-string evidence''))"

text \<open>\<open>all\<close> and \<open>any\<close> over a generator: they stop at the first decisive operand.\<close>

fun all_booleans :: "evidence_value list \<Rightarrow> exn + bool" where
  "all_booleans [] = Inr True"
| "all_booleans (v # vs) = bindE (boolean_value v) (\<lambda>b. if b then all_booleans vs else Inr False)"

fun any_boolean :: "evidence_value list \<Rightarrow> exn + bool" where
  "any_boolean [] = Inr False"
| "any_boolean (v # vs) = bindE (boolean_value v) (\<lambda>b. if b then Inr True else any_boolean vs)"

text \<open>Equality of two scalars of one kind: decimals by value, datetimes by instant.\<close>

fun scalar_eq :: "scalar \<Rightarrow> scalar \<Rightarrow> bool" where
  "scalar_eq (SDecimal a) (SDecimal b) = dec_eq a b"
| "scalar_eq (SDatetime a) (SDatetime b) = (instant a = instant b)"
| "scalar_eq a b = (a = b)"

definition compare_decimals :: "string \<Rightarrow> decimal \<Rightarrow> decimal \<Rightarrow> exn + bool" where
  "compare_decimals operator left right =
     (if operator = ''lt'' then Inr (dec_lt left right)
      else if operator = ''lte'' then Inr (dec_le left right)
      else if operator = ''gt'' then Inr (dec_lt right left)
      else if operator = ''gte'' then Inr (dec_le right left)
      else Inl (AssertionError ''only comparison operators are dispatched here''))"

definition compare_datetimes :: "string \<Rightarrow> datetime \<Rightarrow> datetime \<Rightarrow> exn + bool" where
  "compare_datetimes operator left right =
     (if operator = ''lt'' then Inr (instant left < instant right)
      else if operator = ''lte'' then Inr (instant left \<le> instant right)
      else if operator = ''gt'' then Inr (instant left > instant right)
      else if operator = ''gte'' then Inr (instant left \<ge> instant right)
      else Inl (AssertionError ''only comparison operators are dispatched here''))"

definition compare_evidence :: "string \<Rightarrow> evidence_value list \<Rightarrow> exn + bool" where
  "compare_evidence operator operands =
     (case operands of
        [left, right] \<Rightarrow>
          if ev_kind left = KIND_DECIMAL \<and> ev_kind right = KIND_DECIMAL
          then bindE (decimal_value left) (\<lambda>a. bindE (decimal_value right) (\<lambda>b. compare_decimals operator a b))
          else if ev_kind left = KIND_DATETIME \<and> ev_kind right = KIND_DATETIME
          then bindE (datetime_value left) (\<lambda>a. bindE (datetime_value right) (\<lambda>b. compare_datetimes operator a b))
          else Inl (RuleEvaluationError ''comparison operands must share a Decimal or datetime type'')
      | _ \<Rightarrow> Inl (ValueError ''wrong number of values to unpack''))"

definition evaluate_decimal_operation :: "string \<Rightarrow> evidence_value list \<Rightarrow> exn + decimal" where
  "evaluate_decimal_operation operator operands =
     bindE (mapE decimal_value operands) (\<lambda>values.
     if operator = ''add'' then bindE (ctx_sum values) canonical_decimal
     else if operator = ''subtract''
     then (case values of a # b # _ \<Rightarrow> bindE (ctx_subtract a b) canonical_decimal
           | _ \<Rightarrow> Inl (IndexError ''tuple index out of range''))
     else if operator = ''multiply'' then bindE (foldE ctx_multiply dec_one values) canonical_decimal
     else if operator = ''divide''
     then (case values of
             a # b # _ \<Rightarrow>
               if dec_is_zero b
               then Inl (RuleEvaluationError ''divide denominator is zero at evaluation time'')
               else bindE (ctx_divide a b) canonical_decimal
           | _ \<Rightarrow> Inl (IndexError ''tuple index out of range''))
     else Inl (AssertionError ''only Decimal operators are dispatched here''))"

text \<open>\<open>left in right\<close> on strings: a substring test.\<close>

fun substring :: "string \<Rightarrow> string \<Rightarrow> bool" where
  "substring s [] = (s = [])"
| "substring s (c # t) = (take (length s) (c # t) = s \<or> substring s t)"

text \<open>The branches of \<open>_evaluate_operation\<close> after the operands are evaluated; \<open>kind\<close> is the kind of the
  expression.\<close>

definition apply_operator :: "string \<Rightarrow> evidence_kind \<Rightarrow> evidence_value list \<Rightarrow> exn + evidence_value" where
  "apply_operator operator kind operands =
     (let boolean = \<lambda>r. bindE r (\<lambda>b. EvidenceValue KIND_BOOLEAN (SBool b));
          binary = \<lambda>f. (case operands of
             a # b # _ \<Rightarrow> f a b | _ \<Rightarrow> Inl (IndexError ''tuple index out of range'')) in
      if operator = ''exists''
      then (case operands of v # _ \<Rightarrow> boolean (Inr (\<not> ev_is_missing v))
            | [] \<Rightarrow> Inl (IndexError ''tuple index out of range''))
      else if list_ex ev_is_missing operands then missing_evidence kind
      else if operator = ''and'' then boolean (all_booleans operands)
      else if operator = ''or'' then boolean (any_boolean operands)
      else if operator = ''not''
      then (case operands of v # _ \<Rightarrow> boolean (bindE (boolean_value v) (\<lambda>b. Inr (\<not> b)))
            | [] \<Rightarrow> Inl (IndexError ''tuple index out of range''))
      else if operator = ''eq'' then binary (\<lambda>a b. boolean (Inr (scalar_eq (ev_value a) (ev_value b))))
      else if operator = ''ne'' then binary (\<lambda>a b. boolean (Inr (\<not> scalar_eq (ev_value a) (ev_value b))))
      else if operator = ''lt'' \<or> operator = ''lte'' \<or> operator = ''gt'' \<or> operator = ''gte''
      then boolean (compare_evidence operator operands)
      else if operator = ''in''
      then binary (\<lambda>a b. bindE (string_value a) (\<lambda>left. bindE (string_value b) (\<lambda>right.
             boolean (Inr (substring left right)))))
      else if operator = ''add'' \<or> operator = ''subtract'' \<or> operator = ''multiply'' \<or> operator = ''divide''
      then bindE (evaluate_decimal_operation operator operands) (\<lambda>d. EvidenceValue KIND_DECIMAL (SDecimal d))
      else Inl (RuleEvaluationError ''parsed expression has an unsupported operator''))"

subsection \<open>Expressions\<close>

record eval_state =
  es_remaining :: nat
  es_operands :: "evidence_value list"
  es_paths :: "evaluated_path list"

text \<open>\<open>_EvaluationBudget.consume\<close>.\<close>

definition consume_step :: "eval_state \<Rightarrow> exn + eval_state" where
  "consume_step st =
     (if es_remaining st = 0 then Inl (RuleEvaluationError ''rule evaluation budget exhausted'')
      else Inr (st\<lparr>es_remaining := es_remaining st - 1\<rparr>))"

definition trace_operand :: "evidence_value \<Rightarrow> eval_state \<Rightarrow> evidence_value \<times> eval_state" where
  "trace_operand v st = (v, st\<lparr>es_operands := es_operands st @ [v]\<rparr>)"

text \<open>Reading a path; the default of \<open>values.get\<close> is built before the lookup.\<close>

definition read_path ::
    "(string \<times> evidence_value) list \<Rightarrow> string \<Rightarrow> evidence_kind \<Rightarrow> eval_state \<Rightarrow>
     exn + evidence_value \<times> eval_state" where
  "read_path values path kind st =
     bindE (missing_evidence kind) (\<lambda>absent.
     let v = (case map_of values path of Some v \<Rightarrow> v | None \<Rightarrow> absent) in
     bindE (evaluated_path_post_init \<lparr>ep_path = path, ep_value = v\<rparr>) (\<lambda>p.
     Inr (v, st\<lparr>es_paths := es_paths st @ [p]\<rparr>)))"

fun eval_expr :: "(string \<times> evidence_value) list \<Rightarrow> expression \<Rightarrow> eval_state \<Rightarrow>
      exn + evidence_value \<times> eval_state"
  and eval_operands :: "(string \<times> evidence_value) list \<Rightarrow> expression list \<Rightarrow> eval_state \<Rightarrow>
      exn + evidence_value list \<times> eval_state" where
  "eval_expr values (LiteralExpression kind v) st =
     bindE (consume_step st) (\<lambda>st.
     bindE (EvidenceValue kind v) (\<lambda>r. Inr (trace_operand r st)))"
| "eval_expr values (PathExpression path kind) st =
     bindE (consume_step st) (\<lambda>st.
     bindE (read_path values path kind st) (\<lambda>(r, st). Inr (trace_operand r st)))"
| "eval_expr values (OperationExpression operator operands kind) st =
     bindE (consume_step st) (\<lambda>st.
     bindE
       (if operator = ''if''
        then (case operands of
            c # t # f # _ \<Rightarrow>
              bindE (eval_expr values c st) (\<lambda>(condition, st).
              if ev_is_missing condition then bindE (missing_evidence kind) (\<lambda>r. Inr (r, st))
              else case (ev_kind condition, ev_value condition) of
                  (KIND_BOOLEAN, SBool b) \<Rightarrow> if b then eval_expr values t st else eval_expr values f st
                | _ \<Rightarrow> Inl (RuleEvaluationError ''if condition did not evaluate to Boolean evidence''))
          | _ \<Rightarrow> Inl (IndexError ''tuple index out of range''))
        else
          bindE (eval_operands values operands st) (\<lambda>(vs, st).
          bindE (apply_operator operator kind vs) (\<lambda>r. Inr (r, st))))
       (\<lambda>(r, st). Inr (trace_operand r st)))"
| "eval_operands values [] st = Inr ([], st)"
| "eval_operands values (e # es) st =
     bindE (eval_expr values e st) (\<lambda>(v, st).
     bindE (eval_operands values es st) (\<lambda>(vs, st). Inr (v # vs, st)))"

declare eval_expr.simps(3) [simp del]

subsection \<open>Rulesets\<close>

definition require_score :: "decimal \<Rightarrow> string \<Rightarrow> exn + decimal" where
  "require_score v label =
     (if \<not> is_finite v then Inl (RuleEvaluationError (label @ '' must be a finite Decimal''))
      else if dec_lt v dec_zero then Inl (RuleEvaluationError (label @ '' must not be negative''))
      else canonical_decimal v)"

definition add_scores :: "decimal \<Rightarrow> decimal \<Rightarrow> exn + decimal" where
  "add_scores left right = bindE (ctx_add left right) canonical_decimal"

text \<open>The accumulators of the loop over the rules.\<close>

record tally =
  ty_remaining :: nat
  ty_total :: decimal
  ty_missing :: decimal
  ty_matched_ids :: "string list"
  ty_failed_ids :: "string list"
  ty_missing_ids :: "string list"
  ty_records :: "rule_evidence list"

text \<open>What one rule's outcome does to the accumulators, before its record is appended.\<close>

definition tally_outcome :: "rule \<Rightarrow> evidence_value \<Rightarrow> tally \<Rightarrow> exn + evidence_status \<times> tally" where
  "tally_outcome r outcome ty =
     (if ev_is_missing outcome
      then bindE (add_scores (ty_missing ty) (rule_weight r)) (\<lambda>missing.
        Inr (EVIDENCE_MISSING,
             ty\<lparr>ty_missing_ids := ty_missing_ids ty @ [rule_rule_id r], ty_missing := missing\<rparr>))
      else if ev_kind outcome \<noteq> KIND_BOOLEAN
      then Inl (RuleEvaluationError ''parsed rule did not produce a Boolean outcome'')
      else if ev_value outcome = SBool True
      then bindE (add_scores (ty_total ty) (rule_weight r)) (\<lambda>score.
        Inr (EVIDENCE_MATCHED,
             ty\<lparr>ty_matched_ids := ty_matched_ids ty @ [rule_rule_id r], ty_total := score\<rparr>))
      else Inr (EVIDENCE_FAILED, ty\<lparr>ty_failed_ids := ty_failed_ids ty @ [rule_rule_id r]\<rparr>))"

definition evaluate_rule ::
    "(string \<times> evidence_value) list \<Rightarrow> datetime \<Rightarrow> tally \<Rightarrow> rule \<Rightarrow> exn + tally" where
  "evaluate_rule values evaluated_at ty r =
     bindE (eval_expr values (rule_expression r)
              \<lparr>es_remaining = ty_remaining ty, es_operands = [], es_paths = []\<rparr>) (\<lambda>(outcome, st).
     bindE (tally_outcome r outcome (ty\<lparr>ty_remaining := es_remaining st\<rparr>)) (\<lambda>(status, ty).
     bindE (rule_evidence_post_init
              \<lparr>re_rule_id = rule_rule_id r, re_status = status, re_operands = es_operands st,
               re_evaluated_paths = es_paths st, re_evaluated_at = evaluated_at\<rparr>) (\<lambda>record.
     Inr (ty\<lparr>ty_records := ty_records ty @ [record]\<rparr>))))"

definition initial_tally :: tally where
  "initial_tally =
     \<lparr>ty_remaining = MAX_EVALUATION_STEPS, ty_total = dec_zero, ty_missing = dec_zero,
      ty_matched_ids = [], ty_failed_ids = [], ty_missing_ids = [], ty_records = []\<rparr>"

definition ruleset_outcome :: "decimal \<Rightarrow> decimal \<Rightarrow> decimal \<Rightarrow> ruleset_status" where
  "ruleset_outcome total_score potential_score threshold =
     (if dec_le threshold total_score then RULESET_MATCHED
      else if dec_le threshold potential_score then RULESET_INSUFFICIENT
      else RULESET_FAILED)"

definition evaluate_ruleset ::
    "rule list \<Rightarrow> rule_input \<Rightarrow> decimal \<Rightarrow> datetime \<Rightarrow> exn + rule_evaluation" where
  "evaluate_ruleset rules input threshold evaluated_at =
     bindE (evidence_require_aware evaluated_at ''evaluated_at'') (\<lambda>_.
     bindE (require_score threshold ''threshold'') (\<lambda>normalized_threshold.
     if \<not> distinct (map rule_rule_id rules) then Inl (RuleEvaluationError ''rules must have unique ids'')
     else
       bindE (mapE (\<lambda>r. validate_expression_ast (rule_expression r)) rules) (\<lambda>_.
       bindE (prepare_values (ri_values input)) (\<lambda>values.
       bindE (foldE (evaluate_rule values evaluated_at) initial_tally rules) (\<lambda>ty.
       bindE (add_scores (ty_total ty) (ty_missing ty)) (\<lambda>potential_score.
       rule_evaluation_post_init
         \<lparr>rev_status = ruleset_outcome (ty_total ty) potential_score normalized_threshold,
          rev_total_score = ty_total ty, rev_threshold = normalized_threshold,
          rev_matched_rule_ids = ty_matched_ids ty, rev_failed_rule_ids = ty_failed_ids ty,
          rev_missing_rule_ids = ty_missing_ids ty, rev_rule_evidence = ty_records ty,
          rev_evaluated_at = evaluated_at\<rparr>))))))"

subsection \<open>Typed expressions\<close>

text \<open>A tree whose literals have the type of their kind and whose operations are well typed; every parsed
  tree is one.\<close>

fun typed :: "expression \<Rightarrow> bool" where
  "typed (LiteralExpression kind v) \<longleftrightarrow> scalar_has_kind kind v"
| "typed (PathExpression path kind) \<longleftrightarrow> map_of M0_M1_FIELD_KINDS path = Some kind"
| "typed (OperationExpression operator operands kind) \<longleftrightarrow>
     list_all typed operands \<and> validate_operator operator operands = Inr kind"

lemma parsed_typed: "parsed e \<Longrightarrow> typed e"
  by (induction e) (auto simp: scalar_has_kind_def list_all_iff split: scalar.splits)

definition values_ok :: "(string \<times> evidence_value) list \<Rightarrow> bool" where
  "values_ok values \<longleftrightarrow>
     list_all (\<lambda>(path, v). evidence_ok v \<and> \<not> ev_is_missing v \<and>
                           kind_for registry_schema path = Inr (ev_kind v)) values"

lemma values_ok_lookup:
  "values_ok values \<Longrightarrow> map_of values path = Some v \<Longrightarrow>
     evidence_ok v \<and> \<not> ev_is_missing v \<and> map_of M0_M1_FIELD_KINDS path = Some (ev_kind v)"
  by (auto simp: values_ok_def list_all_iff kind_for_def registry_lookup dest!: map_of_SomeD split: option.splits)

lemma prepare_values_ok:
  assumes "prepare_values raw = Inr values" shows "values_ok values"
proof -
  from assms obtain normalized where n: "mapE (\<lambda>(path, raw_value).
       bindE (case kind_for registry_schema path of
                Inl _ \<Rightarrow> Inl (RuleEvaluationError (''evidence path is not registered: '' @ path))
              | Inr kind \<Rightarrow> Inr kind) (\<lambda>kind.
       bindE (EvidenceValue kind (scalar_of raw_value)) (\<lambda>v. Inr (path, v)))) raw = Inr normalized"
    and sorted: "values = sort_key fst normalized"
    by (auto simp: prepare_values_def bindE_Inr)
  have "evidence_ok (snd p) \<and> \<not> ev_is_missing (snd p) \<and> kind_for registry_schema (fst p) = Inr (ev_kind (snd p))"
    if "p \<in> set normalized" for p
    using mapE_Inr_set [OF n that] EvidenceValue_Inr
    by (fastforce simp: bindE_Inr split: sum.splits)
  then show ?thesis by (auto simp: values_ok_def list_all_iff sorted split_beta)
qed

text \<open>The operand kinds an accepted operation has.\<close>

lemma require_all_kinds_Inr [exc_simps]:
  "require_all_kinds op ks k = Inr u \<longleftrightarrow> (\<forall>x \<in> set ks. x = k)"
  by (auto simp: require_all_kinds_def list_ex_iff)

lemma require_arity_Inr [exc_simps]: "require_arity op es n = Inr u \<longleftrightarrow> length es = n"
  by (auto simp: require_arity_def)

lemma require_minimum_arity_Inr [exc_simps]: "require_minimum_arity op es n = Inr u \<longleftrightarrow> n \<le> length es"
  by (auto simp: require_minimum_arity_def)

lemma validate_operator_cases:
  assumes "validate_operator op es = Inr k"
  obtains (connective) "op = ''and'' \<or> op = ''or''" "\<forall>e \<in> set es. expr_kind e = KIND_BOOLEAN" "k = KIND_BOOLEAN"
  | (negation) a where "op = ''not''" "es = [a]" "expr_kind a = KIND_BOOLEAN" "k = KIND_BOOLEAN"
  | (equality) a b where "op = ''eq'' \<or> op = ''ne''" "es = [a, b]" "expr_kind a = expr_kind b" "k = KIND_BOOLEAN"
  | (comparison) a b where "op = ''lt'' \<or> op = ''lte'' \<or> op = ''gt'' \<or> op = ''gte''" "es = [a, b]"
      "expr_kind a = expr_kind b" "expr_kind a = KIND_DECIMAL \<or> expr_kind a = KIND_DATETIME" "k = KIND_BOOLEAN"
  | (nary) "op = ''add'' \<or> op = ''multiply''" "\<forall>e \<in> set es. expr_kind e = KIND_DECIMAL" "k = KIND_DECIMAL"
  | (binary) a b where "op = ''subtract'' \<or> op = ''divide''" "es = [a, b]" "expr_kind a = KIND_DECIMAL"
      "expr_kind b = KIND_DECIMAL" "k = KIND_DECIMAL"
  | (membership) a b where "op = ''in''" "es = [a, b]" "expr_kind a = KIND_STRING" "expr_kind b = KIND_STRING"
      "k = KIND_BOOLEAN"
  | (existence) a where "op = ''exists''" "es = [a]" "k = KIND_BOOLEAN"
  | (conditional) c a b where "op = ''if''" "es = [c, a, b]" "expr_kind c = KIND_BOOLEAN"
      "expr_kind a = k" "expr_kind b = k"
proof -
  have one: "length es = 1 \<Longrightarrow> \<exists>a. es = [a]" by (cases es) auto
  have two: "length es = 2 \<Longrightarrow> \<exists>a b. es = [a, b]" by (cases es rule: remdups_adj.cases) auto
  have three: "length es = 3 \<Longrightarrow> \<exists>a b c. es = [a, b, c]"
    by (auto simp: length_Suc_conv numeral_3_eq_3)
  note defs = validate_operator_def Let_def exc_simps
  consider "op = ''and'' \<or> op = ''or''" | "op = ''not''" | "op = ''eq'' \<or> op = ''ne''"
    | "op = ''lt'' \<or> op = ''lte'' \<or> op = ''gt'' \<or> op = ''gte''" | "op = ''add'' \<or> op = ''multiply''"
    | "op = ''subtract'' \<or> op = ''divide''" | "op = ''in''" | "op = ''exists''" | "op = ''if''"
    using assms by (auto simp: validate_operator_def Let_def split: if_splits)
  then show thesis
  proof cases
    case 1 then show thesis using assms connective by (auto simp: defs)
  next
    case 2 then show thesis using assms negation one by (auto simp: defs)
  next
    case 3 then show thesis using assms equality two by (auto simp: defs split: if_splits)
  next
    case 4 then show thesis using assms comparison two by (auto simp: defs split: if_splits)
  next
    case 5 then show thesis using assms nary by (auto simp: defs)
  next
    case 6 then show thesis using assms binary two by (auto simp: defs split: if_splits)
  next
    case 7 then show thesis using assms membership two by (auto simp: defs)
  next
    case 8 then show thesis using assms existence one by (auto simp: defs)
  next
    case 9 then show thesis using assms conditional three by (auto simp: defs split: if_splits)
  qed
qed

subsection \<open>The errors of the decimal context\<close>

lemma ctx_fix_error: "ctx_fix s c e = Inl err \<Longrightarrow> err = DecimalOverflow"
  by (auto simp: ctx_fix_def Let_def split: if_splits)

lemma ctx_add_error: "ctx_add a b = Inl err \<Longrightarrow> is_finite a \<Longrightarrow> is_finite b \<Longrightarrow> err = DecimalOverflow"
  by (cases a; cases b) (auto simp: Let_def ctx_round_def dest: ctx_fix_error split: if_splits)

lemma ctx_subtract_error:
  "ctx_subtract a b = Inl err \<Longrightarrow> is_finite a \<Longrightarrow> is_finite b \<Longrightarrow> err = DecimalOverflow"
  unfolding ctx_subtract_def by (erule ctx_add_error) (cases b, simp_all)+

lemma ctx_multiply_error:
  "ctx_multiply a b = Inl err \<Longrightarrow> is_finite a \<Longrightarrow> is_finite b \<Longrightarrow> err = DecimalOverflow"
  by (cases a; cases b) (auto dest: ctx_fix_error)

lemma ctx_divide_error:
  "ctx_divide a b = Inl err \<Longrightarrow> is_finite a \<Longrightarrow> is_finite b \<Longrightarrow> \<not> dec_is_zero b \<Longrightarrow> err = DecimalOverflow"
  by (cases a; cases b) (auto simp: Let_def dec_is_zero_def dest: ctx_fix_error split: if_splits prod.splits)

lemma ctx_fold_error:
  assumes "\<And>a b err. step a b = Inl err \<Longrightarrow> is_finite a \<Longrightarrow> is_finite b \<Longrightarrow> err = DecimalOverflow"
    and "\<And>a b d. step a b = Inr d \<Longrightarrow> is_finite d"
    and "foldE step a ds = Inl err" and "is_finite a" and "list_all is_finite ds"
  shows "err = DecimalOverflow"
  using assms(3-5) by (induction ds arbitrary: a) (auto simp: bindE_Inl dest: assms(1,2))

lemma ctx_fold_finite:
  assumes "\<And>a b d. step a b = Inr d \<Longrightarrow> is_finite d"
    and "foldE step a ds = Inr d" and "is_finite a"
  shows "is_finite d"
  using assms(2,3) by (induction ds arbitrary: a) (auto simp: bindE_Inr dest: assms(1))

subsection \<open>Kind safety of one operator\<close>

text \<open>The errors evaluation of a typed expression may end with.\<close>

definition numeric_limit :: "exn \<Rightarrow> bool" where
  "numeric_limit err \<longleftrightarrow> err = DecimalOverflow \<or> (\<exists>m. err = DecimalResourceLimitError m)"

definition zero_denominator :: exn where
  "zero_denominator = RuleEvaluationError ''divide denominator is zero at evaluation time''"

definition missing_null :: exn where
  "missing_null = RuleEvaluationError ''missing evidence requires a non-null type and no value''"

definition budget_exhausted :: exn where
  "budget_exhausted = RuleEvaluationError ''rule evaluation budget exhausted''"

definition expected_error :: "exn \<Rightarrow> bool" where
  "expected_error err \<longleftrightarrow>
     numeric_limit err \<or> err = zero_denominator \<or> err = missing_null \<or>
     (\<exists>b l n. err = RuleEvidenceResourceLimitError b l n)"

lemma EvidenceValue_expected: "EvidenceValue k v = Inl err \<Longrightarrow> scalar_has_kind k v \<Longrightarrow> expected_error err"
  using EvidenceValue_error by (auto simp: expected_error_def numeric_limit_def)

lemma missing_evidence_error: "missing_evidence k = Inl err \<Longrightarrow> k = KIND_NULL \<and> err = missing_null"
  by (auto simp: missing_evidence_def evidence_value_post_init_def missing_null_def split: if_splits)

lemma canonical_expected: "canonical_decimal d = Inl err \<Longrightarrow> is_finite d \<Longrightarrow> expected_error err"
  using canonical_decimal_error by (auto simp: expected_error_def numeric_limit_def)

definition conforms :: "expression \<Rightarrow> evidence_value \<Rightarrow> bool" where
  "conforms e v \<longleftrightarrow> evidence_ok v \<and> ev_kind v = expr_kind e"

lemma present_decimal:
  "conforms e v \<Longrightarrow> \<not> ev_is_missing v \<Longrightarrow> expr_kind e = KIND_DECIMAL \<Longrightarrow>
     \<exists>d. ev_value v = SDecimal d \<and> is_finite d"
  and present_boolean:
  "conforms e v \<Longrightarrow> \<not> ev_is_missing v \<Longrightarrow> expr_kind e = KIND_BOOLEAN \<Longrightarrow> \<exists>b. ev_value v = SBool b"
  and present_datetime:
  "conforms e v \<Longrightarrow> \<not> ev_is_missing v \<Longrightarrow> expr_kind e = KIND_DATETIME \<Longrightarrow> \<exists>t. ev_value v = SDatetime t"
  and present_string:
  "conforms e v \<Longrightarrow> \<not> ev_is_missing v \<Longrightarrow> expr_kind e = KIND_STRING \<Longrightarrow> \<exists>s. ev_value v = SString s"
  by (auto simp: conforms_def evidence_ok_def scalar_has_kind_def split: scalar.splits)

lemma apply_operator_Inr:
  assumes "validate_operator op es = Inr k" and "op \<noteq> ''if''" and r: "apply_operator op k vs = Inr r"
  shows "evidence_ok r \<and> ev_kind r = k"
proof -
  have bool: "EvidenceValue KIND_BOOLEAN (SBool b) = Inr r \<Longrightarrow> evidence_ok r \<and> ev_kind r = KIND_BOOLEAN" for b
    using EvidenceValue_Inr by blast
  have missing: "missing_evidence k = Inr r \<Longrightarrow> evidence_ok r \<and> ev_kind r = k"
    by (auto simp: missing_evidence_Inr evidence_ok_def)
  have dec: "EvidenceValue KIND_DECIMAL v = Inr r \<Longrightarrow> evidence_ok r \<and> ev_kind r = KIND_DECIMAL" for v
    using EvidenceValue_Inr by blast
  from assms(1) show ?thesis
  proof (cases rule: validate_operator_cases)
    case conditional
    with assms(2) show ?thesis by simp
  qed (use r bool missing dec in \<open>fastforce simp: apply_operator_def Let_def bindE_Inr simp del: EvidenceValue_bool
        split: if_splits list.splits\<close>)+
qed


text \<open>\<open>mapE\<close> over operands of the right kind.\<close>

lemma mapE_present:
  assumes "\<And>v. v \<in> set vs \<Longrightarrow> \<exists>x. f v = Inr x \<and> P x"
  shows "\<exists>xs. mapE f vs = Inr xs \<and> length xs = length vs \<and> list_all P xs"
  using assms
proof (induction vs)
  case (Cons v vs)
  then obtain x xs where "f v = Inr x" "P x" "mapE f vs = Inr xs" "length xs = length vs" "list_all P xs"
    by (meson list.set_intros)
  then show ?case by simp
qed simp

lemma all_booleans_present:
  "(\<And>v. v \<in> set vs \<Longrightarrow> \<exists>b. boolean_value v = Inr b) \<Longrightarrow> \<exists>b. all_booleans vs = Inr b"
proof (induction vs)
  case (Cons v vs)
  then obtain b b' where "boolean_value v = Inr b" "all_booleans vs = Inr b'" by (meson list.set_intros)
  then have "all_booleans (v # vs) = Inr (b \<and> b')" by simp
  then show ?case by (rule exI)
qed (rule exI, rule all_booleans.simps)

lemma any_boolean_present:
  "(\<And>v. v \<in> set vs \<Longrightarrow> \<exists>b. boolean_value v = Inr b) \<Longrightarrow> \<exists>b. any_boolean vs = Inr b"
proof (induction vs)
  case (Cons v vs)
  then obtain b b' where "boolean_value v = Inr b" "any_boolean vs = Inr b'" by (meson list.set_intros)
  then have "any_boolean (v # vs) = Inr (b \<or> b')" by simp
  then show ?case by (rule exI)
qed (rule exI, rule any_boolean.simps)

lemma decimal_operation_error:
  assumes err: "evaluate_decimal_operation op vs = Inl err"
    and op: "op = ''add'' \<or> op = ''multiply'' \<or> ((op = ''subtract'' \<or> op = ''divide'') \<and> length vs = 2)"
    and present: "\<And>v. v \<in> set vs \<Longrightarrow> \<exists>d. decimal_value v = Inr d \<and> is_finite d"
  shows "expected_error err"
proof -
  have overflow: "err = DecimalOverflow \<Longrightarrow> expected_error err"
    by (simp add: expected_error_def numeric_limit_def)
  obtain ds where ds: "mapE decimal_value vs = Inr ds" "length ds = length vs" "list_all is_finite ds"
    using mapE_present [of vs decimal_value is_finite] present by blast
  consider "op = ''add''" | "op = ''multiply''" | "op = ''subtract''" "length vs = 2"
    | "op = ''divide''" "length vs = 2" using op by blast
  then show ?thesis
  proof cases
    case 1
    with err ds show ?thesis
      using ctx_fold_error [of ctx_add dec_zero ds err] ctx_fold_finite [of ctx_add dec_zero ds]
        ctx_add_error ctx_add_finite overflow canonical_expected
      by (auto simp: evaluate_decimal_operation_def ctx_sum_def bindE_Inl)
  next
    case 2
    with err ds show ?thesis
      using ctx_fold_error [of ctx_multiply dec_one ds err] ctx_fold_finite [of ctx_multiply dec_one ds]
        ctx_multiply_error ctx_multiply_parts overflow canonical_expected
      by (auto simp: evaluate_decimal_operation_def bindE_Inl)
  next
    case 3
    with ds obtain a b where "ds = [a, b]" by (cases ds rule: remdups_adj.cases) auto
    with 3 err ds show ?thesis
      using ctx_subtract_error [of a b err] ctx_subtract_parts [of a b] overflow canonical_expected
      by (auto simp: evaluate_decimal_operation_def bindE_Inl)
  next
    case 4
    with ds obtain a b where "ds = [a, b]" by (cases ds rule: remdups_adj.cases) auto
    with 4 err ds show ?thesis
      using ctx_divide_error [of a b err] ctx_divide_parts [of a b] overflow canonical_expected
      by (auto simp: evaluate_decimal_operation_def bindE_Inl expected_error_def zero_denominator_def
          split: if_splits)
  qed
qed

lemma canonical_decimal_finite: "canonical_decimal d = Inr c \<Longrightarrow> is_finite c"
  by (auto simp: canonical_decimal_Inr bounded_finite)

lemma decimal_operation_finite: "evaluate_decimal_operation op vs = Inr d \<Longrightarrow> is_finite d"
  using canonical_decimal_finite
  by (auto simp: evaluate_decimal_operation_def bindE_Inr split: if_splits list.splits)

lemma boolean_value_present:
  "conforms e v \<Longrightarrow> \<not> ev_is_missing v \<Longrightarrow> expr_kind e = KIND_BOOLEAN \<Longrightarrow> \<exists>b. boolean_value v = Inr b"
  using present_boolean [of e v] by (auto simp: boolean_value_def conforms_def)

lemma decimal_value_present:
  "conforms e v \<Longrightarrow> \<not> ev_is_missing v \<Longrightarrow> expr_kind e = KIND_DECIMAL \<Longrightarrow>
     \<exists>d. decimal_value v = Inr d \<and> is_finite d"
  using present_decimal [of e v] by (auto simp: decimal_value_def conforms_def)

lemma datetime_value_present:
  "conforms e v \<Longrightarrow> \<not> ev_is_missing v \<Longrightarrow> expr_kind e = KIND_DATETIME \<Longrightarrow> \<exists>t. datetime_value v = Inr t"
  using present_datetime [of e v] by (auto simp: datetime_value_def conforms_def)

lemma string_value_present:
  "conforms e v \<Longrightarrow> \<not> ev_is_missing v \<Longrightarrow> expr_kind e = KIND_STRING \<Longrightarrow> \<exists>s. string_value v = Inr s"
  using present_string [of e v] by (auto simp: string_value_def conforms_def)

lemma list_all2_present:
  "list_all2 conforms es vs \<Longrightarrow> \<not> list_ex ev_is_missing vs \<Longrightarrow> \<forall>e \<in> set es. expr_kind e = k \<Longrightarrow>
     v \<in> set vs \<Longrightarrow> \<exists>e. conforms e v \<and> \<not> ev_is_missing v \<and> expr_kind e = k"
  by (induction rule: list_all2_induct) auto

lemma compare_evidence_present:
  assumes "op = ''lt'' \<or> op = ''lte'' \<or> op = ''gt'' \<or> op = ''gte''"
    and "conforms ea a" "conforms eb b" "\<not> ev_is_missing a" "\<not> ev_is_missing b"
    and "expr_kind ea = expr_kind eb" "expr_kind ea = KIND_DECIMAL \<or> expr_kind ea = KIND_DATETIME"
  shows "\<exists>r. compare_evidence op [a, b] = Inr r"
proof -
  have k: "ev_kind a = expr_kind ea" "ev_kind b = expr_kind ea" using assms by (auto simp: conforms_def)
  from assms(7) show ?thesis
  proof
    assume d: "expr_kind ea = KIND_DECIMAL"
    then obtain x y where "decimal_value a = Inr x" "decimal_value b = Inr y"
      using decimal_value_present assms by metis
    with d k assms(1) show ?thesis by (auto simp: compare_evidence_def compare_decimals_def)
  next
    assume d: "expr_kind ea = KIND_DATETIME"
    then obtain x y where "datetime_value a = Inr x" "datetime_value b = Inr y"
      using datetime_value_present assms by metis
    with d k assms(1) show ?thesis by (auto simp: compare_evidence_def compare_datetimes_def)
  qed
qed

lemma apply_operator_error:
  assumes v: "validate_operator op es = Inr k" and "op \<noteq> ''if''"
    and vs: "list_all2 conforms es vs" and r: "apply_operator op k vs = Inl err"
  shows "expected_error err"
proof (cases "op \<noteq> ''exists'' \<and> list_ex ev_is_missing vs")
  case True
  with r show ?thesis
    by (auto simp: apply_operator_def Let_def dest!: missing_evidence_error) (simp add: expected_error_def)
next
  case False
  have bool: "EvidenceValue KIND_BOOLEAN (SBool b) = Inl err \<Longrightarrow> False" for b by simp
  have dec: "expected_error err" if "EvidenceValue KIND_DECIMAL (SDecimal d) = Inl err" "is_finite d" for d
    using EvidenceValue_expected [OF that(1)] that(2) by (simp add: scalar_has_kind_def)
  from v show ?thesis
  proof (cases rule: validate_operator_cases)
    case connective
    with False vs have "\<exists>b. boolean_value v = Inr b" if "v \<in> set vs" for v
      using list_all2_present [of es vs KIND_BOOLEAN v] that boolean_value_present by fastforce
    then obtain b b' where "all_booleans vs = Inr b" "any_boolean vs = Inr b'"
      using all_booleans_present [of vs] any_boolean_present [of vs] by blast
    with connective r False show ?thesis by (auto simp: apply_operator_def Let_def)
  next
    case (negation e)
    then obtain a where a: "vs = [a]" "conforms e a" using vs by (auto simp: list_all2_Cons1)
    with negation False obtain b where "boolean_value a = Inr b" using boolean_value_present by fastforce
    with negation a r False show ?thesis by (auto simp: apply_operator_def Let_def)
  next
    case (equality ea eb)
    then obtain a b where a: "vs = [a, b]" using vs by (auto simp: list_all2_Cons1)
    with equality r False show ?thesis by (auto simp: apply_operator_def Let_def)
  next
    case (comparison ea eb)
    then obtain a b where a: "vs = [a, b]" "conforms ea a" "conforms eb b"
      using vs by (auto simp: list_all2_Cons1)
    with comparison False obtain x where "compare_evidence op vs = Inr x"
      using compare_evidence_present [of op ea a eb b] by auto
    with comparison a r False show ?thesis by (auto simp: apply_operator_def Let_def)
  next
    case nary
    with False vs have "\<exists>d. decimal_value v = Inr d \<and> is_finite d" if "v \<in> set vs" for v
      using list_all2_present [of es vs KIND_DECIMAL v] that decimal_value_present by fastforce
    with nary have "evaluate_decimal_operation op vs = Inl err \<Longrightarrow> expected_error err"
      using decimal_operation_error [of op vs err] by blast
    with nary r False dec decimal_operation_finite show ?thesis
      by (auto simp: apply_operator_def Let_def bindE_Inl simp del: EvidenceValue_bool)
  next
    case (binary ea eb)
    then have len: "length vs = 2" using vs by (auto dest: list_all2_lengthD)
    from binary False vs have "\<exists>d. decimal_value v = Inr d \<and> is_finite d" if "v \<in> set vs" for v
      using list_all2_present [of es vs KIND_DECIMAL v] that decimal_value_present by fastforce
    with binary len have "evaluate_decimal_operation op vs = Inl err \<Longrightarrow> expected_error err"
      using decimal_operation_error [of op vs err] by blast
    with binary r False dec decimal_operation_finite show ?thesis
      by (auto simp: apply_operator_def Let_def bindE_Inl simp del: EvidenceValue_bool)
  next
    case (membership ea eb)
    then obtain a b where a: "vs = [a, b]" "conforms ea a" "conforms eb b"
      using vs by (auto simp: list_all2_Cons1)
    with membership False obtain x y where "string_value a = Inr x" "string_value b = Inr y"
      using string_value_present by fastforce
    with membership a r False show ?thesis by (auto simp: apply_operator_def Let_def)
  next
    case (existence e)
    then obtain a where a: "vs = [a]" using vs by (auto simp: list_all2_Cons1)
    with existence r False show ?thesis by (auto simp: apply_operator_def Let_def)
  next
    case conditional
    with assms(2) show ?thesis by simp
  qed
qed
subsection \<open>Kind safety of the evaluator\<close>

lemma consume_step_Inr [exc_simps]:
  "consume_step st = Inr st' \<longleftrightarrow> es_remaining st \<noteq> 0 \<and> st' = st\<lparr>es_remaining := es_remaining st - 1\<rparr>"
  by (auto simp: consume_step_def)

lemma consume_step_Inl [exc_simps]:
  "consume_step st = Inl err \<longleftrightarrow> es_remaining st = 0 \<and> err = budget_exhausted"
  by (auto simp: consume_step_def budget_exhausted_def)

lemma registered_paths:
  assumes "map_of M0_M1_FIELD_KINDS p = Some k"
  shows "p \<noteq> [] \<and> length p \<le> MAX_IDENTIFIER_UTF8_BYTES \<and> k \<noteq> KIND_NULL"
proof -
  have "list_all (\<lambda>(p, k). p \<noteq> [] \<and> length p \<le> MAX_IDENTIFIER_UTF8_BYTES \<and> k \<noteq> KIND_NULL) M0_M1_FIELD_KINDS"
    by (simp add: M0_M1_FIELD_KINDS_def MAX_IDENTIFIER_UTF8_BYTES_def)
  with map_of_SomeD [OF assms] show ?thesis by (auto simp: list_all_iff)
qed

lemma evaluated_path_ok:
  "map_of M0_M1_FIELD_KINDS (ep_path p) = Some k \<Longrightarrow> evaluated_path_post_init p = Inr p"
  by (auto dest!: registered_paths simp: evaluated_path_post_init_def require_rule_evidence_text_def
      require_utf8_limit_def)

lemma missing_evidence_eval:
  "missing_evidence k =
     (if k = KIND_NULL then Inl missing_null
      else Inr \<lparr>ev_kind = k, ev_value = SNone, ev_is_missing = True\<rparr>)"
  by (simp add: missing_evidence_def evidence_value_post_init_def missing_null_def)

lemma read_path_ok:
  assumes k: "map_of M0_M1_FIELD_KINDS p = Some k" and "values_ok vs"
  shows "\<exists>v st'. read_path vs p k st = Inr (v, st') \<and> evidence_ok v \<and> ev_kind v = k \<and>
           es_remaining st' = es_remaining st"
proof -
  have k_null: "k \<noteq> KIND_NULL" using registered_paths [OF k] by simp
  define v where "v = (case map_of vs p of Some v \<Rightarrow> v
    | None \<Rightarrow> \<lparr>ev_kind = k, ev_value = SNone, ev_is_missing = True\<rparr>)"
  define q where "q = \<lparr>ep_path = p, ep_value = v\<rparr>"
  have q: "evaluated_path_post_init \<lparr>ep_path = p, ep_value = v\<rparr> = Inr q"
    using evaluated_path_ok k by (simp add: q_def)
  have "read_path vs p k st = Inr (v, st\<lparr>es_paths := es_paths st @ [q]\<rparr>)"
    using q k_null by (simp add: read_path_def Let_def missing_evidence_eval flip: v_def)
  moreover have "evidence_ok v \<and> ev_kind v = k"
    using values_ok_lookup [OF assms(2), of p] k k_null
    by (auto simp: v_def evidence_ok_def split: option.splits)
  ultimately show ?thesis by simp
qed

lemma validate_operator_if:
  "validate_operator ''if'' es = Inr k \<Longrightarrow>
     \<exists>c a b. es = [c, a, b] \<and> expr_kind c = KIND_BOOLEAN \<and> expr_kind a = k \<and> expr_kind b = k"
  by (cases rule: validate_operator_cases) auto

text \<open>What evaluation of an expression from a budget may answer.\<close>

definition expr_result :: "expression \<Rightarrow> eval_state \<Rightarrow> exn + evidence_value \<times> eval_state \<Rightarrow> bool" where
  "expr_result e st r \<longleftrightarrow>
     (case r of
        Inr (v, st') \<Rightarrow> conforms e v \<and> es_remaining st \<le> es_remaining st' + expr_nodes e
      | Inl err \<Rightarrow> expected_error err \<or> err = budget_exhausted \<and> es_remaining st < expr_nodes e)"

definition operands_result ::
    "expression list \<Rightarrow> eval_state \<Rightarrow> exn + evidence_value list \<times> eval_state \<Rightarrow> bool" where
  "operands_result es st r \<longleftrightarrow>
     (case r of
        Inr (vs, st') \<Rightarrow> list_all2 conforms es vs \<and>
          es_remaining st \<le> es_remaining st' + (\<Sum>e\<leftarrow>es. expr_nodes e)
      | Inl err \<Rightarrow> expected_error err \<or>
          err = budget_exhausted \<and> es_remaining st < (\<Sum>e\<leftarrow>es. expr_nodes e))"

lemma eval_operands_result:
  assumes "\<And>e st. e \<in> set es \<Longrightarrow> expr_result e st (eval_expr vs e st)"
  shows "operands_result es st (eval_operands vs es st)"
  using assms
proof (induction es arbitrary: st)
  case Nil
  then show ?case by (simp add: operands_result_def)
next
  case (Cons e es)
  have e: "expr_result e st (eval_expr vs e st)" using Cons.prems by simp
  show ?case
  proof (cases "eval_expr vs e st")
    case (Inl err)
    with e show ?thesis by (auto simp: operands_result_def expr_result_def)
  next
    case (Inr p)
    obtain v st1 where p: "p = (v, st1)" by (cases p)
    have "operands_result es st1 (eval_operands vs es st1)" using Cons by simp
    with Inr p e show ?thesis
      by (cases "eval_operands vs es st1") (auto simp: operands_result_def expr_result_def)
  qed
qed

lemma eval_if_result:
  assumes "\<And>st. expr_result c st (eval_expr vs c st)" "\<And>st. expr_result a st (eval_expr vs a st)"
    "\<And>st. expr_result b st (eval_expr vs b st)"
    and kinds: "expr_kind c = KIND_BOOLEAN" "expr_kind a = k" "expr_kind b = k"
  shows "expr_result (OperationExpression ''if'' [c, a, b] k) st
           (eval_expr vs (OperationExpression ''if'' [c, a, b] k) st)"
proof (cases "es_remaining st = 0")
  case True
  then show ?thesis by (simp add: expr_result_def eval_expr.simps(3) consume_step_def budget_exhausted_def)
next
  case False
  define st1 where "st1 = st\<lparr>es_remaining := es_remaining st - 1\<rparr>"
  have step: "consume_step st = Inr st1" using False by (simp add: consume_step_def st1_def)
  have rem: "es_remaining st = Suc (es_remaining st1)" using False by (simp add: st1_def)
  have c: "expr_result c st1 (eval_expr vs c st1)" by (rule assms)
  show ?thesis
  proof (cases "eval_expr vs c st1")
    case (Inl err)
    with c step rem show ?thesis by (auto simp: expr_result_def eval_expr.simps(3))
  next
    case (Inr p)
    obtain v st2 where p: "p = (v, st2)" by (cases p)
    with c Inr have v: "conforms c v" "es_remaining st1 \<le> es_remaining st2 + expr_nodes c"
      by (simp_all add: expr_result_def)
    show ?thesis
    proof (cases "ev_is_missing v")
      case True
      with Inr p v step rem show ?thesis
        by (simp add: expr_result_def eval_expr.simps(3) trace_operand_def conforms_def evidence_ok_def
            missing_evidence_eval expected_error_def)
    next
      case False
      then obtain x where "ev_kind v = KIND_BOOLEAN" "ev_value v = SBool x"
        using present_boolean v kinds by (auto simp: conforms_def)
      moreover have "expr_result a st2 (eval_expr vs a st2)" "expr_result b st2 (eval_expr vs b st2)"
        by (rule assms)+
      ultimately show ?thesis using Inr p v step rem False kinds
        by (cases "eval_expr vs a st2"; cases "eval_expr vs b st2")
          (auto simp: expr_result_def eval_expr.simps(3) trace_operand_def conforms_def)
    qed
  qed
qed

lemma eval_operation_result:
  assumes ops: "\<And>e st. e \<in> set es \<Longrightarrow> expr_result e st (eval_expr vs e st)"
    and v: "validate_operator op es = Inr k" and "op \<noteq> ''if''"
  shows "expr_result (OperationExpression op es k) st (eval_expr vs (OperationExpression op es k) st)"
proof (cases "es_remaining st = 0")
  case True
  then show ?thesis by (simp add: expr_result_def eval_expr.simps(3) consume_step_def budget_exhausted_def)
next
  case False
  define st1 where "st1 = st\<lparr>es_remaining := es_remaining st - 1\<rparr>"
  have step: "consume_step st = Inr st1" using False by (simp add: consume_step_def st1_def)
  have rem: "es_remaining st = Suc (es_remaining st1)" using False by (simp add: st1_def)
  have c: "operands_result es st1 (eval_operands vs es st1)" using ops by (rule eval_operands_result)
  show ?thesis
  proof (cases "eval_operands vs es st1")
    case (Inl err)
    with c step rem assms(3) show ?thesis
      by (auto simp: expr_result_def operands_result_def eval_expr.simps(3))
  next
    case (Inr p)
    obtain ws st2 where p: "p = (ws, st2)" by (cases p)
    with c Inr have ws: "list_all2 conforms es ws"
      "es_remaining st1 \<le> es_remaining st2 + (\<Sum>e\<leftarrow>es. expr_nodes e)"
      by (simp_all add: operands_result_def)
    show ?thesis
    proof (cases "apply_operator op k ws")
      case (Inl err)
      with apply_operator_error [OF v assms(3) ws(1)] p \<open>eval_operands vs es st1 = Inr p\<close> step assms(3)
      show ?thesis by (simp add: expr_result_def eval_expr.simps(3))
    next
      case (Inr r)
      with apply_operator_Inr [OF v assms(3)] p \<open>eval_operands vs es st1 = Inr p\<close> step rem ws assms(3)
      show ?thesis by (simp add: expr_result_def eval_expr.simps(3) trace_operand_def conforms_def)
    qed
  qed
qed

lemma eval_expr_result:
  assumes "values_ok vs"
  shows "typed e \<Longrightarrow> expr_result e st (eval_expr vs e st)"
proof (induction e arbitrary: st)
  case (LiteralExpression k v)
  then have "scalar_has_kind k v" by simp
  then show ?case
    by (cases "EvidenceValue k v"; cases "es_remaining st = 0")
      (auto simp: expr_result_def trace_operand_def conforms_def consume_step_def budget_exhausted_def
        dest: EvidenceValue_Inr EvidenceValue_expected)
next
  case (PathExpression p k)
  define st1 where "st1 = st\<lparr>es_remaining := es_remaining st - 1\<rparr>"
  obtain v st2 where "read_path vs p k st1 = Inr (v, st2)" "evidence_ok v" "ev_kind v = k"
    "es_remaining st2 = es_remaining st1" using read_path_ok [OF _ assms, of p k st1] PathExpression by auto
  then show ?case
    by (cases "es_remaining st = 0")
      (simp_all add: expr_result_def trace_operand_def conforms_def consume_step_def budget_exhausted_def
        flip: st1_def, simp add: st1_def conforms_def)
next
  case (OperationExpression op es k)
  then have ops: "expr_result e st (eval_expr vs e st)" if "e \<in> set es" for e st
    using that by (auto simp: list_all_iff)
  show ?case
  proof (cases "op = ''if''")
    case True
    with OperationExpression.prems obtain c a b where "es = [c, a, b]" "expr_kind c = KIND_BOOLEAN"
      "expr_kind a = k" "expr_kind b = k" using validate_operator_if [of es k] by auto
    with True ops show ?thesis using eval_if_result [of c vs a b k st] by simp
  next
    case False
    with OperationExpression.prems ops show ?thesis using eval_operation_result [of es vs op k st] by simp
  qed
qed
end
