(* ===== verification/RulesetSemantics.thy ===== *)
theory RulesetSemantics
  imports RuleEngine
begin

text \<open>
  The meaning of a ruleset: a reference evaluator without budget and trace, the equivalence of the
  evaluator of \<open>app/rules/engine.py\<close> with it, and what the aggregation of the rules computes.
\<close>

subsection \<open>The reference evaluator\<close>

fun reference_value :: "(string \<times> evidence_value) list \<Rightarrow> expression \<Rightarrow> exn + evidence_value" where
  "reference_value vs (LiteralExpression kind v) = EvidenceValue kind v"
| "reference_value vs (PathExpression path kind) =
     (case map_of vs path of Some v \<Rightarrow> Inr v | None \<Rightarrow> missing_evidence kind)"
| "reference_value vs (OperationExpression operator operands kind) =
     (if operator = ''if''
      then (case operands of
          c # t # f # _ \<Rightarrow>
            bindE (reference_value vs c) (\<lambda>condition.
            if ev_is_missing condition then missing_evidence kind
            else if ev_value condition = SBool True then reference_value vs t else reference_value vs f)
        | _ \<Rightarrow> Inl (IndexError ''tuple index out of range''))
      else bindE (mapE (reference_value vs) operands) (apply_operator operator kind))"

declare reference_value.simps(3) [simp del]

definition same_value :: "exn + 'a \<times> eval_state \<Rightarrow> exn + 'a \<Rightarrow> bool" where
  "same_value r v \<longleftrightarrow> bindE r (\<lambda>(x, st). Inr x) = v"

lemma same_value_simps [simp]:
  "same_value (Inl e) v \<longleftrightarrow> v = Inl e" "same_value (Inr (x, st)) v \<longleftrightarrow> v = Inr x"
  by (auto simp: same_value_def)

lemma same_valueE:
  assumes "same_value r v"
  obtains (error) e where "r = Inl e" "v = Inl e" | (result) x st where "r = Inr (x, st)" "v = Inr x"
  using assms by (cases r) auto

lemma eval_operands_reference:
  assumes "\<And>e st. e \<in> set es \<Longrightarrow> expr_nodes e \<le> es_remaining st \<Longrightarrow>
             same_value (eval_expr vs e st) (reference_value vs e)"
    and "\<And>e st. e \<in> set es \<Longrightarrow> expr_result e st (eval_expr vs e st)"
    and "(\<Sum>e\<leftarrow>es. expr_nodes e) \<le> es_remaining st"
  shows "same_value (eval_operands vs es st) (mapE (reference_value vs) es)"
  using assms
proof (induction es arbitrary: st)
  case (Cons e es)
  from Cons.prems have "same_value (eval_expr vs e st) (reference_value vs e)" by simp
  then show ?case
  proof (cases rule: same_valueE)
    case (error err)
    then show ?thesis by simp
  next
    case (result v st1)
    have "expr_result e st (Inr (v, st1))" using Cons.prems(2) [of e st] result by simp
    with Cons.prems(3) have "(\<Sum>e\<leftarrow>es. expr_nodes e) \<le> es_remaining st1" by (simp add: expr_result_def)
    with Cons have "same_value (eval_operands vs es st1) (mapE (reference_value vs) es)" by simp
    then show ?thesis using result by (cases rule: same_valueE) simp_all
  qed
qed simp

lemma eval_expr_reference:
  assumes vs: "values_ok vs"
  shows "typed e \<Longrightarrow> expr_nodes e \<le> es_remaining st \<Longrightarrow>
    same_value (eval_expr vs e st) (reference_value vs e)"
proof (induction e arbitrary: st)
  case (LiteralExpression k v)
  then show ?case by (cases "EvidenceValue k v") (auto simp: consume_step_def trace_operand_def)
next
  case (PathExpression p k)
  define st1 where "st1 = st\<lparr>es_remaining := es_remaining st - 1\<rparr>"
  have k: "map_of M0_M1_FIELD_KINDS p = Some k" using PathExpression by simp
  have "missing_evidence k = Inr \<lparr>ev_kind = k, ev_value = SNone, ev_is_missing = True\<rparr>"
    using registered_paths [OF k] by (simp add: missing_evidence_eval)
  moreover have "evaluated_path_post_init \<lparr>ep_path = p, ep_value = v\<rparr> = Inr \<lparr>ep_path = p, ep_value = v\<rparr>" for v
    using evaluated_path_ok k by simp
  ultimately show ?case using PathExpression.prems(2)
    by (simp add: consume_step_def read_path_def Let_def trace_operand_def split: option.splits)
next
  case (OperationExpression op es k)
  define st1 where "st1 = st\<lparr>es_remaining := es_remaining st - 1\<rparr>"
  have step: "consume_step st = Inr st1" "(\<Sum>e\<leftarrow>es. expr_nodes e) \<le> es_remaining st1"
    using OperationExpression.prems by (auto simp: st1_def consume_step_def)
  have same: "same_value (eval_expr vs e st) (reference_value vs e)"
    if "e \<in> set es" "expr_nodes e \<le> es_remaining st" for e st
    using OperationExpression that by (auto simp: list_all_iff)
  have result: "expr_result e st (eval_expr vs e st)" if "e \<in> set es" for e st
    using eval_expr_result [OF vs] OperationExpression.prems that by (auto simp: list_all_iff)
  show ?case
  proof (cases "op = ''if''")
    case False
    have "same_value (eval_operands vs es st1) (mapE (reference_value vs) es)"
      by (rule eval_operands_reference) (use same result step in auto)
    then show ?thesis
    proof (cases rule: same_valueE)
      case (error e)
      with step False show ?thesis by (simp add: eval_expr.simps(3) reference_value.simps(3))
    next
      case (result ws st2)
      with step False show ?thesis
        by (cases "apply_operator op k ws") (simp_all add: eval_expr.simps(3) reference_value.simps(3) trace_operand_def)
    qed
  next
    case True
    with OperationExpression.prems obtain c a b where es: "es = [c, a, b]" and kind: "expr_kind c = KIND_BOOLEAN"
      using validate_operator_if [of es k] by auto
    from step es have "same_value (eval_expr vs c st1) (reference_value vs c)" by (intro same) simp_all
    then show ?thesis
    proof (cases rule: same_valueE)
      case (error e)
      with step True es show ?thesis by (simp add: eval_expr.simps(3) reference_value.simps(3))
    next
      case (result v st2)
      with \<open>\<And>st e. e \<in> set es \<Longrightarrow> expr_result e st (eval_expr vs e st)\<close> [of c st1] es
      have v: "conforms c v" "es_remaining st1 \<le> es_remaining st2 + expr_nodes c"
        by (simp_all add: expr_result_def)
      show ?thesis
      proof (cases "ev_is_missing v")
        case missing: True
        with result step True es show ?thesis
          by (simp add: eval_expr.simps(3) reference_value.simps(3) missing_evidence_eval trace_operand_def)
      next
        case present: False
        then obtain x where x: "ev_kind v = KIND_BOOLEAN" "ev_value v = SBool x"
          using present_boolean [OF v(1) _ kind] v(1) kind by (auto simp: conforms_def)
        have "same_value (eval_expr vs a st2) (reference_value vs a)"
          "same_value (eval_expr vs b st2) (reference_value vs b)"
          using same [of a st2] same [of b st2] v(2) step(2) es by simp_all
        then show ?thesis using x present result step True es
          by (cases x; elim same_valueE)
            (simp_all add: eval_expr.simps(3) reference_value.simps(3) trace_operand_def)
      qed
    qed
  qed
qed

subsection \<open>Missing evidence\<close>

fun expr_paths :: "expression \<Rightarrow> string list" where
  "expr_paths (LiteralExpression kind v) = []"
| "expr_paths (PathExpression path kind) = [path]"
| "expr_paths (OperationExpression operator operands kind) = concat (map expr_paths operands)"

text \<open>No operator that looks at missing evidence itself.\<close>

fun strict :: "expression \<Rightarrow> bool" where
  "strict (OperationExpression operator operands kind) \<longleftrightarrow>
     operator \<noteq> ''exists'' \<and> operator \<noteq> ''if'' \<and> list_all strict operands"
| "strict _ \<longleftrightarrow> True"

definition present_result :: "exn + evidence_value \<Rightarrow> bool" where
  "present_result r \<longleftrightarrow> (case r of Inr v \<Rightarrow> \<not> ev_is_missing v | Inl _ \<Rightarrow> True)"

lemma present_result_intros:
  "present_result (Inl e)"
  "present_result (EvidenceValue k s)"
  "(\<And>x. present_result (f x)) \<Longrightarrow> present_result (bindE r f)"
  "present_result a \<Longrightarrow> present_result b \<Longrightarrow> present_result (if c then a else b)"
  "present_result a \<Longrightarrow> (\<And>x xs. present_result (g x xs)) \<Longrightarrow>
     present_result (case vs of [] \<Rightarrow> a | x # xs \<Rightarrow> g x xs)"
  using EvidenceValue_Inr
  by (cases "EvidenceValue k s"; cases r; cases vs; auto simp: present_result_def)+

lemma apply_operator_missing:
  assumes "op \<noteq> ''exists''" and "apply_operator op k vs = Inr v"
  shows "ev_is_missing v \<longleftrightarrow> list_ex ev_is_missing vs"
proof (cases "list_ex ev_is_missing vs")
  case True
  with assms show ?thesis by (auto simp: apply_operator_def missing_evidence_Inr)
next
  case False
  have "present_result (apply_operator op k vs)"
    unfolding apply_operator_def Let_def if_not_P [OF False] by (intro present_result_intros)
  with assms False show ?thesis by (simp add: present_result_def)
qed

lemma eval_operands_missing:
  assumes "\<And>e v st st'. e \<in> set es \<Longrightarrow> eval_expr vs e st = Inr (v, st') \<Longrightarrow>
       ev_is_missing v \<longleftrightarrow> list_ex (\<lambda>p. map_of vs p = None) (expr_paths e)"
    and "eval_operands vs es st = Inr (ws, st')"
  shows "list_ex ev_is_missing ws \<longleftrightarrow> list_ex (\<lambda>p. map_of vs p = None) (concat (map expr_paths es))"
  using assms by (induction es arbitrary: ws st) (fastforce simp: bindE_Inr)+

lemma eval_missing:
  assumes "values_ok vs"
  shows "eval_expr vs e st = Inr (v, st') \<Longrightarrow> strict e \<Longrightarrow>
     ev_is_missing v \<longleftrightarrow> list_ex (\<lambda>p. map_of vs p = None) (expr_paths e)"
proof (induction e arbitrary: v st st')
  case (LiteralExpression k v)
  then show ?case using EvidenceValue_Inr by (auto simp: bindE_Inr trace_operand_def)
next
  case (PathExpression p k)
  then show ?case using values_ok_lookup [OF assms, of p]
    by (auto simp: bindE_Inr trace_operand_def read_path_def Let_def missing_evidence_Inr split: option.splits)
next
  case (OperationExpression op es k)
  then obtain st1 ws st2 where step: "eval_operands vs es st1 = Inr (ws, st2)"
       "apply_operator op k ws = Inr v" "op \<noteq> ''exists''" "list_all strict es"
    by (auto simp: eval_expr.simps(3) bindE_Inr trace_operand_def)
  have "list_ex ev_is_missing ws \<longleftrightarrow> list_ex (\<lambda>p. map_of vs p = None) (concat (map expr_paths es))"
    by (rule eval_operands_missing [OF _ step(1)]) (use OperationExpression.IH step(4) in \<open>auto simp: list_all_iff\<close>)
  with apply_operator_missing [OF step(3,2)] show ?case by simp
qed

subsection \<open>The loop over the rules\<close>





definition add_weights :: "decimal \<Rightarrow> rule list \<Rightarrow> exn + decimal" where
  "add_weights score rules = foldE (\<lambda>score r. add_scores score (rule_weight r)) score rules"

lemma add_weights_simps [simp]:
  "add_weights s [] = Inr s"
  "add_weights s (r # rs) = bindE (add_scores s (rule_weight r)) (\<lambda>s. add_weights s rs)"
  by (simp_all add: add_weights_def)

definition score_ok :: "decimal \<Rightarrow> bool" where
  "score_ok d \<longleftrightarrow> is_finite d \<and> 0 \<le> rval d"

lemma score_ok_zero [simp]: "score_ok dec_zero"
  by (simp add: score_ok_def)











subsection \<open>The whole evaluation\<close>

lemma evidence_value_payload_clean [simp]: "json_clean (evidence_value_payload v)"
  by (simp add: evidence_value_payload_def split: scalar.splits)


lemma EvidenceValue_decimal:
  "is_finite d \<Longrightarrow>
     EvidenceValue KIND_DECIMAL (SDecimal d) =
       bindE (canonical_decimal d) (\<lambda>c. Inr \<lparr>ev_kind = KIND_DECIMAL, ev_value = SDecimal c, ev_is_missing = False\<rparr>)"
  by (simp add: EvidenceValue_def evidence_value_post_init_def validate_value_type_def)








subsection \<open>A concrete evaluation\<close>

definition sample_supplied :: "(string \<times> pyval) list" where
  "sample_supplied = [(''source.last_price'', PyDecimal (Fin False 120 0))]"

definition sample_values :: "(string \<times> evidence_value) list" where
  "sample_values =
     [(''source.last_price'', \<lparr>ev_kind = KIND_DECIMAL, ev_value = SDecimal (Fin False 120 0), ev_is_missing = False\<rparr>)]"


definition sample_state :: eval_state where
  "sample_state = \<lparr>es_remaining = 512, es_operands = [], es_paths = []\<rparr>"

lemma sample_prepare: "prepare_values sample_supplied = Inr sample_values"
  by (simp add: prepare_values_def sample_supplied_def sample_values_def kind_for_def registry_lookup
      M0_M1_FIELD_KINDS_def EvidenceValue_decimal canonical_decimal_def bounded_Fin require_bounded_decimal_Inr
      MAX_DECIMAL_COEFFICIENT_DIGITS_def MAX_DECIMAL_ABSOLUTE_EXPONENT_def
        MAX_DECIMAL_SERIALIZED_CHARACTERS_def rule_serialized_characters_def
      py_eval)

lemma sample_read:
  "read_path sample_values ''source.last_price'' KIND_DECIMAL st =
     Inr (snd (sample_values ! 0), st\<lparr>es_paths := es_paths st @ [\<lparr>ep_path = ''source.last_price'', ep_value = snd (sample_values ! 0)\<rparr>]\<rparr>)"
  by (simp add: read_path_def Let_def missing_evidence_eval sample_values_def evaluated_path_ok M0_M1_FIELD_KINDS_def)

lemma sample_literal:
  "EvidenceValue KIND_DECIMAL (SDecimal (Fin False 100 0)) =
     Inr \<lparr>ev_kind = KIND_DECIMAL, ev_value = SDecimal (Fin False 100 0), ev_is_missing = False\<rparr>"
  by (simp add: EvidenceValue_decimal canonical_decimal_def 
      MAX_DECIMAL_COEFFICIENT_DIGITS_def MAX_DECIMAL_ABSOLUTE_EXPONENT_def
        MAX_DECIMAL_SERIALIZED_CHARACTERS_def rule_serialized_characters_def py_eval)

lemma sample_eval:
  "eval_expr sample_values sample_expression (sample_state\<lparr>es_remaining := 512\<rparr>) =
     (let price = snd (sample_values ! 0);
          bound = \<lparr>ev_kind = KIND_DECIMAL, ev_value = SDecimal (Fin False 100 0), ev_is_missing = False\<rparr>;
          outcome = \<lparr>ev_kind = KIND_BOOLEAN, ev_value = SBool True, ev_is_missing = False\<rparr> in
      Inr (outcome, \<lparr>es_remaining = 509, es_operands = [price, bound, outcome],
        es_paths = [\<lparr>ep_path = ''source.last_price'', ep_value = price\<rparr>]\<rparr>))"
  by (simp add: sample_expression_def eval_expr.simps(3) consume_step_def sample_state_def sample_read sample_literal
      trace_operand_def apply_operator_def compare_evidence_def compare_decimals_def decimal_value_def Let_def)
    (simp add: sample_values_def dec_compare dsigned_def)

lemma sample_expression_kind: "expr_kind sample_expression = KIND_BOOLEAN" "expr_nodes sample_expression = 3"
  by (simp_all add: sample_expression_def)










subsection \<open>Properties\<close>

text \<open>C30: a well-typed expression evaluates to a value of the kind the parser gave it, or to one of the numeric,
  size, division and null errors; the evaluator takes at most one step per node, and runs out of budget only
  when the budget is smaller than the number of nodes.\<close>

theorem evaluation_is_kind_safe:
  assumes "parse_expression schema_valid raw = Inr e" and "prepare_values supplied = Inr vs"
  shows "case eval_expr vs e st of
      Inr (v, st') \<Rightarrow> evidence_ok v \<and> ev_kind v = expr_kind e \<and>
        es_remaining st \<le> es_remaining st' + expr_nodes e
    | Inl err \<Rightarrow> expected_error err \<or> err = budget_exhausted \<and> es_remaining st < expr_nodes e"
proof -
  have "typed e" using parse_expression_Inr [OF assms(1)] parsed_typed by blast
  from eval_expr_result [OF prepare_values_ok [OF assms(2)] this, of st] show ?thesis
    by (simp add: expr_result_def conforms_def split: sum.splits prod.splits)
qed

lemma evaluation_is_kind_safe_witness:
  "\<exists>v st'. eval_expr sample_values sample_expression (sample_state\<lparr>es_remaining := 512\<rparr>) = Inr (v, st') \<and>
     evidence_ok v \<and> ev_kind v = KIND_BOOLEAN \<and> 509 \<le> es_remaining st'"
  using evaluation_is_kind_safe [OF sample_parse sample_prepare, of "sample_state\<lparr>es_remaining := 512\<rparr>"]
  by (auto simp: sample_eval Let_def sample_expression_kind)

text \<open>C31: with a budget of at least its node count, the budgeted and traced evaluation of a parsed expression
  returns exactly the value, or the exception, of the reference evaluator.\<close>

theorem evaluation_refines_reference:
  assumes "parse_expression schema_valid raw = Inr e" and "prepare_values supplied = Inr vs"
    and "expr_nodes e \<le> es_remaining st"
  shows "bindE (eval_expr vs e st) (\<lambda>(v, st'). Inr v) = reference_value vs e"
proof -
  have "typed e" using parse_expression_Inr [OF assms(1)] parsed_typed by blast
  from eval_expr_reference [OF prepare_values_ok [OF assms(2)] this assms(3)] show ?thesis
    by (simp add: same_value_def)
qed

lemma evaluation_refines_reference_witness:
  "\<exists>v. reference_value sample_values sample_expression = Inr v \<and> ev_value v = SBool True"
proof -
  have "expr_nodes sample_expression \<le> es_remaining (sample_state\<lparr>es_remaining := 512\<rparr>)"
    by (simp add: sample_expression_def)
  from evaluation_refines_reference [OF sample_parse sample_prepare this, symmetric] show ?thesis
    by (simp add: sample_eval Let_def)
qed





text \<open>an expression without \<open>exists\<close> and \<open>if\<close> that evaluates is missing exactly when a path it reads was not
  supplied: missing evidence is never decided by another operand.\<close>

theorem missing_evidence_is_strict:
  assumes "prepare_values supplied = Inr vs" and "strict e" and "eval_expr vs e st = Inr (v, st')"
  shows "ev_is_missing v \<longleftrightarrow> list_ex (\<lambda>path. map_of vs path = None) (expr_paths e)"
  by (rule eval_missing [OF prepare_values_ok [OF assms(1)] assms(3,2)])

lemma missing_evidence_is_strict_witness:
  "\<exists>v st'. eval_expr [] sample_expression (sample_state\<lparr>es_remaining := 512\<rparr>) = Inr (v, st') \<and> ev_is_missing v"
proof -
  have none: "prepare_values [] = Inr []" by (simp add: prepare_values_def)
  have strict: "strict sample_expression" by (simp add: sample_expression_def)
  obtain v st' where r: "eval_expr [] sample_expression (sample_state\<lparr>es_remaining := 512\<rparr>) = Inr (v, st')"
    by (simp add: sample_expression_def eval_expr.simps(3) consume_step_def sample_state_def sample_literal
        trace_operand_def apply_operator_def read_path_def missing_evidence_eval evaluated_path_ok
        M0_M1_FIELD_KINDS_def Let_def)
  from missing_evidence_is_strict [OF none strict r] r show ?thesis by (auto simp: sample_expression_def)
qed

text \<open>An \<open>if\<close> whose branches are null has no missing value to answer with: when its condition is missing, the
  rule does not become missing but the whole evaluation raises.\<close>

definition null_conditional :: expression where
  "null_conditional =
     OperationExpression ''eq''
       [OperationExpression ''if''
          [PathExpression ''market.is_actionable'' KIND_BOOLEAN, LiteralExpression KIND_NULL SNone,
           LiteralExpression KIND_NULL SNone] KIND_NULL,
        LiteralExpression KIND_NULL SNone] KIND_BOOLEAN"

lemma null_conditional_raises:
  "parsed null_conditional \<and> expr_kind null_conditional = KIND_BOOLEAN \<and>
     eval_expr [] null_conditional (sample_state\<lparr>es_remaining := 512\<rparr>) = Inl missing_null"
  by (simp add: null_conditional_def validate_operator_def ALLOWED_OPERATORS_def require_arity_def
      eval_expr.simps(3) consume_step_def sample_state_def
        trace_operand_def read_path_def missing_evidence_eval evaluated_path_ok
        M0_M1_FIELD_KINDS_def Let_def)

end
