(* ===== verification/PyValues.thy ===== *)
theory PyValues
  imports PyTime PyDecimalText
begin

text \<open>
  Python values at the boundaries of the application: the text of UUIDs and of local timestamps, ISO
  dates, equality of evidence values, and dictionaries that are updated in place.
\<close>

subsection \<open>UUIDs\<close>

text \<open>The last \<open>k\<close> hexadecimal digits of a number.\<close>

fun hex_text :: "nat \<Rightarrow> nat \<Rightarrow> string" where
  "hex_text 0 n = []"
| "hex_text (Suc k) n = hex_text k (n div 16) @ [hex_char (n mod 16)]"

text \<open>\<open>str(uuid)\<close>.\<close>

definition uuid_text :: "uuid \<Rightarrow> string" where
  "uuid_text u =
     (let h = hex_text 32 u in
      take 8 h @ ''-'' @ take 4 (drop 8 h) @ ''-'' @ take 4 (drop 12 h) @ ''-'' @ take 4 (drop 16 h) @ ''-'' @ drop 20 h)"

lemma hex_text_length [simp]: "length (hex_text k n) = k"
  by (induction k arbitrary: n) simp_all

lemma uuid_text_length: "length (uuid_text u) = 36"
  by (simp add: uuid_text_def Let_def)

subsection \<open>Timestamps\<close>

definition microseconds_per_day :: int where
  "microseconds_per_day = 86400000000"

definition clock_text :: "int \<Rightarrow> string" where
  "clock_text seconds =
     padded_text 2 (seconds div 3600) @ '':'' @ padded_text 2 (seconds div 60 mod 60) @ '':'' @
     padded_text 2 (seconds mod 60)"

text \<open>\<open>isoformat(timespec="microseconds")\<close> without the offset.\<close>

definition local_text :: "int \<Rightarrow> string" where
  "local_text t =
     date_isoformat (t div microseconds_per_day) @ ''T'' @
     clock_text (t mod microseconds_per_day div 1000000) @ ''.'' @ padded_text 6 (t mod 1000000)"

text \<open>The text of a UTC offset; its seconds and microseconds only appear when they are not zero.\<close>

definition offset_text :: "int \<Rightarrow> string" where
  "offset_text off =
     (let a = \<bar>off\<bar>; s = a div 1000000; micros = a mod 1000000 in
      (if off < 0 then ''-'' else ''+'') @ padded_text 2 (s div 3600) @ '':'' @ padded_text 2 (s div 60 mod 60) @
      (if s mod 60 = 0 \<and> micros = 0 then [] else '':'' @ padded_text 2 (s mod 60)) @
      (if micros = 0 then [] else ''.'' @ padded_text 6 micros))"

text \<open>\<open>datetime.isoformat(timespec="microseconds")\<close> of an instant at an offset.\<close>

definition local_isoformat :: "int \<Rightarrow> int \<Rightarrow> string" where
  "local_isoformat t off = local_text (t + off) @ offset_text off"

text \<open>\<open>str\<close> of a datetime as evidence stores it; an aware one is kept in UTC.\<close>

fun datetime_isoformat :: "datetime \<Rightarrow> string" where
  "datetime_isoformat (Aware t) = utc_isoformat t"
| "datetime_isoformat (Naive t) = take (length (utc_isoformat t) - 6) (utc_isoformat t)"

subsection \<open>\<open>date.fromisoformat\<close>\<close>

definition digits_value :: "string \<Rightarrow> int option" where
  "digits_value s = (if s \<noteq> [] \<and> list_all is_digit s then Some (int (number_of_digits s)) else None)"

text \<open>A civil date exists when its day number leads back to it.\<close>

definition civil_date :: "int \<Rightarrow> int \<Rightarrow> int \<Rightarrow> date option" where
  "civil_date y m d =
     (let n = days_from_civil y m d in
      if 1 \<le> y \<and> y \<le> 9999 \<and> civil_from_days n = (y, m, d) then Some n else None)"

text \<open>The Monday of the first ISO week of a year, and the date of a weekday in an ISO week.\<close>

definition iso_year_start :: "int \<Rightarrow> date" where
  "iso_year_start y =
     (let jan4 = days_from_civil y 1 4 in jan4 - weekday jan4)"

definition iso_week_date :: "int \<Rightarrow> int \<Rightarrow> int \<Rightarrow> date option" where
  "iso_week_date y w d =
     (let n = iso_year_start y + 7 * (w - 1) + (d - 1) in
      if 1 \<le> y \<and> y \<le> 9999 \<and> 1 \<le> w \<and> iso_year_start y + 7 * w \<le> iso_year_start (y + 1) \<and> 1 \<le> d \<and> d \<le> 7 \<and>
         days_from_civil 1 1 1 \<le> n \<and> n \<le> days_from_civil 9999 12 31
      then Some n else None)"

text \<open>The formats \<open>YYYY-MM-DD\<close>, \<open>YYYYMMDD\<close>, \<open>YYYY-Www[-D]\<close> and \<open>YYYYWww[D]\<close>.\<close>

definition parse_iso_date :: "string \<Rightarrow> date option" where
  "parse_iso_date s =
     (case digits_value (take 4 s) of
        None \<Rightarrow> None
      | Some y \<Rightarrow>
          let rest = drop 4 s; extended = (take 1 rest = ''-''); body = (if extended then drop 1 rest else rest) in
          if length (take 4 s) < 4 then None
          else if take 1 body = ''W'' then
            (case digits_value (take 2 (drop 1 body)) of
               None \<Rightarrow> None
             | Some w \<Rightarrow>
                 let day = drop 3 body in
                 if length body < 3 then None
                 else if day = [] then iso_week_date y w 1
                 else if extended \<and> (length day \<noteq> 2 \<or> take 1 day \<noteq> ''-'') \<or> \<not> extended \<and> length day \<noteq> 1 then None
                 else (case digits_value (if extended then drop 1 day else day) of
                         None \<Rightarrow> None | Some d \<Rightarrow> iso_week_date y w d))
          else if length body \<noteq> (if extended then 5 else 4) \<or> extended \<and> take 1 (drop 2 body) \<noteq> ''-'' then None
          else
            (case (digits_value (take 2 body), digits_value (drop (if extended then 3 else 2) body)) of
               (Some m, Some d) \<Rightarrow> civil_date y m d
             | _ \<Rightarrow> None))"

lemma iso_date_examples:
  "parse_iso_date ''2026-03-02'' = Some 20514" "parse_iso_date ''20260302'' = Some 20514"
  "parse_iso_date ''2026-W10-1'' = Some 20514" "parse_iso_date ''2026-02-29'' = None"
  "parse_iso_date ''2026-3-2'' = None" "date_isoformat 20514 = ''2026-03-02''"
  by code_simp+

subsection \<open>Splitting\<close>

text \<open>\<open>str.split\<close> on one character.\<close>

fun split_on :: "char \<Rightarrow> string \<Rightarrow> string list" where
  "split_on c [] = [[]]"
| "split_on c (x # xs) =
     (case split_on c xs of [] \<Rightarrow> [[x]] | p # ps \<Rightarrow> if x = c then [] # p # ps else (x # p) # ps)"

subsection \<open>Equality of evidence values\<close>

text \<open>Numbers are equal by value across \<open>bool\<close>, \<open>int\<close> and \<open>Decimal\<close>.\<close>

fun numeric_value :: "pyval \<Rightarrow> rat option" where
  "numeric_value (PyBool b) = Some (if b then 1 else 0)"
| "numeric_value (PyInt n) = Some (of_int n)"
| "numeric_value (PyDecimal (Fin s c e)) = Some (rval (Fin s c e))"
| "numeric_value _ = None"

text \<open>\<open>==\<close>: dictionaries regardless of the order of their items, datetimes by instant.\<close>

function (sequential) py_eq :: "pyval \<Rightarrow> pyval \<Rightarrow> bool" where
  "py_eq (PyDict xs) (PyDict ys) =
     (length xs = length ys \<and>
      list_all (\<lambda>x. list_ex (\<lambda>y. fst x = fst y \<and> py_eq (snd x) (snd y)) ys) xs)"
| "py_eq (PyList xs) (PyList ys) =
     (length xs = length ys \<and> list_all (\<lambda>(x, y). py_eq x y) (zip xs ys))"
| "py_eq (PyTuple xs) (PyTuple ys) =
     (length xs = length ys \<and> list_all (\<lambda>(x, y). py_eq x y) (zip xs ys))"
| "py_eq x y =
     (case (numeric_value x, numeric_value y) of (Some a, Some b) \<Rightarrow> a = b | _ \<Rightarrow> x = y)"
  by pat_completeness auto
termination
  by (relation "measure (\<lambda>(x, _). size x)")
    (auto dest!: set_zip_leftD simp: less_Suc_eq_le elim!: size_list_estimation')

subsection \<open>Dictionaries\<close>

text \<open>\<open>d[key] = value\<close>: the item keeps its place when the key is present.\<close>

fun dict_set :: "string \<Rightarrow> pyval \<Rightarrow> (string \<times> pyval) list \<Rightarrow> (string \<times> pyval) list" where
  "dict_set k v [] = [(k, v)]"
| "dict_set k v ((k', v') # kvs) = (if k' = k then (k, v) # kvs else (k', v') # dict_set k v kvs)"

lemma dict_set_lookup: "map_of (dict_set k v kvs) = (map_of kvs)(k \<mapsto> v)"
  by (induction kvs) auto

text \<open>\<open>value.get(key)\<close> on a value that may not be a mapping.\<close>

fun dict_get :: "pyval \<Rightarrow> string \<Rightarrow> pyval option" where
  "dict_get (PyDict kvs) k = map_of kvs k"
| "dict_get _ k = None"

fun is_mapping :: "pyval \<Rightarrow> bool" where
  "is_mapping (PyDict _) = True"
| "is_mapping _ = False"

text \<open>\<open>json.dumps\<close> with the separators, key order and options of the program.\<close>

definition json_dumps :: "pyval \<Rightarrow> exn + string" where
  "json_dumps v = bindE (mapE (\<lambda>c. c) (json_chunks v)) (\<lambda>chunks. Inr (concat chunks))"

lemma json_dumps_clean: "json_clean v \<Longrightarrow> \<exists>t. json_dumps v = Inr t"
proof -
  assume "json_clean v"
  then have "mapE (\<lambda>c. c) (json_chunks v) = Inr (map projr (json_chunks v))"
    by (intro mapE_all_Inr) (auto dest!: json_chunks_clean)
  then show ?thesis by (simp add: json_dumps_def)
qed

end
