(* ===== verification/Civil.thy ===== *)
theory Civil
  imports PyValues
begin

subsection \<open>The calendar is a bijection\<close>

text \<open>The day of a 400-year era on which a year of the era starts, and the estimate of the year from
  which \<open>civil_from_days\<close> divides.\<close>

definition year_start :: "int \<Rightarrow> int" where
  "year_start y = 365 * y + y div 4 - y div 100"

definition leapless_day :: "int \<Rightarrow> int" where
  "leapless_day d = d - d div 1460 + d div 36524 - d div 146096"

lemma quotient_unique: "0 < (k::int) \<Longrightarrow> k * n \<le> d \<Longrightarrow> d < k * n + k \<Longrightarrow> d div k = n"
  by (rule int_div_pos_eq [of d k n "d - k * n"]) simp_all

text \<open>The centuries \<open>q\<close>, the four-year cycles \<open>p\<close>, the years \<open>r\<close> and the days \<open>k\<close> of a day of the era.\<close>

lemma leapless_day_split:
  assumes "0 \<le> q" "q \<le> 3" "0 \<le> p" "p \<le> 24" "0 \<le> r" "r \<le> 3" "0 \<le> k" "k \<le> 365"
    and last: "k = 365 \<Longrightarrow> r = 3" "k = 365 \<Longrightarrow> p = 24 \<Longrightarrow> q = 3"
  shows "leapless_day (36524 * q + 1461 * p + 365 * r + k) div 365 = 100 * q + 4 * p + r"
    and "year_start (100 * q + 4 * p + r) = 36524 * q + 1461 * p + 365 * r"
proof -
  let ?d = "36524 * q + 1461 * p + 365 * r + k"
  define x where "x = (if 24 * q + p + 365 * r + k < 1460 then 0 else 1 :: int)"
  have x: "x = 0 \<and> 24 * q + p + 365 * r + k < 1460 \<or> x = 1 \<and> 1460 \<le> 24 * q + p + 365 * r + k"
    by (simp add: x_def)
  from x have "?d div 1460 = 25 * q + p + x"
  proof (elim disjE conjE)
    assume "x = 0" "24 * q + p + 365 * r + k < 1460"
    then show ?thesis using assms(1-8) by (intro quotient_unique) (simp_all add: algebra_simps)
  next
    assume "x = 1" "1460 \<le> 24 * q + p + 365 * r + k"
    then show ?thesis using assms(1-8) by (intro quotient_unique) (simp_all add: algebra_simps)
  qed
  moreover have "?d div 36524 - ?d div 146096 = q"
  proof (cases "p = 24 \<and> k = 365")
    case True
    then show ?thesis using last by simp
  next
    case False
    then have "p \<le> 23 \<or> k \<le> 364" using assms(4,8) by linarith
    then have "1461 * p + 365 * r + k < 36524" using assms(3-8) by linarith
    then have "?d div 36524 = q" "?d div 146096 = 0" using assms(1-8) by (intro quotient_unique; simp add: algebra_simps)+
    then show ?thesis by simp
  qed
  ultimately have "leapless_day ?d = 365 * (100 * q + 4 * p + r) + (k - x)" unfolding leapless_day_def by simp
  moreover have "k \<le> 364 \<or> k = 365 \<and> r = 3" using assms(8) last(1) by linarith
  then have "0 \<le> k - x \<and> k - x < 365" using x
    by (elim disjE conjE) (use assms(1-8) in linarith)+
  ultimately show "leapless_day ?d div 365 = 100 * q + 4 * p + r" by (intro quotient_unique) simp_all
  have "(100 * q + 4 * p + r) div 4 = 25 * q + p" "(100 * q + 4 * p + r) div 100 = q"
    using assms(1-8) by (intro quotient_unique; simp add: algebra_simps)+
  then show "year_start (100 * q + 4 * p + r) = 36524 * q + 1461 * p + 365 * r"
    by (simp add: year_start_def)
qed

text \<open>Dividing into at most \<open>n + 1\<close> parts, the last of which takes what is left.\<close>

lemma capped_quotient:
  assumes "0 < (k::int)" "0 \<le> d" "0 \<le> n"
  defines "c \<equiv> min n (d div k)"
  shows "0 \<le> c" "c \<le> n" "0 \<le> d - k * c" "d - k * c < k \<or> c = n"
proof -
  have quot: "0 \<le> d div k" "k * (d div k) \<le> d" "d < k * (d div k) + k"
    using assms(1,2) pos_mod_bound [of k d] by (simp_all add: pos_imp_zdiv_nonneg_iff minus_mod_eq_mult_div [symmetric])
  show "0 \<le> c" "c \<le> n" "d - k * c < k \<or> c = n" using quot assms(3) by (auto simp: c_def min_def)
  have "k * c \<le> k * (d div k)" using assms(1) by (simp add: c_def)
  then show "0 \<le> d - k * c" using quot(2) by linarith
qed

lemma year_bounds:
  assumes "0 \<le> doe" "doe \<le> 146096"
  defines "yoe \<equiv> leapless_day doe div 365"
  shows "0 \<le> yoe \<and> yoe \<le> 399 \<and> 0 \<le> doe - year_start yoe \<and> doe - year_start yoe \<le> 365"
proof -
  define q where "q = min 3 (doe div 36524)"
  define a where "a = doe - 36524 * q"
  define p where "p = a div 1461"
  define m where "m = a mod 1461"
  define r where "r = min 3 (m div 365)"
  define k where "k = m - 365 * r"
  have q: "0 \<le> q" "q \<le> 3" "0 \<le> a" "a < 36524 \<or> q = 3"
    by (rule capped_quotient [of 36524 doe 3, folded q_def, folded a_def, OF _ assms(1)], simp_all only:
        zero_less_numeral zero_le_numeral)+
  then have a: "a \<le> 36524" using assms(2) a_def by linarith
  have m: "0 \<le> m" "m < 1461" unfolding m_def by (rule pos_mod_sign pos_mod_bound, rule zero_less_numeral)+
  have apm: "a = 1461 * p + m" unfolding p_def m_def by (rule mult_div_mod_eq [symmetric])
  have "0 \<le> p" unfolding p_def using q(3) by (simp add: pos_imp_zdiv_nonneg_iff)
  then have pm: "0 \<le> p" "p \<le> 24" "0 \<le> m" "m < 1461" "a = 1461 * p + m" using m apm a by linarith+
  have r: "0 \<le> r" "r \<le> 3" "0 \<le> k" "k < 365 \<or> r = 3"
    by (rule capped_quotient [of 365 m 3, folded r_def, folded k_def, OF _ pm(3)], simp_all only:
        zero_less_numeral zero_le_numeral)+
  then have k: "k \<le> 365" using pm(4) k_def by linarith
  have doe: "doe = 36524 * q + 1461 * p + 365 * r + k" using a_def k_def pm(5) by linarith
  have leap: "k = 365 \<Longrightarrow> r = 3" "k = 365 \<Longrightarrow> p = 24 \<Longrightarrow> q = 3" using r(4) q(4) pm(5) k_def by linarith+
  note split = leapless_day_split [OF q(1,2) pm(1,2) r(1-3) k leap]
  have "yoe = 100 * q + 4 * p + r" unfolding yoe_def by (subst doe, rule split(1))
  moreover have "year_start yoe = doe - k" using split(2) doe by (simp only: calculation)
  ultimately show ?thesis using q(1,2) pm(1,2) r(1-3) k by linarith
qed

theorem days_of_civil:
  assumes "civil_from_days n = (y, m, d)"
  shows "days_from_civil y m d = n" and "1 \<le> m" "m \<le> 12" "1 \<le> d" "d \<le> 31"
proof -
  define era where "era = (n + 719468) div 146097"
  define doe where "doe = (n + 719468) mod 146097"
  define yoe where "yoe = leapless_day doe div 365"
  define doy where "doy = doe - year_start yoe"
  define mp where "mp = (5 * doy + 2) div 153"
  have n: "n = era * 146097 + doe - 719468" unfolding era_def doe_def by simp
  have "0 \<le> doe" "doe < 146097" unfolding doe_def by (rule pos_mod_sign pos_mod_bound, simp)+
  then have "0 \<le> doe" "doe \<le> 146096" by simp_all
  from year_bounds [OF this] have b: "0 \<le> yoe" "yoe \<le> 399" "0 \<le> doy" "doy \<le> 365"
    unfolding yoe_def doy_def by simp_all
  have mp: "0 \<le> mp" "mp \<le> 11" using b unfolding mp_def by simp_all
  have yoe': "yoe = (doe - doe div 1460 + doe div 36524 - doe div 146096) div 365"
    by (simp only: yoe_def leapless_day_def)
  have doy': "doy = doe - (365 * yoe + yoe div 4 - yoe div 100)" by (simp only: doy_def year_start_def)
  have civil: "m = (if mp < 10 then mp + 3 else mp - 9)" "d = doy - (153 * mp + 2) div 5 + 1"
    "y = yoe + era * 400 + (if m \<le> 2 then 1 else 0)"
    using assms unfolding civil_from_days_def Let_def
    unfolding era_def [symmetric] doe_def [symmetric] yoe' [symmetric] doy' [symmetric] mp_def [symmetric]
    by (auto simp only: prod.inject)
  have y': "(if m \<le> 2 then y - 1 else y) = yoe + era * 400" using civil(3) by simp
  have month: "(if m > 2 then m - 3 else m + 9) = mp" using civil(1) mp by (auto split: if_splits)
  have "(yoe + era * 400) div 400 = era" "(yoe + era * 400) mod 400 = yoe" using b by simp_all
  then show "days_from_civil y m d = n"
    unfolding days_from_civil_def Let_def y' month
    using n civil(2) by (simp add: doy_def year_start_def)
  show "1 \<le> m" "m \<le> 12" using civil(1) mp by (auto split: if_splits)
  have "153 * mp \<le> 5 * doy + 2" "5 * doy + 2 < 153 * mp + 153" unfolding mp_def by simp_all
  moreover have "5 * ((153 * mp + 2) div 5) \<le> 153 * mp + 2" "153 * mp + 2 < 5 * ((153 * mp + 2) div 5) + 5" by simp_all
  ultimately show "1 \<le> d" "d \<le> 31" using civil(2) by linarith+
qed


end
