(* ===== verification/PyParse.thy ===== *)
theory PyParse
  imports Civil
begin

text \<open>
  Reading back what \<open>str(UUID)\<close> and \<open>datetime.isoformat\<close> write: the constructor \<open>UUID(text)\<close> and
  \<open>datetime.fromisoformat\<close>, on ASCII digits, and the two round trips.
\<close>

subsection \<open>\<open>UUID(text)\<close>\<close>

definition hex_value :: "char \<Rightarrow> nat" where
  "hex_value c =
     (let n = byte_code c in if n < 58 then n - 48 else if n < 97 then n - 55 else n - 87)"

definition is_any_hex_digit :: "char \<Rightarrow> bool" where
  "is_any_hex_digit c \<longleftrightarrow> is_hex_digit c \<or> is_hex_digit (hd (lower_ascii [c]))"

definition number_of_hex :: "string \<Rightarrow> nat" where
  "number_of_hex ds = foldl (\<lambda>n c. 16 * n + hex_value c) 0 ds"

text \<open>\<open>text.replace(old, "")\<close>.\<close>

fun remove_from :: "nat \<Rightarrow> string \<Rightarrow> string \<Rightarrow> string" where
  "remove_from skip old [] = []"
| "remove_from (Suc k) old (c # cs) = remove_from k old cs"
| "remove_from 0 old (c # cs) =
     (if take (length old) (c # cs) = old then remove_from (length old - 1) old cs
      else c # remove_from 0 old cs)"

definition remove_text :: "string \<Rightarrow> string \<Rightarrow> string" where
  "remove_text old s = remove_from 0 old s"

definition strip_chars :: "char list \<Rightarrow> string \<Rightarrow> string" where
  "strip_chars cs s = rev (dropWhile (\<lambda>c. c \<in> set cs) (rev (dropWhile (\<lambda>c. c \<in> set cs) s)))"

text \<open>The digits \<open>int(text, 16)\<close> accepts: single underscores may stand between them.\<close>

definition hex_digits :: "string \<Rightarrow> bool" where
  "hex_digits ds \<longleftrightarrow>
     (let groups = split_on (CHR ''_'') ds in list_all (\<lambda>g. g \<noteq> [] \<and> list_all is_any_hex_digit g) groups)"

definition int_of_hex :: "string \<Rightarrow> int option" where
  "int_of_hex t =
     (case split_sign (strip t) of (negative, body) \<Rightarrow>
        let ds = (if take 2 body \<in> {''0x'', ''0X''}
                  then (if take 1 (drop 2 body) = ''_'' then drop 3 body else drop 2 body) else body) in
        if hex_digits ds
        then Some ((if negative then -1 else 1) * int (number_of_hex (filter (\<lambda>c. c \<noteq> CHR ''_'') ds)))
        else None)"

text \<open>\<open>None\<close> is \<open>ValueError\<close>.\<close>

definition uuid_of_text :: "string \<Rightarrow> uuid option" where
  "uuid_of_text t =
     (let h = remove_text ''-'' (strip_chars ''{}'' (remove_text ''uuid:'' (remove_text ''urn:'' t))) in
      if py_len h \<noteq> 32 then None
      else case int_of_hex h of
        None \<Rightarrow> None
      | Some n \<Rightarrow> if 0 \<le> n \<and> n < 2 ^ 128 then Some (nat n) else None)"

subsection \<open>\<open>datetime.fromisoformat\<close>\<close>

text \<open>The position of the separator between the date and the time.\<close>

definition separator_position :: "string \<Rightarrow> nat" where
  "separator_position s =
     (if length s = 7 then 7
      else if take 1 (drop 4 s) = ''-'' then
        if take 1 (drop 5 s) = ''W'' then
          if take 1 (drop 8 s) = ''-''
          then (if list_ex is_digit (take 1 (drop 10 s)) then 8 else 10)
          else 8
        else 10
      else if take 1 (drop 4 s) = ''W'' then
        let n = 7 + length (takeWhile is_digit (drop 7 s)) in
        if n < 9 then n else if even n then 7 else 8
      else 8)"

definition drop_code_point :: "string \<Rightarrow> string" where
  "drop_code_point s = dropWhile (\<lambda>c. is_continuation (byte_code c)) (drop 1 s)"

fun pairs_of :: "string \<Rightarrow> string list" where
  "pairs_of (a # b # cs) = [a, b] # pairs_of cs"
| "pairs_of [] = []"
| "pairs_of [a] = [[a]]"

text \<open>\<open>HH[:MM[:SS]]\<close> or \<open>HH[MM[SS]]\<close> with an optional fraction \<open>.f+\<close>: hours, minutes, seconds and microseconds.\<close>

definition parse_clock :: "string \<Rightarrow> (int \<times> int \<times> int \<times> int) option" where
  "parse_clock s =
     (let main = takeWhile (\<lambda>c. c \<noteq> CHR ''.'' \<and> c \<noteq> CHR '','') s;
          tail = dropWhile (\<lambda>c. c \<noteq> CHR ''.'' \<and> c \<noteq> CHR '','') s;
          parts = (if take 1 (drop 2 main) = '':'' then split_on (CHR '':'') main else pairs_of main);
          field = (\<lambda>i. if i < length parts then int (number_of_digits (parts ! i)) else 0);
          digits = take 6 (drop 1 tail) in
      if parts = [] \<or> 3 < length parts \<or> \<not> list_all (\<lambda>p. length p = 2 \<and> list_all is_digit p) parts then None
      else if tail = [] then Some (field 0, field 1, field 2, 0)
      else if drop 1 tail = [] \<or> \<not> list_all is_digit (drop 1 tail) then None
      else Some (field 0, field 1, field 2,
                 int (number_of_digits (digits @ replicate (6 - length digits) CHR ''0''))))"

definition clock_microseconds :: "int \<times> int \<times> int \<times> int \<Rightarrow> int" where
  "clock_microseconds t = (case t of (h, m, s, f) \<Rightarrow> ((h * 60 + m) * 60 + s) * 1000000 + f)"

text \<open>The UTC offset after the clock: \<open>None\<close> is malformed, \<open>Some None\<close> absent.\<close>

definition parse_offset :: "string \<Rightarrow> int option option" where
  "parse_offset z =
     (case z of
        [] \<Rightarrow> Some None
      | c # tz \<Rightarrow>
          if c = CHR ''Z'' then (if tz = [] then Some (Some 0) else None)
          else if length tz \<in> {0, 1, 3} then None
          else (case parse_clock tz of
              None \<Rightarrow> None
            | Some k \<Rightarrow>
                if clock_microseconds k < microseconds_per_day
                then Some (Some ((if c = CHR ''-'' then -1 else 1) * clock_microseconds k)) else None))"

definition parse_time :: "date \<Rightarrow> string \<Rightarrow> datetime option" where
  "parse_time day t =
     (case parse_clock (takeWhile (\<lambda>c. c \<notin> set ''+-Z'') t) of
        None \<Rightarrow> None
      | Some (h, m, sec, f) \<Rightarrow>
          if 24 \<le> h \<or> 60 \<le> m \<or> 60 \<le> sec then None
          else
            let local = day * microseconds_per_day + clock_microseconds (h, m, sec, f) in
            (case parse_offset (dropWhile (\<lambda>c. c \<notin> set ''+-Z'') t) of
               None \<Rightarrow> None
             | Some None \<Rightarrow> Some (Naive local)
             | Some (Some off) \<Rightarrow> Some (Aware (local - off))))"

definition datetime_of_text :: "string \<Rightarrow> datetime option" where
  "datetime_of_text s =
     (if py_len s < 7 then None
      else
        let k = separator_position s in
        (case parse_iso_date (take k s) of
           None \<Rightarrow> None
         | Some day \<Rightarrow>
             if drop k s = [] then Some (Naive (day * microseconds_per_day))
             else parse_time day (drop_code_point (drop k s))))"

subsection \<open>The round trip of a UUID\<close>

lemma hex_char_digit:
  assumes "d < 16" shows "is_hex_digit (hex_char d) \<and> hex_value (hex_char d) = d"
proof -
  have "list_all (\<lambda>d. is_hex_digit (hex_char d) \<and> hex_value (hex_char d) = d) [0..<16]" by code_simp
  with assms show ?thesis by (simp add: list_all_iff)
qed

lemma hex_text_digits: "list_all is_hex_digit (hex_text k n)"
  by (induction k arbitrary: n) (simp_all add: hex_char_digit)

lemma number_of_hex_text: "number_of_hex (hex_text k n) = n mod 16 ^ k"
proof (induction k arbitrary: n)
  case (Suc k)
  have "number_of_hex (hex_text (Suc k) n) = 16 * number_of_hex (hex_text k (n div 16)) + n mod 16"
    by (simp add: number_of_hex_def hex_char_digit)
  also have "\<dots> = n mod 16 ^ Suc k" by (simp add: Suc.IH mod_mult2_eq)
  finally show ?case .
qed (simp add: number_of_hex_def)

lemma remove_absent: "c \<notin> set s \<Longrightarrow> remove_text (c # old) s = s"
  unfolding remove_text_def by (induction s) auto

lemma remove_char: "remove_text [c] s = filter (\<lambda>x. x \<noteq> c) s"
  unfolding remove_text_def by (induction s) auto

lemma split_on_absent: "c \<notin> set s \<Longrightarrow> split_on c s = [s]"
  by (induction s) auto

lemma strip_chars_absent: "\<forall>c \<in> set s. c \<notin> set cs \<Longrightarrow> strip_chars cs s = s"
proof -
  have keep: "\<forall>c \<in> set t. c \<notin> set cs \<Longrightarrow> dropWhile (\<lambda>c. c \<in> set cs) t = t" for t
    by (cases t) simp_all
  assume "\<forall>c \<in> set s. c \<notin> set cs"
  then show ?thesis using keep [of s] keep [of "rev s"] by (simp add: strip_chars_def)
qed

lemma not_hex_digit [simp]:
  "\<not> is_hex_digit (CHR ''-'')" "\<not> is_hex_digit (CHR ''+'')" "\<not> is_hex_digit (CHR ''_'')"
  "\<not> is_hex_digit (CHR ''u'')" "\<not> is_hex_digit (CHR ''x'')" "\<not> is_hex_digit (CHR ''X'')"
  "\<not> is_hex_digit (CHR ''{'')" "\<not> is_hex_digit (CHR ''}'')"
  by code_simp+

lemma hex_digit_visible:
  assumes "is_hex_digit c" shows "visible c \<and> byte_code c < 128"
proof -
  have "list_all (\<lambda>c. visible c \<and> byte_code c < 128) ''0123456789abcdef''" by code_simp
  with assms show ?thesis unfolding is_hex_digit_def list_all_iff by blast
qed

theorem uuid_text_roundtrip:
  assumes "u < 2 ^ 128" shows "uuid_of_text (uuid_text u) = Some u"
proof -
  define h where "h = hex_text 32 u"
  have hex: "\<forall>c \<in> set h. is_hex_digit c" using hex_text_digits [of 32 u] by (simp add: h_def list_all_iff)
  have len: "length h = 32" by (simp add: h_def)
  have "set (uuid_text u) \<subseteq> insert (CHR ''-'') (set h)"
    unfolding uuid_text_def Let_def h_def [symmetric] set_append
    by (auto dest: in_set_takeD in_set_dropD)
  then have chars: "c = CHR ''-'' \<or> is_hex_digit c" if "c \<in> set (uuid_text u)" for c
    using hex that by blast
  have absent: "CHR ''u'' \<notin> set (uuid_text u)" "\<forall>c \<in> set (uuid_text u). c \<notin> set ''{}''"
    by (auto dest!: chars)
  have keep: "filter (\<lambda>x. x \<noteq> CHR ''-'') (take k (drop j h)) = take k (drop j h)" for k j
  proof -
    have "set (take k (drop j h)) \<subseteq> set h" by (meson order_trans set_drop_subset set_take_subset)
    then have "\<forall>c \<in> set (take k (drop j h)). is_hex_digit c" using hex by blast
    then show ?thesis by (auto simp: filter_id_conv)
  qed
  have "filter (\<lambda>x. x \<noteq> CHR ''-'') (uuid_text u) =
      take 8 h @ take 4 (drop 8 h) @ take 4 (drop 12 h) @ take 4 (drop 16 h) @ drop 20 h"
    using keep [of 8 0] keep [of 4 8] keep [of 4 12] keep [of 4 16] keep [of "length h" 20]
    by (simp add: uuid_text_def Let_def h_def [symmetric])
  also have "\<dots> = h"
    using append_take_drop_id [of 4 "drop 8 h"] append_take_drop_id [of 4 "drop 12 h"]
      append_take_drop_id [of 4 "drop 16 h"] append_take_drop_id [of 8 h] by simp
  finally have bare: "remove_text ''-'' (strip_chars ''{}'' (remove_text ''uuid:'' (remove_text ''urn:'' (uuid_text u)))) = h"
    using strip_chars_absent [OF absent(2)] by (simp add: remove_absent absent(1) remove_char)
  have vis: "list_all visible h" "is_ascii h" using hex hex_digit_visible by (auto simp: list_all_iff is_ascii_def)
  obtain a b t where abt: "h = a # b # t" using len by (cases h; cases "tl h") auto
  have "split_sign h = (False, h)" "take 2 h \<notin> {''0x'', ''0X''}" "CHR ''_'' \<notin> set h"
    using abt hex by (auto simp: split_sign_def)
  moreover have "hex_digits h"
    using split_on_absent [OF \<open>CHR ''_'' \<notin> set h\<close>] hex len
    by (auto simp: hex_digits_def is_any_hex_digit_def list_all_iff)
  ultimately have "int_of_hex h = Some (int (number_of_hex (filter (\<lambda>c. c \<noteq> CHR ''_'') h)))"
    using strip_visible [OF vis(1)] by (simp add: int_of_hex_def)
  also have "filter (\<lambda>c. c \<noteq> CHR ''_'') h = h" using \<open>CHR ''_'' \<notin> set h\<close> by (auto simp: filter_id_conv)
  also have "number_of_hex h = u" using assms by (simp add: h_def number_of_hex_text)
  finally show ?thesis
    using assms vis(2) len unfolding uuid_of_text_def bare by (simp add: py_len_ascii)
qed

subsection \<open>The round trip of a timestamp\<close>

lemma ndigits_le:
  assumes "n < 10 ^ k" "0 < k" shows "ndigits n \<le> k"
proof (cases "n = 0")
  case True
  then show ?thesis using assms(2) by (simp add: ndigits.simps)
next
  case False
  have "(10::nat) ^ (ndigits n - 1) < 10 ^ k" using ndigits_ge [OF False] assms(1) by linarith
  then show ?thesis by simp
qed

lemma padded_text_parts:
  assumes "0 \<le> n" "n < 10 ^ k" "0 < k"
  shows "length (padded_text k n) = k" "list_all is_digit (padded_text k n)"
    "number_of_digits (padded_text k n) = nat n"
proof -
  have "nat n < 10 ^ k" using assms by (simp add: nat_less_iff)
  then show "length (padded_text k n) = k"
    using ndigits_le [of "nat n" k] assms(3) by (simp add: padded_text_def Let_def nat_text_length)
  have "is_digit (CHR ''0'')" by (simp add: is_digit_def byte_code_def)
  then show "list_all is_digit (padded_text k n)"
    using nat_text_digits [of "nat n"] by (auto simp: padded_text_def Let_def list_all_iff)
  show "number_of_digits (padded_text k n) = nat n"
    by (simp add: padded_text_def Let_def number_of_digits_zeros)
qed

lemma digit_not [simp]:
  assumes "is_digit c"
  shows "c \<noteq> CHR '':''" "c \<noteq> CHR ''.''" "c \<noteq> CHR '',''" "c \<noteq> CHR ''-''" "c \<noteq> CHR ''+''" "c \<noteq> CHR ''Z''"
    "c \<noteq> CHR ''W''" "\<not> is_continuation (byte_code c)" "byte_code c < 128"
  using assms by (auto simp: is_digit_def byte_code_def is_continuation_def)

lemma padded_text_2:
  assumes "0 \<le> n" "n < 100"
  obtains a b where "padded_text 2 n = [a, b]" "is_digit a" "is_digit b" "int (number_of_digits [a, b]) = n"
proof -
  note parts = padded_text_parts [of n 2]
  obtain a b where "padded_text 2 n = [a, b]"
    using parts(1) assms by (auto simp: numeral_2_eq_2 length_Suc_conv)
  with that parts assms show thesis by simp
qed

lemma padded_text_4:
  assumes "0 \<le> n" "n < 10000"
  obtains a b c d where "padded_text 4 n = [a, b, c, d]" "is_digit a" "is_digit b" "is_digit c" "is_digit d"
    "int (number_of_digits [a, b, c, d]) = n"
proof -
  note parts = padded_text_parts [of n 4]
  obtain a b c d where "padded_text 4 n = [a, b, c, d]"
    using parts(1) assms by (auto simp: eval_nat_numeral length_Suc_conv)
  with that parts assms show thesis by simp
qed

lemma padded_text_6:
  assumes "0 \<le> n" "n < 1000000"
  obtains a b c d e f where "padded_text 6 n = [a, b, c, d, e, f]" "is_digit a" "is_digit b" "is_digit c"
    "is_digit d" "is_digit e" "is_digit f" "int (number_of_digits [a, b, c, d, e, f]) = n"
proof -
  note parts = padded_text_parts [of n 6]
  obtain a b c d e f where "padded_text 6 n = [a, b, c, d, e, f]"
    using parts(1) assms by (auto simp: eval_nat_numeral length_Suc_conv)
  with that parts assms show thesis by simp
qed

text \<open>The instants of the years 1 to 9999.\<close>

definition in_datetime_range :: "int \<Rightarrow> bool" where
  "in_datetime_range t \<longleftrightarrow>
     (let y = fst (civil_from_days (t div microseconds_per_day)) in 1 \<le> y \<and> y \<le> 9999)"

lemma dash_starts_code_point [simp]: "\<not> is_continuation (byte_code (CHR ''-''))"
  by code_simp

lemma parse_iso_date_text:
  assumes "civil_from_days n = (y, m, d)" "1 \<le> y" "y \<le> 9999"
  shows "parse_iso_date (date_isoformat n) = Some n \<and> length (date_isoformat n) = 10 \<and>
    py_len (date_isoformat n) = 10"
proof -
  note civil = days_of_civil [OF assms(1)]
  obtain y1 y2 y3 y4 where y: "padded_text 4 y = [y1, y2, y3, y4]" "is_digit y1" "is_digit y2" "is_digit y3" "is_digit y4"
      "int (number_of_digits [y1, y2, y3, y4]) = y" by (rule padded_text_4 [of y]) (use assms in auto)
  obtain m1 m2 where m: "padded_text 2 m = [m1, m2]" "is_digit m1" "is_digit m2" "int (number_of_digits [m1, m2]) = m"
    by (rule padded_text_2 [of m]) (use civil in auto)
  obtain d1 d2 where d: "padded_text 2 d = [d1, d2]" "is_digit d1" "is_digit d2" "int (number_of_digits [d1, d2]) = d"
    by (rule padded_text_2 [of d]) (use civil in auto)
  show ?thesis using y m d civil assms
    by (simp add: date_isoformat_def parse_iso_date_def digits_value_def civil_date_def Let_def py_len_def)
qed

lemma separator_of_date:
  assumes "date_isoformat n = ds" "civil_from_days n = (y, m, d)" "1 \<le> y" "y \<le> 9999"
  shows "separator_position (ds @ CHR ''T'' # rest) = 10"
proof -
  note civil = days_of_civil [OF assms(2)]
  obtain y1 y2 y3 y4 where "padded_text 4 y = [y1, y2, y3, y4]" by (rule padded_text_4 [of y]) (use assms in auto)
  moreover obtain m1 m2 where "padded_text 2 m = [m1, m2]" "is_digit m1" by (rule padded_text_2 [of m]) (use civil in auto)
  moreover obtain d1 d2 where "padded_text 2 d = [d1, d2]" by (rule padded_text_2 [of d]) (use civil in auto)
  ultimately show ?thesis using assms by (auto simp: date_isoformat_def separator_position_def)
qed

text \<open>The text of a time of day in UTC, read back.\<close>

lemma parse_clock_digits:
  assumes "is_digit h1" "is_digit h2" "is_digit m1" "is_digit m2" "is_digit s1" "is_digit s2"
  shows "parse_clock [h1, h2, CHR '':'', m1, m2, CHR '':'', s1, s2] =
           Some (int (number_of_digits [h1, h2]), int (number_of_digits [m1, m2]), int (number_of_digits [s1, s2]), 0)"
    and "is_digit a \<Longrightarrow> is_digit b \<Longrightarrow> is_digit c \<Longrightarrow> is_digit d \<Longrightarrow> is_digit e \<Longrightarrow> is_digit g \<Longrightarrow>
         parse_clock [h1, h2, CHR '':'', m1, m2, CHR '':'', s1, s2, CHR ''.'', a, b, c, d, e, g] =
           Some (int (number_of_digits [h1, h2]), int (number_of_digits [m1, m2]), int (number_of_digits [s1, s2]),
                 int (number_of_digits [a, b, c, d, e, g]))"
  using assms by (simp_all add: parse_clock_def)

lemma parse_time_clock:
  assumes "\<forall>c \<in> set clock. c \<notin> set ''+-Z''" "parse_clock clock = Some (h, m, s, f)" "h < 24" "m < 60" "s < 60"
  shows "parse_time day (clock @ ''+00:00'') = Some (Aware (day * microseconds_per_day + clock_microseconds (h, m, s, f)))"
proof -
  have z: "parse_offset ''+00:00'' = Some (Some 0)" by code_simp
  have "takeWhile (\<lambda>c. c \<notin> set ''+-Z'') (clock @ ''+00:00'') = clock"
    "dropWhile (\<lambda>c. c \<notin> set ''+-Z'') (clock @ ''+00:00'') = ''+00:00''"
    using assms(1) by (simp_all add: takeWhile_append dropWhile_append)
  then show ?thesis using assms z by (simp add: parse_time_def)
qed

lemma parse_time_text:
  assumes "0 \<le> s" "s < 86400" "0 \<le> f" "f < 1000000"
  shows "parse_time day ((padded_text 2 (s div 3600) @ '':'' @ padded_text 2 (s div 60 mod 60) @ '':'' @
           padded_text 2 (s mod 60) @ (if f = 0 then [] else ''.'' @ padded_text 6 f)) @ ''+00:00'') =
         Some (Aware (day * microseconds_per_day + s * 1000000 + f))"
    (is "parse_time day (?clock @ _) = _")
proof -
  have bounds: "0 \<le> s div 3600" "s div 3600 < 24" "0 \<le> s div 60 mod 60" "s div 60 mod 60 < 60"
    "0 \<le> s mod 60" "s mod 60 < 60" using assms by auto
  obtain h1 h2 where h: "padded_text 2 (s div 3600) = [h1, h2]" "is_digit h1" "is_digit h2"
      "int (number_of_digits [h1, h2]) = s div 3600" by (rule padded_text_2 [of "s div 3600"]) (use bounds in auto)
  obtain m1 m2 where m: "padded_text 2 (s div 60 mod 60) = [m1, m2]" "is_digit m1" "is_digit m2"
      "int (number_of_digits [m1, m2]) = s div 60 mod 60"
    by (rule padded_text_2 [of "s div 60 mod 60"]) (use bounds in auto)
  obtain s1 s2 where sec: "padded_text 2 (s mod 60) = [s1, s2]" "is_digit s1" "is_digit s2"
      "int (number_of_digits [s1, s2]) = s mod 60" by (rule padded_text_2 [of "s mod 60"]) (use bounds in auto)
  obtain a b c d e g where micro: "padded_text 6 f = [a, b, c, d, e, g]" "is_digit a" "is_digit b" "is_digit c"
      "is_digit d" "is_digit e" "is_digit g" "int (number_of_digits [a, b, c, d, e, g]) = f"
    by (rule padded_text_6 [of f]) (use assms in auto)
  have "s div 3600 = s div 60 div 60" by (simp add: zdiv_zmult2_eq)
  then have total: "s div 3600 * 3600 + s div 60 mod 60 * 60 + s mod 60 = s"
    using mult_div_mod_eq [of 60 s] mult_div_mod_eq [of 60 "s div 60"] by linarith
  note digits = h(2,3) m(2,3) sec(2,3)
  have "parse_clock ?clock = Some (s div 3600, s div 60 mod 60, s mod 60, f)"
    using parse_clock_digits(1) [OF digits] parse_clock_digits(2) [OF digits micro(2-7)]
    unfolding h(1,4) m(1,4) sec(1,4) micro(1,8) by simp
  moreover have "\<forall>c \<in> set ?clock. c \<notin> set ''+-Z''" unfolding h(1) m(1) sec(1) micro(1) using digits micro(2-7) by simp
  ultimately have "parse_time day (?clock @ ''+00:00'') =
      Some (Aware (day * microseconds_per_day + clock_microseconds (s div 3600, s div 60 mod 60, s mod 60, f)))"
    using bounds(2,4,6) by (intro parse_time_clock)
  also have "clock_microseconds (s div 3600, s div 60 mod 60, s mod 60, f) = s * 1000000 + f"
    using total unfolding clock_microseconds_def prod.case by (simp only: distrib_right mult.assoc)
  finally show ?thesis by (simp only: add.assoc)
qed

theorem datetime_text_roundtrip:
  assumes "in_datetime_range t" shows "datetime_of_text (utc_isoformat t) = Some (Aware t)"
proof -
  define day where "day = t div microseconds_per_day"
  define s where "s = t div 1000000 mod 86400"
  define f where "f = t mod 1000000"
  obtain y m d where civil: "civil_from_days day = (y, m, d)" by (cases "civil_from_days day")
  then have range: "1 \<le> y" "y \<le> 9999" using assms by (simp_all add: in_datetime_range_def day_def)
  have days: "t div 1000000 div 86400 = day" by (simp add: day_def microseconds_per_day_def zdiv_zmult2_eq)
  define clock where "clock = padded_text 2 (s div 3600) @ '':'' @ padded_text 2 (s div 60 mod 60) @ '':'' @
           padded_text 2 (s mod 60) @ (if f = 0 then [] else ''.'' @ padded_text 6 f)"
  have shape: "utc_isoformat t = date_isoformat day @ CHR ''T'' # clock @ ''+00:00''"
    using days by (simp add: utc_isoformat_def clock_def Let_def s_def f_def)
  obtain h1 h2 where "padded_text 2 (s div 3600) = [h1, h2]" "is_digit h1"
    by (rule padded_text_2 [of "s div 3600"]) (auto simp: s_def)
  then have T: "drop_code_point (CHR ''T'' # clock @ ''+00:00'') = clock @ ''+00:00''"
    by (simp add: drop_code_point_def clock_def)
  note date = parse_iso_date_text [OF civil range]
  have "t = 1000000 * (t div 1000000) + f" "t div 1000000 = 86400 * day + s"
    using mult_div_mod_eq [of 1000000 t] mult_div_mod_eq [of 86400 "t div 1000000"] days
    by (simp_all add: f_def s_def)
  then have t: "day * microseconds_per_day + s * 1000000 + f = t" unfolding microseconds_per_day_def by linarith
  have "0 \<le> s" "s < 86400" "0 \<le> f" "f < 1000000" by (simp_all add: s_def f_def)
  from parse_time_text [OF this, of day] have "parse_time day (clock @ ''+00:00'') = Some (Aware t)"
    unfolding clock_def [symmetric] t .
  moreover have "7 \<le> py_len (utc_isoformat t)" using date by (simp add: shape py_len_def)
  ultimately show ?thesis
    using date T separator_of_date [OF refl civil range] unfolding shape by (simp add: datetime_of_text_def Let_def)
qed

end
