(* ===== verification/EvidencePayload.thy ===== *)
theory EvidencePayload
  imports PyParse
begin

text \<open>
  The bounded, reversible evidence encoding of \<open>app/domain/evidence_payload.py\<close> and the freezing of
  \<open>app/domain/entities.py\<close>.

  A value is a tree, so the check for cycles never fires and the exit frames of the walk, which only
  maintain its set of open containers, are left out; members of an enumeration are not values of the
  model.
\<close>

definition MAX_STRATEGY_RUN_OUTPUT_UTF8_BYTES :: nat where
  "MAX_STRATEGY_RUN_OUTPUT_UTF8_BYTES = 256 * 1024"

definition MAX_STRATEGY_RUN_OUTPUT_DEPTH :: nat where
  "MAX_STRATEGY_RUN_OUTPUT_DEPTH = 32"

definition MAX_STRATEGY_RUN_OUTPUT_NODES :: nat where
  "MAX_STRATEGY_RUN_OUTPUT_NODES = 8192"

definition MAX_EVIDENCE_DECIMAL_COEFFICIENT_DIGITS :: nat where
  "MAX_EVIDENCE_DECIMAL_COEFFICIENT_DIGITS = 256"

definition MAX_EVIDENCE_DECIMAL_ABSOLUTE_EXPONENT :: int where
  "MAX_EVIDENCE_DECIMAL_ABSOLUTE_EXPONENT = 256"

definition MAX_EVIDENCE_DECIMAL_SERIALIZED_CHARACTERS :: int where
  "MAX_EVIDENCE_DECIMAL_SERIALIZED_CHARACTERS = 512"

lemmas evidence_limits =
  MAX_STRATEGY_RUN_OUTPUT_DEPTH_def MAX_STRATEGY_RUN_OUTPUT_NODES_def
  MAX_EVIDENCE_DECIMAL_COEFFICIENT_DIGITS_def MAX_EVIDENCE_DECIMAL_ABSOLUTE_EXPONENT_def
  MAX_EVIDENCE_DECIMAL_SERIALIZED_CHARACTERS_def

subsection \<open>Scalars\<close>

definition decimal_serialized_characters :: "bool \<Rightarrow> nat \<Rightarrow> int \<Rightarrow> int" where
  "decimal_serialized_characters s c e =
     (let coefficient_digits = int (ndigits c); sign_characters = (if s then 1 else 0);
          decimal_point = coefficient_digits + e in
      if e \<ge> 0 then sign_characters + coefficient_digits + e
      else if decimal_point > 0 then sign_characters + coefficient_digits + 1
      else sign_characters + 2 + (- decimal_point) + coefficient_digits)"

fun require_bounded_evidence_decimal :: "decimal \<Rightarrow> exn + decimal" where
  "require_bounded_evidence_decimal (Fin s c e) =
     (if ndigits c > MAX_EVIDENCE_DECIMAL_COEFFICIENT_DIGITS
      then Inl (InvalidStrategyRunEvidenceError ''evidence Decimal coefficient exceeds the fixed limit'')
      else if \<bar>e\<bar> > MAX_EVIDENCE_DECIMAL_ABSOLUTE_EXPONENT
      then Inl (InvalidStrategyRunEvidenceError ''evidence Decimal exponent exceeds the fixed limit'')
      else if decimal_serialized_characters s c e > MAX_EVIDENCE_DECIMAL_SERIALIZED_CHARACTERS
      then Inl (InvalidStrategyRunEvidenceError ''evidence Decimal canonical form exceeds the fixed limit'')
      else Inr (Fin s c e))"
| "require_bounded_evidence_decimal _ = Inl (InvalidStrategyRunEvidenceError ''evidence Decimal must be finite'')"

definition require_evidence_string :: "string \<Rightarrow> string \<Rightarrow> exn + unit" where
  "require_evidence_string v field_name =
     (if length v > MAX_STRING_UTF8_BYTES
      then Inl (InvalidStrategyRunEvidenceError (field_name @ '' exceeds the 16 KiB UTF-8 limit'')) else Inr ())"

definition require_evidence_identifier :: "string \<Rightarrow> string \<Rightarrow> exn + unit" where
  "require_evidence_identifier v field_name =
     (if length v > MAX_IDENTIFIER_UTF8_BYTES
      then Inl (InvalidStrategyRunEvidenceError (field_name @ '' exceeds the 256-byte UTF-8 identifier limit''))
      else Inr ())"

definition require_aware_datetime :: "datetime \<Rightarrow> string \<Rightarrow> exn + unit" where
  "require_aware_datetime v field_name =
     (if is_aware v then Inr ()
      else Inl (InvalidStrategyRunEvidenceError (field_name @ '' must be timezone-aware'')))"

subsection \<open>The preflight walk\<close>

fun evidence_children :: "pyval \<Rightarrow> pyval list" where
  "evidence_children (PyDict kvs) = map snd kvs"
| "evidence_children (PyList xs) = xs"
| "evidence_children (PyTuple xs) = xs"
| "evidence_children _ = []"

definition require_container_fits_node_budget :: "nat \<Rightarrow> nat \<Rightarrow> exn + unit" where
  "require_container_fits_node_budget node_count len =
     (if len > MAX_STRATEGY_RUN_OUTPUT_NODES - node_count
      then Inl (InvalidStrategyRunEvidenceError ''evidence node count exceeds 8192'') else Inr ())"

text \<open>What the walk checks of one value, after it was counted.\<close>

fun visit_evidence :: "nat \<Rightarrow> pyval \<Rightarrow> exn + unit" where
  "visit_evidence n (PyDict kvs) =
     bindE (require_container_fits_node_budget n (length kvs)) (\<lambda>_.
     bindE (mapE (\<lambda>kv. require_evidence_identifier (fst kv) ''evidence mapping key'') (rev kvs)) (\<lambda>_. Inr ()))"
| "visit_evidence n (PyList xs) = require_container_fits_node_budget n (length xs)"
| "visit_evidence n (PyTuple xs) = require_container_fits_node_budget n (length xs)"
| "visit_evidence n (PyDecimal d) = bindE (require_bounded_evidence_decimal d) (\<lambda>_. Inr ())"
| "visit_evidence n (PyDatetime t) = require_aware_datetime t ''evidence datetime''"
| "visit_evidence n (PyStr s) = require_evidence_string s ''evidence string''"
| "visit_evidence n (PyFloat _) = Inl (InvalidStrategyRunEvidenceError ''unsupported evidence type: float'')"
| "visit_evidence n (PyObject t) =
     (if t \<in> {''set'', ''frozenset''}
      then Inl (InvalidStrategyRunEvidenceError ''evidence must not contain unordered set values'')
      else if t \<in> {''bytes'', ''bytearray'', ''memoryview''}
      then Inl (InvalidStrategyRunEvidenceError (''unsupported evidence type: '' @ t))
      else Inl (InvalidStrategyRunEvidenceError
                  (''unsupported mutable or non-deterministic evidence value: '' @ t)))"
| "visit_evidence n _ = Inr ()"

fun value_nodes :: "pyval \<Rightarrow> nat" where
  "value_nodes (PyDict kvs) = Suc (sum_list (map (\<lambda>kv. value_nodes (snd kv)) kvs))"
| "value_nodes (PyList xs) = Suc (sum_list (map value_nodes xs))"
| "value_nodes (PyTuple xs) = Suc (sum_list (map value_nodes xs))"
| "value_nodes _ = 1"

lemma value_nodes_children: "value_nodes v = Suc (sum_list (map value_nodes (evidence_children v)))"
  by (cases v) (simp_all add: comp_def)

lemma value_nodes_sum: "sum_list (map value_nodes (evidence_children v)) < value_nodes v"
  by (simp add: value_nodes_children [of v])

lemma value_nodes_child: "c \<in> set (evidence_children v) \<Longrightarrow> value_nodes c < value_nodes v"
  by (simp add: value_nodes_children [of v] less_Suc_eq_le member_le_sum_list)

text \<open>The stack holds the values still to visit with their depth, the next one first.\<close>

function preflight_loop :: "(pyval \<times> nat) list \<Rightarrow> nat \<Rightarrow> exn + unit" where
  "preflight_loop [] n = Inr ()"
| "preflight_loop ((v, depth) # stack) n =
     (if depth > MAX_STRATEGY_RUN_OUTPUT_DEPTH
      then Inl (InvalidStrategyRunEvidenceError ''evidence depth exceeds 32'')
      else if n + 1 > MAX_STRATEGY_RUN_OUTPUT_NODES
      then Inl (InvalidStrategyRunEvidenceError ''evidence node count exceeds 8192'')
      else bindE (visit_evidence (n + 1) v) (\<lambda>_.
        preflight_loop (map (\<lambda>c. (c, depth + 1)) (evidence_children v) @ stack) (n + 1)))"
  by pat_completeness auto
termination
  by (relation "measure (\<lambda>(stack, _). sum_list (map (\<lambda>e. value_nodes (fst e)) stack))")
    (simp_all add: comp_def value_nodes_sum)

declare preflight_loop.simps(2) [simp del]

definition preflight_evidence_payload :: "pyval \<Rightarrow> exn + unit" where
  "preflight_evidence_payload v = preflight_loop [(v, 1)] 0"

subsection \<open>Encoding\<close>

abbreviation evidence_tag :: string where
  "evidence_tag \<equiv> ''$evidence''"

definition tagged :: "string \<Rightarrow> string \<Rightarrow> pyval \<Rightarrow> pyval" where
  "tagged tag key v = PyDict [(evidence_tag, PyStr tag), (key, v)]"

fun encode_value :: "pyval \<Rightarrow> exn + pyval" where
  "encode_value PyNone = Inr PyNone"
| "encode_value (PyBool b) = Inr (PyBool b)"
| "encode_value (PyStr s) = Inr (PyStr s)"
| "encode_value (PyInt n) = Inr (PyInt n)"
| "encode_value (PyDecimal d) = Inr (tagged ''decimal'' ''value'' (PyStr (dec_text d)))"
| "encode_value (PyUuid u) = Inr (tagged ''uuid'' ''value'' (PyStr (uuid_text u)))"
| "encode_value (PyDatetime t) = Inr (tagged ''datetime'' ''value'' (PyStr (datetime_isoformat t)))"
| "encode_value (PyDict kvs) =
     bindE (mapE (\<lambda>kv. bindE (encode_value (snd kv)) (\<lambda>x. Inr (PyList [PyStr (fst kv), x]))) kvs) (\<lambda>entries.
     Inr (tagged ''map'' ''entries'' (PyList entries)))"
| "encode_value (PyList xs) = bindE (mapE encode_value xs) (\<lambda>ys. Inr (tagged ''list'' ''items'' (PyList ys)))"
| "encode_value (PyTuple xs) = bindE (mapE encode_value xs) (\<lambda>ys. Inr (tagged ''tuple'' ''items'' (PyList ys)))"
| "encode_value _ = Inl (AssertionError ''evidence must be preflighted before encoding'')"

definition encode_evidence :: "pyval \<Rightarrow> exn + pyval" where
  "encode_evidence v = bindE (preflight_evidence_payload v) (\<lambda>_. encode_value v)"

subsection \<open>Streaming the encoding\<close>

text \<open>The JSON text of the envelope before its payload.\<close>

definition envelope_chunks :: "string \<Rightarrow> string \<Rightarrow> (exn + string) list" where
  "envelope_chunks tag key =
     Inr ''{'' # json_chunks (PyStr evidence_tag) @ Inr '':'' # json_chunks (PyStr tag) @
     Inr '','' # json_chunks (PyStr key)"

definition tagged_scalar_chunks :: "string \<Rightarrow> string \<Rightarrow> (exn + string) list" where
  "tagged_scalar_chunks tag v = envelope_chunks tag ''value'' @ Inr '':'' # json_chunks (PyStr v) @ [Inr ''}'']"

text \<open>The pieces with a comma chunk before each but the first.\<close>

fun separated :: "(exn + string) list list \<Rightarrow> (exn + string) list" where
  "separated [] = []"
| "separated (c # cs) = c @ concat (map (\<lambda>c. Inr '','' # c) cs)"

fun evidence_chunks :: "pyval \<Rightarrow> (exn + string) list" where
  "evidence_chunks PyNone = json_chunks PyNone"
| "evidence_chunks (PyBool b) = json_chunks (PyBool b)"
| "evidence_chunks (PyStr s) = json_chunks (PyStr s)"
| "evidence_chunks (PyInt n) = json_chunks (PyInt n)"
| "evidence_chunks (PyDecimal d) = tagged_scalar_chunks ''decimal'' (dec_text d)"
| "evidence_chunks (PyUuid u) = tagged_scalar_chunks ''uuid'' (uuid_text u)"
| "evidence_chunks (PyDatetime t) = tagged_scalar_chunks ''datetime'' (datetime_isoformat t)"
| "evidence_chunks (PyDict kvs) =
     envelope_chunks ''map'' ''entries'' @ Inr '':['' #
     separated (map (\<lambda>kv. Inr ''['' # json_chunks (PyStr (fst kv)) @ Inr '','' # evidence_chunks (snd kv) @ [Inr '']'']) kvs) @
     [Inr '']}'']"
| "evidence_chunks (PyList xs) =
     envelope_chunks ''list'' ''items'' @ Inr '':['' # separated (map evidence_chunks xs) @ [Inr '']}'']"
| "evidence_chunks (PyTuple xs) =
     envelope_chunks ''tuple'' ''items'' @ Inr '':['' # separated (map evidence_chunks xs) @ [Inr '']}'']"
| "evidence_chunks _ = [Inl (AssertionError ''evidence must be preflighted before streaming'')]"

text \<open>The generator runs the preflight when its first chunk is asked for.\<close>

definition encoded_evidence_chunks :: "pyval \<Rightarrow> (exn + string) list" where
  "encoded_evidence_chunks v =
     (case preflight_evidence_payload v of Inl e \<Rightarrow> [Inl e] | Inr _ \<Rightarrow> evidence_chunks v)"

definition measure_encoded_evidence_bytes :: "pyval \<Rightarrow> nat \<Rightarrow> string \<Rightarrow> exn + nat" where
  "measure_encoded_evidence_bytes v limit_bytes boundary =
     measure_json_chunks (encoded_evidence_chunks v) limit_bytes boundary"

subsection \<open>Decoding\<close>

definition require_exact_mapping :: "(string \<times> pyval) list \<Rightarrow> string \<Rightarrow> exn + unit" where
  "require_exact_mapping kvs key =
     (if set (map fst kvs) \<noteq> {evidence_tag, key}
      then Inl (ValueError ''stored evidence envelope has an invalid shape'') else Inr ())"

definition decode_decimal :: "string \<Rightarrow> exn + pyval" where
  "decode_decimal rendered =
     (case decimal_of_text rendered of
        None \<Rightarrow> Inl (ValueError ''stored decimal evidence is invalid'')
      | Some d \<Rightarrow>
          (case require_bounded_evidence_decimal d of
             Inl _ \<Rightarrow> Inl (ValueError ''stored decimal evidence is outside supported bounds'')
           | Inr d \<Rightarrow> Inr (PyDecimal d)))"

definition decode_uuid :: "string \<Rightarrow> exn + pyval" where
  "decode_uuid rendered =
     (case uuid_of_text rendered of
        None \<Rightarrow> Inl (ValueError ''stored UUID evidence is invalid'') | Some u \<Rightarrow> Inr (PyUuid u))"

definition decode_datetime :: "string \<Rightarrow> exn + pyval" where
  "decode_datetime rendered =
     (case datetime_of_text rendered of
        None \<Rightarrow> Inl (ValueError ''stored datetime evidence is invalid'')
      | Some t \<Rightarrow>
          if is_aware t then Inr (PyDatetime t)
          else Inl (ValueError ''stored datetime evidence must be timezone-aware''))"

text \<open>The value of an envelope's payload that must be a string.\<close>

definition decode_rendered :: "(string \<times> pyval) list \<Rightarrow> string \<Rightarrow> (string \<Rightarrow> exn + pyval) \<Rightarrow> exn + pyval" where
  "decode_rendered kvs message decode =
     bindE (require_exact_mapping kvs ''value'') (\<lambda>_.
     case map_of kvs ''value'' of
       Some (PyStr rendered) \<Rightarrow> decode rendered
     | _ \<Rightarrow> Inl (ValueError message))"

text \<open>The list under a key, empty when there is none; the callers have checked that there is.\<close>

definition list_under :: "(string \<times> pyval) list \<Rightarrow> string \<Rightarrow> pyval list" where
  "list_under kvs key = (case map_of kvs key of Some (PyList xs) \<Rightarrow> xs | _ \<Rightarrow> [])"

definition has_list_under :: "(string \<times> pyval) list \<Rightarrow> string \<Rightarrow> bool" where
  "has_list_under kvs key = (case map_of kvs key of Some (PyList xs) \<Rightarrow> True | _ \<Rightarrow> False)"

lemma list_under_nodes: "sum_list (map value_nodes (list_under kvs key)) < value_nodes (PyDict kvs)"
proof (cases "has_list_under kvs key")
  case True
  then obtain xs where xs: "map_of kvs key = Some (PyList xs)"
    by (auto simp: has_list_under_def split: option.splits pyval.splits)
  then have "PyList xs \<in> set (evidence_children (PyDict kvs))" by (auto dest: map_of_SomeD simp: image_iff intro!: rev_bexI)
  from value_nodes_child [OF this] show ?thesis using xs by (simp add: list_under_def)
next
  case False
  then show ?thesis by (auto simp: has_list_under_def list_under_def split: option.splits pyval.splits)
qed

lemma list_under_less: "Suc (2 * sum_list (map value_nodes (list_under kvs key))) < 2 * value_nodes (PyDict kvs)"
  using list_under_nodes [of kvs key] by linarith

lemma value_nodes_pos: "0 < value_nodes v"
  by (cases v) simp_all

function (sequential) decode_evidence :: "pyval \<Rightarrow> exn + pyval"
  and decode_entries :: "string list \<Rightarrow> pyval list \<Rightarrow> exn + (string \<times> pyval) list"
  and decode_items :: "pyval list \<Rightarrow> exn + pyval list" where
  "decode_evidence PyNone = Inr PyNone"
| "decode_evidence (PyBool b) = Inr (PyBool b)"
| "decode_evidence (PyStr s) = Inr (PyStr s)"
| "decode_evidence (PyInt n) = Inr (PyInt n)"
| "decode_evidence (PyList _) = Inl (ValueError ''stored evidence containers must use an explicit envelope'')"
| "decode_evidence (PyTuple _) = Inl (ValueError ''stored evidence containers must use an explicit envelope'')"
| "decode_evidence (PyDict kvs) =
     (case map_of kvs evidence_tag of
        Some (PyStr tag) \<Rightarrow>
          if tag = ''decimal''
          then decode_rendered kvs ''stored decimal evidence must be a string'' decode_decimal
          else if tag = ''uuid'' then decode_rendered kvs ''stored UUID evidence must be a string'' decode_uuid
          else if tag = ''datetime''
          then decode_rendered kvs ''stored datetime evidence must be a string'' decode_datetime
          else if tag = ''map'' then
            bindE (require_exact_mapping kvs ''entries'') (\<lambda>_.
            if \<not> has_list_under kvs ''entries''
            then Inl (ValueError ''stored evidence map entries must be a list'')
            else bindE (decode_entries [] (list_under kvs ''entries'')) (\<lambda>decoded. Inr (PyDict decoded)))
          else if tag = ''list'' \<or> tag = ''tuple'' then
            bindE (require_exact_mapping kvs ''items'') (\<lambda>_.
            if \<not> has_list_under kvs ''items''
            then Inl (ValueError ''stored evidence items must be a list'')
            else bindE (decode_items (list_under kvs ''items'')) (\<lambda>items.
              Inr (if tag = ''list'' then PyList items else PyTuple items)))
          else Inl (ValueError ''stored evidence envelope has an unsupported type tag'')
      | _ \<Rightarrow> Inl (ValueError ''stored evidence envelope is missing its type tag''))"
| "decode_evidence _ = Inl (ValueError ''stored evidence contains an unsupported JSON value'')"
| "decode_entries seen [] = Inr []"
| "decode_entries seen (PyList [key, nested] # raw_entries) =
     (case key of
        PyStr k \<Rightarrow>
          if k \<in> set seen then Inl (ValueError ''stored evidence map keys must be unique strings'')
          else bindE (decode_evidence nested) (\<lambda>x.
               bindE (decode_entries (k # seen) raw_entries) (\<lambda>decoded. Inr ((k, x) # decoded)))
      | _ \<Rightarrow> Inl (ValueError ''stored evidence map keys must be unique strings''))"
| "decode_entries seen (_ # raw_entries) = Inl (ValueError ''stored evidence map entry must be a pair'')"
| "decode_items [] = Inr []"
| "decode_items (x # xs) =
     bindE (decode_evidence x) (\<lambda>y. bindE (decode_items xs) (\<lambda>ys. Inr (y # ys)))"
  by pat_completeness auto
termination
  by (relation "measure (\<lambda>a. case a of
        Inl v \<Rightarrow> 2 * value_nodes v
      | Inr (Inl (_, es)) \<Rightarrow> 2 * sum_list (map value_nodes es) + 1
      | Inr (Inr xs) \<Rightarrow> 2 * sum_list (map value_nodes xs) + 1)")
    (simp_all add: list_under_less value_nodes_pos del: value_nodes.simps, simp_all)

end
