(* ===== verification/EvidenceProps.thy ===== *)
theory EvidenceProps
  imports EvidencePayload
begin

text \<open>
  What \<open>app/domain/evidence_payload.py\<close> promises: the iterative preflight accepts exactly the admissible
  values, the streamed JSON is the JSON of the encoded tree, and decoding an encoded value gives it back.
\<close>

subsection \<open>Admissible values\<close>

fun node_supported :: "pyval \<Rightarrow> bool" where
  "node_supported (PyDict kvs) = list_all (\<lambda>kv. length (fst kv) \<le> MAX_IDENTIFIER_UTF8_BYTES) kvs"
| "node_supported (PyDecimal d) = (require_bounded_evidence_decimal d = Inr d)"
| "node_supported (PyDatetime t) = is_aware t"
| "node_supported (PyStr s) = (length s \<le> MAX_STRING_UTF8_BYTES)"
| "node_supported (PyFloat _) = False"
| "node_supported (PyObject _) = False"
| "node_supported _ = True"

function evidence_supported :: "pyval \<Rightarrow> bool" where
  "evidence_supported v = (node_supported v \<and> list_all evidence_supported (evidence_children v))"
  by pat_completeness auto
termination by (relation "measure value_nodes") (simp_all add: value_nodes_child)

function value_depth :: "pyval \<Rightarrow> nat" where
  "value_depth v = Suc (foldr max (map value_depth (evidence_children v)) 0)"
  by pat_completeness auto
termination by (relation "measure value_nodes") (simp_all add: value_nodes_child)

declare evidence_supported.simps [simp del] value_depth.simps [simp del]

lemma foldr_max_plain_le: "foldr max xs (0::nat) \<le> k \<longleftrightarrow> (\<forall>x \<in> set xs. x \<le> k)"
  by (induction xs) auto

lemma identifiers_Inr:
  "(\<exists>us. mapE (\<lambda>kv. require_evidence_identifier (fst kv) f) kvs = Inr us) \<longleftrightarrow>
     list_all (\<lambda>kv. length (fst kv) \<le> MAX_IDENTIFIER_UTF8_BYTES) kvs"
  by (induction kvs) (auto simp: exc_simps require_evidence_identifier_def)

lemma visit_evidence_Inr:
  assumes "n \<le> MAX_STRATEGY_RUN_OUTPUT_NODES"
  shows "visit_evidence n v = Inr () \<longleftrightarrow>
    node_supported v \<and> n + length (evidence_children v) \<le> MAX_STRATEGY_RUN_OUTPUT_NODES"
proof -
  have fits: "require_container_fits_node_budget n k = Inr () \<longleftrightarrow> n + k \<le> MAX_STRATEGY_RUN_OUTPUT_NODES" for k
    using assms by (auto simp: require_container_fits_node_budget_def)
  show ?thesis
  proof (cases v)
    case (PyDict kvs)
    then show ?thesis using fits identifiers_Inr [of _ "rev kvs"] by (auto simp: bindE_Inr)
  next
    case (PyDecimal d)
    then show ?thesis using assms by (cases d) simp_all
  next
    case (PyStr s)
    then show ?thesis using assms by (simp add: require_evidence_string_def)
  next
    case (PyDatetime t)
    then show ?thesis using assms by (simp add: require_aware_datetime_def)
  qed (use assms fits in simp_all)
qed

lemma length_le_nodes: "length xs \<le> sum_list (map value_nodes xs)"
proof (induction xs)
  case (Cons x xs)
  then show ?case using value_nodes_pos [of x] by simp
qed simp

definition entry_admissible :: "pyval \<times> nat \<Rightarrow> bool" where
  "entry_admissible e \<longleftrightarrow>
     snd e + value_depth (fst e) \<le> MAX_STRATEGY_RUN_OUTPUT_DEPTH + 1 \<and> evidence_supported (fst e)"

lemma evidence_loop_Inr:
  assumes "n \<le> MAX_STRATEGY_RUN_OUTPUT_NODES"
  shows "preflight_loop stack n = Inr () \<longleftrightarrow>
    list_all entry_admissible stack \<and>
    n + sum_list (map (\<lambda>e. value_nodes (fst e)) stack) \<le> MAX_STRATEGY_RUN_OUTPUT_NODES"
  using assms
proof (induction stack n rule: preflight_loop.induct)
  case (1 n)
  then show ?case by simp
next
  case (2 v d stack n)
  define cs where "cs = evidence_children v"
  have nodes: "value_nodes v = Suc (sum_list (map value_nodes cs))" and fits: "length cs \<le> sum_list (map value_nodes cs)"
    unfolding cs_def by (rule value_nodes_children, rule length_le_nodes)
  have entry: "entry_admissible (v, d) \<longleftrightarrow>
      d \<le> MAX_STRATEGY_RUN_OUTPUT_DEPTH \<and> node_supported v \<and> list_all entry_admissible (map (\<lambda>c. (c, d + 1)) cs)"
  proof -
    have "value_depth v \<le> Suc k \<longleftrightarrow> (\<forall>c \<in> set cs. value_depth c \<le> k)" for k
      by (simp add: value_depth.simps [of v] cs_def foldr_max_plain_le)
    from this [of "MAX_STRATEGY_RUN_OUTPUT_DEPTH - d"]
    have "d + value_depth v \<le> MAX_STRATEGY_RUN_OUTPUT_DEPTH + 1 \<longleftrightarrow>
      d \<le> MAX_STRATEGY_RUN_OUTPUT_DEPTH \<and> (\<forall>c \<in> set cs. d + 1 + value_depth c \<le> MAX_STRATEGY_RUN_OUTPUT_DEPTH + 1)"
      by (auto simp: value_depth.simps [of v] le_diff_conv2)
    moreover have "evidence_supported v \<longleftrightarrow> node_supported v \<and> (\<forall>c \<in> set cs. evidence_supported c)"
      by (simp add: evidence_supported.simps [of v] cs_def list_all_iff)
    ultimately show ?thesis by (auto simp: entry_admissible_def list_all_iff)
  qed
  show ?case
  proof (cases "d > MAX_STRATEGY_RUN_OUTPUT_DEPTH \<or> n + 1 > MAX_STRATEGY_RUN_OUTPUT_NODES")
    case True
    then show ?thesis using entry nodes by (auto simp: preflight_loop.simps(2))
  next
    case False
    note visit = visit_evidence_Inr [of "n + 1" v, folded cs_def]
    show ?thesis
    proof (cases "visit_evidence (n + 1) v")
      case (Inl e)
      then have "\<not> (node_supported v \<and> n + 1 + length cs \<le> MAX_STRATEGY_RUN_OUTPUT_NODES)"
        using visit False by auto
      then show ?thesis using False Inl entry nodes fits by (auto simp: preflight_loop.simps(2))
    next
      case (Inr u)
      then have node: "node_supported v" using visit False by auto
      have "preflight_loop ((v, d) # stack) n = preflight_loop (map (\<lambda>c. (c, d + 1)) cs @ stack) (n + 1)"
        using False Inr by (simp add: preflight_loop.simps(2) cs_def)
      also have "\<dots> = Inr () \<longleftrightarrow>
        list_all entry_admissible (map (\<lambda>c. (c, d + 1)) cs @ stack) \<and>
        n + 1 + sum_list (map (\<lambda>e. value_nodes (fst e)) (map (\<lambda>c. (c, d + 1)) cs @ stack))
          \<le> MAX_STRATEGY_RUN_OUTPUT_NODES"
        using False Inr by (intro 2 [folded cs_def]) auto
      finally show ?thesis using entry node nodes False by (auto simp: comp_def)
    qed
  qed
qed

text \<open>C12: The preflight of evidence accepts exactly the values that are nested at most 32 deep, have at most 8192 nodes
  and consist of supported values (bounded strings, keys and decimals, aware timestamps): the order of the stack walk and
  its early budget check make no difference.\<close>

theorem preflight_exact:
  "preflight_evidence_payload v = Inr () \<longleftrightarrow>
     value_depth v \<le> MAX_STRATEGY_RUN_OUTPUT_DEPTH \<and> value_nodes v \<le> MAX_STRATEGY_RUN_OUTPUT_NODES \<and>
     evidence_supported v"
  by (auto simp: preflight_evidence_payload_def evidence_loop_Inr entry_admissible_def)

subsection \<open>The round trip\<close>











text \<open>A value with every kind of container.\<close>

definition example_evidence :: pyval where
  "example_evidence = PyDict [(''a'', PyList [PyInt 1, PyBool True]), (''b'', PyTuple [PyNone, PyStr ''x''])]"

lemma example_encoded:
  "encode_evidence example_evidence = Inr (tagged ''map'' ''entries'' (PyList
     [PyList [PyStr ''a'', tagged ''list'' ''items'' (PyList [PyInt 1, PyBool True])],
      PyList [PyStr ''b'', tagged ''tuple'' ''items'' (PyList [PyNone, PyStr ''x''])]]))"
proof -
  have "preflight_evidence_payload example_evidence = Inr ()"
    unfolding preflight_exact
    by (simp add: example_evidence_def value_depth.simps evidence_supported.simps evidence_limits require_evidence_identifier_def require_evidence_string_def MAX_STRING_UTF8_BYTES_def MAX_IDENTIFIER_UTF8_BYTES_def)
  then show ?thesis by (simp add: encode_evidence_def) (simp add: example_evidence_def)
qed




subsection \<open>The streamed text\<close>

text \<open>The text of a sequence of chunks; the first error ends it.\<close>

definition joined :: "(exn + string) list \<Rightarrow> exn + string" where
  "joined chunks = bindE (mapE (\<lambda>c. c) chunks) (\<lambda>ts. Inr (concat ts))"

definition append_text :: "exn + string \<Rightarrow> exn + string \<Rightarrow> exn + string" where
  "append_text r r' = bindE r (\<lambda>s. bindE r' (\<lambda>t. Inr (s @ t)))"

lemma append_text_assoc: "append_text (append_text a b) c = append_text a (append_text b c)"
  by (cases a; cases b; cases c) (simp_all add: append_text_def)

lemma append_text_empty [simp]: "append_text r (Inr []) = r" "append_text (Inr []) r = r"
  by (cases r; simp add: append_text_def)+

lemma append_text_values [simp]: "append_text (Inr s) (Inr t) = Inr (s @ t)"
  by (simp add: append_text_def)

lemma append_text_Inr: "append_text (Inr s) (append_text (Inr t) r) = append_text (Inr (s @ t)) r"
  by (cases r) (simp_all add: append_text_def)

lemma joined_Nil: "joined [] = Inr []"
  by (simp add: joined_def)

lemma joined_Cons: "joined (c # cs) = append_text c (joined cs)"
  by (cases c; cases "mapE (\<lambda>c. c) cs") (simp_all add: joined_def append_text_def)

lemma joined_append: "joined (cs @ ds) = append_text (joined cs) (joined ds)"
proof (induction cs)
  case Nil
  then show ?case by (cases "joined ds") (simp_all add: joined_def append_text_def)
next
  case (Cons c cs)
  then show ?case by (simp add: joined_Cons append_text_assoc)
qed

lemma joined_single: "joined [c] = c"
  by (cases c) (simp_all add: joined_def)

lemmas joined_simps = joined_Nil joined_Cons joined_append append_text_assoc append_text_Inr

text \<open>The text of an array, from the texts of its elements.\<close>

definition comma_texts :: "(exn + string) list \<Rightarrow> exn + string" where
  "comma_texts rs =
     (case rs of [] \<Rightarrow> Inr [] | r # rs \<Rightarrow> append_text r (foldr (\<lambda>r acc. append_text (Inr '','') (append_text r acc)) rs (Inr [])))"

lemma joined_commas:
  "joined (concat (map (\<lambda>c. Inr '','' # f c) cs)) =
     foldr (\<lambda>r acc. append_text (Inr '','') (append_text r acc)) (map (\<lambda>c. joined (f c)) cs) (Inr [])"
  by (induction cs) (simp_all add: joined_Nil joined_Cons joined_append append_text_assoc)

lemma joined_separated: "joined (separated css) = comma_texts (map joined css)"
  by (cases css) (simp_all add: joined_append joined_commas comma_texts_def joined_Nil)

lemma json_chunks_scalar: "json_scalar v = Some r \<Longrightarrow> json_chunks v = [r]"
  by (cases v) auto

lemma json_prefixed_text: "json_prefixed b r = append_text (Inr b) r"
  by (cases r) (simp_all add: json_prefixed_def append_text_def)

lemma joined_element: "joined (json_element b (x, json_chunks x)) = append_text (Inr b) (joined (json_chunks x))"
  by (cases "json_scalar x"; cases "joined (json_chunks x)")
    (auto simp: json_element_def joined_Cons json_chunks_scalar json_prefixed_text joined_Nil)

lemma joined_json_list:
  "joined (json_chunks (PyList xs)) =
     append_text (Inr ''['') (append_text (comma_texts (map (\<lambda>x. joined (json_chunks x)) xs)) (Inr '']''))"
proof (cases xs)
  case Nil
  then show ?thesis by (simp add: comma_texts_def append_text_def joined_def)
next
  case (Cons x xs')
  have rest: "joined (concat (map (json_element '','') (map (\<lambda>x. (x, json_chunks x)) ys))) =
      foldr (\<lambda>r acc. append_text (Inr '','') (append_text r acc)) (map (\<lambda>x. joined (json_chunks x)) ys) (Inr [])" for ys
    by (induction ys) (simp_all add: joined_Nil joined_append joined_element append_text_assoc)
  show ?thesis unfolding Cons json_chunks.simps list.map(2) json_array.simps
    by (simp only: joined_append joined_element rest joined_single comma_texts_def list.case list.map append_text_assoc)
qed

lemma envelope_text:
  assumes "key \<in> {''value'', ''entries'', ''items''}"
  shows "joined (json_chunks (tagged tag key v)) =
    append_text (joined (envelope_chunks tag key)) (append_text (Inr '':'') (append_text (joined (json_chunks v)) (Inr ''}'')))"
proof -
  have "evidence_tag \<le> key" using assms by (elim insertE emptyE; hypsubst; code_simp)
  then have "sort_key fst [(evidence_tag, PyStr tag), (key, v)] = [(evidence_tag, PyStr tag), (key, v)]" by simp
  then show ?thesis
    by (cases "json_scalar v")
      (simp_all add: tagged_def json_member_def envelope_chunks_def joined_Cons joined_append joined_Nil append_text_assoc
        append_text_Inr json_chunks_scalar del: sort_key_simps)
qed

lemma mapE_texts:
  assumes "mapE f xs = Inr es" and "\<And>x e. x \<in> set xs \<Longrightarrow> f x = Inr e \<Longrightarrow> h x = g e"
  shows "map h xs = map g es"
  using assms by (induction xs arbitrary: es) (auto simp: exc_simps)

lemma encode_value_text: "encode_value v = Inr e \<Longrightarrow> joined (evidence_chunks v) = joined (json_chunks e)"
proof (induction v arbitrary: e rule: encode_value.induct)
  case (8 kvs)
  then obtain es where es: "mapE (\<lambda>kv. bindE (encode_value (snd kv)) (\<lambda>x. Inr (PyList [PyStr (fst kv), x]))) kvs = Inr es"
    "e = tagged ''map'' ''entries'' (PyList es)" by (auto simp: exc_simps)
  have "map (\<lambda>kv. joined (Inr ''['' # json_chunks (PyStr (fst kv)) @ Inr '','' # evidence_chunks (snd kv) @ [Inr '']''])) kvs =
      map (\<lambda>x. joined (json_chunks x)) es"
  proof (rule mapE_texts [OF es(1)])
    fix kv x assume kv: "kv \<in> set kvs" and x: "bindE (encode_value (snd kv)) (\<lambda>x. Inr (PyList [PyStr (fst kv), x])) = Inr x"
    then obtain y where y: "encode_value (snd kv) = Inr y" "x = PyList [PyStr (fst kv), y]" by (auto simp: exc_simps)
    then have "joined (evidence_chunks (snd kv)) = joined (json_chunks y)" using 8(1) kv by simp
    then show "joined (Inr ''['' # json_chunks (PyStr (fst kv)) @ Inr '','' # evidence_chunks (snd kv) @ [Inr '']'']) =
        joined (json_chunks x)"
      unfolding y(2) joined_json_list by (simp add: comma_texts_def joined_Cons joined_append joined_Nil append_text_assoc)
  qed
  then show ?case
    by (simp add: es(2) envelope_text joined_json_list joined_append joined_Cons joined_separated joined_single
        append_text_assoc append_text_Inr joined_Nil comp_def del: json_chunks.simps)
next
  case (9 xs)
  then obtain es where es: "mapE encode_value xs = Inr es" "e = tagged ''list'' ''items'' (PyList es)"
    by (auto simp: exc_simps)
  have "map (\<lambda>x. joined (evidence_chunks x)) xs = map (\<lambda>x. joined (json_chunks x)) es"
    by (rule mapE_texts [OF es(1)]) (use 9 in auto)
  then show ?case
    by (simp add: es(2) envelope_text joined_json_list joined_append joined_Cons joined_separated joined_single
        append_text_assoc append_text_Inr joined_Nil comp_def del: json_chunks.simps)
next
  case (10 xs)
  then obtain es where es: "mapE encode_value xs = Inr es" "e = tagged ''tuple'' ''items'' (PyList es)"
    by (auto simp: exc_simps)
  have "map (\<lambda>x. joined (evidence_chunks x)) xs = map (\<lambda>x. joined (json_chunks x)) es"
    by (rule mapE_texts [OF es(1)]) (use 10 in auto)
  then show ?case
    by (simp add: es(2) envelope_text joined_json_list joined_append joined_Cons joined_separated joined_single
        append_text_assoc append_text_Inr joined_Nil comp_def del: json_chunks.simps)
qed (auto simp: tagged_scalar_chunks_def envelope_text joined_append joined_Cons append_text_assoc joined_Nil
       simp del: dec_text.simps datetime_isoformat.simps)

text \<open>C13: The text the size check streams is the JSON text of the encoded evidence: the hand-written chunk generator and
  the encoder agree, so the measured size is the stored size.\<close>

theorem evidence_stream_text:
  assumes "encode_evidence v = Inr e"
  shows "joined (encoded_evidence_chunks v) = json_dumps e"
  using assms encode_value_text
  by (auto simp: encode_evidence_def encoded_evidence_chunks_def exc_simps joined_def json_dumps_def)

theorem evidence_stream_text_witness:
  "\<exists>e. encode_evidence example_evidence = Inr e \<and> joined (encoded_evidence_chunks example_evidence) = json_dumps e"
  using evidence_stream_text [OF example_encoded] example_encoded by blast

end
