(* ===== verification/Effects.thy ===== *)
theory Effects
  imports Prelude
begin

text \<open>
  Operations on a mutable state that may raise.  What was written before an exception stays written,
  so an operation maps a state to its result (a value or the exception raised) and to the state it
  leaves: \<open>bindS\<close> is sequencing, \<open>catchS\<close> is \<open>try ... except Exception\<close>, \<open>finallyS\<close> is
  \<open>try ... finally\<close>, \<open>liftS\<close> is a computation that reads no state.

  The second half is the proof interface: an operation \<open>evolves\<close> in a relation when every state is related to
  the state it leaves, whatever the result.  The locale \<open>evolution\<close> states what such a relation needs and
  proves the closure under all the control structures once; a component instantiates it with its own order
  on states.
\<close>

type_synonym ('s, 'e, 'a) op = "'s \<Rightarrow> ('e + 'a) \<times> 's"

definition returnS :: "'a \<Rightarrow> ('s, 'e, 'a) op" where
  "returnS x s = (Inr x, s)"

definition raiseS :: "'e \<Rightarrow> ('s, 'e, 'a) op" where
  "raiseS e s = (Inl e, s)"

definition liftS :: "'e + 'a \<Rightarrow> ('s, 'e, 'a) op" where
  "liftS r s = (r, s)"

text \<open>Reading the state through a function that may raise.\<close>

definition readS :: "('s \<Rightarrow> 'e + 'a) \<Rightarrow> ('s, 'e, 'a) op" where
  "readS f s = (f s, s)"

text \<open>An update that raises before it writes.\<close>

definition updateS :: "('s \<Rightarrow> 'e + 'a \<times> 's) \<Rightarrow> ('s, 'e, 'a) op" where
  "updateS f s = (case f s of Inl e \<Rightarrow> (Inl e, s) | Inr (x, s') \<Rightarrow> (Inr x, s'))"

definition bindS :: "('s, 'e, 'a) op \<Rightarrow> ('a \<Rightarrow> ('s, 'e, 'b) op) \<Rightarrow> ('s, 'e, 'b) op" where
  "bindS m f s = (case m s of (Inl e, s') \<Rightarrow> (Inl e, s') | (Inr x, s') \<Rightarrow> f x s')"

definition catchS :: "('s, 'e, 'a) op \<Rightarrow> ('e \<Rightarrow> ('s, 'e, 'a) op) \<Rightarrow> ('s, 'e, 'a) op" where
  "catchS m h s = (case m s of (Inl e, s') \<Rightarrow> h e s' | (Inr x, s') \<Rightarrow> (Inr x, s'))"

definition finallyS :: "('s, 'e, 'a) op \<Rightarrow> ('s, 'e, unit) op \<Rightarrow> ('s, 'e, 'a) op" where
  "finallyS m cleanup s =
     (case m s of (r, s') \<Rightarrow>
        (case cleanup s' of (Inl e, s'') \<Rightarrow> (Inl e, s'') | (Inr _, s'') \<Rightarrow> (r, s'')))"

text \<open>\<open>try\<close> whose result decides how to go on: the exception or the value, never raised.\<close>

definition attemptS :: "('s, 'e, 'a) op \<Rightarrow> ('s, 'e, 'e + 'a) op" where
  "attemptS m s = (case m s of (r, s') \<Rightarrow> (Inr r, s'))"

lemma bindS_result:
  "m s = (Inl e, s') \<Longrightarrow> bindS m f s = (Inl e, s')"
  "m s = (Inr x, s') \<Longrightarrow> bindS m f s = f x s'"
  by (simp_all add: bindS_def)

lemma bindS_returnS [simp]: "bindS (returnS x) f = f x"
  by (rule ext) (simp add: bindS_def returnS_def)

lemma bindS_assoc: "bindS (bindS m f) g = bindS m (\<lambda>x. bindS (f x) g)"
  by (rule ext) (simp add: bindS_def split: prod.splits sum.splits)

lemma bindS_Inr [exc_simps]:
  "bindS m f s = (Inr y, s'') \<longleftrightarrow> (\<exists>x s'. m s = (Inr x, s') \<and> f x s' = (Inr y, s''))"
  by (auto simp: bindS_def split: prod.splits sum.splits)

lemma readS_Inr [exc_simps]: "readS f s = (Inr x, s') \<longleftrightarrow> f s = Inr x \<and> s' = s"
  by (auto simp: readS_def)

lemma liftS_Inr [exc_simps]: "liftS r s = (Inr x, s') \<longleftrightarrow> r = Inr x \<and> s' = s"
  by (auto simp: liftS_def)

lemma returnS_Inr [exc_simps]: "returnS y s = (Inr x, s') \<longleftrightarrow> x = y \<and> s' = s"
  by (auto simp: returnS_def)

lemma raiseS_Inr [exc_simps]: "raiseS e s = (Inr x, s') \<longleftrightarrow> False"
  by (simp add: raiseS_def)

lemma updateS_Inr [exc_simps]: "updateS f s = (Inr x, s') \<longleftrightarrow> f s = Inr (x, s')"
  by (auto simp: updateS_def split: sum.splits)

lemma attemptS_Inr [exc_simps]: "attemptS m s = (Inr r, s') \<longleftrightarrow> m s = (r, s')"
  by (auto simp: attemptS_def split: prod.splits)

subsection \<open>Relations an operation evolves in\<close>

definition evolves :: "('s \<Rightarrow> 's \<Rightarrow> bool) \<Rightarrow> ('s, 'e, 'a) op \<Rightarrow> bool" where
  "evolves R m \<longleftrightarrow> (\<forall>s. R s (snd (m s)))"

lemma evolvesD: "evolves R m \<Longrightarrow> m s = (r, s') \<Longrightarrow> R s s'"
  unfolding evolves_def by (metis snd_conv)

lemma evolvesI: "(\<And>s r s'. m s = (r, s') \<Longrightarrow> R s s') \<Longrightarrow> evolves R m"
  by (simp add: evolves_def) (metis prod.collapse)

lemma evolves_updateI:
  assumes "\<And>s. R s s" and "\<And>s x s'. f s = Inr (x, s') \<Longrightarrow> R s s'"
  shows "evolves R (updateS f)"
  using assms by (auto simp: evolves_def updateS_def split: sum.splits)

locale evolution =
  fixes R :: "'s \<Rightarrow> 's \<Rightarrow> bool"
  assumes refl: "R s s"
    and trans: "R s s' \<Longrightarrow> R s' s'' \<Longrightarrow> R s s''"
begin

lemma return: "evolves R (returnS x)"
  and raise: "evolves R (raiseS e)"
  and lift: "evolves R (liftS r)"
  and read: "evolves R (readS f)"
  by (simp_all add: evolves_def returnS_def raiseS_def liftS_def readS_def refl)

lemma update: "(\<And>s x s'. f s = Inr (x, s') \<Longrightarrow> R s s') \<Longrightarrow> evolves R (updateS f)"
  by (rule evolves_updateI [OF refl])

lemma bind:
  assumes "evolves R m" and "\<And>x. evolves R (f x)"
  shows "evolves R (bindS m f)"
proof (rule evolvesI)
  fix s r s'' assume run: "bindS m f s = (r, s'')"
  obtain q s' where m: "m s = (q, s')" by (cases "m s")
  then have "R s s'" by (rule evolvesD [OF assms(1)])
  moreover have "R s' s''"
    using run m refl evolvesD [OF assms(2)] by (cases q) (auto simp: bindS_def)
  ultimately show "R s s''" by (rule trans)
qed

lemma catch:
  assumes "evolves R m" and "\<And>e. evolves R (h e)"
  shows "evolves R (catchS m h)"
proof (rule evolvesI)
  fix s r s'' assume run: "catchS m h s = (r, s'')"
  obtain q s' where m: "m s = (q, s')" by (cases "m s")
  then have "R s s'" by (rule evolvesD [OF assms(1)])
  moreover have "R s' s''"
    using run m refl evolvesD [OF assms(2)] by (cases q) (auto simp: catchS_def)
  ultimately show "R s s''" by (rule trans)
qed

lemma ensure:
  assumes "evolves R m" and "evolves R c"
  shows "evolves R (finallyS m c)"
proof (rule evolvesI)
  fix s r s'' assume run: "finallyS m c s = (r, s'')"
  obtain q s' where m: "m s = (q, s')" by (cases "m s")
  obtain p s3 where c: "c s' = (p, s3)" by (cases "c s'")
  have "s3 = s''" using run m c by (cases p) (simp_all add: finallyS_def)
  with trans [OF evolvesD [OF assms(1) m] evolvesD [OF assms(2) c]] show "R s s''" by simp
qed

lemma attempt: "evolves R m \<Longrightarrow> evolves R (attemptS m)"
  by (rule evolvesI) (auto simp: attemptS_def split: prod.splits dest: evolvesD)

lemma if_then_else: "evolves R m \<Longrightarrow> evolves R n \<Longrightarrow> evolves R (if b then m else n)"
  by simp

lemma option: "evolves R m \<Longrightarrow> (\<And>x. evolves R (f x)) \<Longrightarrow> evolves R (case o1 of None \<Rightarrow> m | Some x \<Rightarrow> f x)"
  by (cases o1) simp_all

lemma result:
  "(\<And>e. evolves R (f e)) \<Longrightarrow> (\<And>x. evolves R (g x)) \<Longrightarrow>
     evolves R (case r of Inl e \<Rightarrow> f e | Inr x \<Rightarrow> g x)"
  by (cases r) simp_all

lemma pair: "(\<And>x y. evolves R (f x y)) \<Longrightarrow> evolves R (case p of (x, y) \<Rightarrow> f x y)"
  by (cases p) simp

lemmas intros = return raise lift read update bind catch ensure attempt if_then_else option result pair

end

text \<open>An invariant as a relation: what holds before still holds after.\<close>

definition keeps :: "('s \<Rightarrow> bool) \<Rightarrow> 's \<Rightarrow> 's \<Rightarrow> bool" where
  "keeps P s s' \<longleftrightarrow> (P s \<longrightarrow> P s')"

interpretation keeps: evolution "keeps P"
  by unfold_locales (auto simp: keeps_def)

end
