(* ===== verification/EffectTriples.thy ===== *)
theory EffectTriples
  imports Effects
begin

text \<open>
  Postconditions of the operations of \<open>Effects\<close>: \<open>triple P m Q\<close> says that from a state of \<open>P\<close> an
  operation that returns leaves a result and a state of \<open>Q\<close>; an operation that raises is not constrained.
\<close>

definition triple :: "('s \<Rightarrow> bool) \<Rightarrow> ('s, 'e, 'a) op \<Rightarrow> ('a \<Rightarrow> 's \<Rightarrow> bool) \<Rightarrow> bool" where
  "triple P m Q \<longleftrightarrow> (\<forall>s x s'. P s \<longrightarrow> m s = (Inr x, s') \<longrightarrow> Q x s')"

abbreviation anywhere :: "'s \<Rightarrow> bool" where
  "anywhere \<equiv> \<lambda>_. True"

lemma tripleD: "triple P m Q \<Longrightarrow> P s \<Longrightarrow> m s = (Inr x, s') \<Longrightarrow> Q x s'"
  by (simp add: triple_def)

lemma triple_bind: "triple P m M \<Longrightarrow> (\<And>x. triple (M x) (f x) Q) \<Longrightarrow> triple P (bindS m f) Q"
  unfolding triple_def bindS_Inr by blast

text \<open>When nothing has to be known of the first operation, or only that it keeps the precondition.\<close>

lemma triple_skip: "(\<And>x. triple anywhere (f x) Q) \<Longrightarrow> triple P (bindS m f) Q"
  unfolding triple_def bindS_Inr by blast

lemma triple_keep: "evolves (keeps P) m \<Longrightarrow> (\<And>x. triple P (f x) Q) \<Longrightarrow> triple P (bindS m f) Q"
  unfolding triple_def bindS_Inr by (metis evolvesD keeps_def)

lemma triple_raise: "triple P (raiseS e) Q"
  by (simp add: triple_def raiseS_Inr)

lemma triple_return: "(\<And>s. P s \<Longrightarrow> Q x s) \<Longrightarrow> triple P (returnS x) Q"
  by (simp add: triple_def returnS_Inr)

lemma triple_lift: "(\<And>x s. P s \<Longrightarrow> r = Inr x \<Longrightarrow> Q x s) \<Longrightarrow> triple P (liftS r) Q"
  by (simp add: triple_def liftS_Inr)

lemma triple_attempt: "triple P m Q \<Longrightarrow> triple P (attemptS m) (\<lambda>r s. case r of Inl _ \<Rightarrow> True | Inr x \<Rightarrow> Q x s)"
  by (auto simp: triple_def attemptS_Inr split: sum.splits)

lemma triple_if: "(b \<Longrightarrow> triple P m Q) \<Longrightarrow> (\<not> b \<Longrightarrow> triple P n Q) \<Longrightarrow> triple P (if b then m else n) Q"
  by simp

lemma triple_option:
  "triple P m Q \<Longrightarrow> (\<And>x. o1 = Some x \<Longrightarrow> triple P (f x) Q) \<Longrightarrow> triple P (case o1 of None \<Rightarrow> m | Some x \<Rightarrow> f x) Q"
  by (cases o1) simp_all

lemma triple_pair: "(\<And>x y. triple P (f x y) Q) \<Longrightarrow> triple P (case p of (x, y) \<Rightarrow> f x y) Q"
  by (cases p) simp

lemma triple_sum:
  "(\<And>e. r = Inl e \<Longrightarrow> triple P (f e) Q) \<Longrightarrow> (\<And>x. r = Inr x \<Longrightarrow> triple P (g x) Q) \<Longrightarrow>
     triple P (case r of Inl e \<Rightarrow> f e | Inr x \<Rightarrow> g x) Q"
  by (cases r) simp_all

lemma triple_weaken: "triple P m Q \<Longrightarrow> (\<And>s. P' s \<Longrightarrow> P s) \<Longrightarrow> (\<And>x s. Q x s \<Longrightarrow> Q' x s) \<Longrightarrow> triple P' m Q'"
  unfolding triple_def by blast

lemma triple_pre: "triple P m Q \<Longrightarrow> (\<And>s. P' s \<Longrightarrow> P s) \<Longrightarrow> triple P' m Q"
  unfolding triple_def by blast

text \<open>The two ways through a sequence.\<close>

lemma bindS_cases:
  assumes "bindS m f s = (r, s'')"
  obtains (stops) e where "m s = (Inl e, s'')" "r = Inl e"
  | (goes_on) x s' where "m s = (Inr x, s')" "f x s' = (r, s'')"
  using assms by (auto simp: bindS_def split: prod.splits sum.splits)

text \<open>\<open>try\<close> whose handler needs nothing.\<close>

lemma triple_try:
  assumes "triple P m M" and "\<And>e. triple anywhere (f e) Q" and "\<And>x. triple (M x) (g x) Q"
  shows "triple P (bindS (attemptS m) (\<lambda>r. case r of Inl e \<Rightarrow> f e | Inr x \<Rightarrow> g x)) Q"
  using assms unfolding triple_def bindS_Inr attemptS_Inr by (metis (mono_tags, lifting) sum.case_eq_if sum.exhaust sum.simps(5,6))

end
