(* ===== verification/MarketData.thy ===== *)
theory MarketData
  imports PyValues Entities
begin

text \<open>
  The market-data request and evidence types of \<open>app/data_sources/models.py\<close>: validation, the canonical
  order of quotes and bars, and the content hash of a snapshot.  SHA-256 is the parameter \<open>sha256\<close>
  (bytes to the lower-case hexadecimal digest); \<open>str_lower\<close> is \<open>str.lower\<close>.
\<close>

subsection \<open>Canonical text\<close>

definition canonical_datetime :: "datetime \<Rightarrow> exn + string" where
  "canonical_datetime v =
     bindE (require_timezone_aware v ''datetime'') (\<lambda>v. Inr (local_text (instant v) @ ''Z''))"

fun exact_decimal_text :: "decimal \<Rightarrow> string" where
  "exact_decimal_text (Fin s c e) =
     (case strip_zeros c e of (c', exponent) \<Rightarrow>
        let sign = (if s then ''-'' else []); digits = nat_text c';
            decimal_point = int (length digits) + exponent in
        if exponent \<ge> 0 then sign @ digits @ replicate (nat exponent) CHR ''0''
        else if decimal_point > 0
        then sign @ take (nat decimal_point) digits @ ''.'' @ drop (nat decimal_point) digits
        else sign @ ''0.'' @ replicate (nat (- decimal_point)) CHR ''0'' @ digits)"
| "exact_decimal_text _ = []"

definition decimal_text :: "decimal \<Rightarrow> exn + string" where
  "decimal_text v =
     bindE (require_finite_decimal v ''decimal'') (\<lambda>v.
     if dec_is_zero v then Inr ''0'' else Inr (exact_decimal_text v))"

definition timedelta_text :: "timedelta \<Rightarrow> string" where
  "timedelta_text v = int_text v @ ''us''"

subsection \<open>Requests\<close>

record market_data_request =
  mr_request_id :: uuid
  mr_instruments :: "instrument list"
  mr_requested_at :: datetime
  mr_intraday_start :: datetime
  mr_intraday_end :: datetime
  mr_intraday_interval :: timedelta
  mr_daily_start :: date
  mr_daily_end :: date
  mr_maximum_data_delay :: timedelta

definition market_data_request_post_init :: "market_data_request \<Rightarrow> exn + market_data_request" where
  "market_data_request_post_init r =
     (if mr_instruments r = [] then Inl (ValueError ''instruments must not be empty'')
      else if \<not> distinct (map ins_instrument_id (mr_instruments r))
      then Inl (ValueError ''instruments must be unique'')
      else
        bindE (require_timezone_aware (mr_requested_at r) ''requested_at'') (\<lambda>_.
        bindE (require_timezone_aware (mr_intraday_start r) ''intraday_start'') (\<lambda>_.
        bindE (require_timezone_aware (mr_intraday_end r) ''intraday_end'') (\<lambda>_.
        if instant (mr_intraday_end r) \<le> instant (mr_intraday_start r)
        then Inl (ValueError ''intraday_end must be after intraday_start'')
        else if mr_intraday_interval r \<le> 0 then Inl (ValueError ''intraday_interval must be positive'')
        else if mr_daily_end r \<le> mr_daily_start r
        then Inl (ValueError ''daily_end must be after daily_start'')
        else if mr_maximum_data_delay r < 0
        then Inl (ValueError ''maximum_data_delay must not be negative'')
        else Inr (r\<lparr>mr_instruments := sort_key (\<lambda>i. uuid_text (ins_instrument_id i)) (mr_instruments r)\<rparr>)))))"

definition instrument_payload :: "instrument \<Rightarrow> exn + pyval" where
  "instrument_payload i =
     bindE (canonical_datetime (ins_created_at i)) (\<lambda>created_at.
     Inr (PyDict
       [(''created_at'', PyStr created_at), (''instrument_id'', PyStr (uuid_text (ins_instrument_id i))),
        (''market'', PyStr (ins_market i)), (''symbol'', PyStr (ins_symbol i))]))"

definition request_payload :: "market_data_request \<Rightarrow> exn + pyval" where
  "request_payload r =
     bindE (mapE instrument_payload (mr_instruments r)) (\<lambda>instruments.
     bindE (canonical_datetime (mr_intraday_end r)) (\<lambda>intraday_end.
     bindE (canonical_datetime (mr_intraday_start r)) (\<lambda>intraday_start.
     bindE (canonical_datetime (mr_requested_at r)) (\<lambda>requested_at.
     Inr (PyDict
       [(''daily_end'', PyStr (date_isoformat (mr_daily_end r))),
        (''daily_start'', PyStr (date_isoformat (mr_daily_start r))),
        (''instruments'', PyList instruments),
        (''intraday_end'', PyStr intraday_end),
        (''intraday_interval'', PyStr (timedelta_text (mr_intraday_interval r))),
        (''intraday_start'', PyStr intraday_start),
        (''maximum_data_delay'', PyStr (timedelta_text (mr_maximum_data_delay r))),
        (''request_id'', PyStr (uuid_text (mr_request_id r))),
        (''requested_at'', PyStr requested_at)])))))"

subsection \<open>Data quality\<close>

record data_quality =
  dq_provider :: string
  dq_fetched_at :: datetime
  dq_source_timestamp :: datetime
  dq_delay :: timedelta
  dq_stale :: bool
  dq_missing_fields :: "string list"
  dq_bars_complete :: bool
  dq_anomalies :: "string list"
  dq_confidence :: decimal

definition normalized_labels :: "(string \<Rightarrow> string) \<Rightarrow> string list \<Rightarrow> string \<Rightarrow> exn + string list" where
  "normalized_labels str_lower vs field_name =
     (if list_ex is_blank vs then Inl (ValueError (field_name @ '' must contain non-blank strings''))
      else Inr (sort (remdups (map (\<lambda>v. str_lower (strip v)) vs))))"

definition data_quality_post_init :: "(string \<Rightarrow> string) \<Rightarrow> data_quality \<Rightarrow> exn + data_quality" where
  "data_quality_post_init str_lower q =
     (if is_blank (dq_provider q) then Inl (ValueError ''provider must not be blank'')
      else
        bindE (require_timezone_aware (dq_fetched_at q) ''fetched_at'') (\<lambda>_.
        bindE (require_timezone_aware (dq_source_timestamp q) ''source_timestamp'') (\<lambda>_.
        if dq_delay q < 0 then Inl (ValueError ''delay must not be negative'')
        else if dq_delay q \<noteq> instant (dq_fetched_at q) - instant (dq_source_timestamp q)
        then Inl (ValueError ''delay must equal fetched_at minus source_timestamp'')
        else
          bindE (normalized_labels str_lower (dq_missing_fields q) ''missing_fields'') (\<lambda>missing_fields.
          bindE (normalized_labels str_lower (dq_anomalies q) ''anomalies'') (\<lambda>anomalies.
          bindE (require_finite_decimal (dq_confidence q) ''confidence'') (\<lambda>_.
          if \<not> (dec_le dec_zero (dq_confidence q) \<and> dec_le (dq_confidence q) dec_one)
          then Inl (ValueError ''confidence must be between zero and one'')
          else Inr (q\<lparr>dq_missing_fields := missing_fields, dq_anomalies := anomalies\<rparr>)))))))"

definition REQUIRED_OHLCV_FIELDS :: "string list" where
  "REQUIRED_OHLCV_FIELDS = [''open'', ''high'', ''low'', ''close'', ''volume'']"

definition quality_is_actionable :: "data_quality \<Rightarrow> bool" where
  "quality_is_actionable q \<longleftrightarrow>
     \<not> dq_stale q \<and> dq_bars_complete q \<and> dq_anomalies q = [] \<and>
     \<not> list_ex (\<lambda>f. f \<in> set (dq_missing_fields q)) REQUIRED_OHLCV_FIELDS"

definition quality_payload :: "data_quality \<Rightarrow> exn + pyval" where
  "quality_payload q =
     bindE (decimal_text (dq_confidence q)) (\<lambda>confidence.
     bindE (canonical_datetime (dq_fetched_at q)) (\<lambda>fetched_at.
     bindE (canonical_datetime (dq_source_timestamp q)) (\<lambda>source_timestamp.
     Inr (PyDict
       [(''anomalies'', PyList (map PyStr (dq_anomalies q))), (''bars_complete'', PyBool (dq_bars_complete q)),
        (''confidence'', PyStr confidence), (''delay'', PyStr (timedelta_text (dq_delay q))),
        (''fetched_at'', PyStr fetched_at), (''missing_fields'', PyList (map PyStr (dq_missing_fields q))),
        (''provider'', PyStr (dq_provider q)), (''source_timestamp'', PyStr source_timestamp),
        (''stale'', PyBool (dq_stale q))]))))"

subsection \<open>Quotes and bars\<close>

record quote =
  qt_instrument_id :: uuid
  qt_as_of :: datetime
  qt_price :: decimal

definition quote_post_init :: "quote \<Rightarrow> exn + quote" where
  "quote_post_init q =
     bindE (require_timezone_aware (qt_as_of q) ''as_of'') (\<lambda>_.
     bindE (require_finite_decimal (qt_price q) ''price'') (\<lambda>_.
     if dec_le (qt_price q) dec_zero then Inl (ValueError ''price must be positive'') else Inr q))"

definition quote_payload :: "quote \<Rightarrow> exn + pyval" where
  "quote_payload q =
     bindE (canonical_datetime (qt_as_of q)) (\<lambda>as_of.
     bindE (decimal_text (qt_price q)) (\<lambda>price.
     Inr (PyDict
       [(''as_of'', PyStr as_of), (''instrument_id'', PyStr (uuid_text (qt_instrument_id q))),
        (''price'', PyStr price)])))"

record bar =
  bar_instrument_id :: uuid
  bar_starts_at :: datetime
  bar_ends_at :: datetime
  bar_open :: decimal
  bar_high :: decimal
  bar_low :: decimal
  bar_close :: decimal
  bar_volume :: decimal

definition dec_max :: "decimal \<Rightarrow> decimal \<Rightarrow> decimal" where
  "dec_max a b = (if dec_lt a b then b else a)"

definition dec_min :: "decimal \<Rightarrow> decimal \<Rightarrow> decimal" where
  "dec_min a b = (if dec_lt b a then b else a)"

definition bar_post_init :: "bar \<Rightarrow> exn + bar" where
  "bar_post_init b =
     bindE (require_timezone_aware (bar_starts_at b) ''starts_at'') (\<lambda>_.
     bindE (require_timezone_aware (bar_ends_at b) ''ends_at'') (\<lambda>_.
     if instant (bar_ends_at b) \<le> instant (bar_starts_at b)
     then Inl (ValueError ''ends_at must be after starts_at'')
     else
       bindE (mapE (\<lambda>(name, v). require_finite_decimal v name)
         [(''open'', bar_open b), (''high'', bar_high b), (''low'', bar_low b), (''close'', bar_close b),
          (''volume'', bar_volume b)]) (\<lambda>_.
       if dec_le (bar_open b) dec_zero \<or> dec_le (bar_close b) dec_zero
       then Inl (ValueError ''open and close must be positive'')
       else if dec_lt (bar_high b) (dec_max (bar_open b) (bar_close b))
       then Inl (ValueError ''high must not be below open or close'')
       else if dec_lt (dec_min (bar_open b) (bar_close b)) (bar_low b)
       then Inl (ValueError ''low must not exceed open or close'')
       else if dec_lt (bar_volume b) dec_zero
       then Inl (ValueError ''volume must not be negative'')
       else Inr b)))"

definition bar_payload :: "bar \<Rightarrow> exn + pyval" where
  "bar_payload b =
     bindE (decimal_text (bar_close b)) (\<lambda>close.
     bindE (canonical_datetime (bar_ends_at b)) (\<lambda>ends_at.
     bindE (decimal_text (bar_high b)) (\<lambda>high.
     bindE (decimal_text (bar_low b)) (\<lambda>low.
     bindE (decimal_text (bar_open b)) (\<lambda>open.
     bindE (canonical_datetime (bar_starts_at b)) (\<lambda>starts_at.
     bindE (decimal_text (bar_volume b)) (\<lambda>volume.
     Inr (PyDict
       [(''close'', PyStr close), (''ends_at'', PyStr ends_at), (''high'', PyStr high),
        (''instrument_id'', PyStr (uuid_text (bar_instrument_id b))), (''low'', PyStr low), (''open'', PyStr open),
        (''starts_at'', PyStr starts_at), (''volume'', PyStr volume)]))))))))"

subsection \<open>Snapshots\<close>

record market_data_snapshot =
  ms_provider :: string
  ms_request :: market_data_request
  ms_quotes :: "quote list"
  ms_intraday_bars :: "bar list"
  ms_daily_bars :: "bar list"
  ms_quality :: data_quality
  ms_snapshot_id :: string
  ms_content_hash :: string
  ms_canonical_json :: string

definition quote_identity :: "quote \<Rightarrow> exn + string list" where
  "quote_identity q =
     bindE (canonical_datetime (qt_as_of q)) (\<lambda>t. Inr [uuid_text (qt_instrument_id q), t])"

definition bar_identity :: "bar \<Rightarrow> exn + string list" where
  "bar_identity b =
     bindE (canonical_datetime (bar_starts_at b)) (\<lambda>starts_at.
     bindE (canonical_datetime (bar_ends_at b)) (\<lambda>ends_at.
     Inr [uuid_text (bar_instrument_id b), starts_at, ends_at]))"

text \<open>Adjacent duplicates of the sorted identities.\<close>

definition reject_duplicate_identities :: "string list list \<Rightarrow> string \<Rightarrow> exn + unit" where
  "reject_duplicate_identities identities collection_name =
     (if list_ex (\<lambda>(previous, current). current = previous) (zip identities (drop 1 identities))
      then Inl (ValueError (''duplicate '' @ collection_name @ '' identity'')) else Inr ())"

text \<open>\<open>sorted(xs, key=identity)\<close> and the duplicate check on the sorted identities.\<close>

definition normalize_observations :: "('a \<Rightarrow> exn + string list) \<Rightarrow> 'a list \<Rightarrow> string \<Rightarrow> exn + 'a list" where
  "normalize_observations identity xs collection_name =
     bindE (mapE identity xs) (\<lambda>identities.
     let ordered = sort_key fst (zip identities xs) in
     bindE (reject_duplicate_identities (map fst ordered) collection_name) (\<lambda>_. Inr (map snd ordered)))"

definition normalize_quotes :: "quote list \<Rightarrow> exn + quote list" where
  "normalize_quotes quotes = normalize_observations quote_identity quotes ''quote''"

definition normalize_bars :: "bar list \<Rightarrow> string \<Rightarrow> exn + bar list" where
  "normalize_bars bars collection_name = normalize_observations bar_identity bars collection_name"

text \<open>The check of one collection against the requested instruments.\<close>

definition require_covered :: "uuid list \<Rightarrow> string \<times> uuid list \<Rightarrow> exn + unit" where
  "require_covered requested_ids collection =
     (case collection of (collection_name, observed_ids) \<Rightarrow>
        if \<not> set observed_ids \<subseteq> set requested_ids
        then Inl (ValueError ''snapshot may only contain requested instruments'')
        else if observed_ids \<noteq> [] \<and> set observed_ids \<noteq> set requested_ids
        then Inl (ValueError (collection_name @ '' must cover every requested instrument''))
        else Inr ())"

definition snapshot_payload :: "market_data_snapshot \<Rightarrow> exn + pyval" where
  "snapshot_payload m =
     bindE (mapE bar_payload (ms_daily_bars m)) (\<lambda>daily_bars.
     bindE (mapE bar_payload (ms_intraday_bars m)) (\<lambda>intraday_bars.
     bindE (quality_payload (ms_quality m)) (\<lambda>quality.
     bindE (mapE quote_payload (ms_quotes m)) (\<lambda>quotes.
     bindE (request_payload (ms_request m)) (\<lambda>request.
     Inr (PyDict
       [(''daily_bars'', PyList daily_bars), (''intraday_bars'', PyList intraday_bars),
        (''provider'', PyStr (ms_provider m)), (''quality'', quality), (''quotes'', PyList quotes),
        (''request'', request), (''snapshot_format_version'', PyStr ''1'')]))))))"

definition market_data_snapshot_post_init ::
    "(string \<Rightarrow> string) \<Rightarrow> market_data_snapshot \<Rightarrow> exn + market_data_snapshot" where
  "market_data_snapshot_post_init sha256 m =
     (if is_blank (ms_provider m) then Inl (ValueError ''provider must not be blank'')
      else if dq_provider (ms_quality m) \<noteq> ms_provider m
      then Inl (ValueError ''quality provider must match snapshot provider'')
      else
        bindE (normalize_quotes (ms_quotes m)) (\<lambda>quotes.
        bindE (normalize_bars (ms_intraday_bars m) ''intraday_bars'') (\<lambda>intraday_bars.
        bindE (normalize_bars (ms_daily_bars m) ''daily_bars'') (\<lambda>daily_bars.
        bindE (mapE (require_covered (map ins_instrument_id (mr_instruments (ms_request m))))
          [(''quotes'', map qt_instrument_id quotes), (''intraday_bars'', map bar_instrument_id intraday_bars),
           (''daily_bars'', map bar_instrument_id daily_bars)]) (\<lambda>_.
        let m = m\<lparr>ms_quotes := quotes, ms_intraday_bars := intraday_bars, ms_daily_bars := daily_bars\<rparr> in
        bindE (snapshot_payload m) (\<lambda>payload.
        bindE (json_dumps payload) (\<lambda>canonical_json.
        let content_hash = sha256 canonical_json in
        Inr (m\<lparr>ms_canonical_json := canonical_json, ms_content_hash := content_hash,
               ms_snapshot_id := ''market-data:v1:'' @ content_hash\<rparr>))))))))"

definition snapshot_is_actionable :: "market_data_snapshot \<Rightarrow> bool" where
  "snapshot_is_actionable m \<longleftrightarrow>
     quality_is_actionable (ms_quality m) \<and> ms_quotes m \<noteq> [] \<and> ms_intraday_bars m \<noteq> [] \<and> ms_daily_bars m \<noteq> []"

end
