(* ===== verification/Identities.thy ===== *)
theory Identities
  imports MarketData
begin

text \<open>
  The canonical identities of the application: the scan identity of \<open>app/domain/values.py\<close>, the lock
  request and lease of \<open>app/repositories/locks.py\<close>, the final strategy identity of
  \<open>app/application/idempotency.py\<close> and the child intents of \<open>app/application/child_intents.py\<close>.

  What the code takes from the platform is a \<open>platform\<close>: the hexadecimal SHA-256 digest of a byte
  string, and the time zone database, which gives for a zone name the UTC offset (microseconds) at each instant, or
  \<open>None\<close> for a name that \<open>ZoneInfo\<close> does not find.
\<close>

record platform =
  pl_sha256 :: "string \<Rightarrow> string"
  pl_zone :: "string \<Rightarrow> (int \<Rightarrow> int) option"

definition require_sha256 :: "string \<Rightarrow> string \<Rightarrow> exn + unit" where
  "require_sha256 v field_name =
     (if is_sha256_hex v then Inr ()
      else Inl (ValueError (field_name @ '' must be a SHA-256 hexadecimal digest'')))"

lemma require_sha256_Inr [exc_simps]: "require_sha256 v n = Inr u \<longleftrightarrow> is_sha256_hex v"
  by (auto simp: require_sha256_def)

subsection \<open>Scan identities\<close>

definition SCAN_IDENTITY_FORMAT_VERSION :: string where
  "SCAN_IDENTITY_FORMAT_VERSION = ''1''"

record scan_identity =
  si_rotation_plan_id :: uuid
  si_market_session_date :: date
  si_scan_window_start :: datetime
  si_scan_interval :: string
  si_configuration_snapshot_hash :: string
  si_market_timezone :: string
  si_format_version :: string

text \<open>\<open>value.astimezone(zone).date()\<close>.\<close>

definition local_date :: "(int \<Rightarrow> int) \<Rightarrow> datetime \<Rightarrow> date" where
  "local_date offset t = (instant t + offset (instant t)) div microseconds_per_day"

definition scan_identity_post_init :: "platform \<Rightarrow> scan_identity \<Rightarrow> exn + scan_identity" where
  "scan_identity_post_init pl i =
     bindE (require_timezone_aware (si_scan_window_start i) ''scan_window_start'') (\<lambda>_.
     if is_blank (si_scan_interval i) then Inl (ValueError ''scan_interval must not be blank'')
     else if \<not> is_sha256_hex (si_configuration_snapshot_hash i)
     then Inl (ValueError ''configuration_snapshot_hash must be a SHA-256 hexadecimal digest'')
     else if si_format_version i \<noteq> SCAN_IDENTITY_FORMAT_VERSION
     then Inl (ValueError ''scan identity format_version is not supported'')
     else case pl_zone pl (si_market_timezone i) of
       None \<Rightarrow> Inl (ValueError ''market_timezone must be a valid IANA timezone'')
     | Some offset \<Rightarrow>
         if si_market_session_date i \<noteq> local_date offset (si_scan_window_start i)
         then Inl (ValueError ''market_session_date must match scan_window_start in market_timezone'')
         else Inr (i\<lparr>si_configuration_snapshot_hash := lower_ascii (si_configuration_snapshot_hash i)\<rparr>))"

definition scan_canonical_payload :: "platform \<Rightarrow> scan_identity \<Rightarrow> exn + pyval" where
  "scan_canonical_payload pl i =
     (case pl_zone pl (si_market_timezone i) of
        None \<Rightarrow> Inl (KeyError ''No time zone found'')
      | Some offset \<Rightarrow>
          let t = instant (si_scan_window_start i) in
          Inr (PyDict
            [(''configuration_snapshot_hash'', PyStr (si_configuration_snapshot_hash i)),
             (''format_version'', PyStr (si_format_version i)),
             (''market_session_date'', PyStr (date_isoformat (si_market_session_date i))),
             (''market_timezone'', PyStr (si_market_timezone i)),
             (''rotation_plan_id'', PyStr (uuid_text (si_rotation_plan_id i))),
             (''scan_interval'', PyStr (si_scan_interval i)),
             (''scan_window_start'', PyStr (local_isoformat t (offset t)))]))"

definition scan_key :: "platform \<Rightarrow> scan_identity \<Rightarrow> exn + string" where
  "scan_key pl i =
     bindE (scan_canonical_payload pl i) (\<lambda>payload.
     bindE (json_dumps payload) (\<lambda>canonical. Inr (pl_sha256 pl canonical)))"

subsection \<open>Lock requests and leases\<close>

record scan_lock_request =
  sl_plan :: rotation_plan
  sl_market_session_date :: string
  sl_scan_window_start :: datetime
  sl_scan_interval :: string
  sl_market_timezone :: string
  sl_configuration_snapshot_hash :: string

text \<open>The identity of a request, built from its fields.\<close>

definition scan_lock_identity :: "platform \<Rightarrow> scan_lock_request \<Rightarrow> exn + scan_identity" where
  "scan_lock_identity pl r =
     (case parse_iso_date (sl_market_session_date r) of
        None \<Rightarrow> Inl (ValueError ''market_session_date must be an ISO date'')
      | Some session_date \<Rightarrow>
          scan_identity_post_init pl
            \<lparr>si_rotation_plan_id = plan_rotation_plan_id (sl_plan r), si_market_session_date = session_date,
             si_scan_window_start = sl_scan_window_start r, si_scan_interval = sl_scan_interval r,
             si_configuration_snapshot_hash = sl_configuration_snapshot_hash r,
             si_market_timezone = sl_market_timezone r, si_format_version = SCAN_IDENTITY_FORMAT_VERSION\<rparr>)"

definition scan_lock_request_post_init :: "platform \<Rightarrow> scan_lock_request \<Rightarrow> exn + scan_lock_request" where
  "scan_lock_request_post_init pl r =
     bindE (require_timezone_aware (sl_scan_window_start r) ''scan_window_start'') (\<lambda>_.
     if is_blank (sl_market_session_date r) \<or> is_blank (sl_scan_interval r)
     then Inl (ValueError ''scan lock fields must not be blank'')
     else
       bindE (scan_lock_identity pl r) (\<lambda>i.
       Inr (r\<lparr>sl_market_session_date := date_isoformat (si_market_session_date i),
              sl_market_timezone := si_market_timezone i,
              sl_configuration_snapshot_hash := si_configuration_snapshot_hash i\<rparr>)))"

definition scan_lock_key :: "platform \<Rightarrow> scan_lock_request \<Rightarrow> exn + string" where
  "scan_lock_key pl r = bindE (scan_lock_identity pl r) (scan_key pl)"

definition build_scan_lock_key :: "platform \<Rightarrow> scan_lock_request \<Rightarrow> exn + string" where
  "build_scan_lock_key pl r = scan_lock_key pl r"

record lock_lease =
  lease_id :: uuid
  lease_key :: string

subsection \<open>Final strategy identities\<close>

definition FINAL_STRATEGY_IDENTITY_FORMAT_VERSION :: string where
  "FINAL_STRATEGY_IDENTITY_FORMAT_VERSION = ''strategy-run:v1''"

definition validate_snapshot_id :: "string \<Rightarrow> string \<Rightarrow> exn + unit" where
  "validate_snapshot_id snapshot_id content_hash =
     (let parts = split_on (CHR '':'') snapshot_id in
      if length parts \<noteq> 3 \<or> parts ! 0 \<noteq> ''market-data'' \<or> parts ! 1 \<noteq> ''v1''
      then Inl (ValueError ''market_data_snapshot_id must use the market-data:v1 format'')
      else if lower_ascii (parts ! 2) \<noteq> lower_ascii content_hash
      then Inl (ValueError ''market_data_snapshot_id must reference market_data_content_hash'')
      else Inr ())"

record final_strategy_identity =
  fi_scan_lock_key :: string
  fi_market_data_snapshot_id :: string
  fi_market_data_content_hash :: string
  fi_format_version :: string

definition final_strategy_identity_post_init :: "final_strategy_identity \<Rightarrow> exn + final_strategy_identity" where
  "final_strategy_identity_post_init i =
     bindE (require_sha256 (fi_scan_lock_key i) ''scan_lock_key'') (\<lambda>_.
     bindE (require_sha256 (fi_market_data_content_hash i) ''market_data_content_hash'') (\<lambda>_.
     if fi_format_version i \<noteq> FINAL_STRATEGY_IDENTITY_FORMAT_VERSION
     then Inl (ValueError ''final strategy identity format_version is not supported'')
     else
       bindE (validate_snapshot_id (fi_market_data_snapshot_id i) (fi_market_data_content_hash i)) (\<lambda>_.
       Inr (i\<lparr>fi_scan_lock_key := lower_ascii (fi_scan_lock_key i),
              fi_market_data_content_hash := lower_ascii (fi_market_data_content_hash i)\<rparr>))))"

text \<open>The constructor with its default format version.\<close>

definition final_strategy_identity_of :: "string \<Rightarrow> string \<Rightarrow> string \<Rightarrow> exn + final_strategy_identity" where
  "final_strategy_identity_of lock_key snapshot_id content_hash =
     final_strategy_identity_post_init
       \<lparr>fi_scan_lock_key = lock_key, fi_market_data_snapshot_id = snapshot_id,
        fi_market_data_content_hash = content_hash,
        fi_format_version = FINAL_STRATEGY_IDENTITY_FORMAT_VERSION\<rparr>"

definition final_canonical_payload :: "final_strategy_identity \<Rightarrow> pyval" where
  "final_canonical_payload i =
     PyDict
       [(''format_version'', PyStr (fi_format_version i)),
        (''market_data_content_hash'', PyStr (fi_market_data_content_hash i)),
        (''market_data_snapshot_id'', PyStr (fi_market_data_snapshot_id i)),
        (''scan_lock_key'', PyStr (fi_scan_lock_key i))]"

definition final_key :: "platform \<Rightarrow> final_strategy_identity \<Rightarrow> exn + string" where
  "final_key pl i = bindE (json_dumps (final_canonical_payload i)) (\<lambda>canonical. Inr (pl_sha256 pl canonical))"

definition final_as_idempotency_key :: "platform \<Rightarrow> final_strategy_identity \<Rightarrow> exn + idempotency_key" where
  "final_as_idempotency_key pl i =
     bindE (final_key pl i) (\<lambda>k. idempotency_key_post_init \<lparr>ikey_value = k\<rparr>)"

definition final_from_snapshot :: "string \<Rightarrow> market_data_snapshot \<Rightarrow> exn + final_strategy_identity" where
  "final_from_snapshot lock_key m = final_strategy_identity_of lock_key (ms_snapshot_id m) (ms_content_hash m)"

definition build_final_strategy_key :: "platform \<Rightarrow> string \<Rightarrow> string \<Rightarrow> string \<Rightarrow> exn + string" where
  "build_final_strategy_key pl lock_key snapshot_id content_hash =
     bindE (final_strategy_identity_of lock_key snapshot_id content_hash) (final_key pl)"

subsection \<open>Child intents\<close>

definition child_intent_key :: "platform \<Rightarrow> string \<Rightarrow> string \<Rightarrow> exn + string" where
  "child_intent_key pl final_strategy_key purpose =
     bindE (require_sha256 final_strategy_key ''final_strategy_key'') (\<lambda>_.
     if is_blank purpose then Inl (ValueError ''purpose must not be blank'')
     else
       bindE (json_dumps (PyDict
         [(''final_strategy_key'', PyStr (lower_ascii final_strategy_key)), (''purpose'', PyStr (strip purpose))]))
         (\<lambda>payload. Inr (pl_sha256 pl payload)))"

datatype child_intent_purpose = NOTIFICATION

fun purpose_value :: "child_intent_purpose \<Rightarrow> string" where
  "purpose_value NOTIFICATION = ''NOTIFICATION''"

record child_intent =
  ci_child_intent_id :: uuid
  ci_rotation_plan_id :: uuid
  ci_portfolio_id :: uuid
  ci_strategy_run_id :: uuid
  ci_final_strategy_key :: string
  ci_final_strategy_identity_format_version :: string
  ci_purpose :: child_intent_purpose
  ci_intent_key :: string
  ci_created_at :: datetime

definition child_intent_post_init :: "platform \<Rightarrow> child_intent \<Rightarrow> exn + child_intent" where
  "child_intent_post_init pl c =
     bindE (require_sha256 (ci_final_strategy_key c) ''final_strategy_key'') (\<lambda>_.
     bindE (require_sha256 (ci_intent_key c) ''intent_key'') (\<lambda>_.
     if ci_final_strategy_identity_format_version c \<noteq> FINAL_STRATEGY_IDENTITY_FORMAT_VERSION
     then Inl (ValueError ''child intent uses an unsupported final strategy identity format'')
     else
       bindE (child_intent_key pl (ci_final_strategy_key c) (purpose_value (ci_purpose c))) (\<lambda>k.
       if ci_intent_key c \<noteq> k
       then Inl (ValueError ''intent_key must match the final strategy key and purpose'')
       else bindE (require_timezone_aware (ci_created_at c) ''created_at'') (\<lambda>_. Inr c))))"

definition build_child_intent ::
    "platform \<Rightarrow> uuid \<Rightarrow> uuid \<Rightarrow> uuid \<Rightarrow> uuid \<Rightarrow> string \<Rightarrow> child_intent_purpose \<Rightarrow> datetime \<Rightarrow> exn + child_intent" where
  "build_child_intent pl child_intent_id rotation_plan_id portfolio_id strategy_run_id final_strategy_key
     purpose created_at =
     bindE (child_intent_key pl final_strategy_key (purpose_value purpose)) (\<lambda>intent_key.
     child_intent_post_init pl
       \<lparr>ci_child_intent_id = child_intent_id, ci_rotation_plan_id = rotation_plan_id,
        ci_portfolio_id = portfolio_id, ci_strategy_run_id = strategy_run_id,
        ci_final_strategy_key = final_strategy_key,
        ci_final_strategy_identity_format_version = FINAL_STRATEGY_IDENTITY_FORMAT_VERSION,
        ci_purpose = purpose, ci_intent_key = intent_key, ci_created_at = created_at\<rparr>)"

definition same_logical_child_intent :: "child_intent \<Rightarrow> child_intent \<Rightarrow> bool" where
  "same_logical_child_intent existing candidate \<longleftrightarrow>
     ci_rotation_plan_id existing = ci_rotation_plan_id candidate \<and>
     ci_portfolio_id existing = ci_portfolio_id candidate \<and>
     ci_strategy_run_id existing = ci_strategy_run_id candidate \<and>
     ci_final_strategy_key existing = ci_final_strategy_key candidate \<and>
     ci_final_strategy_identity_format_version existing = ci_final_strategy_identity_format_version candidate \<and>
     ci_purpose existing = ci_purpose candidate \<and>
     ci_intent_key existing = ci_intent_key candidate"

end
