(* ===== verification/RunEntities.thy ===== *)
theory RunEntities
  imports EvidenceProps Identities
begin

text \<open>
  The run evidence of \<open>app/domain/entities.py\<close>: strategy runs with their frozen outputs, logical scans and
  scan attempts with the rules of their status, and the two contracts of \<open>app/repositories\<close> on them:
  the append rule of an attempt chain and the retry rule of a stored run.
\<close>

subsection \<open>Frozen evidence\<close>

fun freeze_evidence :: "pyval \<Rightarrow> exn + pyval" where
  "freeze_evidence (PyDict kvs) =
     bindE (mapE (\<lambda>kv. bindE (freeze_evidence (snd kv)) (\<lambda>x. Inr (fst kv, x))) kvs) (\<lambda>kvs. Inr (PyDict kvs))"
| "freeze_evidence (PyList xs) = bindE (mapE freeze_evidence xs) (\<lambda>ys. Inr (PyTuple ys))"
| "freeze_evidence (PyTuple xs) = bindE (mapE freeze_evidence xs) (\<lambda>ys. Inr (PyTuple ys))"
| "freeze_evidence (PyDecimal d) =
     bindE (require_finite_decimal d ''evidence Decimal'') (\<lambda>d. Inr (PyDecimal d))"
| "freeze_evidence (PyDatetime t) =
     bindE (require_timezone_aware t ''evidence datetime'') (\<lambda>t. Inr (PyDatetime t))"
| "freeze_evidence (PyFloat _) =
     Inl (InvalidStrategyRunEvidenceError ''unsupported mutable or non-deterministic evidence value'')"
| "freeze_evidence (PyObject t) =
     Inl (InvalidStrategyRunEvidenceError
       (if t \<in> {''set'', ''frozenset''} then ''evidence must not contain unordered set values''
        else if t = ''bytes'' then ''evidence bytes are not supported''
        else ''unsupported mutable or non-deterministic evidence value''))"
| "freeze_evidence v = Inr v"

subsection \<open>Strategy runs\<close>

record strategy_run =
  run_strategy_run_id :: uuid
  run_rotation_plan_id :: uuid
  run_portfolio_id :: uuid
  run_configuration_snapshot :: configuration_snapshot_ref
  run_market_data_snapshot_id :: string
  run_state_transition :: string
  run_outputs :: pyval
  run_occurred_at :: datetime

definition strategy_run_post_init :: "strategy_run \<Rightarrow> exn + strategy_run" where
  "strategy_run_post_init r =
     bindE (require_timezone_aware (run_occurred_at r) ''occurred_at'') (\<lambda>_.
     if is_blank (run_market_data_snapshot_id r)
     then Inl (ValueError ''market_data_snapshot_id must not be blank'')
     else if is_blank (run_state_transition r) then Inl (ValueError ''state_transition must not be blank'')
     else if \<not> is_mapping (run_outputs r)
     then Inl (InvalidStrategyRunEvidenceError ''outputs must be a mapping'')
     else
       bindE (preflight_evidence_payload (run_outputs r)) (\<lambda>_.
       bindE (freeze_evidence (run_outputs r)) (\<lambda>frozen_outputs.
       bindE (measure_encoded_evidence_bytes frozen_outputs MAX_STRATEGY_RUN_OUTPUT_UTF8_BYTES
                ''StrategyRun.outputs'') (\<lambda>_.
       Inr (r\<lparr>run_outputs := frozen_outputs\<rparr>)))))"

definition strategy_run_ownership :: "strategy_run \<Rightarrow> ownership" where
  "strategy_run_ownership r = Ownership PORTFOLIO (Some (run_portfolio_id r))"

text \<open>\<open>==\<close> of two runs: every field, the outputs as Python values.\<close>

definition strategy_run_eq :: "strategy_run \<Rightarrow> strategy_run \<Rightarrow> bool" where
  "strategy_run_eq r q \<longleftrightarrow>
     r\<lparr>run_outputs := PyNone\<rparr> = q\<lparr>run_outputs := PyNone\<rparr> \<and> py_eq (run_outputs r) (run_outputs q)"

definition require_exact_strategy_run_retry ::
    "strategy_run \<Rightarrow> strategy_run \<Rightarrow> uuid option \<Rightarrow> uuid option \<Rightarrow> exn + unit" where
  "require_exact_strategy_run_retry existing candidate stored_scan requested_scan =
     (if \<not> strategy_run_eq existing candidate \<or> stored_scan \<noteq> requested_scan
      then Inl (IdempotencyConflictError ''idempotency key already records a different strategy run'')
      else Inr ())"

subsection \<open>Logical scans\<close>

record logical_scan_run =
  sc_logical_scan_run_id :: uuid
  sc_rotation_plan_id :: uuid
  sc_portfolio_id :: uuid
  sc_market_session_date :: string
  sc_scan_window_start :: datetime
  sc_scan_interval :: string
  sc_market_timezone :: string
  sc_configuration_snapshot_hash :: string
  sc_scan_identity_format_version :: string
  sc_scan_lock_key :: string
  sc_status :: logical_scan_status
  sc_created_at :: datetime
  sc_completed_at :: "datetime option"
  sc_final_strategy_run_id :: "uuid option"

definition logical_scan_identity :: "platform \<Rightarrow> logical_scan_run \<Rightarrow> exn + scan_identity" where
  "logical_scan_identity pl s =
     (case parse_iso_date (sc_market_session_date s) of
        None \<Rightarrow> Inl (ValueError ''market_session_date must be an ISO date'')
      | Some session_date \<Rightarrow>
          scan_identity_post_init pl
            \<lparr>si_rotation_plan_id = sc_rotation_plan_id s, si_market_session_date = session_date,
             si_scan_window_start = sc_scan_window_start s, si_scan_interval = sc_scan_interval s,
             si_configuration_snapshot_hash = sc_configuration_snapshot_hash s,
             si_market_timezone = sc_market_timezone s, si_format_version = sc_scan_identity_format_version s\<rparr>)"

definition logical_scan_run_post_init :: "platform \<Rightarrow> logical_scan_run \<Rightarrow> exn + logical_scan_run" where
  "logical_scan_run_post_init pl s =
     bindE (require_timezone_aware (sc_scan_window_start s) ''scan_window_start'') (\<lambda>_.
     bindE (require_timezone_aware (sc_created_at s) ''created_at'') (\<lambda>_.
     if is_blank (sc_market_session_date s) \<or> is_blank (sc_scan_interval s)
     then Inl (ValueError ''logical scan identity fields must not be blank'')
     else if is_blank (sc_scan_lock_key s) then Inl (ValueError ''scan_lock_key must not be blank'')
     else
       bindE (bindE (logical_scan_identity pl s) (scan_key pl)) (\<lambda>key.
       if sc_scan_lock_key s \<noteq> key
       then Inl (ValueError ''scan_lock_key must match the scan identity'')
       else case sc_status s of
         SCAN_RUNNING \<Rightarrow>
           if sc_completed_at s \<noteq> None \<or> sc_final_strategy_run_id s \<noteq> None
           then Inl (ValueError ''RUNNING logical scans cannot have final result evidence'') else Inr s
       | SCAN_COMPLETED \<Rightarrow>
           (case (sc_completed_at s, sc_final_strategy_run_id s) of
              (Some completed_at, Some _) \<Rightarrow>
                bindE (require_timezone_aware completed_at ''completed_at'') (\<lambda>_.
                if instant completed_at < instant (sc_created_at s)
                then Inl (ValueError ''logical scan completed_at cannot be before created_at'') else Inr s)
            | _ \<Rightarrow> Inl (ValueError ''COMPLETED logical scans require final result evidence'')))))"

subsection \<open>Scan attempts\<close>

record scan_attempt =
  att_scan_attempt_id :: uuid
  att_logical_scan_run_id :: uuid
  att_attempt_number :: int
  att_status :: scan_attempt_status
  att_configuration_snapshot_hash :: string
  att_market_data_snapshot_id :: "string option"
  att_market_data_content_hash :: "string option"
  att_trigger_correlation_id :: string
  att_actor_correlation_id :: string
  att_started_at :: datetime
  att_completed_at :: "datetime option"
  att_failure_code :: "string option"
  att_failure_detail :: "string option"
  att_recovery_of_attempt_id :: "uuid option"
  att_duplicate_of_attempt_id :: "uuid option"
  att_final_strategy_run_id :: "uuid option"
  att_configuration_snapshot_id :: "uuid option"
  att_configuration_snapshot_created_at :: "datetime option"
  att_final_strategy_key :: "string option"
  att_final_strategy_identity_format_version :: "string option"
  att_finalization_disposition :: "finalization_disposition option"

definition require_sha256_hash :: "string \<Rightarrow> string \<Rightarrow> exn + unit" where
  "require_sha256_hash v field_name =
     (if is_sha256_hex v then Inr ()
      else Inl (ValueError (field_name @ '' must be a SHA-256 hexadecimal digest'')))"

definition require_bounded_text :: "string \<Rightarrow> string \<Rightarrow> nat \<Rightarrow> exn + unit" where
  "require_bounded_text v field_name maximum_length =
     (if is_blank v \<or> py_len v > maximum_length
      then Inl (ValueError (field_name @ '' must be non-blank and within its maximum length'')) else Inr ())"

text \<open>A check that only applies to a supplied value.\<close>

definition when_supplied :: "'a option \<Rightarrow> ('a \<Rightarrow> exn + 'b) \<Rightarrow> exn + unit" where
  "when_supplied x check = (case x of None \<Rightarrow> Inr () | Some v \<Rightarrow> bindE (check v) (\<lambda>_. Inr ()))"

definition validate_status_evidence :: "scan_attempt \<Rightarrow> exn + unit" where
  "validate_status_evidence a =
     (let has_market_data = att_market_data_snapshot_id a \<noteq> None;
          has_failure = (att_failure_code a \<noteq> None \<or> att_failure_detail a \<noteq> None) in
      if att_status a = ATTEMPT_RUNNING then
        if att_completed_at a \<noteq> None \<or> has_market_data \<or> has_failure \<or> att_finalization_disposition a \<noteq> None
        then Inl (ValueError ''RUNNING attempts cannot have completed outcome evidence'')
        else if att_duplicate_of_attempt_id a \<noteq> None \<or> att_final_strategy_run_id a \<noteq> None
        then Inl (ValueError ''RUNNING attempts cannot have final or duplicate references'')
        else Inr ()
      else if att_completed_at a = None then Inl (ValueError ''terminal scan attempts require completed_at'')
      else if att_status a = ATTEMPT_FAILED \<or> att_status a = ATTEMPT_DEGRADED then
        if att_failure_code a = None \<or> att_failure_detail a = None
        then Inl (ValueError ''failure_code and failure_detail are required for failed evidence'')
        else if att_final_strategy_run_id a \<noteq> None
        then Inl (ValueError ''failed or degraded attempts cannot have a final strategy run'')
        else if att_duplicate_of_attempt_id a \<noteq> None
        then Inl (ValueError ''failed or degraded attempts cannot be duplicate results'')
        else if att_finalization_disposition a \<noteq> None
        then Inl (ValueError ''failed or degraded attempts cannot have finalization evidence'')
        else if att_status a = ATTEMPT_DEGRADED \<and> \<not> has_market_data
        then Inl (ValueError ''DEGRADED attempts require market_data evidence'')
        else Inr ()
      else if has_failure then Inl (ValueError ''SUCCEEDED attempts cannot have failure evidence'')
      else if att_duplicate_of_attempt_id a \<noteq> None then
        if has_market_data then Inl (ValueError ''duplicate successes cannot repeat market_data evidence'')
        else if att_final_strategy_run_id a \<noteq> None
        then Inl (ValueError ''duplicate successes cannot create a final strategy run'')
        else if att_finalization_disposition a \<noteq> None
        then Inl (ValueError ''duplicate successes cannot have finalization evidence'')
        else Inr ()
      else if \<not> has_market_data then Inl (ValueError ''SUCCEEDED attempts require market_data evidence'')
      else if att_finalization_disposition a \<noteq> None \<and>
              (att_final_strategy_run_id a = None \<or> att_final_strategy_key a = None)
      then Inl (ValueError ''finalization disposition requires final strategy run and key evidence'')
      else Inr ())"

text \<open>The checks on the fields in their order, then those of the status.\<close>

definition validate_attempt_references :: "scan_attempt \<Rightarrow> exn + unit" where
  "validate_attempt_references a =
     (if att_recovery_of_attempt_id a = Some (att_scan_attempt_id a)
      then Inl (ValueError ''recovery_of_attempt_id cannot reference this attempt'')
      else if att_duplicate_of_attempt_id a = Some (att_scan_attempt_id a)
      then Inl (ValueError ''duplicate_of_attempt_id cannot reference this attempt'')
      else Inr ())"

definition scan_attempt_post_init :: "scan_attempt \<Rightarrow> exn + scan_attempt" where
  "scan_attempt_post_init a =
     (if att_attempt_number a < 1 then Inl (ValueError ''attempt_number must be positive'')
      else
        bindE (require_sha256_hash (att_configuration_snapshot_hash a) ''configuration_snapshot_hash'') (\<lambda>_.
        if (att_configuration_snapshot_id a = None) \<noteq> (att_configuration_snapshot_created_at a = None)
        then Inl (ValueError ''configuration_snapshot_id and configuration_snapshot_created_at must be supplied together'')
        else
        bindE (when_supplied (att_configuration_snapshot_created_at a)
                 (\<lambda>t. require_timezone_aware t ''configuration_snapshot_created_at'')) (\<lambda>_.
        bindE (when_supplied (att_market_data_snapshot_id a) (\<lambda>i.
                 if is_blank i
                 then Inl (ValueError ''market_data_snapshot_id must not be blank when supplied'') else Inr ())) (\<lambda>_.
        if (att_market_data_snapshot_id a = None) \<noteq> (att_market_data_content_hash a = None)
        then Inl (ValueError ''market_data_snapshot_id and market_data_content_hash must be supplied together'')
        else
        bindE (when_supplied (att_market_data_content_hash a)
                 (\<lambda>h. require_sha256_hash h ''market_data_content_hash'')) (\<lambda>_.
        if (att_final_strategy_key a = None) \<noteq> (att_final_strategy_identity_format_version a = None)
        then Inl (ValueError ''final_strategy_key and final_strategy_identity_format_version must be supplied together'')
        else
        bindE (when_supplied (att_final_strategy_key a) (\<lambda>k. require_sha256_hash k ''final_strategy_key'')) (\<lambda>_.
        bindE (when_supplied (att_final_strategy_identity_format_version a) (\<lambda>v.
                 if v = [] \<or> py_len v > 16
                 then Inl (ValueError ''final_strategy_identity_format_version must be non-blank'') else Inr ())) (\<lambda>_.
        bindE (require_bounded_text (att_trigger_correlation_id a) ''trigger_correlation_id'' 256) (\<lambda>_.
        bindE (require_bounded_text (att_actor_correlation_id a) ''actor_correlation_id'' 256) (\<lambda>_.
        bindE (require_timezone_aware (att_started_at a) ''started_at'') (\<lambda>_.
        bindE (when_supplied (att_completed_at a) (\<lambda>t.
                 bindE (require_timezone_aware t ''completed_at'') (\<lambda>_.
                 if instant t < instant (att_started_at a)
                 then Inl (ValueError ''attempt completed_at cannot be before started_at'') else Inr ()))) (\<lambda>_.
        bindE (when_supplied (att_failure_code a) (\<lambda>c. require_bounded_text c ''failure_code'' 64)) (\<lambda>_.
        bindE (when_supplied (att_failure_detail a) (\<lambda>c. require_bounded_text c ''failure_detail'' 1024)) (\<lambda>_.
        bindE (validate_attempt_references a) (\<lambda>_.
        bindE (validate_status_evidence a) (\<lambda>_. Inr a)))))))))))))))"

fun recovery_decision_of :: "scan_attempt_status \<Rightarrow> recovery_decision" where
  "recovery_decision_of ATTEMPT_RUNNING = RESUME"
| "recovery_decision_of ATTEMPT_FAILED = RETRY"
| "recovery_decision_of ATTEMPT_DEGRADED = RETRY"
| "recovery_decision_of ATTEMPT_SUCCEEDED = FINALIZE"

definition attempt_configuration_snapshot :: "scan_attempt \<Rightarrow> exn + configuration_snapshot_ref option" where
  "attempt_configuration_snapshot a =
     (case att_configuration_snapshot_id a of
        None \<Rightarrow> Inr None
      | Some i \<Rightarrow>
          (case att_configuration_snapshot_created_at a of
             None \<Rightarrow> Inl (AssertionError [])
           | Some t \<Rightarrow>
               bindE (configuration_snapshot_ref_post_init
                 \<lparr>cfg_snapshot_id = i, cfg_content_hash = att_configuration_snapshot_hash a, cfg_created_at = t\<rparr>)
                 (\<lambda>c. Inr (Some c))))"

subsection \<open>The append rule of an attempt chain\<close>

text \<open>\<open>max(..., key=attempt_number)\<close>: the first of the attempts with the greatest number.\<close>

fun max_attempt :: "scan_attempt \<Rightarrow> scan_attempt list \<Rightarrow> scan_attempt" where
  "max_attempt best [] = best"
| "max_attempt best (a # as) =
     max_attempt (if att_attempt_number best < att_attempt_number a then a else best) as"

definition validate_scan_attempt_append :: "scan_attempt list \<Rightarrow> scan_attempt \<Rightarrow> exn + unit" where
  "validate_scan_attempt_append existing candidate =
     (case existing of
        [] \<Rightarrow>
          if att_attempt_number candidate \<noteq> 1
          then Inl (ValueError ''the first scan attempt must be numbered one'')
          else if att_recovery_of_attempt_id candidate \<noteq> None
          then Inl (ValueError ''the first scan attempt cannot recover another attempt'')
          else Inr ()
      | a # as \<Rightarrow>
          let previous = max_attempt a as in
          if att_attempt_number candidate \<noteq> att_attempt_number previous + 1
          then Inl (ValueError ''scan attempt numbers must be sequential'')
          else if list_ex (\<lambda>a. att_status a = ATTEMPT_SUCCEEDED) existing then
            if att_final_strategy_run_id candidate \<noteq> None \<or>
               att_duplicate_of_attempt_id candidate \<noteq> None \<and> att_recovery_of_attempt_id candidate = None
            then Inr ()
            else Inl (ValueError ''succeeded scan attempts cannot accept new work'')
          else if att_recovery_of_attempt_id candidate \<noteq> Some (att_scan_attempt_id previous)
          then Inl (ValueError ''scan attempt recovery must reference the previous attempt'')
          else if recovery_decision_of (att_status previous) \<notin> {RESUME, RETRY}
          then Inl (ValueError ''previous scan attempt is not recoverable'')
          else Inr ())"

end
