(* ===== verification/Stores.thy ===== *)
theory Stores
  imports Effects RunEntities StateMachine "HOL-Library.AList"
begin

text \<open>
  The in-memory repositories and lock provider of \<open>app/persistence/in_memory.py\<close>.

  The adapters are wired together (the strategy-run adapter shares its relations with the scan and the
  child-intent adapters), so their dictionaries are the fields of one record, and the owner table every adapter
  is built with is one field.  An operation is an \<open>op\<close> on that record: it raises before it writes.  \<open>uuid4\<close> draws
  from a stream \<open>fresh\<close> whose position is part of the state; the thread locks only make operations atomic,
  which a step of the model is.
\<close>

record stores =
  st_portfolio_owners :: "uuid \<Rightarrow> uuid option"
  st_candidate_group_owners :: "uuid \<Rightarrow> uuid option"
  st_position_portfolios :: "uuid \<Rightarrow> uuid option"
  st_instruments :: "uuid \<Rightarrow> instrument option"
  st_positions :: "(uuid \<times> position) list"
  st_records :: "uuid \<Rightarrow> recommendation_state_record option"
  st_plans :: "uuid \<Rightarrow> rotation_plan option"
  st_scans_by_id :: "uuid \<Rightarrow> logical_scan_run option"
  st_scans_by_key :: "string \<Rightarrow> logical_scan_run option"
  st_attempts_by_scan :: "uuid \<Rightarrow> scan_attempt list option"
  st_runs_by_key :: "uuid \<times> string \<Rightarrow> strategy_run option"
  st_runs_by_id :: "uuid \<Rightarrow> strategy_run option"
  st_logical_scan_by_key :: "uuid \<times> string \<Rightarrow> uuid option option"
  st_runs_by_logical_scan :: "uuid \<Rightarrow> strategy_run option"
  st_intents_by_key :: "string \<Rightarrow> child_intent option"
  st_intent_keys_by_run :: "uuid \<Rightarrow> string list option"
  st_leases :: "string \<Rightarrow> lock_lease option"
  st_lease_portfolios :: "uuid \<Rightarrow> uuid option"
  st_lease_keys :: "uuid \<Rightarrow> string option"
  st_uuids_drawn :: nat

type_synonym 'a store_op = "(stores, exn, 'a) op"

text \<open>\<open>dict[key]\<close> whose \<open>KeyError\<close> becomes a domain error.\<close>

definition found :: "'a option \<Rightarrow> string \<Rightarrow> exn + 'a" where
  "found x message = (case x of None \<Rightarrow> Inl (NotFoundForActor message) | Some v \<Rightarrow> Inr v)"

lemma found_Inr [exc_simps]: "found x m = Inr v \<longleftrightarrow> x = Some v"
  by (auto simp: found_def split: option.splits)

subsection \<open>Portfolio scope\<close>

definition portfolio_owner :: "stores \<Rightarrow> uuid \<Rightarrow> exn + uuid" where
  "portfolio_owner s portfolio_id = found (st_portfolio_owners s portfolio_id) ''portfolio was not found for actor''"

definition require_portfolio_read :: "stores \<Rightarrow> uuid \<Rightarrow> access_context \<Rightarrow> exn + uuid" where
  "require_portfolio_read s portfolio_id access =
     bindE (portfolio_owner s portfolio_id) (\<lambda>owner_id.
     bindE (require_read access (Ownership PORTFOLIO (Some portfolio_id)) (Some owner_id)) (\<lambda>_. Inr owner_id))"

definition require_portfolio_mutation :: "stores \<Rightarrow> uuid \<Rightarrow> access_context \<Rightarrow> exn + uuid" where
  "require_portfolio_mutation s portfolio_id access =
     bindE (portfolio_owner s portfolio_id) (\<lambda>owner_id.
     bindE (require_mutation access (Ownership PORTFOLIO (Some portfolio_id)) (Some owner_id)) (\<lambda>_. Inr owner_id))"

subsection \<open>Instruments and positions\<close>

definition add_instrument :: "instrument \<Rightarrow> access_context \<Rightarrow> unit store_op" where
  "add_instrument i access = updateS (\<lambda>s.
     bindE (require_mutation access (instrument_ownership i) None) (\<lambda>_.
     Inr ((), s\<lparr>st_instruments := (st_instruments s)(ins_instrument_id i \<mapsto> i)\<rparr>)))"

definition get_instrument :: "uuid \<Rightarrow> access_context \<Rightarrow> instrument store_op" where
  "get_instrument i access = readS (\<lambda>s.
     bindE (found (st_instruments s i) ''instrument was not found for actor'') (\<lambda>instrument.
     bindE (require_read access (instrument_ownership instrument) None) (\<lambda>_. Inr instrument)))"

definition add_position :: "position \<Rightarrow> access_context \<Rightarrow> unit store_op" where
  "add_position p access = updateS (\<lambda>s.
     bindE (require_portfolio_mutation s (pos_portfolio_id p) access) (\<lambda>_.
     if pos_status p = OPEN \<and>
        list_ex (\<lambda>(_, stored). pos_status stored = OPEN \<and> pos_portfolio_id stored = pos_portfolio_id p \<and>
                   pos_instrument stored = pos_instrument p \<and> pos_position_id stored \<noteq> pos_position_id p)
          (st_positions s)
     then Inl (PositionAlreadyOpenError ''only one OPEN position is allowed for a portfolio/instrument pair'')
     else Inr ((), s\<lparr>st_positions := AList.update (pos_position_id p) p (st_positions s)\<rparr>)))"

definition get_position :: "uuid \<Rightarrow> access_context \<Rightarrow> position store_op" where
  "get_position i access = readS (\<lambda>s.
     bindE (found (map_of (st_positions s) i) ''position was not found for actor'') (\<lambda>p.
     bindE (require_portfolio_read s (pos_portfolio_id p) access) (\<lambda>_. Inr p)))"

definition list_positions :: "uuid \<Rightarrow> access_context \<Rightarrow> position list store_op" where
  "list_positions portfolio_id access = readS (\<lambda>s.
     bindE (require_portfolio_read s portfolio_id access) (\<lambda>_.
     Inr (filter (\<lambda>p. pos_portfolio_id p = portfolio_id) (map snd (st_positions s)))))"

subsection \<open>Recommendation states\<close>

text \<open>The constructor with the defaults of its optional fields.\<close>

definition initial_record :: "rotation_plan \<Rightarrow> datetime \<Rightarrow> recommendation_state_record" where
  "initial_record plan created_at =
     \<lparr>rec_rotation_plan_id = plan_rotation_plan_id plan, rec_portfolio_id = plan_portfolio_id plan,
      rec_state = IDLE, rec_remaining_stages_halted = False, rec_revision = 0, rec_updated_at = created_at,
      rec_finalization_strategy_run_id = None, rec_finalization_strategy_key = None,
      rec_legacy_claim_status = NOT_APPLICABLE, rec_legacy_strategy_run_id = None,
      rec_legacy_strategy_key = None\<rparr>"

definition state_get_or_create ::
    "rotation_plan \<Rightarrow> datetime \<Rightarrow> access_context \<Rightarrow> recommendation_state_record store_op" where
  "state_get_or_create plan created_at access = updateS (\<lambda>s.
     bindE (require_portfolio_mutation s (plan_portfolio_id plan) access) (\<lambda>_.
     case st_records s (plan_rotation_plan_id plan) of
       Some existing \<Rightarrow>
         if rec_portfolio_id existing \<noteq> plan_portfolio_id plan
         then Inl (ValueError ''recommendation state plan portfolio does not match'')
         else Inr (existing, s)
     | None \<Rightarrow>
         bindE (recommendation_state_record_post_init (initial_record plan created_at)) (\<lambda>r.
         Inr (r, s\<lparr>st_records := (st_records s)(plan_rotation_plan_id plan \<mapsto> r)\<rparr>))))"

definition state_get :: "uuid \<Rightarrow> access_context \<Rightarrow> recommendation_state_record store_op" where
  "state_get rotation_plan_id access = readS (\<lambda>s.
     bindE (found (st_records s rotation_plan_id) ''recommendation state was not found for actor'') (\<lambda>r.
     bindE (require_portfolio_read s (rec_portfolio_id r) access) (\<lambda>_. Inr r)))"

definition state_record_transition ::
    "rotation_plan \<Rightarrow> recommendation_state_record \<Rightarrow> recommendation_state \<Rightarrow> bool \<Rightarrow> datetime \<Rightarrow> access_context \<Rightarrow>
     uuid option \<Rightarrow> string option \<Rightarrow> recommendation_state_record store_op" where
  "state_record_transition plan previous next_state remaining_stages_halted changed_at access run_id key =
     updateS (\<lambda>s.
     bindE (require_portfolio_mutation s (plan_portfolio_id plan) access) (\<lambda>_.
     bindE (found (st_records s (plan_rotation_plan_id plan)) ''recommendation state was not found for actor'') (\<lambda>stored.
     if previous \<noteq> stored
     then Inl (IdempotencyConflictError ''recommendation state changed before transition could persist'')
     else if rec_portfolio_id previous \<noteq> plan_portfolio_id plan
     then Inl (ValueError ''recommendation state plan portfolio does not match'')
     else
       bindE (recommendation_state_record_post_init
         \<lparr>rec_rotation_plan_id = plan_rotation_plan_id plan, rec_portfolio_id = plan_portfolio_id plan,
          rec_state = next_state, rec_remaining_stages_halted = remaining_stages_halted,
          rec_revision = rec_revision previous + 1, rec_updated_at = changed_at,
          rec_finalization_strategy_run_id = run_id, rec_finalization_strategy_key = key,
          rec_legacy_claim_status = rec_legacy_claim_status stored,
          rec_legacy_strategy_run_id = rec_legacy_strategy_run_id stored,
          rec_legacy_strategy_key = rec_legacy_strategy_key stored\<rparr>) (\<lambda>updated.
       Inr (updated, s\<lparr>st_records := (st_records s)(plan_rotation_plan_id plan \<mapsto> updated)\<rparr>)))))"

subsection \<open>Rotation plans\<close>

definition add_plan :: "rotation_plan \<Rightarrow> access_context \<Rightarrow> unit store_op" where
  "add_plan plan access = updateS (\<lambda>s.
     bindE (require_portfolio_mutation s (plan_portfolio_id plan) access) (\<lambda>plan_owner_id.
     if list_ex (\<lambda>g. st_candidate_group_owners s g \<noteq> Some plan_owner_id) (plan_candidate_group_ids plan)
     then Inl (PlanReferenceUnauthorizedError ''candidate group belongs to another user or is unavailable'')
     else if list_ex (\<lambda>p. st_position_portfolios s p \<noteq> Some (plan_portfolio_id plan))
               (plan_source_position_ids plan @ plan_protected_position_ids plan)
     then Inl (PlanReferenceUnauthorizedError ''position belongs to another portfolio or is unavailable'')
     else Inr ((), s\<lparr>st_plans := (st_plans s)(plan_rotation_plan_id plan \<mapsto> plan)\<rparr>)))"

definition get_plan :: "uuid \<Rightarrow> access_context \<Rightarrow> rotation_plan store_op" where
  "get_plan rotation_plan_id access = readS (\<lambda>s.
     bindE (found (st_plans s rotation_plan_id) ''rotation plan was not found for actor'') (\<lambda>plan.
     bindE (require_portfolio_read s (plan_portfolio_id plan) access) (\<lambda>_. Inr plan)))"

subsection \<open>Logical scans\<close>

definition draw_uuid :: "(nat \<Rightarrow> uuid) \<Rightarrow> uuid store_op" where
  "draw_uuid fresh = updateS (\<lambda>s. Inr (fresh (st_uuids_drawn s), s\<lparr>st_uuids_drawn := Suc (st_uuids_drawn s)\<rparr>))"

definition scan_matches_request :: "platform \<Rightarrow> logical_scan_run \<Rightarrow> scan_lock_request \<Rightarrow> exn + bool" where
  "scan_matches_request pl scan request =
     (if sc_rotation_plan_id scan \<noteq> plan_rotation_plan_id (sl_plan request) \<or>
         sc_portfolio_id scan \<noteq> plan_portfolio_id (sl_plan request) then Inr False
      else
        bindE (logical_scan_identity pl scan) (\<lambda>i.
        bindE (scan_lock_identity pl request) (\<lambda>j.
        if i \<noteq> j then Inr False
        else bindE (scan_lock_key pl request) (\<lambda>key. Inr (sc_scan_lock_key scan = key)))))"

definition require_scan_match :: "platform \<Rightarrow> logical_scan_run \<Rightarrow> scan_lock_request \<Rightarrow> exn + logical_scan_run" where
  "require_scan_match pl scan request =
     bindE (scan_matches_request pl scan request) (\<lambda>ok.
     if ok then Inr scan
     else Inl (ValueError ''scan lock key resolves to different scan identity components''))"

definition get_scan :: "uuid \<Rightarrow> access_context \<Rightarrow> stores \<Rightarrow> exn + logical_scan_run" where
  "get_scan i access s =
     bindE (found (st_scans_by_id s i) ''logical scan was not found for actor'') (\<lambda>scan.
     bindE (require_portfolio_read s (sc_portfolio_id scan) access) (\<lambda>_. Inr scan))"

text \<open>What \<open>create_or_recover\<close> finds before it creates: the recorded scan of the key.\<close>

definition scan_lookup ::
    "platform \<Rightarrow> scan_lock_request \<Rightarrow> stores \<Rightarrow> exn + logical_scan_run option" where
  "scan_lookup pl request s =
     bindE (scan_lock_key pl request) (\<lambda>key.
     case st_scans_by_key s key of
       None \<Rightarrow> Inr None
     | Some scan \<Rightarrow> bindE (require_scan_match pl scan request) (\<lambda>scan. Inr (Some scan)))"

definition create_scan ::
    "platform \<Rightarrow> scan_lock_request \<Rightarrow> datetime \<Rightarrow> uuid \<Rightarrow> logical_scan_run store_op" where
  "create_scan pl request created_at i = updateS (\<lambda>s.
     bindE (scan_lock_identity pl request) (\<lambda>identity.
     bindE (scan_lock_key pl request) (\<lambda>key.
     bindE (logical_scan_run_post_init pl
       \<lparr>sc_logical_scan_run_id = i, sc_rotation_plan_id = plan_rotation_plan_id (sl_plan request),
        sc_portfolio_id = plan_portfolio_id (sl_plan request),
        sc_market_session_date = sl_market_session_date request,
        sc_scan_window_start = sl_scan_window_start request, sc_scan_interval = sl_scan_interval request,
        sc_market_timezone = si_market_timezone identity,
        sc_configuration_snapshot_hash = si_configuration_snapshot_hash identity,
        sc_scan_identity_format_version = si_format_version identity, sc_scan_lock_key = key,
        sc_status = SCAN_RUNNING, sc_created_at = created_at, sc_completed_at = None,
        sc_final_strategy_run_id = None\<rparr>) (\<lambda>scan.
     Inr (scan, s\<lparr>st_scans_by_id := (st_scans_by_id s)(sc_logical_scan_run_id scan \<mapsto> scan),
                  st_scans_by_key := (st_scans_by_key s)(sc_scan_lock_key scan \<mapsto> scan),
                  st_attempts_by_scan := (st_attempts_by_scan s)(sc_logical_scan_run_id scan \<mapsto> [])\<rparr>)))))"

definition create_or_recover ::
    "platform \<Rightarrow> (nat \<Rightarrow> uuid) \<Rightarrow> scan_lock_request \<Rightarrow> datetime \<Rightarrow> access_context \<Rightarrow> logical_scan_run store_op" where
  "create_or_recover pl fresh request created_at access =
     bindS (readS (\<lambda>s. require_portfolio_mutation s (plan_portfolio_id (sl_plan request)) access)) (\<lambda>_.
     bindS (readS (scan_lookup pl request)) (\<lambda>existing.
     case existing of
       Some scan \<Rightarrow> returnS scan
     | None \<Rightarrow> bindS (draw_uuid fresh) (create_scan pl request created_at)))"

definition get_by_lock_key ::
    "platform \<Rightarrow> scan_lock_request \<Rightarrow> access_context \<Rightarrow> logical_scan_run option store_op" where
  "get_by_lock_key pl request access =
     bindS (readS (\<lambda>s. require_portfolio_read s (plan_portfolio_id (sl_plan request)) access)) (\<lambda>_.
     readS (scan_lookup pl request))"

text \<open>\<open>_validate_attempt_references\<close>.\<close>

definition validate_stored_references ::
    "stores \<Rightarrow> logical_scan_run \<Rightarrow> scan_attempt \<Rightarrow> scan_attempt list \<Rightarrow> exn + unit" where
  "validate_stored_references s scan attempt existing =
     (if (case att_recovery_of_attempt_id attempt of
            None \<Rightarrow> False | Some i \<Rightarrow> i \<notin> set (map att_scan_attempt_id existing))
      then Inl (ValueError ''scan attempt recovery reference must exist in the same logical scan'')
      else
        bindE (case att_duplicate_of_attempt_id attempt of
                 None \<Rightarrow> Inr ()
               | Some i \<Rightarrow>
                   (case find (\<lambda>a. att_scan_attempt_id a = i) existing of
                      None \<Rightarrow> Inl (ValueError ''scan attempt duplicate reference must exist in the same logical scan'')
                    | Some original \<Rightarrow>
                        if att_status original \<noteq> ATTEMPT_SUCCEEDED
                        then Inl (ValueError ''scan attempt duplicate reference must target a succeeded attempt'')
                        else Inr ())) (\<lambda>_.
        case att_final_strategy_run_id attempt of
          None \<Rightarrow> Inr ()
        | Some final_run \<Rightarrow>
            if map_option run_strategy_run_id (st_runs_by_logical_scan s (sc_logical_scan_run_id scan)) \<noteq> Some final_run \<or>
               sc_status scan = SCAN_COMPLETED \<and> sc_final_strategy_run_id scan \<noteq> Some final_run
            then Inl (ValueError ''final strategy run reference must be the scan's actual final run'')
            else Inr ()))"

text \<open>The list of a scan that is in the store; the code indexes the dictionary.\<close>

definition attempts_of :: "stores \<Rightarrow> uuid \<Rightarrow> exn + scan_attempt list" where
  "attempts_of s i = (case st_attempts_by_scan s i of None \<Rightarrow> Inl (KeyError []) | Some as \<Rightarrow> Inr as)"

definition record_attempt :: "scan_attempt \<Rightarrow> access_context \<Rightarrow> unit store_op" where
  "record_attempt attempt access = updateS (\<lambda>s.
     bindE (get_scan (att_logical_scan_run_id attempt) access s) (\<lambda>scan.
     bindE (require_portfolio_mutation s (sc_portfolio_id scan) access) (\<lambda>_.
     bindE (attempts_of s (sc_logical_scan_run_id scan)) (\<lambda>attempts.
     if list_ex (\<lambda>a. att_attempt_number a = att_attempt_number attempt) attempts
     then Inl (ValueError ''logical scan attempt_number must be unique'')
     else
       bindE (validate_stored_references s scan attempt attempts) (\<lambda>_.
       if sc_status scan = SCAN_COMPLETED \<and> att_final_strategy_run_id attempt = None
       then Inl (LogicalScanAlreadyCompletedError ''completed logical scans can record only final strategy run evidence'')
       else
         bindE (validate_scan_attempt_append attempts attempt) (\<lambda>_.
         Inr ((), s\<lparr>st_attempts_by_scan :=
                      (st_attempts_by_scan s)(sc_logical_scan_run_id scan \<mapsto> attempts @ [attempt])\<rparr>)))))))"

definition list_attempts :: "uuid \<Rightarrow> access_context \<Rightarrow> scan_attempt list store_op" where
  "list_attempts i access = readS (\<lambda>s.
     bindE (get_scan i access s) (\<lambda>_.
     bindE (attempts_of s i) (\<lambda>attempts. Inr (sort_key att_attempt_number attempts))))"

definition attach_final_strategy_run ::
    "platform \<Rightarrow> uuid \<Rightarrow> rotation_plan \<Rightarrow> uuid \<Rightarrow> datetime \<Rightarrow> access_context \<Rightarrow> logical_scan_run store_op" where
  "attach_final_strategy_run pl i plan strategy_run_id completed_at access = updateS (\<lambda>s.
     bindE (get_scan i access s) (\<lambda>scan.
     bindE (require_portfolio_mutation s (sc_portfolio_id scan) access) (\<lambda>_.
     if sc_rotation_plan_id scan \<noteq> plan_rotation_plan_id plan \<or> sc_portfolio_id scan \<noteq> plan_portfolio_id plan
     then Inl (ValueError ''logical scan must belong to the supplied rotation plan'')
     else if sc_status scan = SCAN_COMPLETED
     then Inl (LogicalScanAlreadyCompletedError ''logical scan already has a final strategy run'')
     else if map_option run_strategy_run_id (st_runs_by_logical_scan s i) \<noteq> Some strategy_run_id
     then Inl (ValueError ''logical scan final strategy run was not persisted'')
     else
       bindE (attempts_of s i) (\<lambda>attempts.
       if \<not> list_ex (\<lambda>a. att_status a = ATTEMPT_SUCCEEDED \<and> att_final_strategy_run_id a = Some strategy_run_id) attempts
       then Inl (ValueError ''logical scan requires durable final success evidence before completion'')
       else
         bindE (logical_scan_run_post_init pl
           (scan\<lparr>sc_status := SCAN_COMPLETED, sc_completed_at := Some completed_at,
                 sc_final_strategy_run_id := Some strategy_run_id\<rparr>)) (\<lambda>completed.
         Inr (completed, s\<lparr>st_scans_by_id := (st_scans_by_id s)(i \<mapsto> completed),
                           st_scans_by_key := (st_scans_by_key s)(sc_scan_lock_key completed \<mapsto> completed)\<rparr>))))))"

subsection \<open>Strategy runs\<close>

definition run_record_or_get ::
    "rotation_plan \<Rightarrow> strategy_run \<Rightarrow> idempotency_key \<Rightarrow> uuid option \<Rightarrow> access_context \<Rightarrow> strategy_run store_op" where
  "run_record_or_get plan run idempotency_key scan_id access = updateS (\<lambda>s.
     bindE (require_portfolio_mutation s (plan_portfolio_id plan) access) (\<lambda>_.
     if run_rotation_plan_id run \<noteq> plan_rotation_plan_id plan \<or> run_portfolio_id run \<noteq> plan_portfolio_id plan
     then Inl (ValueError ''strategy run must belong to the supplied rotation plan'')
     else
       let key = (plan_rotation_plan_id plan, ikey_value idempotency_key) in
       (case st_runs_by_key s key of
          Some existing \<Rightarrow>
            (case st_logical_scan_by_key s key of
               None \<Rightarrow> Inl (KeyError [])
             | Some stored_scan \<Rightarrow>
                 bindE (require_exact_strategy_run_retry existing run stored_scan scan_id) (\<lambda>_. Inr (existing, s)))
        | None \<Rightarrow>
            bindE (case scan_id of
                     None \<Rightarrow> Inr ()
                   | Some i \<Rightarrow>
                       bindE (get_scan i access s) (\<lambda>scan.
                       if sc_rotation_plan_id scan \<noteq> plan_rotation_plan_id plan \<or>
                          sc_portfolio_id scan \<noteq> plan_portfolio_id plan
                       then Inl (ValueError ''logical scan must belong to the supplied rotation plan'')
                       else if st_runs_by_logical_scan s i \<noteq> None
                       then Inl (LogicalScanAlreadyCompletedError ''logical scan already has a final strategy run'')
                       else Inr ())) (\<lambda>_.
            Inr (run, s\<lparr>st_runs_by_key := (st_runs_by_key s)(key \<mapsto> run),
                        st_runs_by_id := (st_runs_by_id s)(run_strategy_run_id run \<mapsto> run),
                        st_logical_scan_by_key := (st_logical_scan_by_key s)(key \<mapsto> scan_id),
                        st_runs_by_logical_scan :=
                          (case scan_id of None \<Rightarrow> st_runs_by_logical_scan s
                           | Some i \<Rightarrow> (st_runs_by_logical_scan s)(i \<mapsto> run))\<rparr>)))))"

definition run_get_for_logical_scan :: "uuid \<Rightarrow> access_context \<Rightarrow> strategy_run option store_op" where
  "run_get_for_logical_scan i access = readS (\<lambda>s.
     bindE (get_scan i access s) (\<lambda>scan.
     bindE (require_portfolio_read s (sc_portfolio_id scan) access) (\<lambda>_. Inr (st_runs_by_logical_scan s i))))"

subsection \<open>Child intents\<close>

definition final_strategy_key_from_run :: "strategy_run \<Rightarrow> string option" where
  "final_strategy_key_from_run run =
     (case dict_get (run_outputs run) ''idempotency'' of
        Some (PyDict kvs) \<Rightarrow> (case map_of kvs ''final_strategy_key'' of Some (PyStr k) \<Rightarrow> Some k | _ \<Rightarrow> None)
      | _ \<Rightarrow> None)"

definition intent_record_or_get :: "child_intent \<Rightarrow> access_context \<Rightarrow> child_intent store_op" where
  "intent_record_or_get intent access = updateS (\<lambda>s.
     bindE (require_portfolio_mutation s (ci_portfolio_id intent) access) (\<lambda>_.
     case st_runs_by_id s (ci_strategy_run_id intent) of
       None \<Rightarrow> Inl (ValueError ''child intent references a missing strategy run'')
     | Some run \<Rightarrow>
         if run_rotation_plan_id run \<noteq> ci_rotation_plan_id intent \<or> run_portfolio_id run \<noteq> ci_portfolio_id intent
         then Inl (ValueError ''child intent strategy run does not match its plan scope'')
         else if final_strategy_key_from_run run \<noteq> Some (ci_final_strategy_key intent)
         then Inl (ValueError ''child intent final strategy key does not match strategy run'')
         else (case st_intents_by_key s (ci_intent_key intent) of
             Some existing \<Rightarrow>
               bindE (require_portfolio_read s (ci_portfolio_id existing) access) (\<lambda>_.
               if \<not> same_logical_child_intent existing intent
               then Inl (IdempotencyConflictError ''child intent key already records different evidence'')
               else Inr (existing, s))
           | None \<Rightarrow>
               let keys = (case st_intent_keys_by_run s (ci_strategy_run_id intent) of None \<Rightarrow> [] | Some ks \<Rightarrow> ks) in
               Inr (intent,
                 s\<lparr>st_intents_by_key := (st_intents_by_key s)(ci_intent_key intent \<mapsto> intent),
                   st_intent_keys_by_run :=
                     (st_intent_keys_by_run s)(ci_strategy_run_id intent \<mapsto> keys @ [ci_intent_key intent])\<rparr>))))"

definition get_intent :: "string \<Rightarrow> access_context \<Rightarrow> child_intent store_op" where
  "get_intent intent_key access = readS (\<lambda>s.
     bindE (found (st_intents_by_key s intent_key) ''child intent was not found for actor'') (\<lambda>intent.
     bindE (require_portfolio_read s (ci_portfolio_id intent) access) (\<lambda>_. Inr intent)))"

definition list_intents :: "uuid \<Rightarrow> access_context \<Rightarrow> child_intent list store_op" where
  "list_intents strategy_run_id access = readS (\<lambda>s.
     bindE (mapE (\<lambda>k. case st_intents_by_key s k of None \<Rightarrow> Inl (KeyError k) | Some intent \<Rightarrow> Inr intent)
              (case st_intent_keys_by_run s strategy_run_id of None \<Rightarrow> [] | Some ks \<Rightarrow> ks)) (\<lambda>intents.
     bindE (mapE (\<lambda>intent. require_portfolio_read s (ci_portfolio_id intent) access) intents) (\<lambda>_. Inr intents)))"

subsection \<open>Locks\<close>

definition lock_is_held :: "platform \<Rightarrow> scan_lock_request \<Rightarrow> access_context \<Rightarrow> stores \<Rightarrow> exn + (string \<times> bool)" where
  "lock_is_held pl request access s =
     bindE (require_portfolio_mutation s (plan_portfolio_id (sl_plan request)) access) (\<lambda>_.
     bindE (scan_lock_key pl request) (\<lambda>key. Inr (key, st_leases s key \<noteq> None)))"

definition acquire_scan_lock ::
    "platform \<Rightarrow> (nat \<Rightarrow> uuid) \<Rightarrow> scan_lock_request \<Rightarrow> access_context \<Rightarrow> lock_lease option store_op" where
  "acquire_scan_lock pl fresh request access =
     bindS (readS (lock_is_held pl request access)) (\<lambda>(key, held).
     if held then returnS None
     else
       bindS (draw_uuid fresh) (\<lambda>i. updateS (\<lambda>s.
         let lease = \<lparr>lease_id = i, lease_key = key\<rparr> in
         Inr (Some lease,
           s\<lparr>st_leases := (st_leases s)(key \<mapsto> lease),
             st_lease_portfolios := (st_lease_portfolios s)(i \<mapsto> plan_portfolio_id (sl_plan request)),
             st_lease_keys := (st_lease_keys s)(i \<mapsto> key)\<rparr>))))"

definition release_lock :: "lock_lease \<Rightarrow> access_context \<Rightarrow> unit store_op" where
  "release_lock lease access = updateS (\<lambda>s.
     case st_lease_portfolios s (lease_id lease) of
       None \<Rightarrow> Inr ((), s)
     | Some portfolio_id \<Rightarrow>
         bindE (require_portfolio_mutation s portfolio_id access) (\<lambda>_.
         case st_lease_keys s (lease_id lease) of
           None \<Rightarrow> Inl (KeyError [])
         | Some stored_key \<Rightarrow>
             if lease_key lease \<noteq> stored_key
             then Inl (ValueError ''lease key does not match the acquired lock'')
             else Inr ((), s\<lparr>st_leases := (st_leases s)(stored_key := None),
                             st_lease_portfolios := (st_lease_portfolios s)(lease_id lease := None),
                             st_lease_keys := (st_lease_keys s)(lease_id lease := None)\<rparr>)))"

end
