(* ===== verification/StoreProps.thy ===== *)
theory StoreProps
  imports Stores
begin

text \<open>
  What the in-memory store guarantees: the integrity of its relations, and the append-only order of its
  histories, each kept by every operation.
\<close>

subsection \<open>Attempt chains\<close>

text \<open>The attempts of a scan: numbered from one, each recovering its predecessor until one succeeded, after which only
  references to a final or an earlier result are appended.\<close>

inductive attempt_chain :: "uuid \<Rightarrow> scan_attempt list \<Rightarrow> bool" for i where
  chain_Nil: "attempt_chain i []"
| chain_first: "att_logical_scan_run_id a = i \<Longrightarrow> att_attempt_number a = 1 \<Longrightarrow> att_recovery_of_attempt_id a = None \<Longrightarrow>
     attempt_chain i [a]"
| chain_recovery: "attempt_chain i as \<Longrightarrow> as \<noteq> [] \<Longrightarrow> att_logical_scan_run_id a = i \<Longrightarrow>
     att_attempt_number a = int (length as) + 1 \<Longrightarrow>
     att_recovery_of_attempt_id a = Some (att_scan_attempt_id (last as)) \<Longrightarrow>
     list_all (\<lambda>b. att_status b \<noteq> ATTEMPT_SUCCEEDED) as \<Longrightarrow> attempt_chain i (as @ [a])"
| chain_result: "attempt_chain i as \<Longrightarrow> as \<noteq> [] \<Longrightarrow> att_logical_scan_run_id a = i \<Longrightarrow>
     att_attempt_number a = int (length as) + 1 \<Longrightarrow>
     list_ex (\<lambda>b. att_status b = ATTEMPT_SUCCEEDED) as \<Longrightarrow>
     att_final_strategy_run_id a \<noteq> None \<or> att_duplicate_of_attempt_id a \<noteq> None \<and> att_recovery_of_attempt_id a = None \<Longrightarrow>
     attempt_chain i (as @ [a])"

lemma chain_numbers: "attempt_chain i as \<Longrightarrow> map att_attempt_number as = map (\<lambda>k. int k + 1) [0..<length as]"
  by (induction rule: attempt_chain.induct) simp_all

lemma chain_last:
  assumes "attempt_chain i as" and "as \<noteq> []" shows "att_attempt_number (last as) = int (length as)"
proof -
  have "att_attempt_number (last as) = last (map att_attempt_number as)" using assms(2) by (simp add: last_map)
  also have "\<dots> = int (length as)" unfolding chain_numbers [OF assms(1)] using assms(2) by (cases as) (simp_all add: last_map)
  finally show ?thesis .
qed

lemma chain_sorted: "attempt_chain i as \<Longrightarrow> sort_key att_attempt_number as = as"
proof -
  assume "attempt_chain i as"
  from chain_numbers [OF this] have "sorted (map att_attempt_number as)"
    by (simp add: sorted_iff_nth_mono)
  then show ?thesis by (rule sort_key_id_if_sorted)
qed

lemma max_attempt_last:
  assumes "sorted_wrt (\<lambda>a b. att_attempt_number a < att_attempt_number b) (a # as)"
  shows "max_attempt a as = last (a # as)"
  using assms by (induction as arbitrary: a) auto

lemma chain_max:
  assumes "attempt_chain i (a # as)" shows "max_attempt a as = last (a # as)"
proof (rule max_attempt_last)
  have "sorted_wrt (<) (map att_attempt_number (a # as))"
    unfolding chain_numbers [OF assms] by (simp add: sorted_wrt_iff_nth_less del: upt_Suc)
  then show "sorted_wrt (\<lambda>a b. att_attempt_number a < att_attempt_number b) (a # as)"
    by (simp add: sorted_wrt_map)
qed

lemma chain_append:
  assumes chain: "attempt_chain i as" and "att_logical_scan_run_id c = i"
    and ok: "validate_scan_attempt_append as c = Inr ()"
  shows "attempt_chain i (as @ [c])"
proof (cases as)
  case Nil
  then show ?thesis using assms by (auto simp: validate_scan_attempt_append_def split: if_splits intro: chain_first)
next
  case (Cons a as')
  have last: "max_attempt a as' = last as" using chain_max chain Cons by simp
  have number: "att_attempt_number (last as) = int (length as)"
    using chain_last [OF chain] Cons by simp
  from ok have "att_attempt_number c = int (length as) + 1"
    and "if list_ex (\<lambda>a. att_status a = ATTEMPT_SUCCEEDED) as
         then att_final_strategy_run_id c \<noteq> None \<or> att_duplicate_of_attempt_id c \<noteq> None \<and> att_recovery_of_attempt_id c = None
         else att_recovery_of_attempt_id c = Some (att_scan_attempt_id (last as))"
    unfolding validate_scan_attempt_append_def Cons list.case Let_def last [unfolded Cons]
    using number Cons by (auto split: if_splits)
  note new = this
  have "as \<noteq> []" using Cons by simp
  have "list_all (\<lambda>a. att_status a \<noteq> ATTEMPT_SUCCEEDED) as \<longleftrightarrow> \<not> list_ex (\<lambda>a. att_status a = ATTEMPT_SUCCEEDED) as"
    by (simp add: list_ex_iff list_all_iff)
  then show ?thesis
    using new chain_result [OF chain \<open>as \<noteq> []\<close> assms(2)] chain_recovery [OF chain \<open>as \<noteq> []\<close> assms(2)]
    by (cases "list_ex (\<lambda>a. att_status a = ATTEMPT_SUCCEEDED) as") (simp_all only: if_True if_False simp_thms)
qed

subsection \<open>Integrity\<close>

definition drawn :: "(nat \<Rightarrow> uuid) \<Rightarrow> stores \<Rightarrow> uuid set" where
  "drawn fresh s = fresh ` {..<st_uuids_drawn s}"

lemma fresh_not_drawn: "inj fresh \<Longrightarrow> fresh (st_uuids_drawn s) \<notin> drawn fresh s"
  by (auto simp: drawn_def inj_eq)

text \<open>The scans are indexed consistently, their attempts form chains, and a completed scan has its run and the
  succeeded attempt that refers to it.\<close>

definition scans_ok :: "stores \<Rightarrow> bool" where
  "scans_ok s \<longleftrightarrow>
     (\<forall>i scan. st_scans_by_id s i = Some scan \<longrightarrow>
        sc_logical_scan_run_id scan = i \<and> st_scans_by_key s (sc_scan_lock_key scan) = Some scan) \<and>
     (\<forall>k scan. st_scans_by_key s k = Some scan \<longrightarrow>
        sc_scan_lock_key scan = k \<and> st_scans_by_id s (sc_logical_scan_run_id scan) = Some scan) \<and>
     (\<forall>i. (st_attempts_by_scan s i = None) = (st_scans_by_id s i = None)) \<and>
     (\<forall>i as. st_attempts_by_scan s i = Some as \<longrightarrow> attempt_chain i as)"

definition has_final_evidence :: "stores \<Rightarrow> logical_scan_run \<Rightarrow> bool" where
  "has_final_evidence s scan \<longleftrightarrow>
     (\<exists>run as. st_runs_by_logical_scan s (sc_logical_scan_run_id scan) = Some run \<and>
        sc_final_strategy_run_id scan = Some (run_strategy_run_id run) \<and>
        st_attempts_by_scan s (sc_logical_scan_run_id scan) = Some as \<and>
        (\<exists>a \<in> set as. att_status a = ATTEMPT_SUCCEEDED \<and>
                      att_final_strategy_run_id a = Some (run_strategy_run_id run)))"

definition completion_ok :: "stores \<Rightarrow> bool" where
  "completion_ok s \<longleftrightarrow>
     (\<forall>i scan. st_scans_by_id s i = Some scan \<longrightarrow> sc_status scan = SCAN_COMPLETED \<longrightarrow> has_final_evidence s scan)"

definition ids_ok :: "(nat \<Rightarrow> uuid) \<Rightarrow> stores \<Rightarrow> bool" where
  "ids_ok fresh s \<longleftrightarrow> inj fresh \<and> dom (st_scans_by_id s) \<subseteq> drawn fresh s \<and>
     dom (st_lease_portfolios s) \<subseteq> drawn fresh s \<and> dom (st_lease_keys s) \<subseteq> drawn fresh s"

definition runs_ok :: "stores \<Rightarrow> bool" where
  "runs_ok s \<longleftrightarrow> (\<forall>k. (st_logical_scan_by_key s k = None) = (st_runs_by_key s k = None))"

definition store_ok :: "(nat \<Rightarrow> uuid) \<Rightarrow> stores \<Rightarrow> bool" where
  "store_ok fresh s \<longleftrightarrow> ids_ok fresh s \<and> scans_ok s \<and> completion_ok s \<and> runs_ok s"

subsection \<open>The order of histories\<close>

definition scan_advances :: "logical_scan_run \<Rightarrow> logical_scan_run \<Rightarrow> bool" where
  "scan_advances a b \<longleftrightarrow>
     (if sc_status a = SCAN_COMPLETED then b = a
      else b = a \<or>
        (\<exists>t r. b = a\<lparr>sc_status := SCAN_COMPLETED, sc_completed_at := Some t, sc_final_strategy_run_id := Some r\<rparr>))"

definition record_advances :: "recommendation_state_record \<Rightarrow> recommendation_state_record \<Rightarrow> bool" where
  "record_advances a b \<longleftrightarrow> b = a \<or> rec_revision a < rec_revision b"

definition extends_by :: "('a \<Rightarrow> 'a \<Rightarrow> bool) \<Rightarrow> ('k \<Rightarrow> 'a option) \<Rightarrow> ('k \<Rightarrow> 'a option) \<Rightarrow> bool" where
  "extends_by R m m' \<longleftrightarrow> (\<forall>k x. m k = Some x \<longrightarrow> (\<exists>y. m' k = Some y \<and> R x y))"

text \<open>Only the holdings, the plans and the owners are left as they are; every other relation only grows.\<close>

definition history_extends :: "stores \<Rightarrow> stores \<Rightarrow> bool" where
  "history_extends s s' \<longleftrightarrow>
     st_portfolio_owners s' = st_portfolio_owners s \<and> st_instruments s' = st_instruments s \<and>
     st_positions s' = st_positions s \<and> st_plans s' = st_plans s \<and>
     st_uuids_drawn s \<le> st_uuids_drawn s' \<and>
     extends_by record_advances (st_records s) (st_records s') \<and>
     extends_by scan_advances (st_scans_by_id s) (st_scans_by_id s') \<and>
     extends_by (\<lambda>as bs. \<exists>cs. bs = as @ cs) (st_attempts_by_scan s) (st_attempts_by_scan s') \<and>
     st_runs_by_key s \<subseteq>\<^sub>m st_runs_by_key s' \<and> st_logical_scan_by_key s \<subseteq>\<^sub>m st_logical_scan_by_key s' \<and>
     st_runs_by_logical_scan s \<subseteq>\<^sub>m st_runs_by_logical_scan s' \<and> st_intents_by_key s \<subseteq>\<^sub>m st_intents_by_key s'"

lemma extends_by_refl: "(\<And>x. R x x) \<Longrightarrow> extends_by R m m"
  by (simp add: extends_by_def)

lemma extends_by_trans:
  "(\<And>x y z. R x y \<Longrightarrow> R y z \<Longrightarrow> R x z) \<Longrightarrow> extends_by R m m' \<Longrightarrow> extends_by R m' m'' \<Longrightarrow> extends_by R m m''"
  unfolding extends_by_def by meson

lemma extends_by_upd: "(\<And>x. R x x) \<Longrightarrow> (\<And>x. m k = Some x \<Longrightarrow> R x y) \<Longrightarrow> extends_by R m (m(k \<mapsto> y))"
  by (simp add: extends_by_def)

lemma scan_advances_refl [simp]: "scan_advances a a"
  by (simp add: scan_advances_def)

lemma record_advances_refl [simp]: "record_advances a a"
  by (simp add: record_advances_def)

lemma history_extends_refl: "history_extends s s"
  by (simp add: history_extends_def extends_by_refl)

lemma history_extends_trans: "history_extends s s' \<Longrightarrow> history_extends s' s'' \<Longrightarrow> history_extends s s''"
  unfolding history_extends_def
  by (intro conjI; elim conjE)
    (simp | erule (1) map_le_trans | (erule (1) extends_by_trans [rotated -2];
       fastforce simp: scan_advances_def record_advances_def split: if_splits))+

text \<open>An operation keeps the store intact and extends its history.\<close>

definition advances :: "(nat \<Rightarrow> uuid) \<Rightarrow> stores \<Rightarrow> stores \<Rightarrow> bool" where
  "advances fresh s s' \<longleftrightarrow> (store_ok fresh s \<longrightarrow> store_ok fresh s' \<and> history_extends s s')"

interpretation advances: evolution "advances fresh" for fresh
  by unfold_locales (auto simp: advances_def history_extends_refl intro: history_extends_trans)

lemma final_evidence_mono:
  assumes "history_extends s s'" and "has_final_evidence s scan" shows "has_final_evidence s' scan"
proof -
  from assms(2) obtain run as a where run: "st_runs_by_logical_scan s (sc_logical_scan_run_id scan) = Some run"
    "sc_final_strategy_run_id scan = Some (run_strategy_run_id run)"
    and as: "st_attempts_by_scan s (sc_logical_scan_run_id scan) = Some as" "a \<in> set as"
      "att_status a = ATTEMPT_SUCCEEDED" "att_final_strategy_run_id a = Some (run_strategy_run_id run)"
    by (auto simp: has_final_evidence_def)
  from assms(1) have "st_runs_by_logical_scan s \<subseteq>\<^sub>m st_runs_by_logical_scan s'"
    "extends_by (\<lambda>as bs. \<exists>cs. bs = as @ cs) (st_attempts_by_scan s) (st_attempts_by_scan s')"
    by (simp_all add: history_extends_def)
  with run(1) as(1) obtain cs where "st_runs_by_logical_scan s' (sc_logical_scan_run_id scan) = Some run"
    "st_attempts_by_scan s' (sc_logical_scan_run_id scan) = Some (as @ cs)"
    by (auto simp: extends_by_def map_le_def dom_def) metis
  with run(2) as show ?thesis unfolding has_final_evidence_def
    by (intro exI [of _ run] exI [of _ "as @ cs"]) auto
qed

subsection \<open>The operations\<close>

lemmas store_defs = store_ok_def ids_ok_def scans_ok_def completion_ok_def runs_ok_def has_final_evidence_def drawn_def

lemma state_get_or_create_advances: "evolves (advances fresh) (state_get_or_create plan t access)"
proof (unfold state_get_or_create_def, rule advances.update)
  fix s x s'
  assume run: "bindE (require_portfolio_mutation s (plan_portfolio_id plan) access) (\<lambda>_.
     case st_records s (plan_rotation_plan_id plan) of
       Some existing \<Rightarrow>
         if rec_portfolio_id existing \<noteq> plan_portfolio_id plan
         then Inl (ValueError ''recommendation state plan portfolio does not match'')
         else Inr (existing, s)
     | None \<Rightarrow>
         bindE (recommendation_state_record_post_init (initial_record plan t)) (\<lambda>r.
         Inr (r, s\<lparr>st_records := (st_records s)(plan_rotation_plan_id plan \<mapsto> r)\<rparr>))) = Inr (x, s')"
  show "advances fresh s s'"
  proof (cases "st_records s (plan_rotation_plan_id plan)")
    case None
    then obtain r where "s' = s\<lparr>st_records := (st_records s)(plan_rotation_plan_id plan \<mapsto> r)\<rparr>"
      using run by (auto simp: exc_simps)
    then show ?thesis using None
      by (auto simp: advances_def store_defs history_extends_def extends_by_refl intro!: extends_by_upd)
  next
    case (Some r)
    then have "s' = s" using run by (auto simp: exc_simps split: if_splits)
    then show ?thesis by (simp add: advances.refl)
  qed
qed

lemma recommendation_state_record_Inr: "recommendation_state_record_post_init r = Inr r' \<Longrightarrow> r' = r"
  by (auto simp: recommendation_state_record_post_init_def exc_simps split: if_splits)

lemma state_record_transition_advances:
  "evolves (advances fresh) (state_record_transition plan previous next1 halted t access run_id key)"
  unfolding state_record_transition_def
  by (rule advances.update)
    (auto simp: exc_simps advances_def store_defs history_extends_def extends_by_refl record_advances_def
      split: if_splits intro!: extends_by_upd dest!: recommendation_state_record_Inr)

lemma draw_uuid_advances: "evolves (advances fresh) (draw_uuid fresh)"
  unfolding draw_uuid_def
  by (rule advances.update)
    (auto simp: advances_def store_defs history_extends_def extends_by_refl lessThan_Suc)

lemma logical_scan_run_Inr: "logical_scan_run_post_init pl s = Inr s' \<Longrightarrow> s' = s"
  by (auto simp: logical_scan_run_post_init_def exc_simps split: if_splits logical_scan_status.splits option.splits)

lemma scan_lookup_None:
  "scan_lookup pl request s = Inr None \<Longrightarrow> scan_lock_key pl request = Inr k \<Longrightarrow> st_scans_by_key s k = None"
  by (auto simp: scan_lookup_def exc_simps split: option.splits)

lemma create_scan_result:
  assumes "create_scan pl request t i s = (r, s')"
  shows "s' = s \<and> (\<exists>e. r = Inl e) \<or>
    (\<exists>scan k. r = Inr scan \<and> scan_lock_key pl request = Inr k \<and> sc_logical_scan_run_id scan = i \<and>
       sc_scan_lock_key scan = k \<and> sc_status scan = SCAN_RUNNING \<and>
       s' = s\<lparr>st_scans_by_id := (st_scans_by_id s)(i \<mapsto> scan), st_scans_by_key := (st_scans_by_key s)(k \<mapsto> scan),
              st_attempts_by_scan := (st_attempts_by_scan s)(i \<mapsto> [])\<rparr>)"
  using assms unfolding create_scan_def updateS_def
  by (auto simp: exc_simps dest!: logical_scan_run_Inr split: sum.splits)

lemma create_or_recover_advances: "evolves (advances fresh) (create_or_recover pl fresh request t access)"
proof (rule evolvesI)
  fix s r s' assume run: "create_or_recover pl fresh request t access s = (r, s')"
  let ?i = "fresh (st_uuids_drawn s)" and ?d = "s\<lparr>st_uuids_drawn := Suc (st_uuids_drawn s)\<rparr>"
  have "s' = s \<or> scan_lookup pl request s = Inr None \<and> create_scan pl request t ?i ?d = (r, s')"
    using run
    by (auto simp: create_or_recover_def bindS_def readS_def returnS_def draw_uuid_def updateS_def
        split: sum.splits option.splits)
  then show "advances fresh s s'"
  proof
    assume "s' = s"
    then show ?thesis by (simp add: advances.refl)
  next
    assume new: "scan_lookup pl request s = Inr None \<and> create_scan pl request t ?i ?d = (r, s')"
    have drawn_adv: "advances fresh s ?d"
      using evolvesD [OF draw_uuid_advances] by (simp add: draw_uuid_def updateS_def)
    from create_scan_result [OF conjunct2 [OF new]] show ?thesis
    proof (elim disjE exE conjE)
      assume "s' = ?d"
      then show ?thesis using drawn_adv by simp
    next
      fix scan k assume scan: "scan_lock_key pl request = Inr k" "sc_logical_scan_run_id scan = ?i"
        "sc_scan_lock_key scan = k" "sc_status scan = SCAN_RUNNING"
        and s': "s' = ?d\<lparr>st_scans_by_id := (st_scans_by_id ?d)(?i \<mapsto> scan),
            st_scans_by_key := (st_scans_by_key ?d)(k \<mapsto> scan),
            st_attempts_by_scan := (st_attempts_by_scan ?d)(?i \<mapsto> [])\<rparr>"
      have k: "st_scans_by_key s k = None" using scan_lookup_None new scan(1) by blast
      show ?thesis unfolding advances_def
      proof (intro impI conjI)
        assume ok: "store_ok fresh s"
        then have i: "st_scans_by_id s ?i = None" "st_attempts_by_scan s ?i = None"
          using fresh_not_drawn [of fresh s] by (auto simp: store_ok_def ids_ok_def scans_ok_def)
        have "scans_ok s'" using ok k i scan unfolding s' store_ok_def scans_ok_def
          by (auto intro: chain_Nil split: if_splits) (metis option.distinct(1))+
        moreover have "completion_ok s'"
          using ok i scan unfolding s' store_ok_def completion_ok_def has_final_evidence_def scans_ok_def
          by (auto split: if_splits)
        moreover have "ids_ok fresh s'" "runs_ok s'" using drawn_adv ok unfolding s'
          by (auto simp: advances_def store_ok_def ids_ok_def runs_ok_def drawn_def lessThan_Suc)
        ultimately show "store_ok fresh s'" by (simp add: store_ok_def)
        show "history_extends s s'" using i unfolding s'
          by (auto simp: history_extends_def extends_by_refl intro!: extends_by_upd)
      qed
    qed
  qed
qed

lemma get_scan_Inr:
  "get_scan i access s = Inr scan \<Longrightarrow> st_scans_by_id s i = Some scan"
  by (auto simp: get_scan_def exc_simps)

lemma record_attempt_result:
  assumes "record_attempt a access s = (Inr u, s')"
  obtains scan as where "st_scans_by_id s (att_logical_scan_run_id a) = Some scan"
    "st_attempts_by_scan s (sc_logical_scan_run_id scan) = Some as" "validate_scan_attempt_append as a = Inr ()"
    "s' = s\<lparr>st_attempts_by_scan := (st_attempts_by_scan s)(sc_logical_scan_run_id scan \<mapsto> as @ [a])\<rparr>"
  using assms unfolding record_attempt_def
  by (auto simp: exc_simps attempts_of_def dest!: get_scan_Inr split: if_splits option.splits)

lemma updateS_Inl: "updateS f s = (Inl e, s') \<Longrightarrow> s' = s"
  by (auto simp: updateS_def split: sum.splits)

lemma evolves_updates:
  assumes "\<And>s. R s s" and "\<And>s x s'. updateS f s = (Inr x, s') \<Longrightarrow> R s s'"
  shows "evolves R (updateS f)"
  using assms by (auto intro!: evolves_updateI simp: updateS_Inr)

lemma record_attempt_advances: "evolves (advances fresh) (record_attempt a access)"
proof (unfold record_attempt_def, rule evolves_updates [OF advances.refl], fold record_attempt_def)
  fix s u s' assume "record_attempt a access s = (Inr u, s')"
  then obtain scan as where scan: "st_scans_by_id s (att_logical_scan_run_id a) = Some scan"
    "st_attempts_by_scan s (sc_logical_scan_run_id scan) = Some as" "validate_scan_attempt_append as a = Inr ()"
    and s': "s' = s\<lparr>st_attempts_by_scan := (st_attempts_by_scan s)(sc_logical_scan_run_id scan \<mapsto> as @ [a])\<rparr>"
    by (rule record_attempt_result)
  show "advances fresh s s'" unfolding advances_def
    proof (intro impI conjI)
      assume ok: "store_ok fresh s"
      then have i: "sc_logical_scan_run_id scan = att_logical_scan_run_id a" using scan(1)
        by (auto simp: store_ok_def scans_ok_def)
      have "attempt_chain (att_logical_scan_run_id a) (as @ [a])"
        using ok scan i by (intro chain_append) (auto simp: store_ok_def scans_ok_def)
      then have "scans_ok s'" using ok scan i unfolding s' by (auto simp: store_ok_def scans_ok_def)
      moreover have grown: "history_extends s s'" using scan(2) unfolding s'
        by (auto simp: history_extends_def extends_by_refl intro!: extends_by_upd)
      have "completion_ok s'" using ok final_evidence_mono [OF grown]
        by (simp add: store_ok_def completion_ok_def s')
      moreover have "ids_ok fresh s'" "runs_ok s'" using ok unfolding s'
        by (auto simp: store_ok_def ids_ok_def runs_ok_def drawn_def)
      ultimately show "store_ok fresh s'" by (simp add: store_ok_def)
      show "history_extends s s'" by (rule grown)
    qed
qed

lemma attach_result:
  assumes "attach_final_strategy_run pl i plan run_id t access s = (Inr completed, s')"
  obtains scan run as a where "st_scans_by_id s i = Some scan" "sc_status scan \<noteq> SCAN_COMPLETED"
    "st_runs_by_logical_scan s i = Some run" "run_strategy_run_id run = run_id"
    "st_attempts_by_scan s i = Some as" "a \<in> set as" "att_status a = ATTEMPT_SUCCEEDED"
    "att_final_strategy_run_id a = Some run_id"
    "completed = scan\<lparr>sc_status := SCAN_COMPLETED, sc_completed_at := Some t, sc_final_strategy_run_id := Some run_id\<rparr>"
    "s' = s\<lparr>st_scans_by_id := (st_scans_by_id s)(i \<mapsto> completed),
            st_scans_by_key := (st_scans_by_key s)(sc_scan_lock_key completed \<mapsto> completed)\<rparr>"
  using assms unfolding attach_final_strategy_run_def
  by (auto simp: exc_simps attempts_of_def list_ex_iff dest!: get_scan_Inr logical_scan_run_Inr
      split: if_splits option.splits)

lemma attach_advances: "evolves (advances fresh) (attach_final_strategy_run pl i plan run_id t access)"
proof (unfold attach_final_strategy_run_def, rule evolves_updates [OF advances.refl], fold attach_final_strategy_run_def)
  fix s completed s' assume "attach_final_strategy_run pl i plan run_id t access s = (Inr completed, s')"
  then obtain scan run as a where scan: "st_scans_by_id s i = Some scan" "sc_status scan \<noteq> SCAN_COMPLETED"
    and evidence: "st_runs_by_logical_scan s i = Some run" "run_strategy_run_id run = run_id"
      "st_attempts_by_scan s i = Some as" "a \<in> set as" "att_status a = ATTEMPT_SUCCEEDED"
      "att_final_strategy_run_id a = Some run_id"
    and completed: "completed = scan\<lparr>sc_status := SCAN_COMPLETED, sc_completed_at := Some t,
      sc_final_strategy_run_id := Some run_id\<rparr>"
    and s': "s' = s\<lparr>st_scans_by_id := (st_scans_by_id s)(i \<mapsto> completed),
            st_scans_by_key := (st_scans_by_key s)(sc_scan_lock_key completed \<mapsto> completed)\<rparr>"
    by (rule attach_result)
  show "advances fresh s s'" unfolding advances_def
  proof (intro impI conjI)
    assume ok: "store_ok fresh s"
    then have i: "sc_logical_scan_run_id scan = i" "st_scans_by_key s (sc_scan_lock_key scan) = Some scan"
      using scan(1) by (auto simp: store_ok_def scans_ok_def)
    have same: "sc_logical_scan_run_id completed = i" "sc_scan_lock_key completed = sc_scan_lock_key scan"
      "sc_status completed = SCAN_COMPLETED" "sc_final_strategy_run_id completed = Some run_id"
      using i by (simp_all add: completed)
    have "scan_advances scan completed" using scan(2) unfolding scan_advances_def completed by auto
    then show grown: "history_extends s s'" using scan(1) unfolding s'
      by (auto simp: history_extends_def extends_by_refl intro!: extends_by_upd)
    have "scans_ok s'" using ok scan(1) i same unfolding s' store_ok_def scans_ok_def
      by (auto split: if_splits) (metis option.inject)+
    moreover have "completion_ok s'"
      unfolding completion_ok_def
    proof (intro allI impI)
      fix j other assume j: "st_scans_by_id s' j = Some other" "sc_status other = SCAN_COMPLETED"
      show "has_final_evidence s' other"
      proof (cases "j = i")
        case True
        then have "other = completed" using j(1) by (simp add: s')
        then show ?thesis using same evidence by (auto simp: has_final_evidence_def s')
      next
        case False
        then have "has_final_evidence s other" using ok j by (simp add: s' store_ok_def completion_ok_def)
        then show ?thesis by (rule final_evidence_mono [OF grown])
      qed
    qed
    moreover have "ids_ok fresh s'" "runs_ok s'" using ok scan(1) unfolding s'
      by (auto simp: store_ok_def ids_ok_def runs_ok_def drawn_def)
    ultimately show "store_ok fresh s'" by (simp add: store_ok_def)
  qed
qed

lemma run_record_result:
  assumes "run_record_or_get plan run key scan_id access s = (Inr stored, s')"
  obtains (existing) "s' = s" "st_runs_by_key s (plan_rotation_plan_id plan, ikey_value key) = Some stored"
      "st_logical_scan_by_key s (plan_rotation_plan_id plan, ikey_value key) = Some scan_id"
      "strategy_run_eq stored run"
  | (new) "stored = run" "st_runs_by_key s (plan_rotation_plan_id plan, ikey_value key) = None"
      "\<And>i. scan_id = Some i \<Longrightarrow> st_runs_by_logical_scan s i = None"
      "s' = s\<lparr>st_runs_by_key := (st_runs_by_key s)((plan_rotation_plan_id plan, ikey_value key) \<mapsto> run),
              st_runs_by_id := (st_runs_by_id s)(run_strategy_run_id run \<mapsto> run),
              st_logical_scan_by_key :=
                (st_logical_scan_by_key s)((plan_rotation_plan_id plan, ikey_value key) \<mapsto> scan_id),
              st_runs_by_logical_scan := (case scan_id of None \<Rightarrow> st_runs_by_logical_scan s
                 | Some i \<Rightarrow> (st_runs_by_logical_scan s)(i \<mapsto> run))\<rparr>"
proof -
  let ?key = "(plan_rotation_plan_id plan, ikey_value key)"
  show thesis
  proof (cases "st_runs_by_key s ?key")
    case None
    then show thesis using assms new unfolding run_record_or_get_def
      by (auto simp: exc_simps Let_def split: if_splits option.splits)
  next
    case (Some old)
    then show thesis using assms existing unfolding run_record_or_get_def
      by (auto simp: exc_simps Let_def require_exact_strategy_run_retry_def split: if_splits option.splits)
  qed
qed

lemma run_record_advances: "evolves (advances fresh) (run_record_or_get plan run key scan_id access)"
proof (unfold run_record_or_get_def, rule evolves_updates [OF advances.refl], fold run_record_or_get_def)
  fix s stored s' assume "run_record_or_get plan run key scan_id access s = (Inr stored, s')"
  then show "advances fresh s s'"
  proof (cases rule: run_record_result)
    case existing
    then show ?thesis by (simp add: advances.refl)
  next
    case new
    let ?key = "(plan_rotation_plan_id plan, ikey_value key)"
    show ?thesis unfolding advances_def
    proof (intro impI conjI)
      assume ok: "store_ok fresh s"
      then have "st_logical_scan_by_key s ?key = None" using new(2) by (simp add: store_ok_def runs_ok_def)
      then show grown: "history_extends s s'" using new(2,3) unfolding new(4)
        by (auto simp: history_extends_def extends_by_refl map_le_def split: option.splits)
      have "completion_ok s'" using ok final_evidence_mono [OF grown]
        by (simp add: store_ok_def completion_ok_def new(4))
      then show "store_ok fresh s'" using ok unfolding new(4)
        by (simp add: store_ok_def ids_ok_def scans_ok_def runs_ok_def drawn_def)
    qed
  qed
qed

lemma intent_record_result:
  assumes "intent_record_or_get intent access s = (Inr stored, s')"
  obtains (existing) "s' = s" "st_intents_by_key s (ci_intent_key intent) = Some stored"
      "same_logical_child_intent stored intent"
  | (new) run where "stored = intent" "st_intents_by_key s (ci_intent_key intent) = None"
      "st_runs_by_id s (ci_strategy_run_id intent) = Some run"
      "final_strategy_key_from_run run = Some (ci_final_strategy_key intent)"
      "s' = s\<lparr>st_intents_by_key := (st_intents_by_key s)(ci_intent_key intent \<mapsto> intent),
              st_intent_keys_by_run := st_intent_keys_by_run s'\<rparr>"
  using assms unfolding intent_record_or_get_def
  by (auto simp: exc_simps Let_def split: if_splits option.splits)

lemma intent_record_advances: "evolves (advances fresh) (intent_record_or_get intent access)"
proof (unfold intent_record_or_get_def, rule evolves_updates [OF advances.refl], fold intent_record_or_get_def)
  fix s stored s' assume "intent_record_or_get intent access s = (Inr stored, s')"
  then show "advances fresh s s'"
  proof (cases rule: intent_record_result)
    case existing
    then show ?thesis by (simp add: advances.refl)
  next
    case (new run)
    then show ?thesis
      by (cases s; cases s') (auto simp: advances_def store_defs history_extends_def extends_by_refl map_le_def)
  qed
qed

lemma acquire_result:
  assumes "acquire_scan_lock pl fresh request access s = (r, s')"
  shows "s' = s \<and> (\<forall>l. r \<noteq> Inr (Some l)) \<or>
    (\<exists>k owner. let i = fresh (st_uuids_drawn s); l = \<lparr>lease_id = i, lease_key = k\<rparr> in
       scan_lock_key pl request = Inr k \<and> st_leases s k = None \<and> r = Inr (Some l) \<and>
       require_portfolio_mutation s (plan_portfolio_id (sl_plan request)) access = Inr owner \<and>
       s' = s\<lparr>st_uuids_drawn := Suc (st_uuids_drawn s), st_leases := (st_leases s)(k \<mapsto> l),
              st_lease_portfolios := (st_lease_portfolios s)(i \<mapsto> plan_portfolio_id (sl_plan request)),
              st_lease_keys := (st_lease_keys s)(i \<mapsto> k)\<rparr>)"
  using assms unfolding acquire_scan_lock_def lock_is_held_def
  by (auto simp: bindS_def readS_def returnS_def draw_uuid_def updateS_def exc_simps Let_def
      split: sum.splits prod.splits if_splits)

lemma acquire_advances: "evolves (advances fresh) (acquire_scan_lock pl fresh request access)"
proof (rule evolvesI)
  fix s r s' assume "acquire_scan_lock pl fresh request access s = (r, s')"
  then consider "s' = s" | k where "let i = fresh (st_uuids_drawn s); l = \<lparr>lease_id = i, lease_key = k\<rparr> in
       s' = s\<lparr>st_uuids_drawn := Suc (st_uuids_drawn s), st_leases := (st_leases s)(k \<mapsto> l),
              st_lease_portfolios := (st_lease_portfolios s)(i \<mapsto> plan_portfolio_id (sl_plan request)),
              st_lease_keys := (st_lease_keys s)(i \<mapsto> k)\<rparr>"
    by (auto dest!: acquire_result simp: Let_def)
  then show "advances fresh s s'"
  proof cases
    case 1
    then show ?thesis by (simp add: advances.refl)
  next
    case (2 k)
    then show ?thesis
      by (auto simp: advances_def store_defs history_extends_def extends_by_refl Let_def lessThan_Suc)
  qed
qed

lemma release_advances: "evolves (advances fresh) (release_lock lease access)"
  unfolding release_lock_def
  by (rule advances.update)
    (auto simp: advances_def store_defs history_extends_def extends_by_refl exc_simps
      split: option.splits if_splits)

lemma read_advances:
  "evolves (advances fresh) (get_plan i access)"
  "evolves (advances fresh) (get_position i access)"
  "evolves (advances fresh) (list_attempts i access)"
  "evolves (advances fresh) (run_get_for_logical_scan i access)"
  "evolves (advances fresh) (list_intents i access)"
  "evolves (advances fresh) (get_by_lock_key pl request access)"
  unfolding get_plan_def get_position_def list_attempts_def run_get_for_logical_scan_def list_intents_def
    get_by_lock_key_def
  by (intro advances.intros)+

lemmas store_advances =
  state_get_or_create_advances state_record_transition_advances create_or_recover_advances
  record_attempt_advances attach_advances run_record_advances intent_record_advances acquire_advances
  release_advances read_advances

end
