(* ===== verification/RotationRun.thy ===== *)
theory RotationRun
  imports RunEntities StateMachine SizingBase
begin

text \<open>
  The construction of a strategy run from market evidence and the durable recommendation state,
  \<open>app/services/rotation_run.py\<close>.
\<close>

text \<open>The values of the state enumeration.\<close>

fun state_value :: "recommendation_state \<Rightarrow> string" where
  "state_value IDLE = ''IDLE''"
| "state_value WATCHING = ''WATCHING''"
| "state_value NEAR_TRIGGER = ''NEAR_TRIGGER''"
| "state_value ACTION_PENDING = ''ACTION_PENDING''"
| "state_value ACTION_NOTIFIED = ''ACTION_NOTIFIED''"
| "state_value DATA_DEGRADED = ''DATA_DEGRADED''"
| "state_value INVALIDATED = ''INVALIDATED''"
| "state_value PARTIALLY_EXECUTED = ''PARTIALLY_EXECUTED''"
| "state_value WAITING_CONFIRMATION = ''WAITING_CONFIRMATION''"
| "state_value STAGE_COMPLETED = ''STAGE_COMPLETED''"
| "state_value ROTATION_COMPLETED = ''ROTATION_COMPLETED''"
| "state_value PAUSED = ''PAUSED''"

text \<open>\<open>RecommendationState(value)\<close>; \<open>None\<close> is \<open>ValueError\<close>.\<close>

definition state_of_value :: "string \<Rightarrow> recommendation_state option" where
  "state_of_value v =
     find (\<lambda>s. state_value s = v)
       [IDLE, WATCHING, NEAR_TRIGGER, ACTION_PENDING, ACTION_NOTIFIED, DATA_DEGRADED, INVALIDATED,
        PARTIALLY_EXECUTED, WAITING_CONFIRMATION, STAGE_COMPLETED, ROTATION_COMPLETED, PAUSED]"

lemma state_of_value_value [simp]: "state_of_value (state_value s) = Some s"
  by (cases s) (simp_all add: state_of_value_def)

record rotation_evaluation =
  ev_event :: recommendation_event
  ev_guards :: transition_guards
  ev_outputs :: "(string \<times> pyval) list"
  ev_sale_source_position_id :: "uuid option"
  ev_sizing_result :: "sizing_result option"

definition rotation_evaluation_post_init :: "rotation_evaluation \<Rightarrow> exn + rotation_evaluation" where
  "rotation_evaluation_post_init e =
     (let requires_sizing_result =
            (ev_event e = EV_DECISION_VALIDATED \<and> g_sizing_outcome (ev_guards e) = SIZING_PASSED) in
      if requires_sizing_result \<and> ev_sizing_result e = None
      then Inl (ValueError ''passed sizing validation requires a SizingResult'')
      else if \<not> requires_sizing_result \<and> ev_sizing_result e \<noteq> None
      then Inl (ValueError ''sizing_result only applies to passed sizing validation'')
      else Inr e)"

record prepared_rotation_run =
  prep_strategy_run :: strategy_run
  prep_transition :: transition_result

text \<open>The request is built (and checked) before the table is consulted.\<close>

definition checked_transition :: "transition_request \<Rightarrow> exn + transition_result" where
  "checked_transition r = bindE (transition_request_post_init r) transition"

definition transition_degraded_data :: "rotation_plan \<Rightarrow> recommendation_state_record \<Rightarrow> exn + transition_result" where
  "transition_degraded_data plan rec =
     (if rec_rotation_plan_id rec \<noteq> plan_rotation_plan_id plan
      then Inl (ValueError ''recommendation state must belong to the supplied plan'')
      else checked_transition
        \<lparr>rq_current_state = rec_state rec, rq_event = EV_DATA_DEGRADED,
         rq_guards = default_guards\<lparr>g_data_outcome := DATA_IS_DEGRADED\<rparr>, rq_plan = plan,
         rq_sale_source_position = None, rq_sale_quantity = None,
         rq_remaining_stages_halted = rec_remaining_stages_halted rec\<rparr>)"

definition run_evidence ::
    "configuration_snapshot_ref \<Rightarrow> rotation_evaluation \<Rightarrow> string \<Rightarrow> string \<Rightarrow> market_data_snapshot \<Rightarrow>
     recommendation_state_record \<Rightarrow> transition_result \<Rightarrow> pyval" where
  "run_evidence cfg evaluation final_strategy_key lock_key snapshot rec t =
     PyDict
       [(''configuration_snapshot'', PyDict
          [(''content_hash'', PyStr (cfg_content_hash cfg)),
           (''created_at'', PyStr (datetime_isoformat (cfg_created_at cfg))),
           (''snapshot_id'', PyStr (uuid_text (cfg_snapshot_id cfg)))]),
        (''evaluation'', PyDict (ev_outputs evaluation)),
        (''idempotency'', PyDict
          [(''final_strategy_key'', PyStr final_strategy_key), (''scan_lock_key'', PyStr lock_key)]),
        (''market_data'', PyDict
          [(''content_hash'', PyStr (ms_content_hash snapshot)), (''snapshot_id'', PyStr (ms_snapshot_id snapshot))]),
        (''recommendation'', PyDict
          [(''previous_remaining_stages_halted'', PyBool (rec_remaining_stages_halted rec)),
           (''previous_state'', PyStr (state_value (rec_state rec))),
           (''next_state'', PyStr (state_value (rs_next_state t))),
           (''notification_intent_recorded'', PyBool (rs_notification_intent_recorded t)),
           (''remaining_stages_halted'', PyBool (rs_remaining_stages_halted t))])]"

definition build_strategy_run ::
    "rotation_plan \<Rightarrow> market_data_snapshot \<Rightarrow> configuration_snapshot_ref \<Rightarrow> string \<Rightarrow> string \<Rightarrow> datetime \<Rightarrow> uuid \<Rightarrow>
     recommendation_state_record \<Rightarrow> rotation_evaluation \<Rightarrow> position option \<Rightarrow> quantity option \<Rightarrow>
     exn + prepared_rotation_run" where
  "build_strategy_run plan snapshot cfg lock_key final_strategy_key occurred_at run_id rec evaluation
     sale_source sale_quantity =
     bindE (require_timezone_aware occurred_at ''occurred_at'') (\<lambda>_.
     if \<not> snapshot_is_actionable snapshot
     then Inl (ValueError ''non-actionable market data cannot build a strategy run'')
     else if rec_rotation_plan_id rec \<noteq> plan_rotation_plan_id plan
     then Inl (ValueError ''recommendation state must belong to the supplied plan'')
     else
       bindE (checked_transition
         \<lparr>rq_current_state = rec_state rec, rq_event = ev_event evaluation, rq_guards = ev_guards evaluation,
          rq_plan = plan, rq_sale_source_position = sale_source, rq_sale_quantity = sale_quantity,
          rq_remaining_stages_halted = rec_remaining_stages_halted rec\<rparr>) (\<lambda>t.
       bindE (strategy_run_post_init
         \<lparr>run_strategy_run_id = run_id, run_rotation_plan_id = plan_rotation_plan_id plan,
          run_portfolio_id = plan_portfolio_id plan, run_configuration_snapshot = cfg,
          run_market_data_snapshot_id = ms_snapshot_id snapshot,
          run_state_transition = state_value (rec_state rec) @ ''->'' @ state_value (rs_next_state t),
          run_outputs = run_evidence cfg evaluation final_strategy_key lock_key snapshot rec t,
          run_occurred_at = occurred_at\<rparr>) (\<lambda>run.
       Inr \<lparr>prep_strategy_run = run, prep_transition = t\<rparr>)))"

end
