(* ===== verification/RunCoordinator.thy ===== *)
theory RunCoordinator
  imports RotationRun Stores
begin

text \<open>
  The coordinator of \<open>app/application/run_coordinator.py\<close>: every method, over the stores of
  \<open>Stores\<close> and what the constructor injects.

  A \<open>world\<close> is the stores with the positions reached in the streams of injected calls: the clock, the
  UUID source, the market-data provider and the evaluator.  An \<open>env\<close> holds what is injected: the \<open>n\<close>-th
  reading of the clock, the \<open>n\<close>-th UUID, the answer of the \<open>n\<close>-th provider call (\<open>Inl\<close> for an exception,
  \<open>None\<close> for an object that is no snapshot), of the \<open>n\<close>-th evaluator call, and the configuration
  repository.
\<close>

subsection \<open>Requests and results\<close>

datatype trigger_source = API | SCHEDULER

fun trigger_value :: "trigger_source \<Rightarrow> string" where
  "trigger_value API = ''API''"
| "trigger_value SCHEDULER = ''SCHEDULER''"

datatype run_disposition =
    RUN_COMPLETED | API_CONFLICT | SCHEDULER_SKIPPED | RUN_DEGRADED | RUN_SUPERSEDED | RUN_FAILED | RETRY_EXHAUSTED

fun disposition_value :: "run_disposition \<Rightarrow> string" where
  "disposition_value RUN_COMPLETED = ''COMPLETED''"
| "disposition_value API_CONFLICT = ''API_CONFLICT''"
| "disposition_value SCHEDULER_SKIPPED = ''SCHEDULER_SKIPPED''"
| "disposition_value RUN_DEGRADED = ''DEGRADED''"
| "disposition_value RUN_SUPERSEDED = ''SUPERSEDED''"
| "disposition_value RUN_FAILED = ''FAILED''"
| "disposition_value RETRY_EXHAUSTED = ''RETRY_EXHAUSTED''"

record finalization_evidence =
  fe_previous_state :: recommendation_state
  fe_previous_remaining_stages_halted :: bool
  fe_next_state :: recommendation_state
  fe_remaining_stages_halted :: bool
  fe_notification_intent_recorded :: bool

record run_request =
  rc_plan :: rotation_plan
  rc_configuration_snapshot :: configuration_snapshot_ref
  rc_market_session_date :: string
  rc_scan_window_start :: datetime
  rc_scan_interval :: string
  rc_market_timezone :: string
  rc_market_data_request :: market_data_request
  rc_access_context :: access_context
  rc_trigger_source :: trigger_source
  rc_correlation_id :: string

definition run_request_post_init :: "run_request \<Rightarrow> exn + run_request" where
  "run_request_post_init r =
     bindE (require_timezone_aware (rc_scan_window_start r) ''scan_window_start'') (\<lambda>_.
     if is_blank (rc_market_session_date r) \<or> is_blank (rc_scan_interval r)
     then Inl (ValueError ''scan identity values must not be blank'')
     else if is_blank (rc_market_timezone r) \<or> is_blank (rc_correlation_id r)
     then Inl (ValueError ''market_timezone and correlation_id must not be blank'')
     else Inr r)"

definition request_scan_lock_request :: "platform \<Rightarrow> run_request \<Rightarrow> exn + scan_lock_request" where
  "request_scan_lock_request pl r =
     scan_lock_request_post_init pl
       \<lparr>sl_plan = rc_plan r, sl_market_session_date = rc_market_session_date r,
        sl_scan_window_start = rc_scan_window_start r, sl_scan_interval = rc_scan_interval r,
        sl_market_timezone = rc_market_timezone r,
        sl_configuration_snapshot_hash = cfg_content_hash (rc_configuration_snapshot r)\<rparr>"

record existing_result_reference =
  ref_scan_lock_key :: string
  ref_logical_scan_run_id :: "uuid option"

record run_result =
  rr_disposition :: run_disposition
  rr_strategy_run :: "strategy_run option"
  rr_scan_lock_key :: string
  rr_logical_scan_run_id :: "uuid option"
  rr_final_strategy_key :: "string option"
  rr_audit :: "(string \<times> pyval) list"
  rr_existing_result :: "existing_result_reference option"

definition run_result_post_init :: "run_result \<Rightarrow> exn + run_result" where
  "run_result_post_init r =
     (if py_len (rr_scan_lock_key r) \<noteq> 64 then Inl (ValueError ''scan_lock_key must be a SHA-256 digest'')
      else if (case rr_final_strategy_key r of None \<Rightarrow> False | Some k \<Rightarrow> py_len k \<noteq> 64)
      then Inl (ValueError ''final_strategy_key must be a SHA-256 digest when supplied'')
      else Inr r)"

text \<open>The constructor without a reference to an existing result.\<close>

definition coordinator_result ::
    "run_disposition \<Rightarrow> strategy_run option \<Rightarrow> string \<Rightarrow> uuid option \<Rightarrow> string option \<Rightarrow>
     (string \<times> pyval) list \<Rightarrow> exn + run_result" where
  "coordinator_result d run lock_key scan_id k audit =
     run_result_post_init
       \<lparr>rr_disposition = d, rr_strategy_run = run, rr_scan_lock_key = lock_key,
        rr_logical_scan_run_id = scan_id, rr_final_strategy_key = k, rr_audit = audit,
        rr_existing_result = None\<rparr>"

subsection \<open>The injected world\<close>

text \<open>The fields of a persisted configuration snapshot that the coordinator reads.\<close>

record persisted_configuration_snapshot =
  pcs_snapshot_id :: uuid
  pcs_content_hash :: string
  pcs_created_at :: datetime
  pcs_target_reference_id :: uuid

record env =
  env_platform :: platform
  env_uuid4 :: "nat \<Rightarrow> uuid"
  env_uuid5 :: "string \<Rightarrow> uuid"
  env_new_uuid :: "nat \<Rightarrow> uuid"
  env_now :: "nat \<Rightarrow> datetime"
  env_configuration :: "uuid \<Rightarrow> access_context \<Rightarrow> exn + persisted_configuration_snapshot"
  env_market_data :: "nat \<Rightarrow> market_data_request \<Rightarrow> exn + market_data_snapshot option"
  env_evaluator ::
    "nat \<Rightarrow> rotation_plan \<Rightarrow> market_data_snapshot \<Rightarrow> configuration_snapshot_ref \<Rightarrow> exn + rotation_evaluation"
  env_max_provider_attempts :: int

definition env_post_init :: "env \<Rightarrow> exn + env" where
  "env_post_init e =
     (if env_max_provider_attempts e < 1
      then Inl (ValueError ''max_provider_attempts must be a positive integer'') else Inr e)"

record world =
  w_stores :: stores
  w_clock :: nat
  w_uuids :: nat
  w_provider_calls :: nat
  w_evaluator_calls :: nat

type_synonym 'a run_op = "(world, exn, 'a) op"

definition on_stores :: "'a store_op \<Rightarrow> 'a run_op" where
  "on_stores m w = (case m (w_stores w) of (r, s) \<Rightarrow> (r, w\<lparr>w_stores := s\<rparr>))"

definition current_time :: "env \<Rightarrow> datetime run_op" where
  "current_time e w =
     (require_timezone_aware (env_now e (w_clock w)) ''coordinator clock'', w\<lparr>w_clock := Suc (w_clock w)\<rparr>)"

definition new_uuid :: "env \<Rightarrow> uuid run_op" where
  "new_uuid e w = (Inr (env_new_uuid e (w_uuids w)), w\<lparr>w_uuids := Suc (w_uuids w)\<rparr>)"

definition get_market_snapshot :: "env \<Rightarrow> market_data_request \<Rightarrow> market_data_snapshot option run_op" where
  "get_market_snapshot e r w =
     (env_market_data e (w_provider_calls w) r, w\<lparr>w_provider_calls := Suc (w_provider_calls w)\<rparr>)"

text \<open>\<open>RotationRunService.evaluate\<close>: an evaluation is what its constructor accepts.\<close>

definition evaluate ::
    "env \<Rightarrow> rotation_plan \<Rightarrow> market_data_snapshot \<Rightarrow> configuration_snapshot_ref \<Rightarrow> rotation_evaluation run_op" where
  "evaluate e plan snapshot cfg w =
     (bindE (env_evaluator e (w_evaluator_calls w) plan snapshot cfg) rotation_evaluation_post_init,
      w\<lparr>w_evaluator_calls := Suc (w_evaluator_calls w)\<rparr>)"

subsection \<open>Evidence of a stored run\<close>

definition configuration_reference :: "persisted_configuration_snapshot \<Rightarrow> exn + configuration_snapshot_ref" where
  "configuration_reference p =
     configuration_snapshot_ref_post_init
       \<lparr>cfg_snapshot_id = pcs_snapshot_id p, cfg_content_hash = pcs_content_hash p, cfg_created_at = pcs_created_at p\<rparr>"

definition final_key_from_run :: "strategy_run \<Rightarrow> string option" where
  "final_key_from_run run =
     (case dict_get (run_outputs run) ''idempotency'' of
        Some (PyDict kvs) \<Rightarrow>
          (case map_of kvs ''final_strategy_key'' of
             Some (PyStr k) \<Rightarrow> if py_len k = 64 then Some k else None
           | _ \<Rightarrow> None)
      | _ \<Rightarrow> None)"

definition decode_finalization_evidence :: "strategy_run \<Rightarrow> exn + finalization_evidence" where
  "decode_finalization_evidence run =
     (case dict_get (run_outputs run) ''recommendation'' of
        Some (PyDict kvs) \<Rightarrow>
          (case (map_of kvs ''previous_state'', map_of kvs ''next_state'') of
             (Some (PyStr previous_state), Some (PyStr next_state)) \<Rightarrow>
               (case (map_of kvs ''previous_remaining_stages_halted'', map_of kvs ''remaining_stages_halted'',
                      map_of kvs ''notification_intent_recorded'') of
                  (Some (PyBool previous_halted), Some (PyBool remaining_halted), Some (PyBool notification_recorded)) \<Rightarrow>
                    (case (state_of_value previous_state, state_of_value next_state) of
                       (Some previous, Some next1) \<Rightarrow>
                         if run_state_transition run \<noteq> state_value previous @ ''->'' @ state_value next1
                         then Inl (RunCoordinatorInvariantError ''strategy run state transition does not match its evidence'')
                         else Inr \<lparr>fe_previous_state = previous, fe_previous_remaining_stages_halted = previous_halted,
                                   fe_next_state = next1, fe_remaining_stages_halted = remaining_halted,
                                   fe_notification_intent_recorded = notification_recorded\<rparr>
                     | _ \<Rightarrow> Inl (RunCoordinatorInvariantError ''strategy run recommendation state evidence is malformed''))
                | _ \<Rightarrow> Inl (RunCoordinatorInvariantError ''strategy run recommendation guard evidence is malformed''))
           | _ \<Rightarrow> Inl (RunCoordinatorInvariantError ''strategy run recommendation state evidence is malformed''))
      | _ \<Rightarrow> Inl (RunCoordinatorInvariantError ''strategy run is missing recommendation finalization evidence''))"

definition market_evidence_from_run :: "strategy_run \<Rightarrow> exn + string \<times> string" where
  "market_evidence_from_run run =
     (case dict_get (run_outputs run) ''market_data'' of
        Some (PyDict kvs) \<Rightarrow>
          (case (map_of kvs ''snapshot_id'', map_of kvs ''content_hash'') of
             (Some (PyStr snapshot_id), Some (PyStr content_hash)) \<Rightarrow>
               if snapshot_id \<noteq> run_market_data_snapshot_id run
               then Inl (RunCoordinatorInvariantError ''strategy run market-data identity does not match its evidence'')
               else Inr (snapshot_id, content_hash)
           | _ \<Rightarrow> Inl (RunCoordinatorInvariantError ''strategy run market-data evidence is malformed''))
      | _ \<Rightarrow> Inl (RunCoordinatorInvariantError ''strategy run is missing market-data finalization evidence''))"

definition final_identity_from_run :: "platform \<Rightarrow> strategy_run \<Rightarrow> exn + final_strategy_identity" where
  "final_identity_from_run pl run =
     (case dict_get (run_outputs run) ''idempotency'' of
        Some (PyDict kvs) \<Rightarrow>
          (case (map_of kvs ''scan_lock_key'', map_of kvs ''final_strategy_key'') of
             (Some (PyStr lock_key), Some (PyStr final_strategy_key)) \<Rightarrow>
               bindE (market_evidence_from_run run) (\<lambda>(snapshot_id, content_hash).
               bindE (final_strategy_identity_of lock_key snapshot_id content_hash) (\<lambda>identity.
               bindE (final_key pl identity) (\<lambda>k.
               if k \<noteq> final_strategy_key
               then Inl (RunCoordinatorInvariantError ''strategy run final identity does not match its evidence'')
               else Inr identity)))
           | _ \<Rightarrow> Inl (RunCoordinatorInvariantError ''strategy run idempotency evidence is malformed''))
      | _ \<Rightarrow> Inl (RunCoordinatorInvariantError ''strategy run is missing idempotency evidence''))"

text \<open>Only an invariant error (or its subclass) is turned into \<open>None\<close>.\<close>

definition try_final_identity_from_run :: "platform \<Rightarrow> strategy_run \<Rightarrow> exn + final_strategy_identity option" where
  "try_final_identity_from_run pl run =
     (case final_identity_from_run pl run of
        Inr i \<Rightarrow> Inr (Some i)
      | Inl (RunCoordinatorInvariantError _) \<Rightarrow> Inr None
      | Inl (FinalizationSuperseded _) \<Rightarrow> Inr None
      | Inl e \<Rightarrow> Inl e)"

text \<open>\<open>type(error).__name__\<close>.\<close>

fun exn_type_name :: "exn \<Rightarrow> string" where
  "exn_type_name (ValueError _) = ''ValueError''"
| "exn_type_name (TypeError _) = ''TypeError''"
| "exn_type_name (AssertionError _) = ''AssertionError''"
| "exn_type_name (IndexError _) = ''IndexError''"
| "exn_type_name (KeyError _) = ''KeyError''"
| "exn_type_name DecimalOverflow = ''Overflow''"
| "exn_type_name DecimalDivisionByZero = ''DivisionByZero''"
| "exn_type_name DecimalInvalidOperation = ''InvalidOperation''"
| "exn_type_name (AuthorizationDenied _) = ''AuthorizationDenied''"
| "exn_type_name (NotFoundForActor _) = ''NotFoundForActor''"
| "exn_type_name (NaiveDatetimeError _) = ''NaiveDatetimeError''"
| "exn_type_name (NonDecimalValueError _) = ''NonDecimalValueError''"
| "exn_type_name (NonFiniteDecimalError _) = ''NonFiniteDecimalError''"
| "exn_type_name (NegativeQuantityError _) = ''NegativeQuantityError''"
| "exn_type_name (NonPositivePositionQuantityError _) = ''NonPositivePositionQuantityError''"
| "exn_type_name (ProtectedPositionSaleError _) = ''ProtectedPositionSaleError''"
| "exn_type_name (PositionNotOpenError _) = ''PositionNotOpenError''"
| "exn_type_name (SaleQuantityExceedsPositionError _) = ''SaleQuantityExceedsPositionError''"
| "exn_type_name (NonPositiveSaleQuantityError _) = ''NonPositiveSaleQuantityError''"
| "exn_type_name (UnauthorizedRotationSourceError _) = ''UnauthorizedRotationSourceError''"
| "exn_type_name (PlanReferenceUnauthorizedError _) = ''PlanReferenceUnauthorizedError''"
| "exn_type_name (CandidateInstrumentUnauthorizedError _) = ''CandidateInstrumentUnauthorizedError''"
| "exn_type_name (PositionAlreadyOpenError _) = ''PositionAlreadyOpenError''"
| "exn_type_name (PositionHistoryError _) = ''PositionHistoryError''"
| "exn_type_name (InvalidStrategyRunEvidenceError _) = ''InvalidStrategyRunEvidenceError''"
| "exn_type_name (LogicalScanAlreadyCompletedError _) = ''LogicalScanAlreadyCompletedError''"
| "exn_type_name (IdempotencyConflictError _) = ''IdempotencyConflictError''"
| "exn_type_name (TransitionNotAllowed _) = ''TransitionNotAllowed''"
| "exn_type_name (CostError _) = ''CostError''"
| "exn_type_name (SizingError _) = ''SizingError''"
| "exn_type_name (ScoringError _) = ''ScoringError''"
| "exn_type_name (RuleTransportError _) = ''RuleTransportError''"
| "exn_type_name (RuleSemanticError _) = ''RuleSemanticError''"
| "exn_type_name (RuleSafetyError _) = ''RuleSafetyError''"
| "exn_type_name (RuleTextResourceLimitError _ _ _) = ''RuleTextResourceLimitError''"
| "exn_type_name (RuleEvaluationError _) = ''RuleEvaluationError''"
| "exn_type_name (RuleEvidenceResourceLimitError _ _ _) = ''RuleEvidenceResourceLimitError''"
| "exn_type_name (ProtectedRuleInputError _) = ''ProtectedRuleInputError''"
| "exn_type_name (DecimalResourceLimitError _) = ''DecimalResourceLimitError''"
| "exn_type_name (CanonicalJsonSizeLimitError _ _ _) = ''CanonicalJsonSizeLimitError''"
| "exn_type_name (RunCoordinatorInvariantError _) = ''RunCoordinatorInvariantError''"
| "exn_type_name (FinalizationSuperseded _) = ''_FinalizationSuperseded''"
| "exn_type_name (ConfigurationSnapshotValidationError _) = ''ConfigurationSnapshotValidationError''"
| "exn_type_name (IndicatorInputError _) = ''IndicatorInputError''"
| "exn_type_name (IndicatorResultError _) = ''IndicatorResultError''"
| "exn_type_name (BarAggregationInputError _) = ''BarAggregationInputError''"
| "exn_type_name (IndicatorRegistrationError _) = ''IndicatorRegistrationError''"
| "exn_type_name (DuplicateIndicatorKeyError _) = ''DuplicateIndicatorKeyError''"
| "exn_type_name (IndicatorNotFoundError _) = ''IndicatorNotFoundError''"
| "exn_type_name (ConfigurationMergeError _) = ''ConfigurationMergeError''"
| "exn_type_name (ConfigurationCanonicalizationError _) = ''ConfigurationCanonicalizationError''"
| "exn_type_name (RuntimeOverrideExpiryError _) = ''RuntimeOverrideExpiryError''"

subsection \<open>Audit and attempts\<close>

fun attempt_status_value :: "scan_attempt_status \<Rightarrow> string" where
  "attempt_status_value ATTEMPT_RUNNING = ''RUNNING''"
| "attempt_status_value ATTEMPT_FAILED = ''FAILED''"
| "attempt_status_value ATTEMPT_DEGRADED = ''DEGRADED''"
| "attempt_status_value ATTEMPT_SUCCEEDED = ''SUCCEEDED''"

definition optional_text :: "string option \<Rightarrow> pyval" where
  "optional_text x = (case x of None \<Rightarrow> PyNone | Some t \<Rightarrow> PyStr t)"

text \<open>The attempts of the scan of a request, in the order of their numbers.\<close>

definition scan_attempts :: "run_request \<Rightarrow> logical_scan_run \<Rightarrow> scan_attempt list run_op" where
  "scan_attempts request scan =
     on_stores (list_attempts (sc_logical_scan_run_id scan) (rc_access_context request))"

definition audit_entries ::
    "platform \<Rightarrow> run_request \<Rightarrow> logical_scan_run \<Rightarrow> final_strategy_identity option \<Rightarrow> scan_attempt option \<Rightarrow> bool \<Rightarrow>
     scan_attempt list \<Rightarrow> exn + (string \<times> pyval) list" where
  "audit_entries pl request scan final_identity terminal actionable attempts =
     bindE (bindE (logical_scan_identity pl scan) (scan_canonical_payload pl)) (\<lambda>components.
     bindE (case final_identity of
              None \<Rightarrow> Inr []
            | Some i \<Rightarrow> bindE (final_key pl i) (\<lambda>k.
                Inr [(''final_strategy_key'', PyStr k), (''final_strategy_key_components'', final_canonical_payload i)]))
       (\<lambda>final_entries.
     Inr ([(''actor_id'', PyStr (uuid_text (actor_user_id (rc_access_context request)))),
           (''attempt_disposition'',
              (case terminal of None \<Rightarrow> PyNone | Some a \<Rightarrow> PyStr (attempt_status_value (att_status a)))),
           (''attempt_statuses'', PyList (map (\<lambda>a. PyStr (attempt_status_value (att_status a))) attempts)),
           (''configuration_snapshot_hash'', PyStr (cfg_content_hash (rc_configuration_snapshot request))),
           (''configuration_snapshot_id'', PyStr (uuid_text (cfg_snapshot_id (rc_configuration_snapshot request)))),
           (''correlation_id'', PyStr (rc_correlation_id request)),
           (''market_data_actionable'', PyBool actionable),
           (''scan_lock_key'', PyStr (sc_scan_lock_key scan)),
           (''scan_lock_key_components'', components),
           (''trigger_source'', PyStr (trigger_value (rc_trigger_source request)))] @
          (case terminal of
             None \<Rightarrow> []
           | Some a \<Rightarrow> [(''failure_code'', optional_text (att_failure_code a)),
                       (''market_data_content_hash'', optional_text (att_market_data_content_hash a)),
                       (''market_data_snapshot_id'', optional_text (att_market_data_snapshot_id a))]) @
          final_entries)))"

definition audit ::
    "env \<Rightarrow> run_request \<Rightarrow> logical_scan_run \<Rightarrow> final_strategy_identity option \<Rightarrow> scan_attempt option \<Rightarrow> bool \<Rightarrow>
     (string \<times> pyval) list run_op" where
  "audit e request scan final_identity terminal actionable =
     bindS (scan_attempts request scan) (\<lambda>attempts.
     liftS (audit_entries (env_platform e) request scan final_identity terminal actionable attempts))"

definition actor_correlation :: "run_request \<Rightarrow> string" where
  "actor_correlation request = ''actor:'' @ uuid_text (actor_user_id (rc_access_context request))"

text \<open>What every attempt of a request has in common, with the defaults of the other fields.\<close>

definition attempt_template ::
    "run_request \<Rightarrow> logical_scan_run \<Rightarrow> configuration_snapshot_ref \<Rightarrow> uuid \<Rightarrow> nat \<Rightarrow> scan_attempt_status \<Rightarrow> datetime \<Rightarrow>
     scan_attempt" where
  "attempt_template request scan cfg i number status started_at =
     \<lparr>att_scan_attempt_id = i, att_logical_scan_run_id = sc_logical_scan_run_id scan,
      att_attempt_number = int number, att_status = status,
      att_configuration_snapshot_hash = cfg_content_hash cfg,
      att_market_data_snapshot_id = None, att_market_data_content_hash = None,
      att_trigger_correlation_id = rc_correlation_id request,
      att_actor_correlation_id = actor_correlation request, att_started_at = started_at,
      att_completed_at = None, att_failure_code = None, att_failure_detail = None,
      att_recovery_of_attempt_id = None, att_duplicate_of_attempt_id = None, att_final_strategy_run_id = None,
      att_configuration_snapshot_id = Some (cfg_snapshot_id cfg),
      att_configuration_snapshot_created_at = Some (cfg_created_at cfg),
      att_final_strategy_key = None, att_final_strategy_identity_format_version = None,
      att_finalization_disposition = None\<rparr>"

text \<open>Constructing an attempt and recording it.\<close>

definition append_attempt :: "run_request \<Rightarrow> scan_attempt \<Rightarrow> scan_attempt run_op" where
  "append_attempt request a =
     bindS (liftS (scan_attempt_post_init a)) (\<lambda>a.
     bindS (on_stores (record_attempt a (rc_access_context request))) (\<lambda>_. returnS a))"

definition record_running_attempt :: "env \<Rightarrow> run_request \<Rightarrow> logical_scan_run \<Rightarrow> scan_attempt run_op" where
  "record_running_attempt e request scan =
     bindS (scan_attempts request scan) (\<lambda>attempts.
     let previous = (if attempts = [] then None else Some (last attempts)) in
     if (case previous of None \<Rightarrow> False | Some a \<Rightarrow> att_status a = ATTEMPT_SUCCEEDED)
     then raiseS (RunCoordinatorInvariantError ''uncompleted scan retains a succeeded attempt'')
     else
       bindS (new_uuid e) (\<lambda>i.
       bindS (current_time e) (\<lambda>now.
       append_attempt request
         ((attempt_template request scan (rc_configuration_snapshot request) i (length attempts + 1) ATTEMPT_RUNNING now)
            \<lparr>att_recovery_of_attempt_id := map_option att_scan_attempt_id previous\<rparr>))))"

definition provider_attempt_count :: "run_request \<Rightarrow> logical_scan_run \<Rightarrow> int run_op" where
  "provider_attempt_count request scan =
     bindS (scan_attempts request scan) (\<lambda>attempts.
     returnS (int (length (filter (\<lambda>a. att_status a = ATTEMPT_RUNNING) attempts))))"

definition retry_exhausted_result ::
    "env \<Rightarrow> run_request \<Rightarrow> logical_scan_run \<Rightarrow> string \<Rightarrow> run_result run_op" where
  "retry_exhausted_result e request scan lock_key =
     bindS (audit e request scan None None False) (\<lambda>entries.
     liftS (coordinator_result RETRY_EXHAUSTED None lock_key (Some (sc_logical_scan_run_id scan)) None
       (dict_set ''max_provider_attempts'' (PyInt (env_max_provider_attempts e))
       (dict_set ''failure_code'' (PyStr ''RETRY_LIMIT_REACHED'')
       (dict_set ''attempt_disposition'' (PyStr (disposition_value RETRY_EXHAUSTED)) entries)))))"

definition record_terminal_attempt ::
    "env \<Rightarrow> run_request \<Rightarrow> logical_scan_run \<Rightarrow> scan_attempt \<Rightarrow> scan_attempt_status \<Rightarrow> market_data_snapshot \<Rightarrow>
     final_strategy_identity \<Rightarrow> uuid option \<Rightarrow> string option \<Rightarrow> string option \<Rightarrow> scan_attempt run_op" where
  "record_terminal_attempt e request scan previous status snapshot final_identity final_run failure_code failure_detail =
     bindS (scan_attempts request scan) (\<lambda>attempts.
     bindS (new_uuid e) (\<lambda>i.
     bindS (liftS (final_key (env_platform e) final_identity)) (\<lambda>k.
     bindS (current_time e) (\<lambda>now.
     append_attempt request
       ((attempt_template request scan (rc_configuration_snapshot request) i (length attempts + 1) status
           (att_started_at previous))
          \<lparr>att_market_data_snapshot_id := Some (ms_snapshot_id snapshot),
           att_market_data_content_hash := Some (ms_content_hash snapshot),
           att_completed_at := Some now, att_failure_code := failure_code, att_failure_detail := failure_detail,
           att_recovery_of_attempt_id := Some (att_scan_attempt_id previous),
           att_final_strategy_run_id := final_run, att_final_strategy_key := Some k,
           att_final_strategy_identity_format_version := Some (fi_format_version final_identity)\<rparr>)))))"

text \<open>\<open>None if x is None else x.key\<close>.\<close>

definition optional_key :: "platform \<Rightarrow> final_strategy_identity option \<Rightarrow> exn + string option" where
  "optional_key pl i =
     (case i of None \<Rightarrow> Inr None | Some i \<Rightarrow> bindE (final_key pl i) (\<lambda>k. Inr (Some k)))"

definition failed_terminal_attempt ::
    "env \<Rightarrow> run_request \<Rightarrow> logical_scan_run \<Rightarrow> scan_attempt \<Rightarrow> market_data_snapshot option \<Rightarrow>
     final_strategy_identity option \<Rightarrow> string \<Rightarrow> string \<Rightarrow> scan_attempt run_op" where
  "failed_terminal_attempt e request scan running snapshot final_identity failure_code failure_detail =
     bindS (scan_attempts request scan) (\<lambda>attempts.
     bindS (new_uuid e) (\<lambda>i.
     bindS (liftS (optional_key (env_platform e) final_identity)) (\<lambda>k.
     bindS (current_time e) (\<lambda>now.
     append_attempt request
       ((attempt_template request scan (rc_configuration_snapshot request) i (length attempts + 1) ATTEMPT_FAILED
           (att_started_at running))
          \<lparr>att_market_data_snapshot_id := map_option ms_snapshot_id snapshot,
           att_market_data_content_hash := map_option ms_content_hash snapshot,
           att_completed_at := Some now, att_failure_code := Some failure_code,
           att_failure_detail := Some failure_detail,
           att_recovery_of_attempt_id := Some (att_scan_attempt_id running), att_final_strategy_key := k,
           att_final_strategy_identity_format_version := map_option fi_format_version final_identity\<rparr>)))))"

definition failed_result ::
    "env \<Rightarrow> run_request \<Rightarrow> logical_scan_run \<Rightarrow> scan_attempt \<Rightarrow> string \<Rightarrow> string \<Rightarrow> string \<Rightarrow> market_data_snapshot option \<Rightarrow>
     final_strategy_identity option \<Rightarrow> run_result run_op" where
  "failed_result e request scan running lock_key failure_code failure_detail snapshot final_identity =
     bindS (failed_terminal_attempt e request scan running snapshot final_identity failure_code failure_detail)
       (\<lambda>terminal.
     bindS (liftS (optional_key (env_platform e) final_identity)) (\<lambda>k.
     bindS (audit e request scan final_identity (Some terminal) False) (\<lambda>entries.
     liftS (coordinator_result RUN_FAILED None lock_key (Some (sc_logical_scan_run_id scan)) k entries))))"

end
