(* ===== verification/CoordinatorRun.thy ===== *)
theory CoordinatorRun
  imports RunCoordinator Invariants
begin

text \<open>
  The finalization of a stored candidate and the entry point \<open>run\<close> of
  \<open>app/application/run_coordinator.py\<close>.
\<close>

subsection \<open>Notification intents\<close>

definition expected_intent ::
    "env \<Rightarrow> rotation_plan \<Rightarrow> strategy_run \<Rightarrow> final_strategy_identity \<Rightarrow> exn + child_intent" where
  "expected_intent e plan run final_identity =
     bindE (final_key (env_platform e) final_identity) (\<lambda>k.
     build_child_intent (env_platform e)
       (env_uuid5 e (''rotation-child-intent:v1:'' @ k @ '':'' @ uuid_text (run_strategy_run_id run)))
       (plan_rotation_plan_id plan) (plan_portfolio_id plan) (run_strategy_run_id run) k NOTIFICATION
       (run_occurred_at run))"

definition existing_notification_intent_key ::
    "env \<Rightarrow> run_request \<Rightarrow> rotation_plan \<Rightarrow> strategy_run \<Rightarrow> final_strategy_identity \<Rightarrow> bool \<Rightarrow> string option run_op" where
  "existing_notification_intent_key e request plan run final_identity recorded =
     (if \<not> recorded then returnS None
      else
        bindS (liftS (expected_intent e plan run final_identity)) (\<lambda>expected.
        bindS (on_stores (list_intents (run_strategy_run_id run) (rc_access_context request))) (\<lambda>intents.
        case filter (\<lambda>i. same_logical_child_intent i expected) intents of
          [m] \<Rightarrow> returnS (Some (ci_intent_key m))
        | _ \<Rightarrow> raiseS (RunCoordinatorInvariantError
                        ''applied finalization is missing its durable notification intent''))))"

definition record_notification_intent ::
    "env \<Rightarrow> run_request \<Rightarrow> rotation_plan \<Rightarrow> strategy_run \<Rightarrow> final_strategy_identity \<Rightarrow> bool \<Rightarrow> string option run_op" where
  "record_notification_intent e request plan run final_identity recorded =
     (if \<not> recorded then returnS None
      else
        bindS (liftS (decode_finalization_evidence run)) (\<lambda>effects.
        if fe_previous_state effects \<noteq> ACTION_PENDING \<or> fe_next_state effects \<noteq> ACTION_NOTIFIED
        then raiseS (RunCoordinatorInvariantError ''notification intent requires a validated decision'')
        else
          bindS (liftS (expected_intent e plan run final_identity)) (\<lambda>intent.
          bindS (on_stores (intent_record_or_get intent (rc_access_context request))) (\<lambda>stored.
          if ci_purpose stored \<noteq> NOTIFICATION
          then raiseS (RunCoordinatorInvariantError ''notification transition recorded a different child intent'')
          else returnS (Some (ci_intent_key stored))))))"

subsection \<open>Finalization effects\<close>

definition is_legacy_pending_finalization ::
    "env \<Rightarrow> run_request \<Rightarrow> recommendation_state_record \<Rightarrow> finalization_evidence \<Rightarrow> logical_scan_run \<Rightarrow> strategy_run \<Rightarrow>
     final_strategy_identity \<Rightarrow> bool run_op" where
  "is_legacy_pending_finalization e request current effects scan run final_identity =
     bindS (liftS (final_key (env_platform e) final_identity)) (\<lambda>k.
     if rec_legacy_claim_status current \<noteq> CLAIMED \<or>
        rec_legacy_strategy_run_id current \<noteq> Some (run_strategy_run_id run) \<or>
        rec_legacy_strategy_key current \<noteq> Some k \<or>
        sc_status scan \<noteq> SCAN_RUNNING \<or>
        fi_scan_lock_key final_identity \<noteq> sc_scan_lock_key scan \<or>
        cfg_content_hash (run_configuration_snapshot run) \<noteq> sc_configuration_snapshot_hash scan \<or>
        (fe_previous_state effects = fe_next_state effects \<and>
         fe_previous_remaining_stages_halted effects = fe_remaining_stages_halted effects)
     then returnS False
     else
       bindS (scan_attempts request scan) (\<lambda>attempts.
       returnS (\<not> list_ex (\<lambda>a. att_status a = ATTEMPT_SUCCEEDED \<and>
                              att_final_strategy_run_id a = Some (run_strategy_run_id run)) attempts)))"

text \<open>\<open>record_transition\<close> at the current time with the fence of a run.\<close>

definition record_fenced_transition ::
    "env \<Rightarrow> run_request \<Rightarrow> rotation_plan \<Rightarrow> recommendation_state_record \<Rightarrow> finalization_evidence \<Rightarrow> uuid \<Rightarrow> string \<Rightarrow>
     recommendation_state_record run_op" where
  "record_fenced_transition e request plan current effects run_id k =
     bindS (current_time e) (\<lambda>now.
     on_stores (state_record_transition plan current (fe_next_state effects) (fe_remaining_stages_halted effects) now
       (rc_access_context request) (Some run_id) (Some k)))"

definition ensure_finalization_effects ::
    "env \<Rightarrow> run_request \<Rightarrow> rotation_plan \<Rightarrow> logical_scan_run \<Rightarrow> strategy_run \<Rightarrow> final_strategy_identity \<Rightarrow>
     string option run_op" where
  "ensure_finalization_effects e request plan scan run final_identity =
     bindS (liftS (decode_finalization_evidence run)) (\<lambda>effects.
     bindS (liftS (final_key (env_platform e) final_identity)) (\<lambda>expected_key.
     bindS (current_time e) (\<lambda>now.
     bindS (on_stores (state_get_or_create plan now (rc_access_context request))) (\<lambda>current.
     let expected_run_id = run_strategy_run_id run;
         notify = record_notification_intent e request plan run final_identity
                    (fe_notification_intent_recorded effects) in
     if rec_state current = fe_next_state effects \<and>
        rec_remaining_stages_halted current = fe_remaining_stages_halted effects
     then
       if rec_finalization_strategy_run_id current = Some expected_run_id \<and>
          rec_finalization_strategy_key current = Some expected_key
       then notify
       else
         bindS (if rec_finalization_strategy_run_id current = None \<and> rec_finalization_strategy_key current = None
                then is_legacy_pending_finalization e request current effects scan run final_identity
                else returnS False) (\<lambda>legacy.
         if legacy then
           bindS (existing_notification_intent_key e request plan run final_identity
                    (fe_notification_intent_recorded effects)) (\<lambda>intent_key.
           bindS (record_fenced_transition e request plan current effects expected_run_id expected_key) (\<lambda>_.
           returnS intent_key))
         else raiseS (FinalizationSuperseded ''pending finalization lost to different durable state evidence''))
     else if rec_state current = fe_previous_state effects \<and>
             rec_remaining_stages_halted current = fe_previous_remaining_stages_halted effects
     then bindS (record_fenced_transition e request plan current effects expected_run_id expected_key) (\<lambda>_. notify)
     else raiseS (FinalizationSuperseded
                    ''pending finalization no longer matches the durable recommendation state'')))))"

text \<open>The newest succeeded attempt of a run that was not superseded.\<close>

definition applied_attempt :: "strategy_run \<Rightarrow> scan_attempt list \<Rightarrow> scan_attempt option" where
  "applied_attempt run attempts =
     find (\<lambda>a. att_status a = ATTEMPT_SUCCEEDED \<and> att_final_strategy_run_id a = Some (run_strategy_run_id run) \<and>
               att_finalization_disposition a \<noteq> Some FINALIZATION_SUPERSEDED) (rev attempts)"

definition existing_applied_finalization ::
    "env \<Rightarrow> run_request \<Rightarrow> rotation_plan \<Rightarrow> logical_scan_run \<Rightarrow> strategy_run \<Rightarrow> final_strategy_identity \<Rightarrow>
     (scan_attempt \<times> string option) option run_op" where
  "existing_applied_finalization e request plan scan run final_identity =
     bindS (liftS (market_evidence_from_run run)) (\<lambda>(snapshot_id, content_hash).
     bindS (scan_attempts request scan) (\<lambda>attempts.
     case applied_attempt run attempts of
       None \<Rightarrow> returnS None
     | Some a \<Rightarrow>
         bindS (liftS (final_key (env_platform e) final_identity)) (\<lambda>k.
         bindS (if att_final_strategy_key a \<noteq> Some k \<or>
                   att_final_strategy_identity_format_version a \<noteq> Some (fi_format_version final_identity)
                then returnS False
                else bindS (liftS (attempt_configuration_snapshot a)) (\<lambda>cfg.
                  returnS (cfg = Some (run_configuration_snapshot run) \<and>
                           att_market_data_snapshot_id a = Some snapshot_id \<and>
                           att_market_data_content_hash a = Some content_hash))) (\<lambda>matches.
         if \<not> matches
         then raiseS (RunCoordinatorInvariantError
                        ''applied final attempt does not match immutable strategy run evidence'')
         else
           bindS (liftS (decode_finalization_evidence run)) (\<lambda>effects.
           bindS (existing_notification_intent_key e request plan run final_identity
                    (fe_notification_intent_recorded effects)) (\<lambda>intent_key.
           returnS (Some (a, intent_key))))))))"

definition final_attempt_of_run :: "strategy_run \<Rightarrow> scan_attempt list \<Rightarrow> scan_attempt option" where
  "final_attempt_of_run run attempts =
     find (\<lambda>a. att_status a = ATTEMPT_SUCCEEDED \<and> att_final_strategy_run_id a = Some (run_strategy_run_id run))
       (rev attempts)"

definition record_recovered_final_attempt ::
    "env \<Rightarrow> run_request \<Rightarrow> logical_scan_run \<Rightarrow> strategy_run \<Rightarrow> final_strategy_identity \<Rightarrow> finalization_disposition \<Rightarrow>
     scan_attempt run_op" where
  "record_recovered_final_attempt e request scan run final_identity disposition =
     bindS (scan_attempts request scan) (\<lambda>attempts.
     let existing = final_attempt_of_run run attempts;
         reused = (case existing of None \<Rightarrow> None
                   | Some a \<Rightarrow>
                       if att_finalization_disposition a = Some disposition \<or>
                          disposition = FINALIZATION_APPLIED \<and> att_finalization_disposition a = None
                       then Some a else None) in
     case reused of
       Some a \<Rightarrow> returnS a
     | None \<Rightarrow>
         if attempts = []
         then raiseS (RunCoordinatorInvariantError ''pending finalization has no provider attempt'')
         else
           let previous = last attempts; cfg = run_configuration_snapshot run in
           bindS (liftS (market_evidence_from_run run)) (\<lambda>(snapshot_id, content_hash).
           bindS (new_uuid e) (\<lambda>i.
           bindS (liftS (final_key (env_platform e) final_identity)) (\<lambda>k.
           bindS (current_time e) (\<lambda>now.
           append_attempt request
             ((attempt_template request scan cfg i (length attempts + 1) ATTEMPT_SUCCEEDED (att_started_at previous))
                \<lparr>att_market_data_snapshot_id := Some snapshot_id, att_market_data_content_hash := Some content_hash,
                 att_completed_at := Some now, att_recovery_of_attempt_id := Some (att_scan_attempt_id previous),
                 att_final_strategy_run_id := Some (run_strategy_run_id run), att_final_strategy_key := Some k,
                 att_final_strategy_identity_format_version := Some (fi_format_version final_identity),
                 att_finalization_disposition := Some disposition\<rparr>))))))"

subsection \<open>Results of a finalization\<close>

definition superseded_result ::
    "env \<Rightarrow> run_request \<Rightarrow> logical_scan_run \<Rightarrow> string \<Rightarrow> strategy_run \<Rightarrow> final_strategy_identity \<Rightarrow> scan_attempt \<Rightarrow>
     run_result run_op" where
  "superseded_result e request scan lock_key run final_identity terminal =
     bindS (audit e request scan (Some final_identity) (Some terminal) True) (\<lambda>entries.
     bindS (liftS (final_key (env_platform e) final_identity)) (\<lambda>k.
     liftS (coordinator_result RUN_SUPERSEDED (Some run) lock_key (Some (sc_logical_scan_run_id scan)) (Some k)
       (dict_set ''failure_code'' (PyStr ''FINALIZATION_SUPERSEDED'')
       (dict_set ''attempt_disposition'' (PyStr (disposition_value RUN_SUPERSEDED)) entries)))))"

definition pending_finalization_result ::
    "env \<Rightarrow> run_request \<Rightarrow> logical_scan_run \<Rightarrow> string \<Rightarrow> strategy_run \<Rightarrow> final_strategy_identity option \<Rightarrow>
     string option \<Rightarrow> run_result run_op" where
  "pending_finalization_result e request scan lock_key run final_identity failure_detail =
     bindS (audit e request scan final_identity None True) (\<lambda>entries.
     let entries = dict_set ''failure_code'' (PyStr ''FINALIZATION_PENDING'')
                     (dict_set ''attempt_disposition'' (PyStr (disposition_value RUN_FAILED)) entries);
         entries = (case failure_detail of None \<Rightarrow> entries
                    | Some d \<Rightarrow> dict_set ''failure_detail'' (PyStr d) entries) in
     bindS (liftS (case final_identity of
                     None \<Rightarrow> Inr (final_key_from_run run)
                   | Some i \<Rightarrow> bindE (final_key (env_platform e) i) (\<lambda>k. Inr (Some k)))) (\<lambda>k.
     liftS (coordinator_result RUN_FAILED None lock_key (Some (sc_logical_scan_run_id scan)) k entries)))"

definition attach_run :: "env \<Rightarrow> run_request \<Rightarrow> rotation_plan \<Rightarrow> logical_scan_run \<Rightarrow> strategy_run \<Rightarrow> unit run_op" where
  "attach_run e request plan scan run =
     bindS (current_time e) (\<lambda>now.
     bindS (on_stores (attach_final_strategy_run (env_platform e) (sc_logical_scan_run_id scan) plan
              (run_strategy_run_id run) now (rc_access_context request))) (\<lambda>_. returnS ()))"

definition finalize_superseded_candidate ::
    "env \<Rightarrow> run_request \<Rightarrow> rotation_plan \<Rightarrow> logical_scan_run \<Rightarrow> string \<Rightarrow> strategy_run \<Rightarrow> final_strategy_identity \<Rightarrow>
     run_result run_op" where
  "finalize_superseded_candidate e request plan scan lock_key run final_identity =
     bindS (attemptS
       (bindS (record_recovered_final_attempt e request scan run final_identity FINALIZATION_SUPERSEDED) (\<lambda>terminal.
        bindS (attach_run e request plan scan run) (\<lambda>_. returnS terminal)))) (\<lambda>outcome.
     case outcome of
       Inl error1 \<Rightarrow>
         pending_finalization_result e request scan lock_key run (Some final_identity) (Some (exn_type_name error1))
     | Inr terminal \<Rightarrow> superseded_result e request scan lock_key run final_identity terminal)"

text \<open>A completed finalization with its audit.\<close>

definition completed_run_result ::
    "env \<Rightarrow> run_request \<Rightarrow> logical_scan_run \<Rightarrow> string \<Rightarrow> strategy_run \<Rightarrow> final_strategy_identity \<Rightarrow> scan_attempt \<Rightarrow>
     string option \<Rightarrow> run_result run_op" where
  "completed_run_result e request scan lock_key run final_identity terminal intent_key =
     bindS (audit e request scan (Some final_identity) (Some terminal) True) (\<lambda>entries.
     let entries = (case intent_key of None \<Rightarrow> entries
                    | Some k \<Rightarrow> dict_set ''notification_intent_key'' (PyStr k) entries) in
     bindS (liftS (final_key (env_platform e) final_identity)) (\<lambda>k.
     liftS (coordinator_result RUN_COMPLETED (Some run) lock_key (Some (sc_logical_scan_run_id scan)) (Some k) entries)))"

text \<open>The effects and the final attempt of a candidate; \<open>Inl\<close> is the early return of a superseded one.\<close>

definition finish_candidate ::
    "env \<Rightarrow> run_request \<Rightarrow> rotation_plan \<Rightarrow> logical_scan_run \<Rightarrow> string \<Rightarrow> strategy_run \<Rightarrow> final_strategy_identity \<Rightarrow>
     (run_result + scan_attempt \<times> string option) run_op" where
  "finish_candidate e request plan scan lock_key run final_identity =
     bindS (attemptS (ensure_finalization_effects e request plan scan run final_identity)) (\<lambda>outcome.
     case outcome of
       Inr intent_key \<Rightarrow>
         bindS (record_recovered_final_attempt e request scan run final_identity FINALIZATION_APPLIED) (\<lambda>terminal.
         returnS (Inr (terminal, intent_key)))
     | Inl (FinalizationSuperseded _) \<Rightarrow>
         bindS (finalize_superseded_candidate e request plan scan lock_key run final_identity) (\<lambda>r. returnS (Inl r))
     | Inl error1 \<Rightarrow> raiseS error1)"

definition recover_pending_finalization ::
    "env \<Rightarrow> run_request \<Rightarrow> rotation_plan \<Rightarrow> logical_scan_run \<Rightarrow> string \<Rightarrow> strategy_run \<Rightarrow> run_result run_op" where
  "recover_pending_finalization e request plan scan lock_key run =
     bindS (attemptS
       (bindS (liftS (final_identity_from_run (env_platform e) run)) (\<lambda>final_identity.
        bindS (existing_applied_finalization e request plan scan run final_identity) (\<lambda>applied.
        bindS (case applied of
                 Some evidence \<Rightarrow> returnS (Inr evidence)
               | None \<Rightarrow> finish_candidate e request plan scan lock_key run final_identity) (\<lambda>finished.
        case finished of
          Inl r \<Rightarrow> returnS (Inl r)
        | Inr (terminal, intent_key) \<Rightarrow>
            bindS (attach_run e request plan scan run) (\<lambda>_.
            returnS (Inr (final_identity, terminal, intent_key)))))))) (\<lambda>outcome.
     case outcome of
       Inl error1 \<Rightarrow>
         bindS (liftS (try_final_identity_from_run (env_platform e) run)) (\<lambda>i.
         pending_finalization_result e request scan lock_key run i (Some (exn_type_name error1)))
     | Inr (Inl r) \<Rightarrow> returnS r
     | Inr (Inr (final_identity, terminal, intent_key)) \<Rightarrow>
         completed_run_result e request scan lock_key run final_identity terminal intent_key)"

subsection \<open>The completed and the duplicate scan\<close>

definition completed_result :: "env \<Rightarrow> run_request \<Rightarrow> logical_scan_run \<Rightarrow> string \<Rightarrow> run_result run_op" where
  "completed_result e request scan lock_key =
     bindS (on_stores (run_get_for_logical_scan (sc_logical_scan_run_id scan) (rc_access_context request))) (\<lambda>stored.
     case stored of
       None \<Rightarrow> raiseS (RunCoordinatorInvariantError ''completed scan is missing its final strategy run'')
     | Some run \<Rightarrow>
         bindS (liftS (final_identity_from_run (env_platform e) run)) (\<lambda>final_identity.
         bindS (scan_attempts request scan) (\<lambda>attempts.
         bindS (case final_attempt_of_run run attempts of
                  Some a \<Rightarrow> returnS a
                | None \<Rightarrow> record_recovered_final_attempt e request scan run final_identity FINALIZATION_APPLIED)
           (\<lambda>terminal.
         if att_finalization_disposition terminal = Some FINALIZATION_SUPERSEDED
         then superseded_result e request scan lock_key run final_identity terminal
         else
           bindS (audit e request scan None (Some terminal) True) (\<lambda>entries.
           liftS (coordinator_result RUN_COMPLETED (Some run) lock_key (Some (sc_logical_scan_run_id scan))
             (final_key_from_run run) entries))))))"

definition duplicate_result :: "run_request \<Rightarrow> string \<Rightarrow> exn + run_result" where
  "duplicate_result request lock_key =
     (let disposition = (if rc_trigger_source request = API then API_CONFLICT else SCHEDULER_SKIPPED) in
      run_result_post_init
        \<lparr>rr_disposition = disposition, rr_strategy_run = None, rr_scan_lock_key = lock_key,
         rr_logical_scan_run_id = None, rr_final_strategy_key = None,
         rr_audit =
           [(''actor_id'', PyStr (uuid_text (actor_user_id (rc_access_context request)))),
            (''attempt_disposition'', PyStr (disposition_value disposition)),
            (''correlation_id'', PyStr (rc_correlation_id request)),
            (''scan_lock_key'', PyStr lock_key),
            (''trigger_source'', PyStr (trigger_value (rc_trigger_source request)))],
         rr_existing_result = Some \<lparr>ref_scan_lock_key = lock_key, ref_logical_scan_run_id = None\<rparr>\<rparr>)"

subsection \<open>A provider attempt\<close>

definition validate_configuration_snapshot :: "env \<Rightarrow> run_request \<Rightarrow> exn + unit" where
  "validate_configuration_snapshot e request =
     (case env_configuration e (cfg_snapshot_id (rc_configuration_snapshot request)) (rc_access_context request) of
        Inl _ \<Rightarrow> Inl (ConfigurationSnapshotValidationError ''configuration snapshot was unavailable for this actor'')
      | Inr persisted \<Rightarrow>
          bindE (configuration_reference persisted) (\<lambda>actual.
          if actual \<noteq> rc_configuration_snapshot request
          then Inl (ConfigurationSnapshotValidationError
                      ''configuration snapshot reference does not match immutable persisted evidence'')
          else if pcs_target_reference_id persisted \<noteq> plan_rotation_plan_id (rc_plan request)
          then Inl (ConfigurationSnapshotValidationError
                      ''configuration snapshot is not bound to the requested rotation plan'')
          else Inr ()))"

definition authoritative_sale_source ::
    "run_request \<Rightarrow> rotation_plan \<Rightarrow> rotation_evaluation \<Rightarrow> position option run_op" where
  "authoritative_sale_source request plan evaluation =
     (case ev_sale_source_position_id evaluation of
        None \<Rightarrow> returnS None
      | Some i \<Rightarrow>
          bindS (on_stores (get_position i (rc_access_context request))) (\<lambda>p.
          bindS (liftS (ensure_authorized_rotation_source plan p)) (\<lambda>_. returnS (Some p))))"

definition validated_sizing_sale :: "rotation_evaluation \<Rightarrow> position option \<Rightarrow> exn + quantity option" where
  "validated_sizing_sale evaluation source =
     (if ev_event evaluation \<noteq> EV_DECISION_VALIDATED then Inr None
      else if g_sizing_outcome (ev_guards evaluation) \<noteq> SIZING_PASSED then Inr None
      else case source of
        None \<Rightarrow> Inl (RunCoordinatorInvariantError ''passed sizing requires an authoritative source position'')
      | Some p \<Rightarrow>
          (case ev_sizing_result evaluation of
             None \<Rightarrow> Inl (RunCoordinatorInvariantError ''passed sizing requires an actionable SizingResult'')
           | Some r \<Rightarrow>
               if \<not> sz_actionable r
               then Inl (RunCoordinatorInvariantError ''passed sizing requires an actionable SizingResult'')
               else if ssa_source_position_id (sz_source_sale r) \<noteq> pos_position_id p
               then Inl (RunCoordinatorInvariantError ''sizing evidence source position does not match'')
               else Inr (Some (ssa_quantity (sz_source_sale r)))))"

text \<open>The durable degraded-data transition; an idle recommendation stays as it is.\<close>

definition degrade_recommendation :: "env \<Rightarrow> run_request \<Rightarrow> rotation_plan \<Rightarrow> unit run_op" where
  "degrade_recommendation e request plan =
     bindS (current_time e) (\<lambda>now.
     bindS (on_stores (state_get_or_create plan now (rc_access_context request))) (\<lambda>rec.
     if rec_state rec = IDLE then returnS ()
     else
       bindS (liftS (transition_degraded_data plan rec)) (\<lambda>t.
       bindS (current_time e) (\<lambda>now.
       bindS (on_stores (state_record_transition plan rec (rs_next_state t) (rs_remaining_stages_halted t) now
                (rc_access_context request) None None)) (\<lambda>_. returnS ())))))"

definition degraded_result ::
    "env \<Rightarrow> run_request \<Rightarrow> rotation_plan \<Rightarrow> logical_scan_run \<Rightarrow> string \<Rightarrow> scan_attempt \<Rightarrow> market_data_snapshot \<Rightarrow>
     final_strategy_identity \<Rightarrow> run_result run_op" where
  "degraded_result e request plan scan lock_key running snapshot final_identity =
     bindS (attemptS (degrade_recommendation e request plan)) (\<lambda>outcome.
     case outcome of
       Inl _ \<Rightarrow>
         failed_result e request scan running lock_key ''DATA_DEGRADATION_STATE_ERROR''
           ''durable degraded-data transition rejected evidence'' (Some snapshot) (Some final_identity)
     | Inr _ \<Rightarrow>
         bindS (record_terminal_attempt e request scan running ATTEMPT_DEGRADED snapshot final_identity None
                  (Some ''MARKET_DATA_DEGRADED'')
                  (Some ''market-data evidence was stale, incomplete, or non-actionable'')) (\<lambda>terminal.
         bindS (liftS (final_key (env_platform e) final_identity)) (\<lambda>k.
         bindS (audit e request scan (Some final_identity) (Some terminal) False) (\<lambda>entries.
         liftS (coordinator_result RUN_DEGRADED None lock_key (Some (sc_logical_scan_run_id scan)) (Some k) entries)))))"

text \<open>The evaluation of actionable evidence and the recording of its candidate.\<close>

definition record_candidate ::
    "env \<Rightarrow> run_request \<Rightarrow> rotation_plan \<Rightarrow> logical_scan_run \<Rightarrow> string \<Rightarrow> market_data_snapshot \<Rightarrow> final_strategy_identity \<Rightarrow>
     strategy_run run_op" where
  "record_candidate e request plan scan lock_key snapshot final_identity =
     (let access = rc_access_context request; cfg = rc_configuration_snapshot request in
      bindS (current_time e) (\<lambda>now.
      bindS (on_stores (state_get_or_create plan now access)) (\<lambda>rec.
      bindS (evaluate e plan snapshot cfg) (\<lambda>evaluation.
      bindS (authoritative_sale_source request plan evaluation) (\<lambda>sale_source.
      bindS (liftS (validated_sizing_sale evaluation sale_source)) (\<lambda>sale_quantity.
      bindS (liftS (final_key (env_platform e) final_identity)) (\<lambda>k.
      bindS (current_time e) (\<lambda>occurred_at.
      bindS (new_uuid e) (\<lambda>run_id.
      bindS (liftS (build_strategy_run plan snapshot cfg lock_key k occurred_at run_id rec evaluation
               sale_source sale_quantity)) (\<lambda>prepared.
      bindS (liftS (final_as_idempotency_key (env_platform e) final_identity)) (\<lambda>key.
      on_stores (run_record_or_get plan (prep_strategy_run prepared) key (Some (sc_logical_scan_run_id scan)) access))))))))))))"

definition evaluated_result ::
    "env \<Rightarrow> run_request \<Rightarrow> rotation_plan \<Rightarrow> logical_scan_run \<Rightarrow> string \<Rightarrow> scan_attempt \<Rightarrow> market_data_snapshot \<Rightarrow>
     final_strategy_identity \<Rightarrow> run_result run_op" where
  "evaluated_result e request plan scan lock_key running snapshot final_identity =
     bindS (attemptS
       (bindS (record_candidate e request plan scan lock_key snapshot final_identity) (\<lambda>run.
        bindS (finish_candidate e request plan scan lock_key run final_identity) (\<lambda>finished. returnS (run, finished)))))
       (\<lambda>outcome.
     case outcome of
       Inl _ \<Rightarrow>
         failed_result e request scan running lock_key ''EVALUATION_OR_PERSISTENCE_ERROR''
           ''deterministic evaluation or final-run persistence rejected evidence'' (Some snapshot) (Some final_identity)
     | Inr (run, Inl r) \<Rightarrow> returnS r
     | Inr (run, Inr (terminal, intent_key)) \<Rightarrow>
         bindS (attemptS (attach_run e request plan scan run)) (\<lambda>attached.
         case attached of
           Inl _ \<Rightarrow> pending_finalization_result e request scan lock_key run (Some final_identity) None
         | Inr _ \<Rightarrow> completed_run_result e request scan lock_key run final_identity terminal intent_key))"

definition attempt_provider ::
    "env \<Rightarrow> run_request \<Rightarrow> rotation_plan \<Rightarrow> logical_scan_run \<Rightarrow> string \<Rightarrow> run_result run_op" where
  "attempt_provider e request plan scan lock_key =
     bindS (record_running_attempt e request scan) (\<lambda>running.
     bindS (attemptS (get_market_snapshot e (rc_market_data_request request))) (\<lambda>answer.
     case answer of
       Inl _ \<Rightarrow>
         failed_result e request scan running lock_key ''MARKET_DATA_PROVIDER_ERROR''
           ''market-data provider failed before immutable snapshot evidence'' None None
     | Inr None \<Rightarrow>
         failed_result e request scan running lock_key ''INVALID_MARKET_DATA_SNAPSHOT''
           ''market-data provider did not return validated snapshot evidence'' None None
     | Inr (Some snapshot) \<Rightarrow>
         bindS (liftS (final_from_snapshot lock_key snapshot)) (\<lambda>final_identity.
         if \<not> snapshot_is_actionable snapshot
         then degraded_result e request plan scan lock_key running snapshot final_identity
         else evaluated_result e request plan scan lock_key running snapshot final_identity)))"

subsection \<open>The entry point\<close>

text \<open>What runs while the lock of the scan is held.\<close>

definition run_uncompleted_scan ::
    "env \<Rightarrow> run_request \<Rightarrow> rotation_plan \<Rightarrow> string \<Rightarrow> logical_scan_run \<Rightarrow> run_result run_op" where
  "run_uncompleted_scan e request plan lock_key scan =
     bindS (on_stores (run_get_for_logical_scan (sc_logical_scan_run_id scan) (rc_access_context request))) (\<lambda>pending.
     case pending of
       Some run \<Rightarrow> recover_pending_finalization e request plan scan lock_key run
     | None \<Rightarrow>
         bindS (provider_attempt_count request scan) (\<lambda>count1.
         if count1 \<ge> env_max_provider_attempts e
         then retry_exhausted_result e request scan lock_key
         else attempt_provider e request plan scan lock_key))"

definition run_locked ::
    "env \<Rightarrow> run_request \<Rightarrow> rotation_plan \<Rightarrow> scan_lock_request \<Rightarrow> string \<Rightarrow> run_result run_op" where
  "run_locked e request plan scan_request lock_key =
     bindS (on_stores (get_by_lock_key (env_platform e) scan_request (rc_access_context request))) (\<lambda>found_scan.
     case found_scan of
       Some scan \<Rightarrow>
         if sc_status scan = SCAN_COMPLETED then completed_result e request scan lock_key
         else run_uncompleted_scan e request plan lock_key scan
     | None \<Rightarrow>
         bindS (current_time e) (\<lambda>now.
         bindS (on_stores (create_or_recover (env_platform e) (env_uuid4 e) scan_request now (rc_access_context request)))
           (run_uncompleted_scan e request plan lock_key)))"

definition run_coordinator :: "env \<Rightarrow> run_request \<Rightarrow> run_result run_op" where
  "run_coordinator e request =
     bindS (on_stores (get_plan (plan_rotation_plan_id (rc_plan request)) (rc_access_context request))) (\<lambda>plan.
     if plan \<noteq> rc_plan request
     then raiseS (RunCoordinatorInvariantError ''request plan does not match the authorized plan'')
     else
       bindS (liftS (validate_configuration_snapshot e request)) (\<lambda>_.
       bindS (liftS (request_scan_lock_request (env_platform e) request)) (\<lambda>scan_request.
       bindS (liftS (build_scan_lock_key (env_platform e) scan_request)) (\<lambda>lock_key.
       bindS (on_stores (acquire_scan_lock (env_platform e) (env_uuid4 e) scan_request (rc_access_context request)))
         (\<lambda>acquired.
       case acquired of
         None \<Rightarrow> liftS (duplicate_result request lock_key)
       | Some lease \<Rightarrow>
           finallyS (run_locked e request plan scan_request lock_key)
             (on_stores (release_lock lease (rc_access_context request))))))))"

end
