(* ===== verification/CoordinatorProps.thy ===== *)
theory CoordinatorProps
  imports StoreProps CoordinatorRun
begin

text \<open>
  What a coordinator run does to the stores, proved once for every order on stores that the repository
  operations respect: the history order, the unchanged holdings, the unchanged leases.
\<close>

subsection \<open>Orders on the stores seen from the world\<close>

definition on_world :: "(stores \<Rightarrow> stores \<Rightarrow> bool) \<Rightarrow> world \<Rightarrow> world \<Rightarrow> bool" where
  "on_world R w w' \<longleftrightarrow> R (w_stores w) (w_stores w')"

lemma on_stores_evolves: "evolves R m \<Longrightarrow> evolves (on_world R) (on_stores m)"
  by (auto simp: evolves_def on_world_def on_stores_def split: prod.splits) (metis snd_conv)

lemma on_stores_readS: "on_stores (readS f) = readS (f \<circ> w_stores)"
  by (rule ext) (simp add: on_stores_def readS_def)

lemma on_stores_bindS: "on_stores (bindS m f) = bindS (on_stores m) (\<lambda>x. on_stores (f x))"
  by (rule ext) (simp add: on_stores_def bindS_def split: prod.splits sum.splits)

lemma scan_attempt_post_init_Inr: "scan_attempt_post_init a = Inr a' \<Longrightarrow> a' = a"
  unfolding scan_attempt_post_init_def by (auto simp: exc_simps split: if_splits option.splits)

lemma append_attempt_eq:
  "append_attempt request a =
     bindS (liftS (scan_attempt_post_init a)) (\<lambda>_.
     bindS (on_stores (record_attempt a (rc_access_context request))) (\<lambda>_. returnS a))"
  by (rule ext)
    (auto simp: append_attempt_def bindS_def liftS_def split: sum.split dest: scan_attempt_post_init_Inr)

text \<open>What a run does while it holds its lock, in three layers: the steps that answer from stored evidence, those
  that also evaluate, and those that also record a running attempt and call the provider.\<close>

locale world_order = evolution R for R :: "world \<Rightarrow> world \<Rightarrow> bool" +
  fixes e :: env
  assumes state_get_or_create: "evolves R (on_stores (state_get_or_create plan t access))"
    and state_record_transition:
      "evolves R (on_stores (state_record_transition plan previous next1 halted t access fence_id fence_key))"
    and create_or_recover: "evolves R (on_stores (create_or_recover (env_platform e) (env_uuid4 e) scan_request t access))"
    and record_attempt: "att_status a \<noteq> ATTEMPT_RUNNING \<Longrightarrow> evolves R (on_stores (record_attempt a access))"
    and attach: "evolves R (on_stores (attach_final_strategy_run (env_platform e) scan_i plan run_id t access))"
    and run_record: "evolves R (on_stores (run_record_or_get plan run key scan_id access))"
    and intent_record: "evolves R (on_stores (intent_record_or_get intent access))"
    and clock: "evolves R (current_time e)"
    and uuids: "evolves R (new_uuid e)"

locale evaluating_order = world_order +
  assumes evaluation: "evolves R (evaluate e plan snapshot cfg)"

locale calling_order = evaluating_order +
  assumes running_attempt: "evolves R (on_stores (record_attempt a access))"
    and market_data: "evolves R (get_market_snapshot e market_request)"

text \<open>An order on the stores that the repository operations respect.\<close>

locale store_order = evolution R for R :: "stores \<Rightarrow> stores \<Rightarrow> bool" +
  fixes e :: env
  assumes state_get_or_create: "evolves R (state_get_or_create plan t access)"
    and state_record_transition:
      "evolves R (state_record_transition plan previous next1 halted t access fence_id fence_key)"
    and create_or_recover: "evolves R (create_or_recover (env_platform e) (env_uuid4 e) scan_request t access)"
    and record_attempt: "evolves R (record_attempt a access)"
    and attach: "evolves R (attach_final_strategy_run (env_platform e) scan_i plan run_id t access)"
    and run_record: "evolves R (run_record_or_get plan run key scan_id access)"
    and intent_record: "evolves R (intent_record_or_get intent access)"

context store_order
begin

lemma on_world: "on_world R w w" "on_world R w v \<Longrightarrow> on_world R v u \<Longrightarrow> on_world R w u"
  by (auto simp: on_world_def refl intro: trans)

lemma injected:
  "evolves (on_world R) (current_time e)"
  "evolves (on_world R) (new_uuid e)"
  "evolves (on_world R) (get_market_snapshot e r)"
  "evolves (on_world R) (evaluate e plan snapshot cfg)"
  by (simp_all add: evolves_def on_world_def current_time_def new_uuid_def get_market_snapshot_def evaluate_def refl)

end

sublocale store_order \<subseteq> world: calling_order "on_world R" e
  by unfold_locales
    (rule on_world(1) injected | erule (1) on_world(2) | rule on_stores_evolves, rule state_get_or_create state_record_transition
        create_or_recover record_attempt attach run_record intent_record)+

context world_order
begin

lemma reads:
  "evolves R (on_stores (get_plan i access))"
  "evolves R (on_stores (get_position i access))"
  "evolves R (on_stores (list_attempts i access))"
  "evolves R (on_stores (run_get_for_logical_scan i access))"
  "evolves R (on_stores (list_intents i access))"
  "evolves R (on_stores (get_by_lock_key pl request access))"
  unfolding get_plan_def get_position_def list_attempts_def run_get_for_logical_scan_def list_intents_def
    get_by_lock_key_def on_stores_bindS on_stores_readS
  by (intro intros)+

lemmas steps = intros state_get_or_create state_record_transition create_or_recover attach run_record intent_record
  reads clock uuids

lemma list_case:
  "evolves R m \<Longrightarrow> (\<And>x ys. evolves R (f x ys)) \<Longrightarrow>
     evolves R (case xs of [] \<Rightarrow> m | x # ys \<Rightarrow> f x ys)"
  by (cases xs) simp_all

lemma superseded_case:
  "(\<And>m. evolves R (f m)) \<Longrightarrow>
     evolves R (case error1 of FinalizationSuperseded m \<Rightarrow> f m | e1 \<Rightarrow> raiseS e1)"
  by (cases error1) (simp_all add: raise)

lemma attempts: "evolves R (scan_attempts request scan)"
  unfolding scan_attempts_def by (intro steps)

lemma audit: "evolves R (audit e request scan i a b)"
  unfolding audit_def by (intro steps attempts)

lemma append_attempt: "att_status a \<noteq> ATTEMPT_RUNNING \<Longrightarrow> evolves R (append_attempt request a)"
  unfolding append_attempt_eq by (intro intros record_attempt)

lemmas attempt_steps = steps attempts audit append_attempt

lemma recording:
  "evolves R (provider_attempt_count request scan)"
  "evolves R (retry_exhausted_result e request scan lock_key)"
  unfolding provider_attempt_count_def retry_exhausted_result_def
  by (intro attempt_steps)+

lemma terminal:
  "status \<noteq> ATTEMPT_RUNNING \<Longrightarrow>
     evolves R (record_terminal_attempt e request scan previous status snapshot i r c d)"
  "evolves R (failed_terminal_attempt e request scan running sn fi code detail)"
  unfolding record_terminal_attempt_def failed_terminal_attempt_def
  by (intro attempt_steps; simp add: attempt_template_def)+

lemma failed: "evolves R (failed_result e request scan running lock_key c d sn fi)"
  unfolding failed_result_def by (intro attempt_steps terminal)

lemma existing_notification: "evolves R (existing_notification_intent_key e request plan run i b)"
  unfolding existing_notification_intent_key_def by (intro attempt_steps list_case)

lemma notification: "evolves R (record_notification_intent e request plan run i b)"
  unfolding record_notification_intent_def by (intro attempt_steps)

lemma legacy: "evolves R (is_legacy_pending_finalization e request current effects scan run i)"
  unfolding is_legacy_pending_finalization_def by (intro attempt_steps)

lemma fenced: "evolves R (record_fenced_transition e request plan current effects r k)"
  unfolding record_fenced_transition_def by (intro attempt_steps)

lemma effects: "evolves R (ensure_finalization_effects e request plan scan run i)"
  unfolding ensure_finalization_effects_def Let_def
  by (intro attempt_steps existing_notification notification legacy fenced)

lemma applied: "evolves R (existing_applied_finalization e request plan scan run i)"
  unfolding existing_applied_finalization_def Let_def by (intro attempt_steps existing_notification)

lemma recovered: "evolves R (record_recovered_final_attempt e request scan run i d)"
  unfolding record_recovered_final_attempt_def Let_def by (intro attempt_steps; simp add: attempt_template_def)

lemma results:
  "evolves R (superseded_result e request scan lock_key run i a)"
  "evolves R (pending_finalization_result e request scan lock_key run fi d)"
  "evolves R (completed_run_result e request scan lock_key run i a k)"
  "evolves R (attach_run e request plan scan run)"
  unfolding superseded_result_def pending_finalization_result_def completed_run_result_def attach_run_def Let_def
  by (intro attempt_steps)+

lemma superseded: "evolves R (finalize_superseded_candidate e request plan scan lock_key run i)"
  unfolding finalize_superseded_candidate_def by (intro attempt_steps results recovered)

lemma finish: "evolves R (finish_candidate e request plan scan lock_key run i)"
  unfolding finish_candidate_def by (intro attempt_steps superseded_case effects recovered superseded)

lemma recover: "evolves R (recover_pending_finalization e request plan scan lock_key run)"
  unfolding recover_pending_finalization_def by (intro attempt_steps applied finish results)

lemma completed: "evolves R (completed_result e request scan lock_key)"
  unfolding completed_result_def by (intro attempt_steps recovered results)

lemma degraded: "evolves R (degraded_result e request plan scan lock_key running snapshot i)"
  unfolding degraded_result_def degrade_recommendation_def by (intro attempt_steps failed terminal; simp)

lemma sale_source: "evolves R (authoritative_sale_source request plan evaluation)"
  unfolding authoritative_sale_source_def by (intro attempt_steps)

end

context evaluating_order
begin

lemma candidate: "evolves R (record_candidate e request plan scan lock_key snapshot i)"
  unfolding record_candidate_def Let_def by (intro attempt_steps sale_source evaluation)

lemma evaluated: "evolves R (evaluated_result e request plan scan lock_key running snapshot i)"
  unfolding evaluated_result_def by (intro attempt_steps candidate finish failed results)

end

context calling_order
begin

lemma running: "evolves R (record_running_attempt e request scan)"
  unfolding record_running_attempt_def append_attempt_def Let_def by (intro attempt_steps running_attempt)

lemma provider: "evolves R (attempt_provider e request plan scan lock_key)"
  unfolding attempt_provider_def by (intro attempt_steps running market_data failed degraded evaluated)

lemma uncompleted: "evolves R (run_uncompleted_scan e request plan lock_key scan)"
  unfolding run_uncompleted_scan_def by (intro attempt_steps recover recording provider)

lemma locked: "evolves R (run_locked e request plan scan_request lock_key)"
  unfolding run_locked_def by (intro attempt_steps completed uncompleted)

lemma run:
  assumes "\<And>r access. evolves R (on_stores (acquire_scan_lock (env_platform e) (env_uuid4 e) r access))"
    and "\<And>lease access. evolves R (on_stores (release_lock lease access))"
  shows "evolves R (run_coordinator e request)"
  unfolding run_coordinator_def by (intro attempt_steps locked assms)

end

end
