(* ===== verification/RunHistory.thy ===== *)
theory RunHistory
  imports CoordinatorProps
begin

text \<open>
  A run seen from outside: what it keeps, what it adds, and that it gives its lock back.
\<close>

interpretation history: store_order "advances (env_uuid4 e)" e for e
  by unfold_locales (rule store_advances)+

subsection \<open>What a run leaves alone\<close>

definition unchanged :: "('s \<Rightarrow> 'a) \<Rightarrow> 's \<Rightarrow> 's \<Rightarrow> bool" where
  "unchanged f s s' \<longleftrightarrow> f s' = f s"

interpretation unchanged: evolution "unchanged f" for f
  by unfold_locales (auto simp: unchanged_def)

text \<open>What belongs to the user, and the relations of the lock provider.\<close>

definition holdings where
  "holdings s = (st_portfolio_owners s, st_candidate_group_owners s, st_position_portfolios s, st_instruments s,
     st_positions s, st_plans s)"

definition lock_relations where
  "lock_relations s = (st_leases s, st_lease_portfolios s, st_lease_keys s)"

lemmas untouched_defs = unchanged_def holdings_def lock_relations_def

abbreviation untouched :: "stores \<Rightarrow> stores \<Rightarrow> bool" where
  "untouched \<equiv> unchanged (\<lambda>s. (holdings s, lock_relations s))"

lemma create_or_recover_untouched: "evolves untouched (create_or_recover pl fresh scan_request t access)"
  unfolding create_or_recover_def draw_uuid_def create_scan_def
  by (intro unchanged.intros) (auto simp: untouched_defs exc_simps)

lemma record_untouched:
  "evolves untouched (state_get_or_create plan t access)"
  "evolves untouched (state_record_transition plan previous next1 halted t access fence_id fence_key)"
  "evolves untouched (record_attempt a access)"
  "evolves untouched (attach_final_strategy_run pl i plan run_id t access)"
  "evolves untouched (run_record_or_get plan run key scan_id access)"
  "evolves untouched (intent_record_or_get intent access)"
  unfolding state_get_or_create_def state_record_transition_def record_attempt_def attach_final_strategy_run_def
    run_record_or_get_def intent_record_or_get_def
  by (rule unchanged.update, auto simp: untouched_defs exc_simps Let_def split: option.splits if_splits)+

interpretation untouched: store_order untouched e for e
  by unfold_locales (rule create_or_recover_untouched record_untouched)+

lemma acquire_holdings: "evolves (unchanged holdings) (acquire_scan_lock pl fresh r access)"
  unfolding acquire_scan_lock_def draw_uuid_def
  by (intro unchanged.intros) (auto simp: unchanged_def holdings_def Let_def)

lemma release_holdings: "evolves (unchanged holdings) (release_lock lease access)"
  unfolding release_lock_def
  by (rule unchanged.update) (auto simp: unchanged_def holdings_def exc_simps split: option.splits if_splits)

lemma untouched_holdings: "evolves untouched m \<Longrightarrow> evolves (unchanged holdings) m"
  by (auto simp: evolves_def unchanged_def)

interpretation holdings: store_order "unchanged holdings" e for e
  by unfold_locales (rule untouched_holdings [OF create_or_recover_untouched] record_untouched [THEN untouched_holdings])+

end
