(* ===== verification/RunResults.thy ===== *)
theory RunResults
  imports EffectTriples RunHistory
begin

text \<open>
  What the result of a run says of the stores: a completed or superseded answer is the answer of a scan that
  is completed in the stores with that run, and only a held lock is answered with a conflict.
\<close>

abbreviation intact :: "env \<Rightarrow> world \<Rightarrow> bool" where
  "intact e w \<equiv> store_ok (env_uuid4 e) (w_stores w)"

text \<open>A scan completed with a run.\<close>

definition settled :: "env \<Rightarrow> uuid \<Rightarrow> strategy_run \<Rightarrow> world \<Rightarrow> bool" where
  "settled e i run w \<longleftrightarrow> intact e w \<and>
     (\<exists>scan. st_scans_by_id (w_stores w) i = Some scan \<and> sc_status scan = SCAN_COMPLETED \<and>
        sc_final_strategy_run_id scan = Some (run_strategy_run_id run))"

definition answered :: "env \<Rightarrow> run_result \<Rightarrow> world \<Rightarrow> bool" where
  "answered e r w \<longleftrightarrow>
     rr_disposition r \<notin> {API_CONFLICT, SCHEDULER_SKIPPED} \<and>
     (rr_disposition r \<in> {RUN_COMPLETED, RUN_SUPERSEDED} \<longrightarrow>
        (\<exists>i run. rr_logical_scan_run_id r = Some i \<and> rr_strategy_run r = Some run \<and> settled e i run w))"

abbreviation forward :: "env \<Rightarrow> world \<Rightarrow> world \<Rightarrow> bool" where
  "forward e \<equiv> on_world (advances (env_uuid4 e))"

lemma forward_intact: "evolves (forward e) m \<Longrightarrow> evolves (keeps (intact e)) m"
  by (auto simp: evolves_def on_world_def advances_def keeps_def)

lemma history_settled:
  "history_extends s s' \<Longrightarrow> st_scans_by_id s i = Some scan \<Longrightarrow> sc_status scan = SCAN_COMPLETED \<Longrightarrow>
     st_scans_by_id s' i = Some scan"
  by (auto simp: history_extends_def extends_by_def scan_advances_def) force

lemma settled_step: "forward e w w' \<Longrightarrow> settled e i run w \<Longrightarrow> settled e i run w'"
  using history_settled unfolding settled_def on_world_def advances_def by meson

lemma forward_settled: "evolves (forward e) m \<Longrightarrow> evolves (keeps (settled e i run)) m"
  by (auto simp: evolves_def keeps_def intro: settled_step)

lemma answered_step: "forward e w w' \<Longrightarrow> answered e r w \<Longrightarrow> answered e r w'"
  unfolding answered_def by (blast intro: settled_step)

lemma attach_settled:
  "triple (intact e) (attach_run e request plan scan run) (\<lambda>_. settled e (sc_logical_scan_run_id scan) run)"
proof (unfold attach_run_def, rule triple_keep [OF forward_intact [OF history.injected(1)]], rule triple_bind)
  fix now
  let ?attach = "attach_final_strategy_run (env_platform e) (sc_logical_scan_run_id scan) plan
    (run_strategy_run_id run) now (rc_access_context request)"
  show "triple (intact e) (on_stores ?attach) (\<lambda>_. settled e (sc_logical_scan_run_id scan) run)"
    unfolding triple_def
  proof (intro allI impI)
    fix w completed w' assume ok: "intact e w" and run: "on_stores ?attach w = (Inr completed, w')"
    then have attach: "?attach (w_stores w) = (Inr completed, w_stores w')"
      by (auto simp: on_stores_def split: prod.splits)
    have "intact e w'" using evolvesD [OF attach_advances attach] ok by (simp add: advances_def)
    with attach show "settled e (sc_logical_scan_run_id scan) run w'"
      by (auto simp: settled_def elim!: attach_result)
  qed
qed (simp add: triple_def returnS_Inr)

lemma result_settled:
  "d = RUN_COMPLETED \<or> d = RUN_SUPERSEDED \<Longrightarrow>
     triple (settled e i run) (liftS (coordinator_result d (Some run) lock_key (Some i) k entries)) (answered e)"
  by (rule triple_lift)
    (auto simp: answered_def coordinator_result_def run_result_post_init_def split: if_splits)

lemma result_open:
  "d = RUN_FAILED \<or> d = RUN_DEGRADED \<or> d = RETRY_EXHAUSTED \<Longrightarrow>
     triple P (liftS (coordinator_result d run lock_key i k entries)) (answered e)"
  by (rule triple_lift)
    (auto simp: answered_def coordinator_result_def run_result_post_init_def split: if_splits)

lemma open_results:
  "triple P (pending_finalization_result e request scan lock_key run fi d) (answered e)"
  "triple P (failed_result e request scan running lock_key code detail sn fi) (answered e)"
  "triple P (retry_exhausted_result e request scan lock_key) (answered e)"
  unfolding pending_finalization_result_def failed_result_def retry_exhausted_result_def Let_def
  by (rule triple_skip result_open | simp)+

lemma degraded_answered:
  "triple P (degraded_result e request plan scan lock_key running snapshot i) (answered e)"
  unfolding degraded_result_def
  by (rule triple_skip triple_sum open_results result_open | simp)+

lemmas settled_keep = triple_keep [OF forward_settled]
lemmas intact_keep = triple_keep [OF forward_intact]

lemma settled_results:
  "triple (settled e (sc_logical_scan_run_id scan) run)
     (completed_run_result e request scan lock_key run i terminal intent_key) (answered e)"
  "triple (settled e (sc_logical_scan_run_id scan) run)
     (superseded_result e request scan lock_key run i terminal) (answered e)"
  unfolding completed_run_result_def superseded_result_def Let_def
  by (rule settled_keep history.world.audit history.world.lift result_settled | simp)+

lemma superseded_answered:
  "triple (intact e) (finalize_superseded_candidate e request plan scan lock_key run i) (answered e)"
  unfolding finalize_superseded_candidate_def
  by (rule triple_try [where M = "\<lambda>_. settled e (sc_logical_scan_run_id scan) run"])
    (rule intact_keep history.world.recovered triple_bind attach_settled open_results settled_results
       | simp add: triple_return)+

lemma triple_superseded_case:
  "(\<And>m. triple P (f m) Q) \<Longrightarrow> triple P (case e1 of FinalizationSuperseded m \<Rightarrow> f m | e2 \<Rightarrow> raiseS e2) Q"
  by (cases e1) (simp_all add: triple_raise)

text \<open>A finished candidate is an answer, or left to be attached.\<close>

abbreviation finished_well :: "env \<Rightarrow> run_result + 'a \<Rightarrow> world \<Rightarrow> bool" where
  "finished_well e r w \<equiv> (case r of Inl answer \<Rightarrow> answered e answer w | Inr _ \<Rightarrow> intact e w)"

lemma finish_answered:
  "triple (intact e) (finish_candidate e request plan scan lock_key run i) (finished_well e)"
  unfolding finish_candidate_def
proof (rule triple_bind)
  show "triple (intact e) (attemptS (ensure_finalization_effects e request plan scan run i)) (\<lambda>_. intact e)"
    using forward_intact [OF history.world.effects] unfolding evolves_def keeps_def triple_def attemptS_Inr
    by (metis snd_conv)
  fix outcome
  show "triple (intact e) (case outcome of
       Inr intent_key \<Rightarrow>
         bindS (record_recovered_final_attempt e request scan run i FINALIZATION_APPLIED) (\<lambda>terminal.
         returnS (Inr (terminal, intent_key)))
     | Inl (FinalizationSuperseded _) \<Rightarrow>
         bindS (finalize_superseded_candidate e request plan scan lock_key run i) (\<lambda>r. returnS (Inl r))
     | Inl error1 \<Rightarrow> raiseS error1) (finished_well e)"
    by (rule triple_sum triple_superseded_case intact_keep history.world.recovered
          triple_bind [OF superseded_answered] triple_return | simp)+
qed

lemma finish_attached:
  "triple (finished_well e r) (case r of
       Inl answer \<Rightarrow> returnS (Inl answer)
     | Inr (terminal, intent_key) \<Rightarrow>
         bindS (attach_run e request plan scan run) (\<lambda>_. returnS (Inr (final_identity, terminal, intent_key))))
     (\<lambda>q w. case q of Inl answer \<Rightarrow> answered e answer w | Inr _ \<Rightarrow> settled e (sc_logical_scan_run_id scan) run w)"
  by (rule triple_sum triple_pair triple_bind [OF triple_pre [OF attach_settled]] triple_return | simp)+

lemma recover_answered:
  "triple (intact e) (recover_pending_finalization e request plan scan lock_key run) (answered e)"
  unfolding recover_pending_finalization_def
proof (rule triple_try [where M = "\<lambda>q w. case q of Inl answer \<Rightarrow> answered e answer w
      | Inr _ \<Rightarrow> settled e (sc_logical_scan_run_id scan) run w"])
  fix q
  show "triple (\<lambda>w. case q of Inl answer \<Rightarrow> answered e answer w
       | Inr _ \<Rightarrow> settled e (sc_logical_scan_run_id scan) run w)
    (case q of Inl r \<Rightarrow> returnS r
     | Inr (final_identity, terminal, intent_key) \<Rightarrow>
         completed_run_result e request scan lock_key run final_identity terminal intent_key) (answered e)"
    by (cases q) (auto simp: settled_results triple_return)
qed (rule intact_keep history.world.lift history.world.applied triple_skip open_results
       triple_bind [where M = "finished_well e", OF _ finish_attached] triple_option finish_answered triple_return | simp)+

lemma evaluated_answered:
  "triple (intact e) (evaluated_result e request plan scan lock_key running snapshot i) (answered e)"
  unfolding evaluated_result_def
proof (rule triple_try [where M = "\<lambda>q. finished_well e (snd q)"])
  show "triple (intact e)
      (bindS (record_candidate e request plan scan lock_key snapshot i) (\<lambda>run.
       bindS (finish_candidate e request plan scan lock_key run i) (\<lambda>finished. returnS (run, finished))))
      (\<lambda>q. finished_well e (snd q))"
    by (rule intact_keep history.world.candidate triple_bind [OF finish_answered] triple_return | simp)+
  fix q :: "strategy_run \<times> (run_result + scan_attempt \<times> string option)"
  obtain run finished where q: "q = (run, finished)" by (cases q)
  show "triple (finished_well e (snd q))
    (case q of
       (run, Inl r) \<Rightarrow> returnS r
     | (run, Inr (terminal, intent_key)) \<Rightarrow>
         bindS (attemptS (attach_run e request plan scan run)) (\<lambda>attached.
         case attached of
           Inl _ \<Rightarrow> pending_finalization_result e request scan lock_key run (Some i) None
         | Inr _ \<Rightarrow> completed_run_result e request scan lock_key run i terminal intent_key)) (answered e)"
    unfolding q prod.case snd_conv
    by (rule triple_sum triple_pair triple_return triple_try [OF triple_pre [OF attach_settled]]
        open_results settled_results | simp)+
qed (rule open_results)

lemma provider_answered:
  "triple (intact e) (attempt_provider e request plan scan lock_key) (answered e)"
  unfolding attempt_provider_def
proof (rule intact_keep [OF history.world.running], rule triple_try)
  fix running snapshot
  show "triple (intact e) (case snapshot of
      None \<Rightarrow> failed_result e request scan running lock_key ''INVALID_MARKET_DATA_SNAPSHOT''
           ''market-data provider did not return validated snapshot evidence'' None None
    | Some snapshot \<Rightarrow>
         bindS (liftS (final_from_snapshot lock_key snapshot)) (\<lambda>final_identity.
         if \<not> snapshot_is_actionable snapshot
         then degraded_result e request plan scan lock_key running snapshot final_identity
         else evaluated_result e request plan scan lock_key running snapshot final_identity)) (answered e)"
    by (rule triple_option open_results intact_keep history.world.lift triple_if degraded_answered evaluated_answered)+
next
  show "triple (intact e) (get_market_snapshot e (rc_market_data_request request)) (\<lambda>_. intact e)"
    by (auto simp: triple_def get_market_snapshot_def)
qed (rule open_results)

abbreviation holds_scan :: "env \<Rightarrow> logical_scan_run \<Rightarrow> world \<Rightarrow> bool" where
  "holds_scan e scan w \<equiv> intact e w \<and> st_scans_by_id (w_stores w) (sc_logical_scan_run_id scan) = Some scan"

lemma on_stores_result: "on_stores m w = (r, w') \<longleftrightarrow> m (w_stores w) = (r, w_stores w') \<and> w' = w\<lparr>w_stores := w_stores w'\<rparr>"
  by (auto simp: on_stores_def split: prod.splits)

lemma completed_run_settled:
  "sc_status scan = SCAN_COMPLETED \<Longrightarrow>
     triple (holds_scan e scan) (on_stores (run_get_for_logical_scan (sc_logical_scan_run_id scan) access))
       (\<lambda>r w. case r of None \<Rightarrow> True | Some run \<Rightarrow> settled e (sc_logical_scan_run_id scan) run w)"
  by (auto simp: triple_def on_stores_result run_get_for_logical_scan_def exc_simps settled_def store_ok_def
      completion_ok_def has_final_evidence_def split: option.splits) fastforce

lemma completed_answered:
  assumes "sc_status scan = SCAN_COMPLETED"
  shows "triple (holds_scan e scan) (completed_result e request scan lock_key) (answered e)"
  unfolding completed_result_def
proof (rule triple_bind [OF completed_run_settled [OF assms]])
  fix r
  show "triple (\<lambda>w. case r of None \<Rightarrow> True | Some run \<Rightarrow> settled e (sc_logical_scan_run_id scan) run w)
    (case r of
       None \<Rightarrow> raiseS (RunCoordinatorInvariantError ''completed scan is missing its final strategy run'')
     | Some run \<Rightarrow>
         bindS (liftS (final_identity_from_run (env_platform e) run)) (\<lambda>final_identity.
         bindS (scan_attempts request scan) (\<lambda>attempts.
         bindS (case final_attempt_of_run run attempts of
                  Some a \<Rightarrow> returnS a
                | None \<Rightarrow> record_recovered_final_attempt e request scan run final_identity FINALIZATION_APPLIED)
           (\<lambda>terminal.
         if att_finalization_disposition terminal = Some FINALIZATION_SUPERSEDED
         then superseded_result e request scan lock_key run final_identity terminal
         else
           bindS (audit e request scan None (Some terminal) True) (\<lambda>entries.
           liftS (coordinator_result RUN_COMPLETED (Some run) lock_key (Some (sc_logical_scan_run_id scan))
             (final_key_from_run run) entries)))))) (answered e)"
    by (cases r)
      (simp add: triple_raise, simp, (rule settled_keep history.world.lift history.world.attempts history.world.option
         history.world.return history.world.recovered triple_if settled_results history.world.audit result_settled | simp)+)
qed

lemma uncompleted_answered:
  "triple (intact e) (run_uncompleted_scan e request plan lock_key scan) (answered e)"
  unfolding run_uncompleted_scan_def
  by (rule intact_keep history.world.reads history.world.recording triple_option triple_if recover_answered open_results
      provider_answered)+

lemma lookup_found:
  "triple (intact e) (on_stores (get_by_lock_key pl scan_request access))
     (\<lambda>r w. case r of None \<Rightarrow> intact e w | Some scan \<Rightarrow> holds_scan e scan w)"
  by (auto simp: triple_def on_stores_result get_by_lock_key_def exc_simps scan_lookup_def require_scan_match_def
      store_ok_def scans_ok_def split: option.splits if_splits)

lemma locked_answered:
  "triple (intact e) (run_locked e request plan scan_request lock_key) (answered e)"
  unfolding run_locked_def
proof (rule triple_bind [OF lookup_found])
  fix r
  show "triple (\<lambda>w. case r of None \<Rightarrow> intact e w | Some scan \<Rightarrow> holds_scan e scan w)
    (case r of
       Some scan \<Rightarrow>
         if sc_status scan = SCAN_COMPLETED then completed_result e request scan lock_key
         else run_uncompleted_scan e request plan lock_key scan
     | None \<Rightarrow>
         bindS (current_time e) (\<lambda>now.
         bindS (on_stores (create_or_recover (env_platform e) (env_uuid4 e) scan_request now (rc_access_context request)))
           (run_uncompleted_scan e request plan lock_key))) (answered e)"
  proof (cases r)
    case None
    show ?thesis unfolding None option.case
      by (rule intact_keep history.injected(1) history.world.create_or_recover uncompleted_answered)+
  next
    case (Some scan)
    show ?thesis unfolding Some option.case
      by (rule triple_if completed_answered triple_pre [OF uncompleted_answered] | simp)+
  qed
qed

subsection \<open>The run\<close>

text \<open>The key of the lock a request asks for.\<close>

definition request_lock_key :: "env \<Rightarrow> run_request \<Rightarrow> exn + string" where
  "request_lock_key e request =
     bindE (request_scan_lock_request (env_platform e) request) (build_scan_lock_key (env_platform e))"

lemma acquire_None:
  "acquire_scan_lock pl fresh request access s = (Inr None, s') \<Longrightarrow>
     s' = s \<and> (\<exists>k. scan_lock_key pl request = Inr k \<and> st_leases s k \<noteq> None)"
  unfolding acquire_scan_lock_def lock_is_held_def draw_uuid_def
  by (auto simp: exc_simps Let_def split: if_splits)

lemma run_cases:
  assumes "run_coordinator e request w = (r, w')"
  obtains (rejected) x where "w' = w" "r = Inl x"
  | (busy) k where "w' = w" "request_lock_key e request = Inr k" "st_leases (w_stores w) k \<noteq> None"
      "r = duplicate_result request k"
  | (locked) plan scan_request k lease w1 q w2 p where
      "request_scan_lock_request (env_platform e) request = Inr scan_request"
      "request_lock_key e request = Inr k" "lease_key lease = k" "st_leases (w_stores w) k = None"
      "on_stores (acquire_scan_lock (env_platform e) (env_uuid4 e) scan_request (rc_access_context request)) w
         = (Inr (Some lease), w1)"
      "run_locked e request plan scan_request k w1 = (q, w2)"
      "on_stores (release_lock lease (rc_access_context request)) w2 = (p, w')"
      "r = (case p of Inl x \<Rightarrow> Inl x | Inr _ \<Rightarrow> q)"
proof -
  let ?access = "rc_access_context request" and ?pl = "env_platform e"
  obtain plan_result where plan: "on_stores (get_plan (plan_rotation_plan_id (rc_plan request)) ?access) w = (plan_result, w)"
    by (auto simp: get_plan_def on_stores_def readS_def)
  show thesis
  proof (cases "plan_result = Inr (rc_plan request) \<and> (\<exists>u. validate_configuration_snapshot e request = Inr u)
      \<and> (\<exists>q k. request_scan_lock_request ?pl request = Inr q \<and> build_scan_lock_key ?pl q = Inr k)")
    case False
    then show thesis using assms plan rejected unfolding run_coordinator_def
      by (auto simp: bindS_def liftS_def raiseS_def split: sum.splits if_splits)
  next
    case True
    then obtain q k where valid: "plan_result = Inr (rc_plan request)"
      "validate_configuration_snapshot e request = Inr ()"
      "request_scan_lock_request ?pl request = Inr q" "build_scan_lock_key ?pl q = Inr k" by auto
    then have key: "request_lock_key e request = Inr k" by (simp add: request_lock_key_def)
    obtain acquired s1 where acquire: "acquire_scan_lock ?pl (env_uuid4 e) q ?access (w_stores w) = (acquired, s1)"
      by fastforce
    then have acquire_w: "on_stores (acquire_scan_lock ?pl (env_uuid4 e) q ?access) w = (acquired, w\<lparr>w_stores := s1\<rparr>)"
      by (simp add: on_stores_def)
    have run: "(r, w') = (case acquired of
        Inl x \<Rightarrow> (Inl x, w\<lparr>w_stores := s1\<rparr>)
      | Inr None \<Rightarrow> (duplicate_result request k, w\<lparr>w_stores := s1\<rparr>)
      | Inr (Some lease) \<Rightarrow> finallyS (run_locked e request (rc_plan request) q k) (on_stores (release_lock lease ?access))
          (w\<lparr>w_stores := s1\<rparr>))"
      using assms plan valid acquire_w unfolding run_coordinator_def
      by (auto simp: bindS_def liftS_def split: sum.splits option.splits)
    note cases = acquire_result [OF acquire]
    show thesis
    proof (cases acquired)
      case (Inl x)
      then show thesis using cases run by (intro rejected [of x]) (auto simp: Let_def)
    next
      case (Inr found_lease)
      show thesis
      proof (cases found_lease)
        case None
        with acquire Inr have "s1 = w_stores w" "st_leases (w_stores w) k \<noteq> None"
          using valid(4) by (auto dest!: acquire_None simp: build_scan_lock_key_def)
        then show thesis using run Inr None key by (intro busy [of k]) simp_all
      next
        case (Some lease)
        obtain p2 w2 where locked_run: "run_locked e request (rc_plan request) q k (w\<lparr>w_stores := s1\<rparr>) = (p2, w2)"
          by fastforce
        obtain p w3 where release: "on_stores (release_lock lease ?access) w2 = (p, w3)" by fastforce
        have outcome: "(r, w') = (case p of Inl x \<Rightarrow> (Inl x, w3) | Inr _ \<Rightarrow> (p2, w3))"
          using run Inr Some locked_run release by (simp add: finallyS_def split: sum.splits)
        from cases Inr Some valid(4) have lease: "lease_key lease = k" "st_leases (w_stores w) k = None"
          by (auto simp: Let_def build_scan_lock_key_def)
        have "w' = w3" "r = (case p of Inl x \<Rightarrow> Inl x | Inr _ \<Rightarrow> p2)" using outcome by (cases p; simp)+
        then show thesis
          using valid key lease acquire_w Inr Some locked_run release by (intro locked) simp_all
      qed
    qed
  qed
qed

end
