(* ===== verification/RunExample.thy ===== *)
theory RunExample
  imports CoordinatorRun StoreProps
begin

text \<open>
  A small installation on which the coordinator runs: one owner with one portfolio and one rotation plan,
  a market-data provider that fails on its first call and then delivers an actionable snapshot, and an
  evaluator that activates the plan.
\<close>

definition example_owner :: uuid where "example_owner = 1"
definition example_digest :: string where "example_digest = replicate 64 (CHR ''a'')"
definition example_time :: datetime where "example_time = Aware 1735689600000000"

definition example_platform :: platform where
  "example_platform = \<lparr>pl_sha256 = (\<lambda>_. example_digest),
     pl_zone = (\<lambda>n. if n = ''UTC'' then Some (\<lambda>_. 0) else None)\<rparr>"

definition example_plan :: rotation_plan where
  "example_plan = \<lparr>plan_rotation_plan_id = 3, plan_portfolio_id = 2, plan_candidate_group_ids = [],
     plan_source_position_ids = [], plan_protected_position_ids = [], plan_created_at = example_time\<rparr>"

definition example_configuration :: configuration_snapshot_ref where
  "example_configuration =
     \<lparr>cfg_snapshot_id = 4, cfg_content_hash = example_digest, cfg_created_at = example_time\<rparr>"

definition example_market_request :: market_data_request where
  "example_market_request = \<lparr>mr_request_id = 5, mr_instruments = [], mr_requested_at = example_time,
     mr_intraday_start = example_time, mr_intraday_end = example_time, mr_intraday_interval = 1, mr_daily_start = 20089,
     mr_daily_end = 20089, mr_maximum_data_delay = 1\<rparr>"

definition example_bar :: bar where
  "example_bar = \<lparr>bar_instrument_id = 6, bar_starts_at = example_time, bar_ends_at = example_time, bar_open = dec_of_int 1,
     bar_high = dec_of_int 1, bar_low = dec_of_int 1, bar_close = dec_of_int 1, bar_volume = dec_of_int 1\<rparr>"

definition example_snapshot :: market_data_snapshot where
  "example_snapshot = \<lparr>ms_provider = ''p'', ms_request = example_market_request,
     ms_quotes = [\<lparr>qt_instrument_id = 6, qt_as_of = example_time, qt_price = dec_of_int 1\<rparr>],
     ms_intraday_bars = [example_bar], ms_daily_bars = [example_bar],
     ms_quality = \<lparr>dq_provider = ''p'', dq_fetched_at = example_time, dq_source_timestamp = example_time, dq_delay = 0,
       dq_stale = False, dq_missing_fields = [], dq_bars_complete = True, dq_anomalies = [], dq_confidence = dec_of_int 1\<rparr>,
     ms_snapshot_id = ''market-data:v1:'' @ example_digest, ms_content_hash = example_digest, ms_canonical_json = []\<rparr>"

definition example_evaluation :: rotation_evaluation where
  "example_evaluation = \<lparr>ev_event = EV_PLAN_ACTIVATED, ev_guards = default_guards\<lparr>g_plan_is_valid := True\<rparr>,
     ev_outputs = [], ev_sale_source_position_id = None, ev_sizing_result = None\<rparr>"

definition example_env :: env where
  "example_env = \<lparr>env_platform = example_platform, env_uuid4 = (\<lambda>n. 100 + n), env_uuid5 = (\<lambda>_. 7),
     env_new_uuid = (\<lambda>n. 1000 + n), env_now = (\<lambda>n. Aware (1735689600000000 + int n)),
     env_configuration = (\<lambda>i access. Inr \<lparr>pcs_snapshot_id = 4, pcs_content_hash = example_digest,
       pcs_created_at = example_time, pcs_target_reference_id = 3\<rparr>),
     env_market_data = (\<lambda>n request. if n = 0 then Inl (KeyError []) else Inr (Some example_snapshot)),
     env_evaluator = (\<lambda>n plan snapshot cfg. Inr example_evaluation), env_max_provider_attempts = 2\<rparr>"

definition example_request :: run_request where
  "example_request = \<lparr>rc_plan = example_plan, rc_configuration_snapshot = example_configuration,
     rc_market_session_date = ''2025-01-01'', rc_scan_window_start = example_time, rc_scan_interval = ''5m'',
     rc_market_timezone = ''UTC'', rc_market_data_request = example_market_request,
     rc_access_context = \<lparr>actor_user_id = example_owner, is_administrator = False, request_id = 8,
       authentication_method = ''t'', requested_ownership = None\<rparr>,
     rc_trigger_source = API, rc_correlation_id = ''c''\<rparr>"

definition example_stores :: stores where
  "example_stores = \<lparr>st_portfolio_owners = Map.empty(2 \<mapsto> example_owner), st_candidate_group_owners = Map.empty,
     st_position_portfolios = Map.empty, st_instruments = Map.empty, st_positions = [], st_records = Map.empty,
     st_plans = Map.empty(3 \<mapsto> example_plan), st_scans_by_id = Map.empty, st_scans_by_key = Map.empty,
     st_attempts_by_scan = Map.empty, st_runs_by_key = Map.empty, st_runs_by_id = Map.empty,
     st_logical_scan_by_key = Map.empty, st_runs_by_logical_scan = Map.empty, st_intents_by_key = Map.empty,
     st_intent_keys_by_run = Map.empty, st_leases = Map.empty, st_lease_portfolios = Map.empty,
     st_lease_keys = Map.empty, st_uuids_drawn = 0\<rparr>"

definition example_world :: world where
  "example_world = \<lparr>w_stores = example_stores, w_clock = 0, w_uuids = 0, w_provider_calls = 0, w_evaluator_calls = 0\<rparr>"

lemma example_fresh: "env_uuid4 example_env = (\<lambda>n. 100 + n)"
  by (simp add: example_env_def)

lemma example_stores_ok: "store_ok (env_uuid4 example_env) (w_stores example_world)"
  by (simp add: example_fresh example_world_def example_stores_def store_ok_def ids_ok_def scans_ok_def
      completion_ok_def runs_ok_def inj_def)

end
