(* ===== verification/RunProps.thy ===== *)
theory RunProps
  imports RunResults RunExample
begin

text \<open>The guarantees of a coordinator run.\<close>

lemmas run_evolves_history = history.world.run [OF on_stores_evolves [OF acquire_advances] on_stores_evolves [OF release_advances]]
lemmas run_evolves_holdings = holdings.world.run [OF on_stores_evolves [OF acquire_holdings] on_stores_evolves [OF release_holdings]]

text \<open>C3: A run never loses or rewrites history, whatever it answers or raises: the store stays intact (unique
  scan keys, attempt chains, completed scans with their evidence), recorded scans, attempts, runs and intents stay as
  they are, a completed scan never changes again and a recommendation state only changes with a higher revision.\<close>

theorem run_keeps_history:
  assumes "store_ok (env_uuid4 e) (w_stores w)"
  shows "store_ok (env_uuid4 e) (w_stores (snd (run_coordinator e request w))) \<and>
         history_extends (w_stores w) (w_stores (snd (run_coordinator e request w)))"
  using assms run_evolves_history by (auto simp: evolves_def on_world_def advances_def)

theorem run_keeps_history_witness:
  "let w' = snd (run_coordinator example_env example_request example_world) in
     store_ok (env_uuid4 example_env) (w_stores w') \<and> history_extends (w_stores example_world) (w_stores w')"
  using run_keeps_history [OF example_stores_ok] by (simp add: Let_def)

text \<open>C10: A run never touches what belongs to the user: owners, instruments, positions and rotation plans are the
  same after it, whether it answers or raises.\<close>

theorem run_keeps_holdings:
  "holdings (w_stores (snd (run_coordinator e request w))) = holdings (w_stores w)"
  using run_evolves_holdings by (simp add: evolves_def on_world_def unchanged_def)

lemma require_mutation_owners:
  "st_portfolio_owners s' = st_portfolio_owners s \<Longrightarrow>
     require_portfolio_mutation s' i access = require_portfolio_mutation s i access"
  by (simp add: require_portfolio_mutation_def portfolio_owner_def)

text \<open>The lease a run takes is removed by its release, whatever happened in between.\<close>

lemma acquire_release:
  assumes "acquire_scan_lock pl fresh scan_request access s = (Inr (Some lease), s1)"
    and "untouched s1 s2" and "release_lock lease access s2 = (p, s3)"
    and "fresh (st_uuids_drawn s) \<notin> dom (st_lease_portfolios s) \<union> dom (st_lease_keys s)"
  shows "p = Inr () \<and> lock_relations s3 = lock_relations s"
proof -
  from acquire_result [OF assms(1)] obtain k owner where
    lease: "lease_id lease = fresh (st_uuids_drawn s)" "lease_key lease = k" "st_leases s k = None"
    and owner: "require_portfolio_mutation s (plan_portfolio_id (sl_plan scan_request)) access = Inr owner"
    and s1: "s1 = s\<lparr>st_uuids_drawn := Suc (st_uuids_drawn s), st_leases := (st_leases s)(k \<mapsto> lease),
              st_lease_portfolios := (st_lease_portfolios s)(lease_id lease \<mapsto> plan_portfolio_id (sl_plan scan_request)),
              st_lease_keys := (st_lease_keys s)(lease_id lease \<mapsto> k)\<rparr>"
    by (auto simp: Let_def)
  have s2: "st_portfolio_owners s2 = st_portfolio_owners s" "st_leases s2 = st_leases s1"
    "st_lease_portfolios s2 = st_lease_portfolios s1" "st_lease_keys s2 = st_lease_keys s1"
    using assms(2) s1 by (simp_all add: untouched_defs)
  have free: "st_lease_portfolios s (lease_id lease) = None" "st_lease_keys s (lease_id lease) = None"
    using assms(4) lease by auto
  show ?thesis
    using assms(3) s1 s2 lease free owner require_mutation_owners [OF s2(1)]
    by (auto simp: release_lock_def updateS_def lock_relations_def fun_upd_idem)
qed

text \<open>C6: A run leaves the locks as it found them, on every path: a lock it took is released, also when an exception
  ends the run, and a lock held by another run stays held.\<close>

theorem run_releases_lock:
  assumes "store_ok (env_uuid4 e) (w_stores w)"
  shows "lock_relations (w_stores (snd (run_coordinator e request w))) = lock_relations (w_stores w)"
proof -
  obtain r w' where run: "run_coordinator e request w = (r, w')" by fastforce
  from run show ?thesis
  proof (cases rule: run_cases)
    case (locked plan scan_request k lease w1 q w2 p)
    have "untouched (w_stores w1) (w_stores w2)"
      using evolvesD [OF untouched.world.locked locked(6)] by (simp add: on_world_def)
    moreover have "env_uuid4 e (st_uuids_drawn (w_stores w)) \<notin>
        dom (st_lease_portfolios (w_stores w)) \<union> dom (st_lease_keys (w_stores w))"
      using assms fresh_not_drawn unfolding store_ok_def ids_ok_def by blast
    ultimately have "lock_relations (w_stores w') = lock_relations (w_stores w)"
      using locked(5,7) by (intro acquire_release [THEN conjunct2]) (auto simp: on_stores_result)
    then show ?thesis by (simp add: run)
  qed (simp_all add: run)
qed

theorem run_releases_lock_witness:
  "st_leases (w_stores (snd (run_coordinator example_env example_request example_world))) = Map.empty"
  using run_releases_lock [OF example_stores_ok, of example_request]
  by (simp add: lock_relations_def example_world_def example_stores_def)

text \<open>A locked run is answered by what ran under the lock.\<close>

lemma run_answered:
  assumes "intact e w" and "run_coordinator e request w = (Inr r, w')"
    and "\<And>k. request_lock_key e request = Inr k \<Longrightarrow> st_leases (w_stores w) k = None"
  shows "answered e r w'"
  using assms(2)
proof (cases rule: run_cases)
  case (locked plan scan_request k lease w1 q w2 p)
  have "intact e w1" using assms(1) evolvesD [OF acquire_advances] locked(5)
    by (auto simp: on_stores_result advances_def)
  moreover have q: "q = Inr r" using locked(8) by (cases p) simp_all
  ultimately have "answered e r w2" using locked(6) tripleD [OF locked_answered] by metis
  then show ?thesis using answered_step evolvesD [OF on_stores_evolves [OF release_advances] locked(7)] by blast
qed (use assms(3) in auto)

lemma duplicate_result_disposition:
  "duplicate_result request k = Inr r \<Longrightarrow>
     rr_disposition r = (if rc_trigger_source request = API then API_CONFLICT else SCHEDULER_SKIPPED)"
  by (auto simp: duplicate_result_def run_result_post_init_def Let_def split: if_splits)

lemma conflict_result:
  assumes "store_ok (env_uuid4 e) (w_stores w)" and "run_coordinator e request w = (Inr r, w')"
  shows "(if \<exists>k. request_lock_key e request = Inr k \<and> st_leases (w_stores w) k \<noteq> None
          then rr_disposition r = (if rc_trigger_source request = API then API_CONFLICT else SCHEDULER_SKIPPED) \<and> w' = w
          else answered e r w')"
proof (cases "\<exists>k. request_lock_key e request = Inr k \<and> st_leases (w_stores w) k \<noteq> None")
  case True
  with assms(2) show ?thesis
    by (cases rule: run_cases) (auto simp: duplicate_result_disposition)
next
  case False
  then show ?thesis using run_answered [OF assms] by auto
qed

text \<open>C7: A run answers with a conflict (a skip for the scheduler) exactly when the lock of its scan is held, and then
  it changes nothing at all; it never reports a conflict for a scan it could have locked.\<close>

theorem conflict_exactly_when_held:
  assumes "store_ok (env_uuid4 e) (w_stores w)"
  shows "case run_coordinator e request w of
      (Inl _, _) \<Rightarrow> True
    | (Inr r, w') \<Rightarrow>
        if \<exists>k. request_lock_key e request = Inr k \<and> st_leases (w_stores w) k \<noteq> None
        then rr_disposition r = (if rc_trigger_source request = API then API_CONFLICT else SCHEDULER_SKIPPED) \<and> w' = w
        else rr_disposition r \<notin> {API_CONFLICT, SCHEDULER_SKIPPED}"
  using conflict_result [OF assms, of request]
  by (auto simp: answered_def split: prod.split sum.split if_splits)

theorem conflict_exactly_when_held_witness:
  "case run_coordinator example_env example_request example_world of
      (Inl _, _) \<Rightarrow> True
    | (Inr r, w') \<Rightarrow> rr_disposition r \<notin> {API_CONFLICT, SCHEDULER_SKIPPED}"
  using conflict_exactly_when_held [OF example_stores_ok, of example_request]
  by (simp add: example_world_def example_stores_def split: prod.splits sum.splits)



end
