(* ===== verification/RunBudget.thy ===== *)
theory RunBudget
  imports RunProps
begin

text \<open>How often a run calls the market-data provider, against the running attempts it records.\<close>

subsection \<open>Running attempts\<close>

definition running_attempts :: "stores \<Rightarrow> uuid \<Rightarrow> nat" where
  "running_attempts s i =
     (case st_attempts_by_scan s i of None \<Rightarrow> 0
      | Some as \<Rightarrow> length (filter (\<lambda>a. att_status a = ATTEMPT_RUNNING) as))"

definition adds_no_running :: "(nat \<Rightarrow> uuid) \<Rightarrow> stores \<Rightarrow> stores \<Rightarrow> bool" where
  "adds_no_running fresh s s' \<longleftrightarrow>
     advances fresh s s' \<and> (store_ok fresh s \<longrightarrow> running_attempts s' = running_attempts s)"

interpretation adds_no_running: evolution "adds_no_running fresh" for fresh
  by unfold_locales (auto simp: adds_no_running_def advances.refl advances_def history_extends_refl
      intro: history_extends_trans)

lemma running_attempts_cong: "st_attempts_by_scan s' = st_attempts_by_scan s \<Longrightarrow> running_attempts s' = running_attempts s"
  by (rule ext) (simp add: running_attempts_def)

lemma adds_no_running_attempts:
  assumes "evolves (advances fresh) m" and "evolves (unchanged st_attempts_by_scan) m"
  shows "evolves (adds_no_running fresh) m"
  using assms by (auto simp: evolves_def adds_no_running_def unchanged_def intro: running_attempts_cong)

lemma attempts_unchanged:
  "evolves (unchanged st_attempts_by_scan) (state_get_or_create plan t access)"
  "evolves (unchanged st_attempts_by_scan)
     (state_record_transition plan previous next1 halted t access fence_id fence_key)"
  "evolves (unchanged st_attempts_by_scan) (attach_final_strategy_run pl i plan run_id t access)"
  "evolves (unchanged st_attempts_by_scan) (run_record_or_get plan run key scan_id access)"
  "evolves (unchanged st_attempts_by_scan) (intent_record_or_get intent access)"
  "evolves (unchanged st_attempts_by_scan) (release_lock lease access)"
  unfolding state_get_or_create_def state_record_transition_def attach_final_strategy_run_def
    run_record_or_get_def intent_record_or_get_def release_lock_def
  by (rule unchanged.update, auto simp: unchanged_def exc_simps Let_def split: option.splits if_splits)+

lemma acquire_attempts: "evolves (unchanged st_attempts_by_scan) (acquire_scan_lock pl fresh r access)"
  unfolding acquire_scan_lock_def draw_uuid_def
  by (intro unchanged.intros) (auto simp: unchanged_def Let_def)

lemma create_no_running: "evolves (adds_no_running fresh) (create_or_recover pl fresh scan_request t access)"
proof (rule evolvesI)
  fix s r s' assume run: "create_or_recover pl fresh scan_request t access s = (r, s')"
  let ?i = "fresh (st_uuids_drawn s)" and ?d = "s\<lparr>st_uuids_drawn := Suc (st_uuids_drawn s)\<rparr>"
  have "s' = s \<or> create_scan pl scan_request t ?i ?d = (r, s')"
    using run
    by (auto simp: create_or_recover_def bindS_def readS_def returnS_def draw_uuid_def updateS_def
        split: sum.splits option.splits)
  then have "st_attempts_by_scan s' = st_attempts_by_scan s \<or>
      st_attempts_by_scan s' = (st_attempts_by_scan s)(?i \<mapsto> [])"
    by (auto dest!: create_scan_result)
  moreover have "st_attempts_by_scan s ?i = None" if "store_ok fresh s"
    using that fresh_not_drawn [of fresh s] by (auto simp: store_ok_def ids_ok_def scans_ok_def)
  ultimately have "running_attempts s' = running_attempts s" if "store_ok fresh s"
    using that by (intro ext) (auto simp: running_attempts_def)
  then show "adds_no_running fresh s s'"
    using evolvesD [OF create_or_recover_advances run] by (simp add: adds_no_running_def)
qed

lemma record_running_count:
  assumes "record_attempt a access s = (r, s')" and "store_ok fresh s"
  shows "s' = s \<and> (\<exists>x. r = Inl x) \<or>
    running_attempts s' = (running_attempts s)
      (att_logical_scan_run_id a := running_attempts s (att_logical_scan_run_id a) +
         (if att_status a = ATTEMPT_RUNNING then 1 else 0))"
proof (cases r)
  case (Inl x)
  then show ?thesis using assms(1) by (auto simp: record_attempt_def dest: updateS_Inl)
next
  case (Inr u)
  with assms(1) obtain scan as where "st_scans_by_id s (att_logical_scan_run_id a) = Some scan"
    "st_attempts_by_scan s (sc_logical_scan_run_id scan) = Some as"
    "s' = s\<lparr>st_attempts_by_scan := (st_attempts_by_scan s)(sc_logical_scan_run_id scan \<mapsto> as @ [a])\<rparr>"
    by (auto elim: record_attempt_result)
  moreover from this(1) assms(2) have "sc_logical_scan_run_id scan = att_logical_scan_run_id a"
    by (auto simp: store_ok_def scans_ok_def)
  ultimately show ?thesis by (auto simp: running_attempts_def fun_eq_iff)
qed

lemma terminal_no_running:
  "att_status a \<noteq> ATTEMPT_RUNNING \<Longrightarrow> evolves (adds_no_running fresh) (record_attempt a access)"
  by (rule evolvesI)
    (auto simp: adds_no_running_def dest: record_running_count evolvesD [OF record_attempt_advances])

lemmas no_running =
  adds_no_running_attempts [OF state_get_or_create_advances attempts_unchanged(1)]
  adds_no_running_attempts [OF state_record_transition_advances attempts_unchanged(2)]
  adds_no_running_attempts [OF attach_advances attempts_unchanged(3)]
  adds_no_running_attempts [OF run_record_advances attempts_unchanged(4)]
  adds_no_running_attempts [OF intent_record_advances attempts_unchanged(5)]
  create_no_running terminal_no_running

text \<open>The orders of steps that make no counted call and record no running attempt.\<close>

definition quiet :: "(world \<Rightarrow> 'c) \<Rightarrow> env \<Rightarrow> world \<Rightarrow> world \<Rightarrow> bool" where
  "quiet count1 e w w' \<longleftrightarrow> on_world (adds_no_running (env_uuid4 e)) w w' \<and> count1 w' = count1 w"

lemma quiet_order: "quiet c e w w" "quiet c e w v \<Longrightarrow> quiet c e v u \<Longrightarrow> quiet c e w u"
  by (auto simp: quiet_def on_world_def adds_no_running.refl intro: adds_no_running.trans)

definition all_calls :: "world \<Rightarrow> nat \<times> nat" where
  "all_calls w = (w_provider_calls w, w_evaluator_calls w)"

lemma quiet_on_stores:
  assumes "evolves (adds_no_running (env_uuid4 e)) m" and "\<And>w s. c (w\<lparr>w_stores := s\<rparr>) = c w"
  shows "evolves (quiet c e) (on_stores m)"
  using on_stores_evolves [OF assms(1)] assms(2)
  by (auto simp: evolves_def quiet_def on_stores_def split: prod.splits)

lemma quiet_injected:
  "(\<And>w n. c (w\<lparr>w_clock := n\<rparr>) = c w) \<Longrightarrow> evolves (quiet c e) (current_time e)"
  "(\<And>w n. c (w\<lparr>w_uuids := n\<rparr>) = c w) \<Longrightarrow> evolves (quiet c e) (new_uuid e)"
  "(\<And>w n. c (w\<lparr>w_evaluator_calls := n\<rparr>) = c w) \<Longrightarrow> evolves (quiet c e) (evaluate e plan snapshot cfg)"
  by (simp_all add: evolves_def quiet_def on_world_def current_time_def new_uuid_def evaluate_def adds_no_running.refl)

interpretation silent: world_order "quiet all_calls e" e for e
  by unfold_locales
    (rule quiet_order(1) | erule (1) quiet_order(2) | rule quiet_on_stores quiet_injected no_running
      | assumption | simp add: all_calls_def)+

interpretation calm: evaluating_order "quiet w_provider_calls e" e for e
  by unfold_locales
    (rule quiet_order(1) | erule (1) quiet_order(2) | rule quiet_on_stores quiet_injected no_running
      | assumption | simp)+

subsection \<open>Calls and attempts\<close>

text \<open>Nothing was called and no running attempt recorded, or one call was made after one was recorded for a scan.\<close>

definition calls_paid :: "(nat \<Rightarrow> bool) \<Rightarrow> world \<Rightarrow> world \<Rightarrow> bool" where
  "calls_paid allowed w w' \<longleftrightarrow>
     (let before = running_attempts (w_stores w); after = running_attempts (w_stores w') in
      w_provider_calls w' = w_provider_calls w \<and> after = before \<or>
      (\<exists>i. allowed (before i) \<and> after = before(i := before i + 1) \<and>
         (w_provider_calls w' = w_provider_calls w \<or> w_provider_calls w' = w_provider_calls w + 1)))"

lemma quiet_paid:
  "evolves (quiet w_provider_calls e) m \<Longrightarrow> intact e w \<Longrightarrow> m w = (r, w') \<Longrightarrow> calls_paid allowed w w'"
  by (auto simp: quiet_def on_world_def adds_no_running_def calls_paid_def dest!: evolvesD)

lemma quiet_after_paid:
  "calls_paid allowed w w' \<Longrightarrow> quiet w_provider_calls e w' w'' \<Longrightarrow> intact e w' \<Longrightarrow> calls_paid allowed w w''"
  by (auto simp: quiet_def on_world_def adds_no_running_def calls_paid_def Let_def)

text \<open>After the running attempt: one call, and steps that call no more.\<close>

lemma scan_attempts_state: "scan_attempts request scan w = (q, w') \<Longrightarrow> w' = w"
  by (simp add: scan_attempts_def list_attempts_def on_stores_def readS_def)

lemma append_attempt_cases:
  assumes "append_attempt request a w0 = (r, w1)"
  obtains (rejected) x where "r = Inl x" "w1 = w0"
  | (recorded) q where "on_stores (record_attempt a (rc_access_context request)) w0 = (q, w1)"
      "r = map_sum (\<lambda>x. x) (\<lambda>_. a) q"
  using assms unfolding append_attempt_eq
  by (elim bindS_cases) (auto simp: liftS_def returnS_def)

lemma attempt_template_simps [simp]:
  "att_status (attempt_template request scan cfg i n status t) = status"
  "att_logical_scan_run_id (attempt_template request scan cfg i n status t) = sc_logical_scan_run_id scan"
  by (simp_all add: attempt_template_def)

lemma running_attempt_cases:
  assumes "record_running_attempt e request scan w = (r, w1)"
  obtains (failed) x where "r = Inl x" "w_stores w1 = w_stores w" "w_provider_calls w1 = w_provider_calls w"
  | (recorded) a w0 q where "w_stores w0 = w_stores w" "w_provider_calls w0 = w_provider_calls w"
      "on_stores (record_attempt a (rc_access_context request)) w0 = (q, w1)"
      "att_status a = ATTEMPT_RUNNING" "att_logical_scan_run_id a = sc_logical_scan_run_id scan"
      "r = map_sum (\<lambda>x. x) (\<lambda>_. a) q"
proof -
  have append: thesis if "append_attempt request a w0 = (r, w1)" "att_status a = ATTEMPT_RUNNING"
      "att_logical_scan_run_id a = sc_logical_scan_run_id scan"
      "w_stores w0 = w_stores w" "w_provider_calls w0 = w_provider_calls w" for a w0
    using that(1) by (cases rule: append_attempt_cases) (use that failed recorded in auto)
  have stopped: thesis if "r = Inl x" "w1 = w\<lparr>w_uuids := n, w_clock := k\<rparr>" for x n k
    using that failed by simp
  have unread: thesis if "r = Inl x" "w1 = w" for x
    using that failed by simp
  show thesis
    using assms unfolding record_running_attempt_def Let_def
    by (elim bindS_cases)
      (auto simp: current_time_def new_uuid_def raiseS_def dest!: scan_attempts_state elim!: bindS_cases
         split: if_splits intro: stopped unread append)
qed

lemma running_attempt_recorded:
  assumes "record_running_attempt e request scan w = (r, w1)" and ok: "intact e w"
  shows "intact e w1" and "w_provider_calls w1 = w_provider_calls w"
    and "running_attempts (w_stores w1) = running_attempts (w_stores w) \<and> (\<exists>x. r = Inl x) \<or>
     running_attempts (w_stores w1) = (running_attempts (w_stores w))
       (sc_logical_scan_run_id scan := running_attempts (w_stores w) (sc_logical_scan_run_id scan) + 1)"
proof -
  show "intact e w1" using evolvesD [OF forward_intact [OF history.world.running] assms(1)] ok by (simp add: keeps_def)
  show "w_provider_calls w1 = w_provider_calls w"
    using assms(1) by (cases rule: running_attempt_cases) (auto simp: on_stores_def split: prod.splits)
  show "running_attempts (w_stores w1) = running_attempts (w_stores w) \<and> (\<exists>x. r = Inl x) \<or>
     running_attempts (w_stores w1) = (running_attempts (w_stores w))
       (sc_logical_scan_run_id scan := running_attempts (w_stores w) (sc_logical_scan_run_id scan) + 1)"
    using assms(1)
  proof (cases rule: running_attempt_cases)
    case (recorded a w0 q)
    then have "record_attempt a (rc_access_context request) (w_stores w) = (q, w_stores w1)"
      by (simp add: on_stores_result)
    from record_running_count [OF this ok] show ?thesis using recorded by auto
  qed auto
qed

lemma provider_paid:
  assumes "attempt_provider e request plan scan lock_key w = (r, w')" and ok: "intact e w"
    and "allowed (running_attempts (w_stores w) (sc_logical_scan_run_id scan))"
  shows "calls_paid allowed w w'"
proof -
  obtain p w1 where running: "record_running_attempt e request scan w = (p, w1)" by fastforce
  note recorded = running_attempt_recorded [OF running ok]
  show ?thesis
  proof (cases p)
    case (Inl x)
    then have "w' = w1" using assms(1) running by (simp add: attempt_provider_def bindS_def)
    then show ?thesis using recorded(2,3) assms(3) by (auto simp: calls_paid_def Let_def)
  next
    case (Inr a)
    let ?w2 = "w1\<lparr>w_provider_calls := Suc (w_provider_calls w1)\<rparr>"
    let ?answer = "env_market_data e (w_provider_calls w1) (rc_market_data_request request)"
    define rest where "rest answer = (case answer of
       Inl _ \<Rightarrow>
         failed_result e request scan a lock_key ''MARKET_DATA_PROVIDER_ERROR''
           ''market-data provider failed before immutable snapshot evidence'' None None
     | Inr None \<Rightarrow>
         failed_result e request scan a lock_key ''INVALID_MARKET_DATA_SNAPSHOT''
           ''market-data provider did not return validated snapshot evidence'' None None
     | Inr (Some snapshot) \<Rightarrow>
         bindS (liftS (final_from_snapshot lock_key snapshot)) (\<lambda>final_identity.
         if \<not> snapshot_is_actionable snapshot
         then degraded_result e request plan scan lock_key a snapshot final_identity
         else evaluated_result e request plan scan lock_key a snapshot final_identity))"
      for answer :: "exn + market_data_snapshot option"
    have "evolves (quiet w_provider_calls e) (rest answer)" for answer
      unfolding rest_def by (intro calm.attempt_steps calm.failed calm.degraded calm.evaluated)
    moreover have "rest ?answer ?w2 = (r, w')"
      using assms(1) running Inr
      by (simp add: attempt_provider_def bindS_def attemptS_def get_market_snapshot_def rest_def)
    ultimately have after: "quiet w_provider_calls e ?w2 w'" by (rule evolvesD)
    have "calls_paid allowed w ?w2"
      using recorded Inr assms(3) by (auto simp: calls_paid_def Let_def)
    then show ?thesis by (rule quiet_after_paid [OF _ after]) (simp add: recorded(1))
  qed
qed

lemma provider_attempt_count_result:
  assumes "provider_attempt_count request scan w = (Inr n, w')"
  shows "w' = w \<and> n = int (running_attempts (w_stores w) (sc_logical_scan_run_id scan))"
proof -
  have "length (filter P (sort_key f as)) = length (filter P as)" for P :: "scan_attempt \<Rightarrow> bool" and f as
    by (simp add: filter_sort)
  then show ?thesis
    using assms unfolding provider_attempt_count_def scan_attempts_def list_attempts_def
    by (auto simp: exc_simps on_stores_result attempts_of_def running_attempts_def split: option.splits)
qed

abbreviation within_budget :: "env \<Rightarrow> nat \<Rightarrow> bool" where
  "within_budget e n \<equiv> int n < env_max_provider_attempts e"

lemma paid_refl: "calls_paid allowed w w"
  by (simp add: calls_paid_def)

lemma read_state: "on_stores (readS f) w = (q, w') \<Longrightarrow> w' = w"
  by (auto simp: on_stores_def readS_def)

lemma uncompleted_paid:
  assumes "run_uncompleted_scan e request plan lock_key scan w = (r, w')" and ok: "intact e w"
  shows "calls_paid (within_budget e) w w'"
  using assms(1) unfolding run_uncompleted_scan_def
proof (cases rule: bindS_cases)
  case (goes_on pending w1)
  then have w1: "w1 = w" by (auto simp: run_get_for_logical_scan_def dest!: read_state)
  show ?thesis
  proof (cases pending)
    case (Some run)
    then have "recover_pending_finalization e request plan scan lock_key run w = (r, w')"
      using goes_on w1 by simp
    then show ?thesis by (rule quiet_paid [OF calm.recover ok])
  next
    case None
    with goes_on w1 have "bindS (provider_attempt_count request scan) (\<lambda>count1.
         if count1 \<ge> env_max_provider_attempts e
         then retry_exhausted_result e request scan lock_key
         else attempt_provider e request plan scan lock_key) w = (r, w')" by simp
    then show ?thesis
    proof (cases rule: bindS_cases)
      case (stops x)
      then show ?thesis by (intro quiet_paid [OF calm.recording(1) ok])
    next
      case count: (goes_on n w2)
      note n = provider_attempt_count_result [OF count(1)]
      show ?thesis
      proof (cases "n \<ge> env_max_provider_attempts e")
        case True
        then have "retry_exhausted_result e request scan lock_key w = (r, w')" using count n by simp
        then show ?thesis by (rule quiet_paid [OF calm.recording(2) ok])
      next
        case False
        then have "attempt_provider e request plan scan lock_key w = (r, w')" using count n by simp
        then show ?thesis by (rule provider_paid [OF _ ok]) (use False n in simp)
      qed
    qed
  qed
qed (auto simp: run_get_for_logical_scan_def paid_refl dest!: read_state)

lemma paid_after_quiet:
  "quiet w_provider_calls e w w1 \<Longrightarrow> intact e w \<Longrightarrow> calls_paid allowed w1 w' \<Longrightarrow> calls_paid allowed w w'"
  by (auto simp: quiet_def on_world_def adds_no_running_def calls_paid_def Let_def)

lemma quiet_intact: "quiet c e w w1 \<Longrightarrow> intact e w \<Longrightarrow> intact e w1"
  by (auto simp: quiet_def on_world_def adds_no_running_def advances_def)

lemma paid_bind:
  assumes "evolves (quiet w_provider_calls e) m"
    and "\<And>x w1. intact e w1 \<Longrightarrow> f x w1 = (r, w') \<Longrightarrow> calls_paid allowed w1 w'"
    and "bindS m f w = (r, w')" and ok: "intact e w"
  shows "calls_paid allowed w w'"
  using assms(3)
proof (cases rule: bindS_cases)
  case (goes_on x w1)
  note first = evolvesD [OF assms(1) goes_on(1)]
  show ?thesis using paid_after_quiet [OF first ok assms(2) [OF quiet_intact [OF first ok] goes_on(2)]] .
qed (rule quiet_paid [OF assms(1) ok])

lemma locked_paid:
  assumes "run_locked e request plan scan_request lock_key w = (r, w')" and "intact e w"
  shows "calls_paid (within_budget e) w w'"
  using assms(1) unfolding run_locked_def
proof (rule paid_bind [OF calm.reads(6), rotated 1])
  fix scan_found w1
  assume "(case scan_found of
       Some scan \<Rightarrow>
         if sc_status scan = SCAN_COMPLETED then completed_result e request scan lock_key
         else run_uncompleted_scan e request plan lock_key scan
     | None \<Rightarrow>
         bindS (current_time e) (\<lambda>now.
         bindS (on_stores (create_or_recover (env_platform e) (env_uuid4 e) scan_request now (rc_access_context request)))
           (run_uncompleted_scan e request plan lock_key))) w1 = (r, w')" and ok: "intact e w1"
  then show "calls_paid (within_budget e) w1 w'"
    by (auto split: option.splits if_splits
        intro: uncompleted_paid quiet_paid [OF calm.completed]
        elim!: paid_bind [OF calm.clock, rotated 1] paid_bind [OF calm.create_or_recover, rotated 1])
qed (rule assms(2))

text \<open>C5: A run calls the market-data provider at most once, and only after it recorded a new RUNNING attempt for a
  scan that had fewer of them than the configured maximum; it records at most one RUNNING attempt.\<close>

theorem provider_called_within_budget:
  assumes "store_ok (env_uuid4 e) (w_stores w)"
  shows "let w' = snd (run_coordinator e request w);
             before = running_attempts (w_stores w); after = running_attempts (w_stores w') in
    w_provider_calls w' = w_provider_calls w \<and> after = before \<or>
    (\<exists>i. int (before i) < env_max_provider_attempts e \<and> after = before(i := before i + 1) \<and>
       w_provider_calls w' \<in> {w_provider_calls w, w_provider_calls w + 1})"
proof -
  obtain r w' where run: "run_coordinator e request w = (r, w')" by (metis surj_pair)
  have same: "running_attempts (w_stores v') = running_attempts (w_stores v) \<and> w_provider_calls v' = w_provider_calls v"
    if "on_stores m v = (q, v')" "evolves (unchanged st_attempts_by_scan) m" for m :: "'z store_op" and v q v'
    using that evolvesD [OF that(2)]
    by (auto simp: on_stores_def unchanged_def intro: running_attempts_cong split: prod.splits)
  have "calls_paid (within_budget e) w w'"
    using run
  proof (cases rule: run_cases)
    case (locked plan scan_request k lease w1 q w2 p)
    have "intact e w1" using assms locked(5) evolvesD [OF acquire_advances]
      by (auto simp: on_stores_result advances_def)
    from locked_paid [OF locked(6) this] show ?thesis
      using same [OF locked(5) acquire_attempts] same [OF locked(7) attempts_unchanged(6)]
      by (simp add: calls_paid_def)
  qed (simp_all add: paid_refl)
  then show ?thesis by (auto simp: calls_paid_def Let_def run)
qed

theorem provider_called_within_budget_witness:
  "w_provider_calls (snd (run_coordinator example_env example_request example_world)) \<in> {0, 1}"
  using provider_called_within_budget [OF example_stores_ok, of example_request]
  by (auto simp: Let_def) (simp_all add: example_world_def)



subsection \<open>Stored answers\<close>

lemma silent_calls: "evolves (quiet all_calls e) m \<Longrightarrow> m w = (r, w') \<Longrightarrow> all_calls w' = all_calls w"
  by (auto simp: quiet_def dest: evolvesD)

lemma locked_stored:
  assumes "run_locked e request plan scan_request k w = (r, w')"
    and key: "scan_lock_key (env_platform e) scan_request = Inr k"
    and scan: "st_scans_by_key (w_stores w) k = Some scan"
    and run: "st_runs_by_logical_scan (w_stores w) (sc_logical_scan_run_id scan) = Some run"
  shows "all_calls w' = all_calls w"
  using assms(1) unfolding run_locked_def
proof (cases rule: bindS_cases)
  case (goes_on scan_found w1)
  then have w1: "w1 = w" "scan_found = Some scan"
    using key scan
    by (auto simp: get_by_lock_key_def on_stores_result exc_simps scan_lookup_def require_scan_match_def split: if_splits)
  show ?thesis
  proof (cases "sc_status scan = SCAN_COMPLETED")
    case True
    then show ?thesis using goes_on w1 by (auto intro: silent_calls [OF silent.completed])
  next
    case False
    then have "run_uncompleted_scan e request plan k scan w = (r, w')" using goes_on w1 by simp
    then show ?thesis unfolding run_uncompleted_scan_def
    proof (cases rule: bindS_cases)
      case pending: (goes_on p w2)
      then have "w2 = w" "p = Some run" using run
        by (auto simp: run_get_for_logical_scan_def on_stores_result exc_simps)
      then show ?thesis using pending by (auto intro: silent_calls [OF silent.recover])
    qed (auto intro: silent_calls [OF silent.reads(4)])
  qed
qed (auto intro: silent_calls [OF silent.reads(6)])

lemma stored_run_no_call:
  assumes "request_lock_key e request = Inr k" and "st_scans_by_key (w_stores w) k = Some scan"
    and "st_runs_by_logical_scan (w_stores w) (sc_logical_scan_run_id scan) \<noteq> None"
  shows "all_calls (snd (run_coordinator e request w)) = all_calls w"
proof -
  obtain r w' where run: "run_coordinator e request w = (r, w')" by fastforce
  from run show ?thesis
  proof (cases rule: run_cases)
    case (locked plan scan_request k' lease w1 q w2 p)
    then have key: "k' = k" "scan_lock_key (env_platform e) scan_request = Inr k"
      using assms(1) by (auto simp: request_lock_key_def build_scan_lock_key_def)
    have w1: "all_calls w1 = all_calls w" "st_scans_by_key (w_stores w1) = st_scans_by_key (w_stores w)"
      "st_runs_by_logical_scan (w_stores w1) = st_runs_by_logical_scan (w_stores w)"
      using locked(5) by (auto simp: on_stores_result all_calls_def Let_def dest!: acquire_result)
    have "all_calls w2 = all_calls w1"
      using locked_stored locked(6) key w1 assms(2,3) by auto
    moreover have "all_calls w' = all_calls w2"
      using locked(7) by (auto simp: on_stores_def all_calls_def split: prod.splits)
    ultimately show ?thesis using run w1 by simp
  qed (simp_all add: run)
qed

text \<open>C8: A scan whose strategy run is stored (a completed scan, or a candidate whose finalization was interrupted) is
  answered from the stores: the run calls neither the market-data provider nor the evaluator.\<close>

theorem stored_run_needs_no_call:
  "case request_lock_key e request of
     Inl _ \<Rightarrow> True
   | Inr k \<Rightarrow>
       (case st_scans_by_key (w_stores w) k of
          None \<Rightarrow> True
        | Some scan \<Rightarrow>
            (case st_runs_by_logical_scan (w_stores w) (sc_logical_scan_run_id scan) of
               None \<Rightarrow> True
             | Some run \<Rightarrow>
                 w_provider_calls (snd (run_coordinator e request w)) = w_provider_calls w \<and>
                 w_evaluator_calls (snd (run_coordinator e request w)) = w_evaluator_calls w))"
  using stored_run_no_call [of e request] by (auto simp: all_calls_def split: sum.split option.split)

end
