(* ===== verification/Calendar.thy ===== *)
theory Calendar
  imports Domain PyValues
begin

text \<open>
  The trading calendar: the port of \<open>app/calendar/base.py\<close> as a record of its three operations, its
  contract as the locale \<open>session_calendar\<close>, and the fixed calendar of \<open>app/calendar/mock.py\<close>, which is
  shown to keep the contract.

  A market timezone is its UTC offset: the model covers zones without transitions (\<open>Asia/Taipei\<close>, the
  market of the program, has none), in which Python's comparison and subtraction of local times agree with
  those of the instants.  The sessions a calendar returns carry the market timezone.
\<close>

subsection \<open>The port\<close>

record trading_calendar =
  cal_market_timezone :: "string \<Rightarrow> exn + timedelta"
  cal_is_holiday :: "string \<Rightarrow> date \<Rightarrow> exn + bool"
  cal_sessions_for :: "string \<Rightarrow> date \<Rightarrow> exn + market_session list"

text \<open>\<open>t.astimezone(zone).date()\<close> and \<open>t.astimezone(zone).isoformat()\<close>.\<close>

definition market_date :: "timedelta \<Rightarrow> datetime \<Rightarrow> date" where
  "market_date offset t = (instant t + offset) div microseconds_per_day"

definition market_isoformat :: "timedelta \<Rightarrow> datetime \<Rightarrow> string" where
  "market_isoformat offset t =
     (let local = utc_isoformat (instant t + offset) in take (length local - 6) local @ offset_text offset)"

text \<open>Sessions in the order of the day, each after the end of the one before.\<close>

definition separate_sessions :: "market_session list \<Rightarrow> bool" where
  "separate_sessions = sorted_wrt (\<lambda>a b. instant (closes_at a) \<le> instant (opens_at b))"

definition session_of_day :: "timedelta \<Rightarrow> date \<Rightarrow> market_session \<Rightarrow> bool" where
  "session_of_day offset day s \<longleftrightarrow>
     market_session_post_init s = Inr s \<and> market_date offset (opens_at s) = day \<and> market_date offset (closes_at s) = day"

lemma market_session_post_init_Inr [simp]:
  "market_session_post_init s = Inr s' \<longleftrightarrow>
     s' = s \<and> is_aware (opens_at s) \<and> is_aware (closes_at s) \<and> instant (opens_at s) < instant (closes_at s)"
  by (auto simp: market_session_post_init_def exc_simps)

locale session_calendar =
  fixes calendar :: trading_calendar and market :: string and offset :: timedelta
  assumes zone: "cal_market_timezone calendar market = Inr offset"
    and answers: "\<exists>closed. cal_is_holiday calendar market day = Inr closed" "\<exists>ss. cal_sessions_for calendar market day = Inr ss"
    and in_day: "cal_sessions_for calendar market day = Inr ss \<Longrightarrow> list_all (session_of_day offset day) ss"
    and separate: "cal_sessions_for calendar market day = Inr ss \<Longrightarrow> separate_sessions ss"

subsection \<open>The fixed calendar\<close>

record mock_calendar =
  mc_market :: string
  mc_timezone_name :: string
  mc_trading_day :: date
  mc_sessions :: "market_session list"
  mc_holidays :: "date set"

text \<open>\<open>zone_of\<close> is the zone database: the offset of a zone, or None when it is unknown.\<close>

definition mock_calendar_post_init :: "(string \<Rightarrow> timedelta option) \<Rightarrow> mock_calendar \<Rightarrow> exn + mock_calendar" where
  "mock_calendar_post_init zone_of m =
     (if is_blank (mc_market m) then Inl (ValueError ''market must not be blank'')
      else case zone_of (mc_timezone_name m) of
        None \<Rightarrow> Inl (ValueError ''timezone_name must be a valid IANA timezone'')
      | Some timezone \<Rightarrow>
          if mc_sessions m = [] then Inl (ValueError ''sessions must not be empty'')
          else
            bindE (mapE market_session_post_init (mc_sessions m)) (\<lambda>sessions.
            let normalized_sessions = sort_key (\<lambda>session. instant (opens_at session)) sessions in
            if list_ex (\<lambda>session. market_date timezone (opens_at session) \<noteq> mc_trading_day m \<or>
                                  market_date timezone (closes_at session) \<noteq> mc_trading_day m) normalized_sessions
            then Inl (ValueError ''configured sessions must stay within trading_day'')
            else if list_ex (\<lambda>(previous, current). instant (opens_at current) < instant (closes_at previous))
                      (zip normalized_sessions (drop 1 normalized_sessions))
            then Inl (ValueError ''configured sessions must not overlap'')
            else Inr (m\<lparr>mc_sessions := normalized_sessions\<rparr>)))"

definition require_market :: "mock_calendar \<Rightarrow> string \<Rightarrow> exn + unit" where
  "require_market m market =
     (if market \<noteq> mc_market m then Inl (ValueError ''market is not configured for this calendar'') else Inr ())"

definition mock_market_timezone :: "(string \<Rightarrow> timedelta option) \<Rightarrow> mock_calendar \<Rightarrow> string \<Rightarrow> exn + timedelta" where
  "mock_market_timezone zone_of m market =
     bindE (require_market m market) (\<lambda>_.
     case zone_of (mc_timezone_name m) of
       None \<Rightarrow> Inl (KeyError ''No time zone found'')
     | Some timezone \<Rightarrow> Inr timezone)"

definition mock_is_holiday :: "mock_calendar \<Rightarrow> string \<Rightarrow> date \<Rightarrow> exn + bool" where
  "mock_is_holiday m market session_date =
     bindE (require_market m market) (\<lambda>_. Inr (session_date \<in> mc_holidays m))"

definition mock_sessions_for :: "mock_calendar \<Rightarrow> string \<Rightarrow> date \<Rightarrow> exn + market_session list" where
  "mock_sessions_for m market session_date =
     bindE (require_market m market) (\<lambda>_.
     if session_date \<noteq> mc_trading_day m then Inr []
     else bindE (mock_is_holiday m market session_date) (\<lambda>closed. Inr (if closed then [] else mc_sessions m)))"

definition mock_trading_calendar :: "(string \<Rightarrow> timedelta option) \<Rightarrow> mock_calendar \<Rightarrow> trading_calendar" where
  "mock_trading_calendar zone_of m =
     \<lparr>cal_market_timezone = mock_market_timezone zone_of m, cal_is_holiday = mock_is_holiday m,
      cal_sessions_for = mock_sessions_for m\<rparr>"

subsection \<open>The fixed calendar keeps the contract\<close>

lemma adjacent_separate:
  assumes "list_all (\<lambda>s. instant (opens_at s) < instant (closes_at s)) ss"
    and "\<not> list_ex (\<lambda>(a, b). instant (opens_at b) < instant (closes_at a)) (zip ss (drop 1 ss))"
  shows "separate_sessions ss"
  using assms
proof (induction ss rule: induct_list012)
  case (3 a b ss)
  then have rest: "separate_sessions (b # ss)" and step: "instant (closes_at a) \<le> instant (opens_at b)"
    and b: "instant (opens_at b) < instant (closes_at b)" by simp_all
  have "instant (closes_at a) \<le> instant (opens_at s)" if "s \<in> set ss" for s
  proof -
    from rest that have "instant (closes_at b) \<le> instant (opens_at s)" by (simp add: separate_sessions_def)
    with step b show ?thesis by linarith
  qed
  with rest step show ?case by (simp add: separate_sessions_def)
qed (simp_all add: separate_sessions_def)

lemma mock_calendar_post_init_Inr:
  assumes "mock_calendar_post_init zone_of m = Inr c"
  obtains offset where "zone_of (mc_timezone_name c) = Some offset" "mc_sessions c \<noteq> []"
    "list_all (session_of_day offset (mc_trading_day c)) (mc_sessions c)" "separate_sessions (mc_sessions c)"
    "mc_market c = mc_market m" "mc_trading_day c = mc_trading_day m" "mc_holidays c = mc_holidays m"
    "mset (mc_sessions c) = mset (mc_sessions m)" "\<not> is_blank (mc_market c)"
proof (cases "zone_of (mc_timezone_name m)")
  case None
  with assms show ?thesis by (simp add: mock_calendar_post_init_def split: if_splits)
next
  case (Some offset)
  define ss where "ss = sort_key (\<lambda>s. instant (opens_at s)) (mc_sessions m)"
  let ?bad = "list_ex (\<lambda>s. market_date offset (opens_at s) \<noteq> mc_trading_day m \<or>
                market_date offset (closes_at s) \<noteq> mc_trading_day m) ss"
  let ?overlap = "list_ex (\<lambda>(a, b). instant (opens_at b) < instant (closes_at a)) (zip ss (drop 1 ss))"
  have same: "sessions = mc_sessions m" and ok: "list_all (\<lambda>s. market_session_post_init s = Inr s) (mc_sessions m)"
    if "mapE market_session_post_init (mc_sessions m) = Inr sessions" for sessions
    using that by (auto simp: mapE_Inr_iff list_all2_conv_all_nth list_all_length intro: nth_equalityI)
  from assms Some have blank: "\<not> is_blank (mc_market m)" and some: "mc_sessions m \<noteq> []"
    by (auto simp: mock_calendar_post_init_def split: if_splits)
  with assms Some obtain sessions where made: "mapE market_session_post_init (mc_sessions m) = Inr sessions"
    by (cases "mapE market_session_post_init (mc_sessions m)") (simp_all add: mock_calendar_post_init_def)
  have checked: "(if ?bad then Inl (ValueError ''configured sessions must stay within trading_day'')
     else if ?overlap then Inl (ValueError ''configured sessions must not overlap'')
     else Inr (m\<lparr>mc_sessions := ss\<rparr>)) = Inr c"
    using assms Some blank some made unfolding mock_calendar_post_init_def Let_def same [OF made] ss_def by simp
  then have bad: "\<not> ?bad" and overlap: "\<not> ?overlap" and c: "c = m\<lparr>mc_sessions := ss\<rparr>"
    by (simp_all split: if_splits)
  have valid: "list_all (\<lambda>s. market_session_post_init s = Inr s) ss"
    using ok [OF made] by (simp only: ss_def list_all_iff set_sort)
  with bad have "list_all (session_of_day offset (mc_trading_day m)) ss"
    by (simp add: list_all_iff list_ex_iff session_of_day_def)
  moreover have "separate_sessions ss"
    by (rule adjacent_separate [OF _ overlap]) (use valid in \<open>simp add: list_all_iff\<close>)
  moreover have "ss \<noteq> []" "mset ss = mset (mc_sessions m)" using some mset_sort [of "\<lambda>s. instant (opens_at s)" "mc_sessions m"]
    unfolding ss_def by (metis mset_zero_iff, metis)
  ultimately show ?thesis by (intro that [of offset]) (simp_all add: c Some blank)
qed

text \<open>A calendar that was constructed, and the offset of its zone.\<close>

locale configured_mock =
  fixes zone_of :: "string \<Rightarrow> timedelta option" and m c :: mock_calendar and zone_offset :: timedelta
  assumes built: "mock_calendar_post_init zone_of m = Inr c"
    and located: "zone_of (mc_timezone_name c) = Some zone_offset"

sublocale configured_mock \<subseteq> mock: session_calendar "mock_trading_calendar zone_of c" "mc_market c" zone_offset
proof -
  from built obtain off where "zone_of (mc_timezone_name c) = Some off"
    and day: "list_all (session_of_day off (mc_trading_day c)) (mc_sessions c)"
    and apart: "separate_sessions (mc_sessions c)" by (rule mock_calendar_post_init_Inr)
  with located have [simp]: "off = zone_offset" by simp
  show "session_calendar (mock_trading_calendar zone_of c) (mc_market c) zone_offset"
    by unfold_locales (use day apart located in \<open>auto simp: mock_trading_calendar_def mock_market_timezone_def require_market_def
        mock_is_holiday_def mock_sessions_for_def separate_sessions_def exc_simps split: if_splits\<close>)
qed

context configured_mock
begin

lemma keeps_contract: "session_calendar (mock_trading_calendar zone_of c) (mc_market c) zone_offset"
  by unfold_locales

end

subsection \<open>A calendar of one day\<close>

text \<open>Taipei, 2026-03-02, from 09:00 to 11:00 and from 11:30 to 13:30.\<close>

definition taipei_time :: "date \<Rightarrow> int \<Rightarrow> int \<Rightarrow> datetime" where
  "taipei_time day hours minutes = Aware (((day * 24 + hours - 8) * 60 + minutes) * 60000000)"

definition example_zones :: "string \<Rightarrow> timedelta option" where
  "example_zones name = (if name = ''Asia/Taipei'' then Some (8 * 3600000000) else None)"

definition example_calendar :: mock_calendar where
  "example_calendar =
     \<lparr>mc_market = ''TWSE'', mc_timezone_name = ''Asia/Taipei'', mc_trading_day = 20514,
      mc_sessions = [\<lparr>opens_at = taipei_time 20514 9 0, closes_at = taipei_time 20514 11 0\<rparr>,
                     \<lparr>opens_at = taipei_time 20514 11 30, closes_at = taipei_time 20514 13 30\<rparr>],
      mc_holidays = {20515}\<rparr>"

lemma example_calendar_ok: "mock_calendar_post_init example_zones example_calendar = Inr example_calendar"
  by code_simp

interpretation example_mock: configured_mock example_zones example_calendar example_calendar "8 * 3600000000"
  by unfold_locales (simp_all add: example_calendar_ok, simp add: example_zones_def example_calendar_def)

end
