(* ===== verification/IndicatorBase.thy ===== *)
theory IndicatorBase
  imports MarketData DecimalContext
begin

text \<open>
  The indicator contracts of \<open>app/indicators/base.py\<close> and the plugin registry of
  \<open>app/indicators/registry.py\<close>.  A plugin is the record of the two members of the protocol \<open>Indicator\<close>;
  an evidence dictionary is the list of its items.
\<close>

subsection \<open>Decimal results\<close>

definition canonical_indicator_decimal :: "decimal \<Rightarrow> exn + decimal" where
  "canonical_indicator_decimal v =
     bindE (require_finite_decimal v ''indicator value'') (\<lambda>v.
     if dec_is_zero v then Inr dec_zero
     else case decimal_of_text (exact_decimal_text v) of
       None \<Rightarrow> Inl DecimalInvalidOperation
     | Some d \<Rightarrow> Inr d)"

definition divide_decimals :: "decimal \<Rightarrow> decimal \<Rightarrow> exn + decimal" where
  "divide_decimals numerator denominator =
     bindE (require_finite_decimal numerator ''numerator'') (\<lambda>_.
     bindE (require_finite_decimal denominator ''denominator'') (\<lambda>_.
     if dec_is_zero denominator then Inl (IndicatorInputError ''denominator must not be zero'')
     else bindE (ctx_divide numerator denominator) canonical_indicator_decimal))"

definition canonical_timedelta_microseconds :: "int \<Rightarrow> string" where
  "canonical_timedelta_microseconds total_microseconds = int_text total_microseconds @ ''us''"

subsection \<open>Results\<close>

record indicator_result =
  ir_key :: string
  ir_value :: "decimal option"
  ir_actionable :: bool
  ir_reason :: "string option"
  ir_evidence :: "(string \<times> string) list"

definition validate_indicator_value :: "indicator_result \<Rightarrow> exn + unit" where
  "validate_indicator_value r =
     (case ir_value r of
        None \<Rightarrow>
          if ir_actionable r then Inl (IndicatorResultError ''an actionable indicator result requires a Decimal value'')
          else if (case ir_reason r of None \<Rightarrow> True | Some reason \<Rightarrow> is_blank reason)
          then Inl (IndicatorResultError ''an unavailable indicator result requires a reason'')
          else Inr ()
      | Some v \<Rightarrow>
          bindE (require_finite_decimal v ''indicator value'') (\<lambda>_.
          if \<not> ir_actionable r then Inl (IndicatorResultError ''a Decimal indicator value must be actionable'')
          else if ir_reason r \<noteq> None
          then Inl (IndicatorResultError ''an actionable indicator result cannot have a reason'')
          else Inr ()))"

definition indicator_result_post_init :: "indicator_result \<Rightarrow> exn + indicator_result" where
  "indicator_result_post_init r =
     (if is_blank (ir_key r) then Inl (IndicatorResultError ''indicator key must not be blank'')
      else
        bindE (validate_indicator_value r) (\<lambda>_.
        if list_ex (\<lambda>(evidence_key, _). is_blank evidence_key) (ir_evidence r)
        then Inl (IndicatorResultError ''indicator evidence keys must be non-blank strings'')
        else
          bindE (case ir_value r of None \<Rightarrow> Inr None | Some v \<Rightarrow> map_sum id Some (canonical_indicator_decimal v)) (\<lambda>v.
          Inr (r\<lparr>ir_key := strip (ir_key r), ir_value := v, ir_reason := map_option strip (ir_reason r),
                 ir_evidence := sort_key fst (ir_evidence r)\<rparr>))))"

definition available :: "string \<Rightarrow> decimal \<Rightarrow> (string \<times> string) list \<Rightarrow> exn + indicator_result" where
  "available key v evidence =
     indicator_result_post_init
       \<lparr>ir_key = key, ir_value = Some v, ir_actionable = True, ir_reason = None, ir_evidence = evidence\<rparr>"

definition unavailable :: "string \<Rightarrow> string \<Rightarrow> (string \<times> string) list \<Rightarrow> exn + indicator_result" where
  "unavailable key reason evidence =
     indicator_result_post_init
       \<lparr>ir_key = key, ir_value = None, ir_actionable = False, ir_reason = Some reason, ir_evidence = evidence\<rparr>"

subsection \<open>Plugins\<close>

record indicator =
  ind_key :: string
  ind_calculate :: "market_data_snapshot \<Rightarrow> exn + indicator_result"

type_synonym indicator_registry = "(string \<times> indicator) list"

definition register_indicator :: "indicator_registry \<Rightarrow> indicator \<Rightarrow> exn + indicator_registry" where
  "register_indicator plugins plugin =
     (let key = ind_key plugin in
      if is_blank key then Inl (IndicatorRegistrationError ''plugin key must be a non-blank string'')
      else let normalized_key = strip key in
      if map_of plugins normalized_key \<noteq> None
      then Inl (DuplicateIndicatorKeyError (''indicator key is already registered: '' @ normalized_key))
      else Inr (plugins @ [(normalized_key, plugin)]))"

definition get_indicator :: "indicator_registry \<Rightarrow> string \<Rightarrow> exn + indicator" where
  "get_indicator plugins key =
     (if is_blank key then Inl (IndicatorNotFoundError ''indicator key must be a non-blank string'')
      else let normalized_key = strip key in
      case map_of plugins normalized_key of
        None \<Rightarrow> Inl (IndicatorNotFoundError (''indicator is not registered: '' @ normalized_key))
      | Some plugin \<Rightarrow> Inr plugin)"

definition indicator_keys :: "indicator_registry \<Rightarrow> string list" where
  "indicator_keys plugins = sort (map fst plugins)"

subsection \<open>The canonical form of a result\<close>

text \<open>Reading the plain text of a finite decimal gives its canonical form, so a result keeps its value.\<close>

lemma decimal_of_signed_text:
  assumes "list_all visible t" and "CHR ''_'' \<notin> set t" and "t \<noteq> []" and "is_digit (hd t)"
  shows "decimal_of_text ((if s then ''-'' else []) @ t) = parse_number s t"
proof -
  have "list_all visible ((if s then ''-'' else []) @ t)" using assms(1) by (simp add: visible_def byte_code_def)
  then have strip: "strip ((if s then ''-'' else []) @ t) = (if s then ''-'' else []) @ t" by (rule strip_visible)
  have "filter (\<lambda>c. c \<noteq> CHR ''_'') ((if s then ''-'' else []) @ t) = (if s then ''-'' else []) @ t"
    using assms(2) by (auto simp: filter_id_conv)
  moreover have "split_sign ((if s then ''-'' else []) @ t) = (s, t)"
    using assms(3,4) split_sign_digits [of t] by simp
  moreover obtain c u where "t = c # u" "is_digit c" using assms(3,4) by (cases t) simp_all
  then have "lower_ascii t \<noteq> ''inf''" "lower_ascii t \<noteq> ''infinity''" "\<not> is_nan_text (lower_ascii t)"
    by (auto simp: lower_digit is_nan_text_def is_digit_def byte_code_def)
  ultimately show ?thesis unfolding decimal_of_text_def strip by simp
qed

lemma takeWhile_digits: "list_all is_digit ds \<Longrightarrow> takeWhile is_digit ds = ds \<and> dropWhile is_digit ds = []"
  by (simp add: list_all_iff)

lemma parse_number_digits:
  assumes "list_all is_digit ds" and "ds \<noteq> []"
  shows "parse_number s ds =
     (if in_decimal_range (number_of_digits ds) 0 then Some (Fin s (number_of_digits ds) 0) else None)"
  using assms by (simp add: parse_number_def takeWhile_digits)

lemma parse_number_point:
  assumes "list_all is_digit ds" and "ds \<noteq> []" and "list_all is_digit fs"
  shows "parse_number s (ds @ CHR ''.'' # fs) =
     (if in_decimal_range (number_of_digits (ds @ fs)) (- int (length fs))
      then Some (Fin s (number_of_digits (ds @ fs)) (- int (length fs))) else None)"
proof -
  have "takeWhile is_digit (ds @ CHR ''.'' # fs) = ds" "dropWhile is_digit (ds @ CHR ''.'' # fs) = CHR ''.'' # fs"
    using assms(1) by (simp_all add: list_all_iff is_digit_def byte_code_def)
  with assms show ?thesis by (simp add: parse_number_def takeWhile_digits)
qed

lemma zeros_digits: "list_all is_digit (replicate k CHR ''0'')"
  by (simp add: list_all_iff is_digit_def byte_code_def)

lemma number_of_zeros_after: "number_of_digits (ds @ replicate k CHR ''0'') = number_of_digits ds * 10 ^ k"
proof (induction k)
  case (Suc k)
  have "ds @ replicate (Suc k) CHR ''0'' = (ds @ replicate k CHR ''0'') @ [CHR ''0'']"
    by (simp add: replicate_append_same)
  then show ?case using Suc by (simp only: number_of_digits_append1) (simp add: digit_value_def byte_code_def)
qed simp

lemma digits_text_ok: "list_all is_digit ds \<Longrightarrow> list_all visible ds \<and> CHR ''_'' \<notin> set ds"
  using digit_visible by (auto simp: list_all_iff)

text \<open>The limits of the \<open>decimal\<close> module on the value that is read back.\<close>

fun dec_in_range :: "decimal \<Rightarrow> bool" where
  "dec_in_range (Fin s c e) = in_decimal_range c e"
| "dec_in_range _ = True"

lemma decimal_of_exact_text:
  assumes "c \<noteq> 0"
  shows "decimal_of_text (exact_decimal_text (Fin s c e)) =
     (if dec_in_range (canonical (Fin s c e)) then Some (canonical (Fin s c e)) else None)"
proof -
  obtain c' x where strip: "strip_zeros c e = (c', x)" by fastforce
  let ?ds = "nat_text c'"
  let ?p = "int (length ?ds) + x"
  have digits: "list_all is_digit ?ds" "?ds \<noteq> []" "is_digit (hd ?ds)" by (simp_all add: nat_text_digits nat_text_hd)
  have parts: "list_all is_digit (take n ?ds)" "list_all is_digit (drop n ?ds)" for n
    using digits(1) by (auto simp: list_all_iff dest: in_set_takeD in_set_dropD)
  have dot: "visible CHR ''.''" "CHR ''_'' \<noteq> CHR ''.''" by (simp_all add: visible_def byte_code_def)
  have zero: "is_digit CHR ''0''" "list_all is_digit ''0''" by (simp_all add: is_digit_def byte_code_def)
  consider (whole) "0 \<le> x" | (point) "x < 0" "0 < ?p" | (small) "x < 0" "?p \<le> 0" by linarith
  then show ?thesis
  proof cases
    case whole
    let ?t = "?ds @ replicate (nat x) CHR ''0''"
    have t: "list_all is_digit ?t" "?t \<noteq> []" "is_digit (hd ?t)" using digits zeros_digits by simp_all
    have "decimal_of_text ((if s then ''-'' else []) @ ?t) = parse_number s ?t"
      by (rule decimal_of_signed_text) (use t digits_text_ok [OF t(1)] in simp_all)
    with whole assms strip parse_number_digits [OF t(1,2), of s] show ?thesis
      by (simp add: Let_def number_of_zeros_after)
  next
    case point
    let ?i = "take (nat ?p) ?ds" and ?f = "drop (nat ?p) ?ds"
    have len: "int (length ?f) = - x" using point by simp
    have some: "?i \<noteq> []" "is_digit (hd ?i)" using digits point by simp_all
    have "decimal_of_text ((if s then ''-'' else []) @ ?i @ ''.'' @ ?f) = parse_number s (?i @ ''.'' @ ?f)"
      by (rule decimal_of_signed_text)
        (use some digits_text_ok [OF parts(1), of "nat ?p"] digits_text_ok [OF parts(2), of "nat ?p"] dot in simp_all)
    also have "\<dots> = (if in_decimal_range c' x then Some (Fin s c' x) else None)"
      using parse_number_point [OF parts(1) some(1) parts(2), of s "nat ?p"] len by (simp del: length_drop length_take)
    finally show ?thesis using point assms strip by (simp add: Let_def)
  next
    case small
    let ?f = "replicate (nat (- ?p)) CHR ''0'' @ ?ds"
    have len: "int (length ?f) = - x" using small by simp
    have f: "list_all is_digit ?f" using digits zeros_digits by simp
    have "decimal_of_text ((if s then ''-'' else []) @ ''0'' @ ''.'' @ ?f) = parse_number s (''0'' @ ''.'' @ ?f)"
      by (rule decimal_of_signed_text) (use digits_text_ok [OF f] digits_text_ok [OF zero(2)] dot zero in simp_all)
    also have "\<dots> = (if in_decimal_range c' x then Some (Fin s c' x) else None)"
      using parse_number_point [OF zero(2) _ f, of s] number_of_digits_zeros [of "Suc (nat (- ?p))" ?ds] len
      by (simp del: length_append length_replicate)
    finally show ?thesis using small assms strip by (simp add: Let_def)
  qed
qed

lemma map_sum_Inr [exc_simps]: "map_sum f g m = Inr y \<longleftrightarrow> (\<exists>x. m = Inr x \<and> y = g x)"
  by (cases m) auto

lemma canonical_indicator_decimal_Inr [simp]:
  "canonical_indicator_decimal v = Inr d \<longleftrightarrow> is_finite v \<and> dec_in_range (canonical v) \<and> d = canonical v"
proof (cases v)
  case (Fin s c e)
  show ?thesis
  proof (cases "c = 0")
    case True
    with Fin show ?thesis
      by (auto simp: canonical_indicator_decimal_def require_finite_decimal_def dec_is_zero_def in_decimal_range_def)
  next
    case False
    have "\<not> dec_is_zero v" using False Fin by (simp add: dec_is_zero_def)
    then show ?thesis unfolding Fin
      by (auto simp: canonical_indicator_decimal_def require_finite_decimal_def decimal_of_exact_text [OF False]
            simp del: exact_decimal_text.simps canonical.simps)
  qed
qed (simp_all add: canonical_indicator_decimal_def require_finite_decimal_def)

subsection \<open>What a result promises\<close>

text \<open>A result has a finite value exactly when it is actionable, and a reason exactly when it is not.\<close>

definition indicator_result_ok :: "indicator_result \<Rightarrow> bool" where
  "indicator_result_ok r \<longleftrightarrow>
     \<not> is_blank (ir_key r) \<and> strip (ir_key r) = ir_key r \<and> sorted (map fst (ir_evidence r)) \<and>
     (case ir_value r of
        Some v \<Rightarrow> ir_actionable r \<and> ir_reason r = None \<and> is_finite v
      | None \<Rightarrow> \<not> ir_actionable r \<and> (\<exists>reason. ir_reason r = Some reason \<and> \<not> is_blank reason))"

lemma indicator_result_post_init_ok:
  assumes "indicator_result_post_init r = Inr r'"
  shows "indicator_result_ok r'" and "ir_key r' = strip (ir_key r)" and "ir_value r' = map_option canonical (ir_value r)"
    and "ir_evidence r' = sort_key fst (ir_evidence r)" and "ir_reason r' = map_option strip (ir_reason r)"
  using assms by (auto simp: indicator_result_post_init_def validate_indicator_value_def indicator_result_ok_def
    exc_simps split: if_splits option.splits)

subsection \<open>The registry\<close>

definition registry_ok :: "indicator_registry \<Rightarrow> bool" where
  "registry_ok plugins \<longleftrightarrow>
     distinct (map fst plugins) \<and> list_all (\<lambda>(key, plugin). key = strip (ind_key plugin) \<and> \<not> is_blank key) plugins"

lemma register_indicator_Inr:
  "register_indicator plugins plugin = Inr plugins' \<longleftrightarrow>
     \<not> is_blank (ind_key plugin) \<and> strip (ind_key plugin) \<notin> fst ` set plugins \<and>
     plugins' = plugins @ [(strip (ind_key plugin), plugin)]"
  by (auto simp: register_indicator_def Let_def map_of_eq_None_iff simp del: not_None_eq)

lemma get_indicator_registered:
  assumes "register_indicator plugins plugin = Inr plugins'" and "\<not> is_blank key"
  shows "get_indicator plugins' key =
     (if strip key = strip (ind_key plugin) then Inr plugin else get_indicator plugins key)"
proof (cases "strip key = strip (ind_key plugin)")
  case True
  moreover have "map_of plugins (strip (ind_key plugin)) = None"
    using assms(1) by (simp add: register_indicator_Inr map_of_eq_None_iff)
  ultimately show ?thesis using assms by (simp add: register_indicator_Inr get_indicator_def map_add_def)
next
  case False
  with assms show ?thesis
    by (simp add: register_indicator_Inr get_indicator_def map_add_def Let_def split: option.split)
qed

lemma register_indicator_ok:
  "register_indicator plugins plugin = Inr plugins' \<Longrightarrow> registry_ok plugins \<Longrightarrow> registry_ok plugins'"
  by (auto simp: register_indicator_Inr registry_ok_def)

end
