(* ===== verification/Bars.thy ===== *)
theory Bars
  imports Calendar IndicatorBase "HOL-Library.Product_Lexorder"
begin

text \<open>
  The calendar-aligned aggregation and coverage of source bars, \<open>app/indicators/bars.py\<close>.

  \<open>frame.groupby(columns, sort=True)\<close> of pandas is the parameter \<open>groupby\<close>; what the code relies on is the
  locale \<open>row_grouping\<close>.  An aware datetime is its instant, so the comparison of the \<open>tzinfo\<close> of two aware
  bars has no counterpart; an aggregate is an instant too, whatever timezone it is converted to.
\<close>

record session_location =
  loc_session_date :: date
  loc_segment :: nat
  loc_session :: market_session

record coverage_gap =
  gap_location :: session_location
  gap_kind :: string
  gap_covered_end :: datetime
  gap_required_start :: datetime
  gap_required_end :: datetime

record bucketed_bar =
  bb_bar :: bar
  bb_bucket_start :: datetime
  bb_bucket_end :: datetime

definition bar_error :: "string \<Rightarrow> exn + 'a" where
  "bar_error message = Inl (BarAggregationInputError message)"

subsection \<open>Sessions\<close>

definition holds_interval :: "market_session \<Rightarrow> datetime \<Rightarrow> datetime \<Rightarrow> bool" where
  "holds_interval session local_start local_end \<longleftrightarrow>
     instant (opens_at session) \<le> instant local_start \<and> instant local_start < instant (closes_at session) \<and>
     instant local_end \<le> instant (closes_at session)"

definition locate_market_session :: "trading_calendar \<Rightarrow> string \<Rightarrow> bar \<Rightarrow> exn + session_location" where
  "locate_market_session calendar market b =
     (if is_blank market then bar_error ''market must not be blank''
      else
        bindE (require_timezone_aware (bar_starts_at b) ''bar.starts_at'') (\<lambda>local_start.
        bindE (require_timezone_aware (bar_ends_at b) ''bar.ends_at'') (\<lambda>local_end.
        bindE (cal_market_timezone calendar market) (\<lambda>market_timezone.
        let session_date = market_date market_timezone local_start in
        bindE (cal_is_holiday calendar market session_date) (\<lambda>holiday.
        if holiday then bar_error ''source bar falls on a market holiday''
        else
          bindE (cal_sessions_for calendar market session_date) (\<lambda>sessions.
          if sessions = [] then bar_error ''source bar falls outside a trading session''
          else case find (\<lambda>(segment, session). holds_interval session local_start local_end) (enumerate 0 sessions) of
            None \<Rightarrow> bar_error ''source bar crosses or falls outside a trading session''
          | Some (segment, session) \<Rightarrow>
              Inr \<lparr>loc_session_date = session_date, loc_segment = segment, loc_session = session\<rparr>))))))"

text \<open>The sessions of one day of the requested range, and the loop over its days.\<close>

definition sessions_between ::
    "trading_calendar \<Rightarrow> string \<Rightarrow> datetime \<Rightarrow> datetime \<Rightarrow> date \<Rightarrow> exn + session_location list" where
  "sessions_between calendar market local_start local_end session_date =
     bindE (cal_is_holiday calendar market session_date) (\<lambda>holiday.
     if holiday then Inr []
     else
       bindE (cal_sessions_for calendar market session_date) (\<lambda>sessions.
       Inr [\<lparr>loc_session_date = session_date, loc_segment = segment, loc_session = session\<rparr>.
            (segment, session) \<leftarrow> enumerate 0 sessions,
            max (instant (opens_at session)) (instant local_start) < min (instant (closes_at session)) (instant local_end)]))"

definition requested_session_locations ::
    "trading_calendar \<Rightarrow> string \<Rightarrow> datetime \<Rightarrow> datetime \<Rightarrow> exn + session_location list" where
  "requested_session_locations calendar market intraday_start intraday_end =
     (if is_blank market then bar_error ''market must not be blank''
      else
        bindE (require_timezone_aware intraday_start ''intraday_start'') (\<lambda>local_start.
        bindE (require_timezone_aware intraday_end ''intraday_end'') (\<lambda>local_end.
        bindE (cal_market_timezone calendar market) (\<lambda>market_timezone.
        if instant local_end \<le> instant local_start then bar_error ''intraday request range must be positive''
        else
          bindE (mapE (sessions_between calendar market local_start local_end)
                   [market_date market_timezone local_start..market_date market_timezone local_end]) (\<lambda>locations.
          Inr (concat locations))))))"

subsection \<open>Source bars\<close>

text \<open>The loop of \<open>_validate_source_bars\<close>; \<open>previous\<close> is the dictionary of the last bar of each instrument.\<close>

fun validate_bars_from :: "(uuid \<Rightarrow> bar option) \<Rightarrow> bar list \<Rightarrow> exn + unit" where
  "validate_bars_from previous [] = Inr ()"
| "validate_bars_from previous (b # bars) =
     bindE (require_timezone_aware (bar_starts_at b) ''bar.starts_at'') (\<lambda>_.
     bindE (require_timezone_aware (bar_ends_at b) ''bar.ends_at'') (\<lambda>_.
     bindE (case previous (bar_instrument_id b) of
         None \<Rightarrow> Inr ()
       | Some p \<Rightarrow>
           if instant (bar_starts_at b) < instant (bar_starts_at p)
           then bar_error ''source bars must be ordered for one instrument''
           else if instant (bar_starts_at b) < instant (bar_ends_at p)
           then bar_error ''source bars overlap for one instrument''
           else Inr ()) (\<lambda>_.
     validate_bars_from (previous(bar_instrument_id b \<mapsto> b)) bars)))"

definition validate_source_bars :: "bar list \<Rightarrow> exn + unit" where
  "validate_source_bars source_bars =
     (if \<not> is_aware (bar_starts_at (hd source_bars))
      then bar_error ''source bar timestamps must be timezone-aware''
      else validate_bars_from Map.empty source_bars)"

definition validate_bars_for_calendar :: "trading_calendar \<Rightarrow> string \<Rightarrow> bar list \<Rightarrow> exn + bar list" where
  "validate_bars_for_calendar calendar market source_bars =
     (if source_bars = [] then Inr []
      else
        bindE (validate_source_bars source_bars) (\<lambda>_.
        bindE (mapE (locate_market_session calendar market) source_bars) (\<lambda>_. Inr source_bars)))"

subsection \<open>Coverage of the requested range\<close>

text \<open>The inner loop over the bars of one session, from the point covered so far.\<close>

fun session_gap :: "session_location \<Rightarrow> datetime \<Rightarrow> datetime \<Rightarrow> datetime \<Rightarrow> bar list \<Rightarrow> coverage_gap option" where
  "session_gap location required_start required_end expected_start [] =
     (if instant expected_start \<noteq> instant required_end
      then Some \<lparr>gap_location = location, gap_kind = ''trailing'', gap_covered_end = expected_start,
                 gap_required_start = required_start, gap_required_end = required_end\<rparr>
      else None)"
| "session_gap location required_start required_end expected_start (b # bars) =
     (if instant (bar_starts_at b) \<noteq> instant expected_start
      then Some \<lparr>gap_location = location,
                 gap_kind = (if instant expected_start = instant required_start then ''leading'' else ''interior''),
                 gap_covered_end = expected_start, gap_required_start = required_start, gap_required_end = required_end\<rparr>
      else if instant (bar_ends_at b) > instant required_end
      then Some \<lparr>gap_location = location, gap_kind = ''trailing'', gap_covered_end = expected_start,
                 gap_required_start = required_start, gap_required_end = required_end\<rparr>
      else session_gap location required_start required_end (bar_ends_at b) bars)"

definition same_session :: "session_location \<Rightarrow> session_location \<Rightarrow> bool" where
  "same_session a b \<longleftrightarrow> loc_session_date a = loc_session_date b \<and> loc_segment a = loc_segment b"

definition later :: "datetime \<Rightarrow> datetime \<Rightarrow> datetime" where
  "later a b = (if instant a < instant b then b else a)"

definition earlier :: "datetime \<Rightarrow> datetime \<Rightarrow> datetime" where
  "earlier a b = (if instant b < instant a then b else a)"

definition bars_in_order :: "bar list \<Rightarrow> bar list" where
  "bars_in_order = sort_key (\<lambda>b. instant (bar_starts_at b))"

fun first_gap :: "datetime \<Rightarrow> datetime \<Rightarrow> (bar \<times> session_location) list \<Rightarrow> session_location list \<Rightarrow> coverage_gap option" where
  "first_gap intraday_start intraday_end located_bars [] = None"
| "first_gap intraday_start intraday_end located_bars (location # locations) =
     (let required_start = later (opens_at (loc_session location)) intraday_start;
          required_end = earlier (closes_at (loc_session location)) intraday_end;
          session_bars = bars_in_order [b. (b, bar_location) \<leftarrow> located_bars, same_session bar_location location] in
      case session_gap location required_start required_end required_start session_bars of
        Some gap \<Rightarrow> Some gap
      | None \<Rightarrow> first_gap intraday_start intraday_end located_bars locations)"

text \<open>Each bar with its session.\<close>

definition locate_bars :: "trading_calendar \<Rightarrow> string \<Rightarrow> bar list \<Rightarrow> exn + (bar \<times> session_location) list" where
  "locate_bars calendar market bars =
     mapE (\<lambda>b. bindE (locate_market_session calendar market b) (\<lambda>location. Inr (b, location))) bars"

definition requested_range_coverage_gap ::
    "trading_calendar \<Rightarrow> string \<Rightarrow> datetime \<Rightarrow> datetime \<Rightarrow> bar list \<Rightarrow> exn + coverage_gap option" where
  "requested_range_coverage_gap calendar market intraday_start intraday_end bars =
     bindE (validate_bars_for_calendar calendar market bars) (\<lambda>source_bars.
     bindE (requested_session_locations calendar market intraday_start intraday_end) (\<lambda>locations.
     bindE (cal_market_timezone calendar market) (\<lambda>_.
     bindE (locate_bars calendar market source_bars) (\<lambda>located_bars.
     Inr (first_gap intraday_start intraday_end located_bars locations)))))"

subsection \<open>Aggregation\<close>

definition bucket_bar :: "trading_calendar \<Rightarrow> string \<Rightarrow> timedelta \<Rightarrow> bar \<Rightarrow> exn + bucketed_bar" where
  "bucket_bar calendar market width b =
     bindE (locate_market_session calendar market b) (\<lambda>location.
     bindE (cal_market_timezone calendar market) (\<lambda>_.
     let session = loc_session location;
         elapsed = instant (bar_starts_at b) - instant (opens_at session);
         bucket_number = elapsed div width;
         bucket_start = Aware (instant (opens_at session) + bucket_number * width);
         bucket_end = earlier (Aware (instant bucket_start + width)) (closes_at session) in
     if instant (bar_ends_at b) > instant bucket_end
     then bar_error ''source bar must fit within one aggregation window''
     else Inr \<lparr>bb_bar = b, bb_bucket_start = bucket_start, bb_bucket_end = bucket_end\<rparr>))"

type_synonym grouping_key = "uuid \<times> int \<times> int"

definition window_key :: "bucketed_bar \<Rightarrow> grouping_key" where
  "window_key r = (bar_instrument_id (bb_bar r), instant (bb_bucket_start r), instant (bb_bucket_end r))"

fun covers_continuously :: "int \<Rightarrow> int \<Rightarrow> bar list \<Rightarrow> bool" where
  "covers_continuously expected_start bucket_end [] \<longleftrightarrow> expected_start = bucket_end"
| "covers_continuously expected_start bucket_end (b # bars) \<longleftrightarrow>
     instant (bar_starts_at b) = expected_start \<and> covers_continuously (instant (bar_ends_at b)) bucket_end bars"

definition highest :: "bar list \<Rightarrow> decimal" where
  "highest bars = foldl (\<lambda>v b. dec_max v (bar_high b)) (bar_high (hd bars)) (tl bars)"

definition lowest :: "bar list \<Rightarrow> decimal" where
  "lowest bars = foldl (\<lambda>v b. dec_min v (bar_low b)) (bar_low (hd bars)) (tl bars)"

definition aggregate_bucket :: "bucketed_bar list \<Rightarrow> exn + bar option" where
  "aggregate_bucket bucketed_bars =
     (let ordered = sort_key (\<lambda>r. instant (bar_starts_at (bb_bar r))) bucketed_bars; first = hd ordered in
      if \<not> covers_continuously (instant (bb_bucket_start first)) (instant (bb_bucket_end first)) (map bb_bar ordered)
      then Inr None
      else
        let components = map bb_bar ordered in
        bindE (ctx_sum (map bar_volume components)) (\<lambda>volume.
        bindE (bar_post_init
          \<lparr>bar_instrument_id = bar_instrument_id (bb_bar first), bar_starts_at = bb_bucket_start first,
           bar_ends_at = bb_bucket_end first, bar_open = bar_open (hd components), bar_high = highest components,
           bar_low = lowest components, bar_close = bar_close (last components), bar_volume = volume\<rparr>) (\<lambda>aggregate.
        Inr (Some aggregate))))"

definition bar_order :: "bar \<Rightarrow> int \<times> string" where
  "bar_order b = (instant (bar_starts_at b), uuid_text (bar_instrument_id b))"

type_synonym pandas_groupby = "(bucketed_bar \<Rightarrow> grouping_key) \<Rightarrow> bucketed_bar list \<Rightarrow> bucketed_bar list list"

definition aggregate_bars ::
    "pandas_groupby \<Rightarrow> trading_calendar \<Rightarrow> string \<Rightarrow> timedelta \<Rightarrow> bar list \<Rightarrow> exn + bar list" where
  "aggregate_bars groupby calendar market width bars =
     (if width \<le> 0 then bar_error ''aggregation width must be positive''
      else
        bindE (validate_bars_for_calendar calendar market bars) (\<lambda>source_bars.
        if source_bars = [] then Inr []
        else if \<not> is_aware (bar_starts_at (hd source_bars))
        then bar_error ''source bar timestamps must be timezone-aware''
        else
          bindE (mapE (bucket_bar calendar market width) source_bars) (\<lambda>bucketed.
          bindE (mapE aggregate_bucket (groupby window_key bucketed)) (\<lambda>aggregated.
          Inr (sort_key bar_order (concat (map opt_list aggregated)))))))"

end
