(* ===== verification/BarsProps.thy ===== *)
theory BarsProps
  imports Bars
begin

text \<open>
  What the aggregation and the coverage check of \<open>app/indicators/bars.py\<close> promise, for every calendar
  that keeps its contract and every grouping that behaves as pandas documents.
\<close>

subsection \<open>Grouping\<close>

locale row_grouping =
  fixes groupby :: pandas_groupby
  assumes group: "g \<in> set (groupby key rows) \<Longrightarrow> \<exists>r \<in> set rows. g = filter (\<lambda>q. key q = key r) rows"
    and grouped: "r \<in> set rows \<Longrightarrow> filter (\<lambda>q. key q = key r) rows \<in> set (groupby key rows)"
    and once: "distinct (groupby key rows)"

text \<open>Groups in the order of their keys, the rows of a group in their order.\<close>

definition group_rows :: pandas_groupby where
  "group_rows key rows = map (\<lambda>k. filter (\<lambda>q. key q = k) rows) (sort (remdups (map key rows)))"

interpretation grouped_rows: row_grouping group_rows
proof
  fix key :: "bucketed_bar \<Rightarrow> grouping_key" and rows
  have "inj_on (\<lambda>k. filter (\<lambda>q. key q = k) rows) (set (map key rows))"
  proof (rule inj_onI)
    fix k l
    assume "k \<in> set (map key rows)" and same: "filter (\<lambda>q. key q = k) rows = filter (\<lambda>q. key q = l) rows"
    then obtain r where "r \<in> set rows" "key r = k" by auto
    then have "r \<in> set (filter (\<lambda>q. key q = k) rows)" by simp
    then show "k = l" using \<open>key r = k\<close> unfolding same by simp
  qed
  then show "distinct (group_rows key rows)" by (simp add: group_rows_def distinct_map)
qed (auto simp: group_rows_def)

subsection \<open>Located bars\<close>

definition bar_ok :: "bar \<Rightarrow> bool" where
  "bar_ok b \<longleftrightarrow> bar_post_init b = Inr b"

lemma bar_okD: "bar_ok b \<Longrightarrow> is_aware (bar_starts_at b) \<and> is_aware (bar_ends_at b) \<and> instant (bar_starts_at b) < instant (bar_ends_at b)"
  by (auto simp: bar_ok_def bar_post_init_def exc_simps split: if_splits)

lemma find_Some_nth: "find P xs = Some x \<Longrightarrow> x \<in> set xs \<and> P x"
  by (auto simp: find_Some_iff)

lemma enumerate_member: "(i, x) \<in> set (enumerate 0 xs) \<longleftrightarrow> i < length xs \<and> xs ! i = x"
  by (auto simp: in_set_enumerate_eq)

lemma locate_market_session_Inr:
  assumes "locate_market_session calendar market b = Inr location"
    and "cal_market_timezone calendar market = Inr offset"
  shows "loc_session_date location = market_date offset (bar_starts_at b)"
    and "cal_is_holiday calendar market (loc_session_date location) = Inr False"
    and "\<exists>sessions. cal_sessions_for calendar market (loc_session_date location) = Inr sessions \<and>
           loc_segment location < length sessions \<and> sessions ! loc_segment location = loc_session location"
    and "holds_interval (loc_session location) (bar_starts_at b) (bar_ends_at b)"
proof -
  from assms obtain sessions segment session where
    "cal_is_holiday calendar market (market_date offset (bar_starts_at b)) = Inr False"
    "cal_sessions_for calendar market (market_date offset (bar_starts_at b)) = Inr sessions"
    and found: "find (\<lambda>(segment, session). holds_interval session (bar_starts_at b) (bar_ends_at b)) (enumerate 0 sessions)
                  = Some (segment, session)"
    and location: "location = \<lparr>loc_session_date = market_date offset (bar_starts_at b), loc_segment = segment,
                              loc_session = session\<rparr>"
    by (auto simp: locate_market_session_def bar_error_def exc_simps Let_def split: if_splits option.splits)
  with find_Some_nth [OF found]
  show "loc_session_date location = market_date offset (bar_starts_at b)"
    and "cal_is_holiday calendar market (loc_session_date location) = Inr False"
    and "\<exists>sessions. cal_sessions_for calendar market (loc_session_date location) = Inr sessions \<and>
           loc_segment location < length sessions \<and> sessions ! loc_segment location = loc_session location"
    and "holds_interval (loc_session location) (bar_starts_at b) (bar_ends_at b)"
    by (auto simp: enumerate_member)
qed

subsection \<open>Contiguous bars\<close>

lemma covers_end: "covers_continuously s e bars \<Longrightarrow> list_all bar_ok bars \<Longrightarrow> s \<le> e"
proof (induction bars arbitrary: s)
  case (Cons b bars)
  then show ?case using bar_okD [of b] by fastforce
qed simp

lemma covers_member:
  "covers_continuously s e bars \<Longrightarrow> list_all bar_ok bars \<Longrightarrow> b \<in> set bars \<Longrightarrow>
   s \<le> instant (bar_starts_at b) \<and> instant (bar_ends_at b) \<le> e"
proof (induction bars arbitrary: s)
  case (Cons a bars)
  then show ?case using covers_end [of "instant (bar_ends_at a)" e bars] bar_okD [of a] by fastforce
qed simp

lemma covers_point:
  "covers_continuously s e bars \<Longrightarrow> s \<le> t \<Longrightarrow> t < e \<Longrightarrow>
   \<exists>b \<in> set bars. instant (bar_starts_at b) \<le> t \<and> t < instant (bar_ends_at b)"
proof (induction bars arbitrary: s)
  case (Cons a bars)
  then show ?case by (cases "t < instant (bar_ends_at a)") auto
qed simp

text \<open>The inner loop finds no gap exactly when the bars cover the session's part of the range.\<close>

lemma session_gap_None:
  assumes "list_all bar_ok bars"
  shows "session_gap location required_start required_end expected_start bars = None \<longleftrightarrow>
     covers_continuously (instant expected_start) (instant required_end) bars"
  using assms
proof (induction bars arbitrary: expected_start)
  case (Cons b bars)
  have "instant (bar_ends_at b) \<le> instant required_end"
    if "covers_continuously (instant (bar_ends_at b)) (instant required_end) bars"
    using covers_end [OF that] Cons.prems by simp
  with Cons show ?case by auto
qed simp

definition session_bars :: "(bar \<times> session_location) list \<Rightarrow> session_location \<Rightarrow> bar list" where
  "session_bars located_bars location =
     bars_in_order [b. (b, bar_location) \<leftarrow> located_bars, same_session bar_location location]"

definition covers_session :: "datetime \<Rightarrow> datetime \<Rightarrow> (bar \<times> session_location) list \<Rightarrow> session_location \<Rightarrow> bool" where
  "covers_session intraday_start intraday_end located_bars location \<longleftrightarrow>
     covers_continuously (instant (later (opens_at (loc_session location)) intraday_start))
       (instant (earlier (closes_at (loc_session location)) intraday_end)) (session_bars located_bars location)"

lemma session_bars_set: "b \<in> set (session_bars located location) \<longleftrightarrow> (\<exists>l. (b, l) \<in> set located \<and> same_session l location)"
  by (auto simp: session_bars_def bars_in_order_def)

lemma first_gap_None:
  assumes "list_all (\<lambda>(b, _). bar_ok b) located"
  shows "first_gap intraday_start intraday_end located locations = None \<longleftrightarrow>
     list_all (covers_session intraday_start intraday_end located) locations"
proof (induction locations)
  case (Cons location locations)
  have "list_all bar_ok (session_bars located location)"
    using assms by (auto simp: list_all_iff session_bars_set)
  note gap = session_gap_None [OF this, of location "later (opens_at (loc_session location)) intraday_start"
      "earlier (closes_at (loc_session location)) intraday_end" "later (opens_at (loc_session location)) intraday_start"]
  show ?case unfolding first_gap.simps Let_def session_bars_def [symmetric]
    using gap Cons by (auto simp: covers_session_def split: option.split)
qed simp

lemma locate_bars_Inr:
  "locate_bars calendar market bars = Inr located \<Longrightarrow>
   map fst located = bars \<and> list_all (\<lambda>(b, l). locate_market_session calendar market b = Inr l) located"
proof (induction bars arbitrary: located)
  case (Cons b bars)
  then obtain l rest where "locate_market_session calendar market b = Inr l"
    "locate_bars calendar market bars = Inr rest" "located = (b, l) # rest"
    by (auto simp: locate_bars_def exc_simps)
  with Cons.IH show ?case by simp
qed (simp add: locate_bars_def)

lemma validate_bars_for_calendar_Inr: "validate_bars_for_calendar calendar market bars = Inr bars' \<Longrightarrow> bars' = bars"
  by (auto simp: validate_bars_for_calendar_def exc_simps split: if_splits)

lemma coverage_gap_Inr:
  assumes "requested_range_coverage_gap calendar market intraday_start intraday_end bars = Inr gap"
    and "list_all bar_ok bars"
  obtains located locations where "locate_bars calendar market bars = Inr located"
    "requested_session_locations calendar market intraday_start intraday_end = Inr locations"
    "gap = None \<longleftrightarrow> list_all (covers_session intraday_start intraday_end located) locations"
proof -
  from assms(1) obtain located locations where parts: "locate_bars calendar market bars = Inr located"
    "requested_session_locations calendar market intraday_start intraday_end = Inr locations"
    and gap: "gap = first_gap intraday_start intraday_end located locations"
    by (auto simp: requested_range_coverage_gap_def exc_simps dest!: validate_bars_for_calendar_Inr)
  have "list_all (\<lambda>(b, _). bar_ok b) located"
    using locate_bars_Inr [OF parts(1)] assms(2) by (force simp: list_all_iff)
  from first_gap_None [OF this] gap parts show thesis by (intro that) simp_all
qed

subsection \<open>Ordered bars\<close>

definition apart :: "bar \<Rightarrow> bar \<Rightarrow> bool" where
  "apart a b \<longleftrightarrow> (bar_instrument_id a = bar_instrument_id b \<longrightarrow> instant (bar_ends_at a) \<le> instant (bar_starts_at b))"

lemma validate_bars_from_Inr:
  assumes "list_all bar_ok bars" and "\<And>i p. previous i = Some p \<Longrightarrow> bar_ok p"
  shows "validate_bars_from previous bars = Inr () \<longleftrightarrow>
     sorted_wrt apart bars \<and>
     (\<forall>b \<in> set bars. \<forall>p. previous (bar_instrument_id b) = Some p \<longrightarrow> instant (bar_ends_at p) \<le> instant (bar_starts_at b))"
  using assms
proof (induction bars arbitrary: previous)
  case (Cons b bars)
  note b = bar_okD [of b]
  have ok: "bar_ok b" using Cons.prems(1) by simp
  have step: "validate_bars_from previous (b # bars) = Inr () \<longleftrightarrow>
      (\<forall>p. previous (bar_instrument_id b) = Some p \<longrightarrow> instant (bar_ends_at p) \<le> instant (bar_starts_at b)) \<and>
      validate_bars_from (previous(bar_instrument_id b \<mapsto> b)) bars = Inr ()"
    using b [OF ok] bar_okD [OF Cons.prems(2) [of "bar_instrument_id b"]]
    by (cases "previous (bar_instrument_id b)") (auto simp: bar_error_def require_timezone_aware_Inr exc_simps)
  have rest: "validate_bars_from (previous(bar_instrument_id b \<mapsto> b)) bars = Inr () \<longleftrightarrow>
      sorted_wrt apart bars \<and> (\<forall>c \<in> set bars. \<forall>p. (previous(bar_instrument_id b \<mapsto> b)) (bar_instrument_id c) = Some p \<longrightarrow>
        instant (bar_ends_at p) \<le> instant (bar_starts_at c))"
    by (rule Cons.IH) (use Cons.prems ok in \<open>auto split: if_splits\<close>)
  have split: "(\<forall>p. (previous(bar_instrument_id b \<mapsto> b)) (bar_instrument_id c) = Some p \<longrightarrow> instant (bar_ends_at p) \<le> instant (bar_starts_at c))
      \<longleftrightarrow> apart b c \<and> (bar_instrument_id c \<noteq> bar_instrument_id b \<longrightarrow> (\<forall>p. previous (bar_instrument_id c) = Some p \<longrightarrow>
        instant (bar_ends_at p) \<le> instant (bar_starts_at c)))" for c
    by (auto simp: apart_def)
  have later: "instant (bar_ends_at p) \<le> instant (bar_starts_at c)"
    if "apart b c" "bar_instrument_id c = bar_instrument_id b" "instant (bar_ends_at p) \<le> instant (bar_starts_at b)" for c and p :: bar
    using that b [OF ok] by (simp add: apart_def)
  show ?case unfolding step rest split sorted_wrt.simps using later by (metis list.set_intros set_ConsD)
qed simp

lemma validate_bars_ok:
  assumes "list_all bar_ok bars"
  shows "validate_bars_for_calendar calendar market bars = Inr bars \<longleftrightarrow>
     sorted_wrt apart bars \<and> list_all (\<lambda>b. \<exists>l. locate_market_session calendar market b = Inr l) bars"
proof (cases bars)
  case (Cons b rest)
  have "mapE (locate_market_session calendar market) bars \<noteq> Inl e \<or> True" for e by simp
  have located: "(\<exists>ls. mapE (locate_market_session calendar market) bars = Inr ls) \<longleftrightarrow>
      list_all (\<lambda>b. \<exists>l. locate_market_session calendar market b = Inr l) bars"
    by (induction bars) (auto simp: exc_simps)
  have "is_aware (bar_starts_at (hd bars))" using Cons assms bar_okD by simp
  then show ?thesis using validate_bars_from_Inr [OF assms, of Map.empty] located Cons
    by (auto simp: validate_bars_for_calendar_def validate_source_bars_def exc_simps simp del: validate_bars_from.simps mapE.simps)
qed (simp add: validate_bars_for_calendar_def)

subsection \<open>The requested sessions\<close>

lemma selected_member:
  "location \<in> set [\<lparr>loc_session_date = d, loc_segment = segment, loc_session = session\<rparr>.
       (segment, session) \<leftarrow> enumerate 0 xs, P session] \<longleftrightarrow>
   loc_session_date location = d \<and> loc_segment location < length xs \<and> xs ! loc_segment location = loc_session location \<and>
   P (loc_session location)"
proof -
  have "(loc_segment location, loc_session location) \<in> set (enumerate 0 xs) \<longleftrightarrow>
      loc_segment location < length xs \<and> xs ! loc_segment location = loc_session location" by (simp add: enumerate_member)
  then show ?thesis by (cases location) (force simp: enumerate_member)
qed

lemma requested_session_locations_Inr:
  assumes "requested_session_locations calendar market intraday_start intraday_end = Inr locations"
    and "cal_market_timezone calendar market = Inr offset"
  shows "location \<in> set locations \<longleftrightarrow>
     (\<exists>sessions. loc_session_date location \<in> {market_date offset intraday_start..market_date offset intraday_end} \<and>
        cal_is_holiday calendar market (loc_session_date location) = Inr False \<and>
        cal_sessions_for calendar market (loc_session_date location) = Inr sessions \<and>
        loc_segment location < length sessions \<and> sessions ! loc_segment location = loc_session location \<and>
        max (instant (opens_at (loc_session location))) (instant intraday_start) <
          min (instant (closes_at (loc_session location))) (instant intraday_end))"
proof -
  let ?day = "sessions_between calendar market intraday_start intraday_end"
  let ?dates = "[market_date offset intraday_start..market_date offset intraday_end]"
  from assms obtain days where days: "mapE ?day ?dates = Inr days" and locations: "locations = concat days"
    by (auto simp: requested_session_locations_def bar_error_def exc_simps split: if_splits)
  have day: "location \<in> set ls \<longleftrightarrow> loc_session_date location = d \<and>
      (\<exists>sessions. cal_is_holiday calendar market d = Inr False \<and> cal_sessions_for calendar market d = Inr sessions \<and>
        loc_segment location < length sessions \<and> sessions ! loc_segment location = loc_session location \<and>
        max (instant (opens_at (loc_session location))) (instant intraday_start) <
          min (instant (closes_at (loc_session location))) (instant intraday_end))" if "?day d = Inr ls" for d ls
  proof -
    from that obtain closed where closed: "cal_is_holiday calendar market d = Inr closed"
      by (auto simp: sessions_between_def exc_simps)
    show ?thesis
    proof (cases closed)
      case True
      with that closed show ?thesis by (simp add: sessions_between_def)
    next
      case False
      let ?inside = "\<lambda>session. max (instant (opens_at session)) (instant intraday_start) <
          min (instant (closes_at session)) (instant intraday_end)"
      from that False closed obtain sessions where sessions: "cal_sessions_for calendar market d = Inr sessions"
        and ls: "ls = [\<lparr>loc_session_date = d, loc_segment = segment, loc_session = session\<rparr>.
          (segment, session) \<leftarrow> enumerate 0 sessions, ?inside session]"
        unfolding sessions_between_def by (simp only: bindE.simps if_False) (auto simp only: bindE_Inr sum.inject)
      show ?thesis using closed False sessions unfolding ls selected_member [where P = ?inside] by auto
    qed
  qed
  have "location \<in> set locations \<longleftrightarrow> (\<exists>d \<in> set ?dates. \<exists>ls. ?day d = Inr ls \<and> location \<in> set ls)"
    unfolding locations using mapE_Inr_set [OF days] mapE_set_Inr [OF days] by fastforce
  also have "\<dots> \<longleftrightarrow> (\<exists>ls. loc_session_date location \<in> set ?dates \<and> ?day (loc_session_date location) = Inr ls \<and> location \<in> set ls)"
    using day by blast
  finally have member: "location \<in> set locations \<longleftrightarrow>
      (\<exists>ls. loc_session_date location \<in> set ?dates \<and> ?day (loc_session_date location) = Inr ls \<and> location \<in> set ls)" .
  have "\<exists>ls. ?day d = Inr ls" if "d \<in> set ?dates" for d using mapE_set_Inr [OF days that] by blast
  then show ?thesis unfolding member using day by (metis set_upto)
qed

lemma market_date_mono: "instant a \<le> instant b \<Longrightarrow> market_date offset a \<le> market_date offset b"
  by (simp add: market_date_def microseconds_per_day_def zdiv_mono1)

lemma later_instant [simp]: "instant (later a b) = max (instant a) (instant b)"
  and earlier_instant [simp]: "instant (earlier a b) = min (instant a) (instant b)"
  by (simp_all add: later_def earlier_def)

context session_calendar
begin

text \<open>A range without a gap has a bar at each of its instants of trading.\<close>

lemma covered_instant:
  assumes bars: "list_all bar_ok bars"
    and gap: "requested_range_coverage_gap calendar market intraday_start intraday_end bars = Inr None"
    and range: "instant intraday_start \<le> t" "t < instant intraday_end"
    and open_day: "cal_is_holiday calendar market (market_date offset (Aware t)) = Inr False"
    and sessions: "cal_sessions_for calendar market (market_date offset (Aware t)) = Inr sessions" "session \<in> set sessions"
    and trading: "instant (opens_at session) \<le> t" "t < instant (closes_at session)"
  shows "\<exists>b \<in> set bars. instant (bar_starts_at b) \<le> t \<and> t < instant (bar_ends_at b)"
proof -
  from coverage_gap_Inr [OF gap bars] obtain located locations where located: "locate_bars calendar market bars = Inr located"
    and locations: "requested_session_locations calendar market intraday_start intraday_end = Inr locations"
    and covered: "list_all (covers_session intraday_start intraday_end located) locations" by blast
  from sessions(2) obtain i where i: "i < length sessions" "sessions ! i = session" by (metis in_set_conv_nth)
  let ?location = "\<lparr>loc_session_date = market_date offset (Aware t), loc_segment = i, loc_session = session\<rparr>"
  have "market_date offset intraday_start \<le> market_date offset (Aware t)"
    "market_date offset (Aware t) \<le> market_date offset intraday_end"
    using range by (auto intro!: market_date_mono)
  then have "?location \<in> set locations"
    unfolding requested_session_locations_Inr [OF locations zone] using i open_day sessions range trading by auto
  with covered have "covers_session intraday_start intraday_end located ?location" by (auto simp: list_all_iff)
  then have "\<exists>b \<in> set (session_bars located ?location). instant (bar_starts_at b) \<le> t \<and> t < instant (bar_ends_at b)"
    unfolding covers_session_def by (rule covers_point) (use range trading in simp_all)
  then show ?thesis using locate_bars_Inr [OF located] by (force simp: session_bars_set)
qed

end

end
