(* ===== verification/Aggregation.thy ===== *)
theory Aggregation
  imports BarsProps
begin

text \<open>
  The windows of \<open>aggregate_bars\<close>: which are emitted, what they hold, and that they are again bars of
  the calendar.
\<close>

subsection \<open>Windows\<close>

text \<open>The windows of a session: of the given width from its open on, the last one up to its close.\<close>

definition aligned_window :: "market_session \<Rightarrow> timedelta \<Rightarrow> int \<Rightarrow> int \<Rightarrow> bool" where
  "aligned_window session width s e \<longleftrightarrow>
     (\<exists>n \<ge> 0. s = instant (opens_at session) + n * width) \<and> s < instant (closes_at session) \<and>
     e = min (s + width) (instant (closes_at session))"

lemma bucket_bar_Inr:
  assumes "bucket_bar calendar market width b = Inr r" and "0 < width"
    and "cal_market_timezone calendar market = Inr offset"
  obtains location where "locate_market_session calendar market b = Inr location" "bb_bar r = b"
    "aligned_window (loc_session location) width (instant (bb_bucket_start r)) (instant (bb_bucket_end r))"
    "instant (bb_bucket_start r) \<le> instant (bar_starts_at b)" "instant (bar_ends_at b) \<le> instant (bb_bucket_end r)"
    "is_aware (bb_bucket_start r)"
proof -
  from assms(1) obtain location where location: "locate_market_session calendar market b = Inr location"
    by (auto simp: bucket_bar_def exc_simps)
  let ?s = "loc_session location" and ?t = "instant (bar_starts_at b)"
  let ?n = "(?t - instant (opens_at ?s)) div width"
  from location assms(1,3) have r: "bb_bar r = b" "bb_bucket_start r = Aware (instant (opens_at ?s) + ?n * width)"
      "instant (bb_bucket_end r) = min (instant (opens_at ?s) + ?n * width + width) (instant (closes_at ?s))"
      "instant (bar_ends_at b) \<le> instant (bb_bucket_end r)"
    by (auto simp: bucket_bar_def Let_def bar_error_def split: if_splits)
  have in_session: "instant (opens_at ?s) \<le> ?t" "?t < instant (closes_at ?s)"
    using locate_market_session_Inr(4) [OF location assms(3)] by (auto simp: holds_interval_def)
  have "0 \<le> ?n" using in_session(1) assms(2) by (simp add: pos_imp_zdiv_nonneg_iff)
  moreover have "?n * width \<le> ?t - instant (opens_at ?s)"
    using pos_mod_sign [OF assms(2), of "?t - instant (opens_at ?s)"] by (simp add: minus_mod_eq_div_mult [symmetric])
  ultimately show thesis using r in_session by (intro that [OF location]) (auto simp: aligned_window_def)
qed

definition window_of :: "trading_calendar \<Rightarrow> string \<Rightarrow> timedelta \<Rightarrow> bar \<Rightarrow> grouping_key option" where
  "window_of calendar market width b =
     (case bucket_bar calendar market width b of Inl _ \<Rightarrow> None | Inr r \<Rightarrow> Some (window_key r))"

text \<open>The source bars of a window, in their order.\<close>

definition window_bars :: "trading_calendar \<Rightarrow> string \<Rightarrow> timedelta \<Rightarrow> bar list \<Rightarrow> grouping_key \<Rightarrow> bar list" where
  "window_bars calendar market width bars key =
     bars_in_order (filter (\<lambda>b. window_of calendar market width b = Some key) bars)"

definition bar_window :: "bar \<Rightarrow> grouping_key" where
  "bar_window a = (bar_instrument_id a, instant (bar_starts_at a), instant (bar_ends_at a))"

text \<open>An aggregate of contiguous bars that fill its window.\<close>

definition aggregates :: "bar list \<Rightarrow> bar \<Rightarrow> bool" where
  "aggregates members a \<longleftrightarrow>
     members \<noteq> [] \<and> covers_continuously (instant (bar_starts_at a)) (instant (bar_ends_at a)) members \<and>
     list_all (\<lambda>b. bar_instrument_id b = bar_instrument_id a) members \<and>
     bar_open a = bar_open (hd members) \<and> bar_close a = bar_close (last members) \<and>
     bar_high a = highest members \<and> bar_low a = lowest members \<and>
     ctx_sum (map bar_volume members) = Inr (bar_volume a) \<and> bar_ok a"

lemma map_insort_key: "map f (insort_key (\<lambda>x. g (f x)) x xs) = insort_key g (f x) (map f xs)"
  by (induction xs) auto

lemma map_sort_key: "map f (sort_key (\<lambda>x. g (f x)) xs) = sort_key g (map f xs)"
  by (induction xs) (simp_all add: map_insort_key)

lemma bucketed_bars:
  assumes "mapE (bucket_bar calendar market width) bars = Inr rows"
    and "0 < width" and "cal_market_timezone calendar market = Inr offset"
  shows "map bb_bar rows = bars"
    and "map bb_bar (filter (\<lambda>r. window_key r = key) rows) = filter (\<lambda>b. window_of calendar market width b = Some key) bars"
  using assms(1)
proof (induction bars arbitrary: rows)
  case (Cons b bars)
  {
    case 1
    with Cons.IH(1) show ?case using bucket_bar_Inr [OF _ assms(2,3)] by (auto simp: exc_simps)
  next
    case 2
    then obtain r rest where r: "bucket_bar calendar market width b = Inr r" and rest: "rows = r # rest"
      "mapE (bucket_bar calendar market width) bars = Inr rest" by (auto simp: exc_simps)
    have "bb_bar r = b" using bucket_bar_Inr [OF r assms(2,3)] by metis
    with Cons.IH(2) [OF rest(2)] show ?case by (simp add: rest(1) window_of_def r)
  }
qed simp_all

lemma window_group:
  assumes "mapE (bucket_bar calendar market width) bars = Inr rows"
    and "0 < width" and "cal_market_timezone calendar market = Inr offset"
  shows "map bb_bar (sort_key (\<lambda>r. instant (bar_starts_at (bb_bar r))) (filter (\<lambda>r. window_key r = key) rows)) =
     window_bars calendar market width bars key"
  by (simp only: map_sort_key [where f = bb_bar and g = "\<lambda>b. instant (bar_starts_at b)"] bucketed_bars(2) [OF assms]
      window_bars_def bars_in_order_def)

text \<open>What one group contributes.\<close>

lemma aggregate_bucket_Inr:
  assumes "aggregate_bucket rows = Inr result" and "rows \<noteq> []"
    and "\<And>r. r \<in> set rows \<Longrightarrow> window_key r = (i, s, e)"
  defines "members \<equiv> map bb_bar (sort_key (\<lambda>r. instant (bar_starts_at (bb_bar r))) rows)"
  shows "result = None \<longleftrightarrow> \<not> covers_continuously s e members"
    and "result = Some a \<Longrightarrow> aggregates members a \<and> bar_window a = (i, s, e)"
proof -
  let ?ordered = "sort_key (\<lambda>r. instant (bar_starts_at (bb_bar r))) rows"
  have some: "?ordered \<noteq> []" using assms(2) by (metis set_empty set_sort)
  then have "hd ?ordered \<in> set rows" by (metis hd_in_set set_sort)
  note first = assms(3) [OF this, unfolded window_key_def]
  have instruments: "list_all (\<lambda>b. bar_instrument_id b = i) members"
    using assms(3) by (auto simp: members_def list_all_iff window_key_def)
  have first_member: "hd members = bb_bar (hd ?ordered)" using some by (simp add: members_def hd_map)
  show "result = None \<longleftrightarrow> \<not> covers_continuously s e members"
    using assms(1) first by (auto simp: aggregate_bucket_def Let_def members_def exc_simps split: if_splits)
  assume "result = Some a"
  with assms(1) first obtain volume where volume: "ctx_sum (map bar_volume members) = Inr volume"
    and covers: "covers_continuously s e members"
    and a: "bar_post_init
          \<lparr>bar_instrument_id = i, bar_starts_at = bb_bucket_start (hd ?ordered),
           bar_ends_at = bb_bucket_end (hd ?ordered), bar_open = bar_open (hd members), bar_high = highest members,
           bar_low = lowest members, bar_close = bar_close (last members), bar_volume = volume\<rparr> = Inr a"
    by (auto simp: aggregate_bucket_def Let_def members_def exc_simps split: if_splits)
  have "bar_post_init b = Inr a \<Longrightarrow> a = b \<and> bar_ok a" for b
    by (auto simp: bar_ok_def bar_post_init_def exc_simps split: if_splits)
  note built = this [OF a]
  have "members \<noteq> []" using some by (simp add: members_def)
  with volume covers instruments first built show "aggregates members a \<and> bar_window a = (i, s, e)"
    by (auto simp: aggregates_def bar_window_def)
qed

subsection \<open>All groups\<close>

text \<open>The rows of one window, and whether they fill it.\<close>

definition one_window :: "bucketed_bar list \<Rightarrow> bool" where
  "one_window g \<longleftrightarrow> g \<noteq> [] \<and> list_all (\<lambda>r. window_key r = window_key (hd g)) g"

definition members_of :: "bucketed_bar list \<Rightarrow> bar list" where
  "members_of g = map bb_bar (sort_key (\<lambda>r. instant (bar_starts_at (bb_bar r))) g)"

definition fills :: "grouping_key \<Rightarrow> bar list \<Rightarrow> bool" where
  "fills key members = (case key of (_, s, e) \<Rightarrow> members \<noteq> [] \<and> covers_continuously s e members)"

lemma aggregate_one_window:
  assumes "aggregate_bucket g = Inr result" and "one_window g"
  shows "result = None \<longleftrightarrow> \<not> fills (window_key (hd g)) (members_of g)"
    and "result = Some a \<Longrightarrow> aggregates (members_of g) a \<and> bar_window a = window_key (hd g)"
proof -
  obtain i s e where key: "window_key (hd g) = (i, s, e)" by (cases "window_key (hd g)") auto
  have rows: "g \<noteq> []" "\<And>r. r \<in> set g \<Longrightarrow> window_key r = (i, s, e)"
    using assms(2) key by (auto simp: one_window_def list_all_iff)
  have "members_of g \<noteq> []" using rows(1) unfolding members_of_def by (metis map_is_Nil_conv set_empty set_sort)
  then show "result = None \<longleftrightarrow> \<not> fills (window_key (hd g)) (members_of g)"
    using aggregate_bucket_Inr(1) [OF assms(1) rows] by (simp add: key fills_def members_of_def)
  show "result = Some a \<Longrightarrow> aggregates (members_of g) a \<and> bar_window a = window_key (hd g)"
    using aggregate_bucket_Inr(2) [OF assms(1) rows] by (simp add: key members_of_def)
qed

lemma aggregated_windows:
  assumes "mapE aggregate_bucket gs = Inr results" and "list_all one_window gs"
  shows "map bar_window (concat (map opt_list results)) =
      map (\<lambda>g. window_key (hd g)) (filter (\<lambda>g. fills (window_key (hd g)) (members_of g)) gs)"
    and "a \<in> set (concat (map opt_list results)) \<Longrightarrow> \<exists>g \<in> set gs. aggregates (members_of g) a \<and> bar_window a = window_key (hd g)"
  using assms
proof (induction gs arbitrary: results)
  case (Cons g gs)
  {
    case 1
    then obtain result rest where parts: "aggregate_bucket g = Inr result" "mapE aggregate_bucket gs = Inr rest"
      "results = result # rest" and g: "one_window g" "list_all one_window gs" by (auto simp: exc_simps)
    show ?case using Cons.IH(1) [OF parts(2) g(2)] aggregate_one_window [OF parts(1) g(1)] parts(3)
      by (cases result) (simp_all add: opt_list_def)
  next
    case 2
    then obtain result rest where parts: "aggregate_bucket g = Inr result" "mapE aggregate_bucket gs = Inr rest"
      "results = result # rest" and g: "one_window g" "list_all one_window gs" by (auto simp: exc_simps)
    show ?case using 2(1) Cons.IH(2) [OF _ parts(2) g(2)] aggregate_one_window(2) [OF parts(1) g(1)] parts(3)
      by (cases result) (auto simp: opt_list_def)
  }
qed simp_all

context row_grouping
begin

lemma groups:
  assumes "g \<in> set (groupby window_key rows)"
  shows "one_window g" and "g = filter (\<lambda>q. window_key q = window_key (hd g)) rows" and "hd g \<in> set rows"
proof -
  from group [OF assms] obtain r where r: "r \<in> set rows" and g: "g = filter (\<lambda>q. window_key q = window_key r) rows" by auto
  then have "r \<in> set g" by simp
  then have "g \<noteq> []" by auto
  then have "hd g \<in> set g" by simp
  then have hd: "window_key (hd g) = window_key r" "hd g \<in> set rows" using g by auto
  show "g = filter (\<lambda>q. window_key q = window_key (hd g)) rows" unfolding hd(1) by (rule g)
  show "one_window g" using \<open>g \<noteq> []\<close> hd(1) g by (auto simp: one_window_def list_all_iff)
  show "hd g \<in> set rows" by (rule hd(2))
qed

lemma group_keys: "distinct (map (\<lambda>g. window_key (hd g)) (groupby window_key rows))"
proof -
  have "inj_on (\<lambda>g. window_key (hd g)) (set (groupby window_key rows))"
    by (rule inj_onI) (metis groups(2))
  then show ?thesis by (simp add: distinct_map once)
qed

lemma aggregated:
  assumes "aggregate_bars groupby calendar market width bars = Inr out"
    and zone: "cal_market_timezone calendar market = Inr offset"
  shows "distinct (map bar_window out)"
    and "key \<in> set (map bar_window out) \<longleftrightarrow> fills key (window_bars calendar market width bars key)"
    and "a \<in> set out \<Longrightarrow> aggregates (window_bars calendar market width bars (bar_window a)) a"
    and "sorted (map bar_order out)"
    and "0 < width"
proof -
  have width: "0 < width" using assms(1) by (auto simp: aggregate_bars_def bar_error_def split: if_splits)
  then show "0 < width" .
  have "distinct (map bar_window out) \<and>
    (key \<in> set (map bar_window out) \<longleftrightarrow> fills key (window_bars calendar market width bars key)) \<and>
    (a \<in> set out \<longrightarrow> aggregates (window_bars calendar market width bars (bar_window a)) a) \<and> sorted (map bar_order out)"
  proof (cases "bars = []")
    case True
    with assms(1) width have "out = []" by (simp add: aggregate_bars_def validate_bars_for_calendar_def)
    then show ?thesis using True by (simp add: window_bars_def bars_in_order_def fills_def split: prod.splits)
  next
    case False
    with assms(1) width obtain rows results where rows: "mapE (bucket_bar calendar market width) bars = Inr rows"
      and results: "mapE aggregate_bucket (groupby window_key rows) = Inr results"
      and out: "out = sort_key bar_order (concat (map opt_list results))"
      by (auto simp: aggregate_bars_def bar_error_def exc_simps dest!: validate_bars_for_calendar_Inr split: if_splits)
    have windows: "list_all one_window (groupby window_key rows)" using groups(1) by (simp add: list_all_iff)
    have members: "members_of g = window_bars calendar market width bars (window_key (hd g))"
      if "g \<in> set (groupby window_key rows)" for g
      using window_group [OF rows width zone, of "window_key (hd g)"] groups(2) [OF that] by (simp add: members_of_def)
    have mset: "mset (map bar_window out) = mset (map bar_window (concat (map opt_list results)))" by (simp add: out)
    note keys = aggregated_windows(1) [OF results windows]
    have "distinct (map bar_window (concat (map opt_list results)))" unfolding keys using group_keys [of rows]
      by (simp add: distinct_map_filter)
    then have "distinct (map bar_window out)" using mset by (metis mset_eq_imp_distinct_iff)
    moreover have "key \<in> set (map bar_window out) \<longleftrightarrow> fills key (window_bars calendar market width bars key)"
    proof -
      have "key \<in> set (map bar_window out) \<longleftrightarrow>
          (\<exists>g \<in> set (groupby window_key rows). key = window_key (hd g) \<and> fills (window_key (hd g)) (members_of g))"
        using mset_eq_setD [OF mset] unfolding keys by auto
      also have "\<dots> \<longleftrightarrow> fills key (window_bars calendar market width bars key)"
      proof
        assume filled: "fills key (window_bars calendar market width bars key)"
        then have "window_bars calendar market width bars key \<noteq> []" by (auto simp: fills_def split: prod.splits)
        then have "filter (\<lambda>r. window_key r = key) rows \<noteq> []"
          unfolding window_group [OF rows width zone, symmetric] by auto
        then obtain r where r: "r \<in> set rows" "window_key r = key" by (auto simp: filter_empty_conv)
        let ?g = "filter (\<lambda>q. window_key q = window_key r) rows"
        have g: "?g \<in> set (groupby window_key rows)" using grouped [OF r(1)] .
        have "hd ?g \<in> set ?g" using r by (intro hd_in_set) (auto simp: filter_empty_conv)
        then have "window_key (hd ?g) = key" using r by simp
        with g filled members [OF g] show "\<exists>g \<in> set (groupby window_key rows). key = window_key (hd g) \<and>
            fills (window_key (hd g)) (members_of g)" by (intro bexI [of _ ?g]) simp_all
      qed (use members in auto)
      finally show ?thesis .
    qed
    moreover have "aggregates (window_bars calendar market width bars (bar_window a)) a" if "a \<in> set out"
      using aggregated_windows(2) [OF results windows, of a] that members by (auto simp: out)
    ultimately show ?thesis using sorted_sort_key [of bar_order] by (simp add: out)
  qed
  then show "distinct (map bar_window out)"
    and "key \<in> set (map bar_window out) \<longleftrightarrow> fills key (window_bars calendar market width bars key)"
    and "a \<in> set out \<Longrightarrow> aggregates (window_bars calendar market width bars (bar_window a)) a"
    and "sorted (map bar_order out)" by blast+
qed

end

subsection \<open>Aggregates are bars of the calendar\<close>

locale bar_aggregation = session_calendar calendar market offset + row_grouping groupby
  for calendar :: trading_calendar and market :: string and offset :: timedelta and groupby :: pandas_groupby

sublocale configured_mock \<subseteq> mock_bars: bar_aggregation "mock_trading_calendar zone_of c" "mc_market c" zone_offset group_rows
  by unfold_locales

context bar_aggregation
begin

lemma session_bounds:
  assumes "cal_sessions_for calendar market day = Inr sessions" and "i < length sessions"
  shows "market_date offset (opens_at (sessions ! i)) = day" "market_date offset (closes_at (sessions ! i)) = day"
  using in_day [OF assms(1)] assms(2) by (simp_all add: list_all_length session_of_day_def)

lemma sessions_ordered:
  assumes "cal_sessions_for calendar market day = Inr sessions" and "i < j" and "j < length sessions"
  shows "instant (closes_at (sessions ! i)) \<le> instant (opens_at (sessions ! j))"
  using separate [OF assms(1)] assms(2,3) by (simp add: separate_sessions_def sorted_wrt_iff_nth_less)

lemma same_session_windows:
  assumes "aligned_window session width s e" and "aligned_window session width s' e'" and "0 < width"
    and "s \<le> s'" and "(s, e) \<noteq> (s', e')"
  shows "e \<le> s'"
proof -
  from assms obtain n n' where n: "s = instant (opens_at session) + n * width" "s' = instant (opens_at session) + n' * width"
    and e: "e = min (s + width) (instant (closes_at session))" "e' = min (s' + width) (instant (closes_at session))"
    by (auto simp: aligned_window_def)
  with assms(3-5) have "s \<noteq> s'" by auto
  with assms(4) have "n * width < n' * width" using n by linarith
  then have "n < n'" using assms(3) by (simp add: mult_less_cancel_right)
  then have "(n + 1) * width \<le> n' * width" using assms(3) by (intro mult_right_mono) simp_all
  then show ?thesis using n e by (simp add: algebra_simps)
qed

lemma located_windows_apart:
  assumes loc: "cal_sessions_for calendar market (loc_session_date l) = Inr ss" "loc_segment l < length ss"
      "ss ! loc_segment l = loc_session l"
    and loc': "cal_sessions_for calendar market (loc_session_date l') = Inr ss'" "loc_segment l' < length ss'"
      "ss' ! loc_segment l' = loc_session l'"
    and window: "aligned_window (loc_session l) width s e" "aligned_window (loc_session l') width s' e'"
    and order: "0 < width" "s \<le> s'" "(s, e) \<noteq> (s', e')"
  shows "e \<le> s'"
proof -
  have bounds: "s < instant (closes_at (loc_session l))" "e \<le> instant (closes_at (loc_session l))"
    "instant (opens_at (loc_session l)) \<le> s" "s' < instant (closes_at (loc_session l'))"
    "instant (opens_at (loc_session l')) \<le> s'"
    using window order(1) by (auto simp: aligned_window_def)
  note days = session_bounds [OF loc(1,2), unfolded loc(3)] session_bounds [OF loc'(1,2), unfolded loc'(3)]
  show ?thesis
  proof (cases "loc_session_date l" "loc_session_date l'" rule: linorder_cases)
    case less
    have "\<not> instant (opens_at (loc_session l')) \<le> instant (closes_at (loc_session l))"
      using market_date_mono [of _ _ offset] days less by fastforce
    with bounds show ?thesis by linarith
  next
    case equal
    with loc loc' have same: "ss' = ss" by simp
    show ?thesis
    proof (cases "loc_segment l" "loc_segment l'" rule: linorder_cases)
      case less
      have "instant (closes_at (loc_session l)) \<le> instant (opens_at (loc_session l'))"
        using sessions_ordered [OF loc(1) less] loc loc' by (simp add: same)
      with bounds show ?thesis by linarith
    next
      case equal
      then have "loc_session l' = loc_session l" using loc loc' same by simp
      with window order show ?thesis by (intro same_session_windows [of "loc_session l" width s e s' e']) simp_all
    next
      case greater
      have "instant (closes_at (loc_session l')) \<le> instant (opens_at (loc_session l))"
        using sessions_ordered [OF loc(1) greater] loc loc' by (simp add: same)
      with bounds order show ?thesis by linarith
    qed
  next
    case greater
    have "\<not> instant (opens_at (loc_session l)) \<le> instant (closes_at (loc_session l'))"
      using market_date_mono [of _ _ offset] days greater by fastforce
    with bounds order show ?thesis by linarith
  qed
qed

lemma aggregate_location:
  assumes "aggregate_bars groupby calendar market width bars = Inr out" and "a \<in> set out"
  obtains b location where "b \<in> set bars" "bar_instrument_id b = bar_instrument_id a"
    "locate_market_session calendar market b = Inr location"
    "aligned_window (loc_session location) width (instant (bar_starts_at a)) (instant (bar_ends_at a))"
    "instant (bar_starts_at a) \<le> instant (bar_starts_at b)" "instant (bar_ends_at b) \<le> instant (bar_ends_at a)"
proof -
  note agg = aggregated [OF assms(1) zone]
  from agg(3) [OF assms(2)] have "window_bars calendar market width bars (bar_window a) \<noteq> []" by (simp add: aggregates_def)
  then have "set (window_bars calendar market width bars (bar_window a)) \<noteq> {}" by simp
  then obtain b where b: "b \<in> set bars" "window_of calendar market width b = Some (bar_window a)"
    by (auto simp: window_bars_def bars_in_order_def simp del: set_empty)
  then obtain r where r: "bucket_bar calendar market width b = Inr r" "window_key r = bar_window a"
    by (auto simp: window_of_def split: sum.splits)
  from bucket_bar_Inr [OF r(1) agg(5) zone] r(2) b(1) show thesis
    by (metis (no_types, lifting) that window_key_def bar_window_def prod.inject)
qed

lemma aggregate_located:
  assumes "aggregate_bars groupby calendar market width bars = Inr out" and "a \<in> set out"
  shows "\<exists>location. locate_market_session calendar market a = Inr location"
proof -
  from aggregate_location [OF assms] obtain b location where b: "locate_market_session calendar market b = Inr location"
    and window: "aligned_window (loc_session location) width (instant (bar_starts_at a)) (instant (bar_ends_at a))" .
  note at = locate_market_session_Inr [OF b zone]
  from at(3) obtain ss where ss: "cal_sessions_for calendar market (loc_session_date location) = Inr ss"
    "loc_segment location < length ss" "ss ! loc_segment location = loc_session location" by auto
  have "0 < width" by (rule aggregated(5) [OF assms(1) zone])
  then have holds: "holds_interval (loc_session location) (bar_starts_at a) (bar_ends_at a)"
    using window by (auto simp: aligned_window_def holds_interval_def)
  note days = session_bounds [OF ss(1,2), unfolded ss(3)]
  have "market_date offset (bar_starts_at a) = loc_session_date location"
    using holds market_date_mono [of "opens_at (loc_session location)" "bar_starts_at a" offset]
      market_date_mono [of "bar_starts_at a" "closes_at (loc_session location)" offset] days
    by (simp add: holds_interval_def)
  note date = this
  have "(loc_segment location, loc_session location) \<in> set (enumerate 0 ss)" using ss by (simp add: enumerate_member)
  with holds have "find (\<lambda>(segment, session). holds_interval session (bar_starts_at a) (bar_ends_at a)) (enumerate 0 ss) \<noteq> None"
    by (auto simp: find_None_iff simp del: not_None_eq)
  moreover have "ss \<noteq> []" using ss(2) by auto
  moreover have "\<not> is_blank market" using b by (auto simp: locate_market_session_def bar_error_def)
  moreover have "bar_ok a" using aggregated(3) [OF assms(1) zone assms(2)] by (simp add: aggregates_def)
  ultimately show ?thesis using at(2) ss(1) bar_okD [of a] zone
    by (auto simp: locate_market_session_def date require_timezone_aware_def Let_def)
qed

lemma aggregates_valid:
  assumes "aggregate_bars groupby calendar market width bars = Inr out"
  shows "validate_bars_for_calendar calendar market out = Inr out"
proof -
  note agg = aggregated [OF assms zone]
  have ok: "list_all bar_ok out" using agg(3) by (auto simp: list_all_iff aggregates_def)
  have "apart (out ! i) (out ! j)" if ij: "i < j" "j < length out" for i j
  proof (unfold apart_def, rule impI)
    assume same: "bar_instrument_id (out ! i) = bar_instrument_id (out ! j)"
    have mem: "out ! i \<in> set out" "out ! j \<in> set out" using ij by simp_all
    have starts: "instant (bar_starts_at (out ! i)) \<le> instant (bar_starts_at (out ! j))"
      using sorted_nth_mono [OF agg(4), of i j] ij by (auto simp: bar_order_def less_eq_prod_def)
    have "bar_window (out ! i) \<noteq> bar_window (out ! j)" using agg(1) ij by (auto simp: distinct_conv_nth)
    with same have differ: "(instant (bar_starts_at (out ! i)), instant (bar_ends_at (out ! i))) \<noteq>
      (instant (bar_starts_at (out ! j)), instant (bar_ends_at (out ! j)))" by (auto simp: bar_window_def)
    from aggregate_location [OF assms mem(1)] obtain b l where b: "locate_market_session calendar market b = Inr l"
      and window: "aligned_window (loc_session l) width (instant (bar_starts_at (out ! i))) (instant (bar_ends_at (out ! i)))" .
    from aggregate_location [OF assms mem(2)] obtain b' l' where b': "locate_market_session calendar market b' = Inr l'"
      and window': "aligned_window (loc_session l') width (instant (bar_starts_at (out ! j))) (instant (bar_ends_at (out ! j)))" .
    from locate_market_session_Inr(3) [OF b zone] locate_market_session_Inr(3) [OF b' zone]
    show "instant (bar_ends_at (out ! i)) \<le> instant (bar_starts_at (out ! j))"
      using located_windows_apart [OF _ _ _ _ _ _ window window' agg(5) starts differ] by blast
  qed
  then have "sorted_wrt apart out" by (simp add: sorted_wrt_iff_nth_less)
  then show ?thesis using validate_bars_ok [OF ok] aggregate_located [OF assms] by (simp add: list_all_iff)
qed

end

end
