(* ===== verification/Vwap.thy ===== *)
theory Vwap
  imports BarsProps
begin

text \<open>
  The session VWAP plugin of \<open>app/indicators/vwap.py\<close>.  The \<open>try\<close> block is a function that returns early
  with a result or goes on with what the rest of the method uses; the offset of the timezone its sessions
  carry is the market's.
\<close>

subsection \<open>The plugin\<close>

record session_vwap_indicator =
  sv_calendar :: trading_calendar
  sv_market :: string
  sv_instrument_id :: uuid
  sv_key :: string

definition session_vwap_indicator_post_init :: "session_vwap_indicator \<Rightarrow> exn + session_vwap_indicator" where
  "session_vwap_indicator_post_init v =
     (if is_blank (sv_market v) then Inl (ValueError ''market must not be blank'')
      else if is_blank (sv_key v) then Inl (ValueError ''indicator key must not be blank'')
      else Inr v)"

text \<open>\<open>except BarAggregationInputError as error\<close>.\<close>

fun catch_bar_error :: "exn + 'a \<Rightarrow> (string \<Rightarrow> exn + 'a) \<Rightarrow> exn + 'a" where
  "catch_bar_error (Inl (BarAggregationInputError message)) handler = handler message"
| "catch_bar_error result handler = result"

definition weighted_typical_price :: "bar \<Rightarrow> exn + decimal" where
  "weighted_typical_price b =
     bindE (ctx_add (bar_high b) (bar_low b)) (\<lambda>range_sum.
     bindE (ctx_add range_sum (bar_close b)) (\<lambda>price_sum.
     bindE (ctx_divide price_sum (dec_of_int 3)) (\<lambda>typical_price.
     ctx_multiply typical_price (bar_volume b))))"

text \<open>The gap before the required end, as its label, the end of the cover and the required end.\<close>

fun active_coverage_from ::
    "int \<Rightarrow> datetime \<Rightarrow> datetime \<Rightarrow> bar list \<Rightarrow> exn + (string \<times> datetime \<times> datetime) option" where
  "active_coverage_from required_start expected_start required_end [] =
     Inr (if instant expected_start \<noteq> instant required_end
          then Some (if instant expected_start = required_start then ''missing_session_open'' else ''trailing'',
                     expected_start, required_end)
          else None)"
| "active_coverage_from required_start expected_start required_end (b # bars) =
     (if instant (bar_starts_at b) \<noteq> instant expected_start
      then if instant expected_start = required_start \<and> instant (bar_starts_at b) > instant expected_start
           then Inr (Some (''missing_session_open'', expected_start, required_end))
           else bar_error ''active session bars have incomplete coverage''
      else if instant (bar_ends_at b) > instant required_end
      then bar_error ''active session bars exceed the requested range''
      else active_coverage_from required_start (bar_ends_at b) required_end bars)"

definition validate_active_session_coverage ::
    "bar list \<Rightarrow> session_location \<Rightarrow> market_data_snapshot \<Rightarrow> exn + (string \<times> datetime \<times> datetime) option" where
  "validate_active_session_coverage active_bars location snapshot =
     (let required_start = opens_at (loc_session location);
          required_end = earlier (closes_at (loc_session location)) (mr_intraday_end (ms_request snapshot)) in
      if instant required_end \<le> instant required_start
      then bar_error ''active session falls outside the requested range''
      else active_coverage_from (instant required_start) required_start required_end (bars_in_order active_bars))"

definition session_evidence :: "timedelta \<Rightarrow> session_location \<Rightarrow> (string \<times> string) list" where
  "session_evidence zone location =
     [(''session_date'', date_isoformat (loc_session_date location)), (''session_segment'', nat_text (loc_segment location)),
      (''session_start'', market_isoformat zone (opens_at (loc_session location))),
      (''session_end'', market_isoformat zone (closes_at (loc_session location)))]"

text \<open>\<open>max(located, key=...)\<close>: the first of the latest.\<close>

definition latest_bar_of :: "bar list \<Rightarrow> bar" where
  "latest_bar_of bars =
     foldl (\<lambda>latest b. if instant (bar_starts_at latest) < instant (bar_starts_at b) then b else latest) (hd bars) (tl bars)"

text \<open>The \<open>try\<close> block of \<open>calculate\<close>.\<close>

record active_session =
  as_latest_bar :: bar
  as_location :: session_location
  as_bars :: "bar list"
  as_gap :: "(string \<times> datetime \<times> datetime) option"

definition locate_active_session ::
    "session_vwap_indicator \<Rightarrow> market_data_snapshot \<Rightarrow> bar list \<Rightarrow> exn + (indicator_result + active_session)" where
  "locate_active_session v snapshot scoped_bars =
     bindE (validate_bars_for_calendar (sv_calendar v) (sv_market v) scoped_bars) (\<lambda>validated_bars.
     bindE (locate_bars (sv_calendar v) (sv_market v) validated_bars) (\<lambda>located.
     bindE (requested_session_locations (sv_calendar v) (sv_market v) (mr_intraday_start (ms_request snapshot))
              (mr_intraday_end (ms_request snapshot))) (\<lambda>requested_locations.
     if requested_locations = []
     then map_sum id Inl (unavailable (sv_key v) ''requested_range_outside_sessions''
            [(''snapshot_id'', ms_snapshot_id snapshot)])
     else
       let latest_location = last requested_locations;
           active_bars = [b. (b, location) \<leftarrow> located, same_session location latest_location] in
       bindE (validate_active_session_coverage active_bars latest_location snapshot) (\<lambda>gap.
       Inr (Inr \<lparr>as_latest_bar = latest_bar_of (map fst located), as_location = latest_location, as_bars = active_bars,
                 as_gap = gap\<rparr>)))))"

text \<open>The weighted total of a session.\<close>

definition weighted_total :: "bar list \<Rightarrow> exn + decimal" where
  "weighted_total bars = foldE (\<lambda>acc b. bindE (weighted_typical_price b) (ctx_add acc)) dec_zero bars"

definition vwap_of_session :: "session_vwap_indicator \<Rightarrow> active_session \<Rightarrow> exn + indicator_result" where
  "vwap_of_session v session =
     bindE (ctx_sum (map bar_volume (as_bars session))) (\<lambda>total_volume.
     bindE (cal_market_timezone (sv_calendar v) (sv_market v)) (\<lambda>zone.
     let evidence = session_evidence zone (as_location session) @
           [(''observed_bars'', nat_text (length (as_bars session))),
            (''latest_bar_start'', datetime_isoformat (bar_starts_at (as_latest_bar session)))] in
     case as_gap session of
       Some (gap, covered_end, required_end) \<Rightarrow>
         unavailable (sv_key v) ''incomplete_source_coverage''
           (evidence @ [(''coverage_gap'', gap), (''covered_end'', market_isoformat zone covered_end),
             (''required_start'', market_isoformat zone (opens_at (loc_session (as_location session)))),
             (''required_end'', market_isoformat zone required_end)])
     | None \<Rightarrow>
         if dec_is_zero total_volume then unavailable (sv_key v) ''zero_volume'' evidence
         else
           bindE (weighted_total (as_bars session)) (\<lambda>weighted.
           bindE (ctx_divide weighted total_volume) (\<lambda>quotient.
           bindE (canonical_indicator_decimal quotient) (\<lambda>vwap. available (sv_key v) vwap evidence)))))"

definition vwap_calculate :: "session_vwap_indicator \<Rightarrow> market_data_snapshot \<Rightarrow> exn + indicator_result" where
  "vwap_calculate v snapshot =
     (if \<not> snapshot_is_actionable snapshot
      then unavailable (sv_key v) ''snapshot_not_actionable'' [(''snapshot_id'', ms_snapshot_id snapshot)]
      else
        let scoped_bars = filter (\<lambda>b. bar_instrument_id b = sv_instrument_id v) (ms_intraday_bars snapshot) in
        if scoped_bars = []
        then unavailable (sv_key v) ''missing_instrument_bars'' [(''instrument_id'', uuid_text (sv_instrument_id v))]
        else
          bindE (catch_bar_error (locate_active_session v snapshot scoped_bars) (\<lambda>message.
              map_sum id Inl (unavailable (sv_key v) ''invalid_source_bars''
                [(''instrument_id'', uuid_text (sv_instrument_id v)), (''snapshot_id'', ms_snapshot_id snapshot),
                 (''validation_error'', message)]))) (\<lambda>outcome.
          case outcome of Inl result \<Rightarrow> Inr result | Inr session \<Rightarrow> vwap_of_session v session))"

definition session_vwap :: "session_vwap_indicator \<Rightarrow> indicator" where
  "session_vwap v = \<lparr>ind_key = sv_key v, ind_calculate = vwap_calculate v\<rparr>"

subsection \<open>What an available VWAP rests on\<close>

lemma unavailable_value:
  assumes "unavailable key reason evidence = Inr r" shows "ir_value r = None" and "\<not> ir_actionable r"
  using indicator_result_post_init_ok(1,3) [OF assms [unfolded unavailable_def]] by (simp_all add: indicator_result_ok_def)

lemma available_value:
  assumes "available key v evidence = Inr r" shows "ir_value r = Some (canonical v)" and "is_finite v"
  using indicator_result_post_init_ok(1,3) [OF assms [unfolded available_def]] by (simp_all add: indicator_result_ok_def)

lemma bars_in_order_set [simp]: "set (bars_in_order bars) = set bars"
  by (simp add: bars_in_order_def)

lemma active_coverage_None:
  assumes "list_all bar_ok bars"
  shows "active_coverage_from required_start expected_start required_end bars = Inr None \<longleftrightarrow>
     covers_continuously (instant expected_start) (instant required_end) bars"
  using assms
proof (induction bars arbitrary: expected_start)
  case (Cons b bars)
  have "instant (bar_ends_at b) \<le> instant required_end"
    if "covers_continuously (instant (bar_ends_at b)) (instant required_end) bars"
    using covers_end [OF that] Cons.prems by simp
  with Cons show ?case by (auto simp: bar_error_def)
qed simp

text \<open>The bars of an instrument that lie in a session.\<close>

definition bars_of_session :: "trading_calendar \<Rightarrow> string \<Rightarrow> bar list \<Rightarrow> session_location \<Rightarrow> bar list" where
  "bars_of_session calendar market bars location =
     filter (\<lambda>b. case locate_market_session calendar market b of Inl _ \<Rightarrow> False | Inr l \<Rightarrow> same_session l location) bars"

lemma located_session_bars:
  assumes "locate_bars calendar market bars = Inr located"
  shows "[b. (b, l) \<leftarrow> located, same_session l location] = bars_of_session calendar market bars location"
  using assms
proof (induction bars arbitrary: located)
  case (Cons b bars)
  then obtain l rest where "locate_market_session calendar market b = Inr l"
    "locate_bars calendar market bars = Inr rest" "located = (b, l) # rest"
    by (auto simp: locate_bars_def exc_simps)
  with Cons.IH show ?case by (simp add: bars_of_session_def)
qed (simp add: locate_bars_def bars_of_session_def)

text \<open>The session is covered by these bars from its open to the end of the request.\<close>

definition covered_from_open :: "market_data_snapshot \<Rightarrow> session_location \<Rightarrow> bar list \<Rightarrow> bool" where
  "covered_from_open snapshot location bars \<longleftrightarrow>
     covers_continuously (instant (opens_at (loc_session location)))
       (min (instant (closes_at (loc_session location))) (instant (mr_intraday_end (ms_request snapshot)))) (bars_in_order bars)"

lemma locate_active_session_Inr:
  assumes "locate_active_session v snapshot bars = Inr (Inr session)" and "list_all bar_ok bars"
  obtains locations where
    "requested_session_locations (sv_calendar v) (sv_market v) (mr_intraday_start (ms_request snapshot))
       (mr_intraday_end (ms_request snapshot)) = Inr locations" "locations \<noteq> []" "as_location session = last locations"
    "as_bars session = bars_of_session (sv_calendar v) (sv_market v) bars (last locations)"
    "as_gap session = None \<longleftrightarrow> covered_from_open snapshot (last locations) (as_bars session)"
    "instant (opens_at (loc_session (last locations))) < instant (mr_intraday_end (ms_request snapshot))"
proof -
  from assms(1) obtain located locations gap where located: "locate_bars (sv_calendar v) (sv_market v) bars = Inr located"
    and locations: "requested_session_locations (sv_calendar v) (sv_market v) (mr_intraday_start (ms_request snapshot))
       (mr_intraday_end (ms_request snapshot)) = Inr locations" "locations \<noteq> []"
    and gap: "validate_active_session_coverage [b. (b, location) \<leftarrow> located, same_session location (last locations)]
       (last locations) snapshot = Inr gap"
    and session: "session = \<lparr>as_latest_bar = latest_bar_of (map fst located), as_location = last locations,
       as_bars = [b. (b, location) \<leftarrow> located, same_session location (last locations)], as_gap = gap\<rparr>"
    unfolding locate_active_session_def Let_def
    by (auto simp only: bindE_Inr map_sum_Inr sum.inject sum.distinct if_split_eq1 not_False_eq_True
          dest!: validate_bars_for_calendar_Inr split: if_splits)
  let ?bars = "bars_of_session (sv_calendar v) (sv_market v) bars (last locations)"
  note bars = located_session_bars [OF located, of "last locations"]
  have ok: "list_all bar_ok (bars_in_order ?bars)" using assms(2) by (auto simp: list_all_iff bars_of_session_def)
  let ?open = "opens_at (loc_session (last locations))"
  let ?stop = "earlier (closes_at (loc_session (last locations))) (mr_intraday_end (ms_request snapshot))"
  from gap have "instant ?open < instant ?stop" and
    "active_coverage_from (instant ?open) ?open ?stop (bars_in_order ?bars) = Inr gap"
    unfolding bars validate_active_session_coverage_def Let_def by (auto simp: bar_error_def not_le split: if_splits)
  with active_coverage_None [OF ok, of "instant ?open" ?open ?stop]
  have "gap = None \<longleftrightarrow> covered_from_open snapshot (last locations) ?bars"
    "instant ?open < instant (mr_intraday_end (ms_request snapshot))" by (simp_all add: covered_from_open_def)
  with locations session show thesis by (intro that) (simp_all add: bars)
qed

lemma vwap_of_session_value:
  assumes "vwap_of_session v session = Inr r" and "ir_value r = Some d"
  obtains total weighted quotient where "as_gap session = None" "ctx_sum (map bar_volume (as_bars session)) = Inr total"
    "weighted_total (as_bars session) = Inr weighted" "rval total \<noteq> 0"
    "correctly_rounded (rval weighted / rval total) (rval d)" "d = canonical quotient"
proof -
  from assms(1) obtain total where total: "ctx_sum (map bar_volume (as_bars session)) = Inr total"
    by (auto simp: vwap_of_session_def exc_simps)
  from assms(1) obtain zone where zone: "cal_market_timezone (sv_calendar v) (sv_market v) = Inr zone"
    by (auto simp: vwap_of_session_def exc_simps)
  have gap: "as_gap session = None" and some: "\<not> dec_is_zero total"
    using assms unavailable_value(1) unfolding vwap_of_session_def total zone Let_def
    by (auto split: option.splits if_splits)
  with assms total zone obtain weighted quotient evidence where "weighted_total (as_bars session) = Inr weighted"
    "ctx_divide weighted total = Inr quotient" "available (sv_key v) (canonical quotient) evidence = Inr r"
    by (auto simp: vwap_of_session_def Let_def exc_simps)
  with gap total ctx_divide_parts [OF this(2)] available_value(1) [OF this(3)] assms(2) show thesis
    by (intro that [of total weighted quotient]) simp_all
qed

text \<open>The other outcomes of the \<open>try\<close> block are unavailable results.\<close>

lemma locate_active_session_unavailable:
  "locate_active_session v snapshot bars = Inr (Inl r) \<Longrightarrow> ir_value r = None"
  by (auto simp: locate_active_session_def Let_def exc_simps split: if_splits dest: unavailable_value(1))

lemma catch_bar_error_Inr:
  "catch_bar_error result handler = Inr x \<Longrightarrow> result = Inr x \<or> (\<exists>message. handler message = Inr x)"
  by (cases "(result, handler)" rule: catch_bar_error.cases) auto

lemma vwap_calculate_value:
  assumes "vwap_calculate v snapshot = Inr r" and "ir_value r = Some d"
  obtains session where "snapshot_is_actionable snapshot"
    "locate_active_session v snapshot (filter (\<lambda>b. bar_instrument_id b = sv_instrument_id v) (ms_intraday_bars snapshot))
       = Inr (Inr session)" "vwap_of_session v session = Inr r"
proof -
  let ?bars = "filter (\<lambda>b. bar_instrument_id b = sv_instrument_id v) (ms_intraday_bars snapshot)"
  have actionable: "snapshot_is_actionable snapshot" and some: "?bars \<noteq> []"
    using assms unavailable_value(1) by (auto simp: vwap_calculate_def Let_def split: if_splits)
  with assms(1) obtain outcome where outcome: "catch_bar_error (locate_active_session v snapshot ?bars) (\<lambda>message.
        map_sum id Inl (unavailable (sv_key v) ''invalid_source_bars''
          [(''instrument_id'', uuid_text (sv_instrument_id v)), (''snapshot_id'', ms_snapshot_id snapshot),
           (''validation_error'', message)])) = Inr outcome"
    and result: "(case outcome of Inl result \<Rightarrow> Inr result | Inr session \<Rightarrow> vwap_of_session v session) = Inr r"
    by (auto simp: vwap_calculate_def Let_def bindE_Inr)
  show thesis
  proof (cases outcome)
    case (Inl early)
    with result have "early = r" by simp
    with catch_bar_error_Inr [OF outcome] Inl have "ir_value r = None"
      by (auto simp: map_sum_Inr dest: locate_active_session_unavailable unavailable_value(1))
    with assms(2) show thesis by simp
  next
    case (Inr session)
    with catch_bar_error_Inr [OF outcome] have "locate_active_session v snapshot ?bars = Inr (Inr session)"
      by (auto simp: map_sum_Inr)
    with actionable result Inr show thesis by (intro that) simp_all
  qed
qed

end
