(* ===== verification/VolumeRatio.thy ===== *)
theory VolumeRatio
  imports Aggregation Vwap
begin

text \<open>
  The same-time volume ratio plugin of \<open>app/indicators/volume_ratio.py\<close>.  The lists the loop over the
  expected dates fills are the fields of \<open>history_tally\<close>, in the order of the dates.
\<close>

definition MAX_CALENDAR_LOOKBACK_DAYS :: nat where
  "MAX_CALENDAR_LOOKBACK_DAYS = 3660"

record volume_ratio_indicator =
  vr_calendar :: trading_calendar
  vr_market :: string
  vr_instrument_id :: uuid
  vr_bar_width :: timedelta
  vr_lookback_days :: int
  vr_history :: "market_data_snapshot list"
  vr_key :: string

definition volume_ratio_indicator_post_init :: "volume_ratio_indicator \<Rightarrow> exn + volume_ratio_indicator" where
  "volume_ratio_indicator_post_init v =
     (if is_blank (vr_market v) then Inl (ValueError ''market must not be blank'')
      else if vr_bar_width v \<le> 0 then Inl (ValueError ''bar_width must be positive'')
      else if vr_lookback_days v \<le> 0 then Inl (ValueError ''lookback_days must be positive'')
      else if is_blank (vr_key v) then Inl (ValueError ''indicator key must not be blank'')
      else Inr v)"

subsection \<open>Evidence\<close>

definition ratio_evidence :: "bar \<Rightarrow> session_location \<Rightarrow> int \<Rightarrow> timedelta \<Rightarrow> (string \<times> string) list" where
  "ratio_evidence current_bar location lookback_days bar_width =
     [(''bar_width_microseconds'', canonical_timedelta_microseconds bar_width),
      (''lookback_days'', int_text lookback_days),
      (''session_date'', date_isoformat (loc_session_date location)),
      (''session_offset'', canonical_timedelta_microseconds
         (instant (bar_starts_at current_bar) - instant (opens_at (loc_session location)))),
      (''session_segment'', nat_text (loc_segment location))]"

definition coverage_evidence :: "timedelta \<Rightarrow> coverage_gap \<Rightarrow> uuid \<Rightarrow> string \<Rightarrow> (string \<times> string) list" where
  "coverage_evidence zone gap instrument snapshot_id =
     [(''instrument_id'', uuid_text instrument), (''coverage_gap'', gap_kind gap),
      (''covered_end'', market_isoformat zone (gap_covered_end gap)),
      (''required_start'', market_isoformat zone (gap_required_start gap)),
      (''required_end'', market_isoformat zone (gap_required_end gap)),
      (''session_date'', date_isoformat (loc_session_date (gap_location gap))),
      (''session_segment'', nat_text (loc_segment (gap_location gap))), (''snapshot_id'', snapshot_id)]"

definition no_effective_session_evidence ::
    "uuid \<Rightarrow> string \<Rightarrow> market_data_snapshot \<Rightarrow> string \<Rightarrow> (string \<times> string) list" where
  "no_effective_session_evidence instrument snapshot_id snapshot status_key =
     [(''instrument_id'', uuid_text instrument), (status_key, ''no_effective_session''),
      (''requested_start'', datetime_isoformat (mr_intraday_start (ms_request snapshot))),
      (''requested_end'', datetime_isoformat (mr_intraday_end (ms_request snapshot))), (''snapshot_id'', snapshot_id)]"

fun join_texts :: "string \<Rightarrow> string list \<Rightarrow> string" where
  "join_texts separator [] = []"
| "join_texts separator [t] = t"
| "join_texts separator (t # ts) = t @ separator @ join_texts separator ts"

definition date_list :: "date list \<Rightarrow> string" where
  "date_list session_dates = join_texts '','' (map date_isoformat (sort session_dates))"

subsection \<open>History\<close>

fun previous_trading_dates_from ::
    "trading_calendar \<Rightarrow> string \<Rightarrow> int \<Rightarrow> nat \<Rightarrow> date \<Rightarrow> date list \<Rightarrow> exn + date list" where
  "previous_trading_dates_from calendar market wanted 0 candidate found_dates = Inr found_dates"
| "previous_trading_dates_from calendar market wanted (Suc days) candidate found_dates =
     (let candidate = candidate - 1 in
      bindE (cal_is_holiday calendar market candidate) (\<lambda>holiday.
      if holiday then previous_trading_dates_from calendar market wanted days candidate found_dates
      else
        bindE (cal_sessions_for calendar market candidate) (\<lambda>sessions.
        if sessions = [] then previous_trading_dates_from calendar market wanted days candidate found_dates
        else
          let found_dates = found_dates @ [candidate] in
          if int (length found_dates) = wanted then Inr found_dates
          else previous_trading_dates_from calendar market wanted days candidate found_dates)))"

definition previous_trading_dates :: "trading_calendar \<Rightarrow> string \<Rightarrow> date \<Rightarrow> int \<Rightarrow> exn + date list" where
  "previous_trading_dates calendar market before wanted =
     previous_trading_dates_from calendar market wanted MAX_CALENDAR_LOOKBACK_DAYS before []"

definition history_by_session_date ::
    "trading_calendar \<Rightarrow> string \<Rightarrow> date \<Rightarrow> market_data_snapshot list \<Rightarrow> exn + (date \<Rightarrow> market_data_snapshot option)" where
  "history_by_session_date calendar market current_date history =
     bindE (cal_market_timezone calendar market) (\<lambda>market_timezone.
     foldE (\<lambda>result snapshot.
         let session_date = market_date market_timezone (mr_intraday_start (ms_request snapshot)) in
         if session_date \<ge> current_date then Inr result
         else if result session_date \<noteq> None
         then Inl (IndicatorInputError ''history must contain at most one snapshot per market session date'')
         else Inr (result(session_date \<mapsto> snapshot)))
       Map.empty history)"

definition instrument_bars :: "uuid \<Rightarrow> market_data_snapshot \<Rightarrow> bar list" where
  "instrument_bars instrument snapshot = filter (\<lambda>b. bar_instrument_id b = instrument) (ms_intraday_bars snapshot)"

definition history_bar_dates_mismatch ::
    "trading_calendar \<Rightarrow> string \<Rightarrow> uuid \<Rightarrow> date \<Rightarrow> market_data_snapshot \<Rightarrow> exn + bool" where
  "history_bar_dates_mismatch calendar market instrument expected_date snapshot =
     bindE (cal_market_timezone calendar market) (\<lambda>market_timezone.
     Inr (list_ex (\<lambda>b. market_date market_timezone (bar_starts_at b) \<noteq> expected_date) (instrument_bars instrument snapshot)))"

definition session_relative_geometry :: "bar \<Rightarrow> session_location \<Rightarrow> timedelta \<times> timedelta" where
  "session_relative_geometry b location =
     (instant (bar_starts_at b) - instant (opens_at (loc_session location)),
      instant (bar_ends_at b) - instant (opens_at (loc_session location)))"

text \<open>The loop over the aggregated bars of a historical snapshot, with the flag \<open>interval_mismatch\<close>.\<close>

fun matching_bar_from ::
    "trading_calendar \<Rightarrow> string \<Rightarrow> nat \<Rightarrow> timedelta \<times> timedelta \<Rightarrow> bool \<Rightarrow> bar list \<Rightarrow> exn + bar option \<times> bool" where
  "matching_bar_from calendar market segment current_geometry interval_mismatch [] = Inr (None, interval_mismatch)"
| "matching_bar_from calendar market segment current_geometry interval_mismatch (b # bars) =
     bindE (locate_market_session calendar market b) (\<lambda>location.
     let geometry = session_relative_geometry b location in
     if loc_segment location \<noteq> segment
     then matching_bar_from calendar market segment current_geometry interval_mismatch bars
     else if fst geometry \<noteq> fst current_geometry
     then matching_bar_from calendar market segment current_geometry interval_mismatch bars
     else if geometry = current_geometry then Inr (Some b, False)
     else matching_bar_from calendar market segment current_geometry True bars)"

definition matching_reference_bar ::
    "pandas_groupby \<Rightarrow> volume_ratio_indicator \<Rightarrow> market_data_snapshot \<Rightarrow> bar \<Rightarrow> session_location \<Rightarrow> exn + bar option \<times> bool" where
  "matching_reference_bar groupby v snapshot current_bar current_location =
     bindE (aggregate_bars groupby (vr_calendar v) (vr_market v) (vr_bar_width v)
              (instrument_bars (vr_instrument_id v) snapshot)) (\<lambda>historical_bars.
     bindE (cal_market_timezone (vr_calendar v) (vr_market v)) (\<lambda>_.
     matching_bar_from (vr_calendar v) (vr_market v) (loc_segment current_location)
       (session_relative_geometry current_bar current_location) False historical_bars))"

subsection \<open>The loop over the expected dates\<close>

record history_tally =
  ht_reference_volumes :: "decimal list"
  ht_absent :: "date list"
  ht_incomplete :: "date list"
  ht_mismatched :: "date list"
  ht_invalid :: "date list"
  ht_invalid_errors :: "string list"
  ht_interval_mismatch :: "date list"
  ht_missing_reference :: "date list"

definition empty_tally :: history_tally where
  "empty_tally = \<lparr>ht_reference_volumes = [], ht_absent = [], ht_incomplete = [], ht_mismatched = [], ht_invalid = [],
     ht_invalid_errors = [], ht_interval_mismatch = [], ht_missing_reference = []\<rparr>"

text \<open>The \<open>try\<close> block of one date: a result of the whole method, or the matching bar and the flag.\<close>

definition reference_of_date ::
    "pandas_groupby \<Rightarrow> volume_ratio_indicator \<Rightarrow> bar \<Rightarrow> session_location \<Rightarrow> date \<Rightarrow> market_data_snapshot \<Rightarrow>
     exn + (indicator_result + bar option \<times> bool)" where
  "reference_of_date groupby v current_bar current_location historical_date snapshot =
     bindE (requested_session_locations (vr_calendar v) (vr_market v) (mr_intraday_start (ms_request snapshot))
              (mr_intraday_end (ms_request snapshot))) (\<lambda>requested.
     if requested = []
     then map_sum id Inl (unavailable (vr_key v) ''history_request_market_closed''
            (no_effective_session_evidence (vr_instrument_id v) (ms_snapshot_id snapshot) snapshot ''history_market_status'' @
             [(''ineligible_history_session_dates'', date_isoformat historical_date)]))
     else
       bindE (requested_range_coverage_gap (vr_calendar v) (vr_market v) (mr_intraday_start (ms_request snapshot))
                (mr_intraday_end (ms_request snapshot)) (instrument_bars (vr_instrument_id v) snapshot)) (\<lambda>gap.
       case gap of
         Some gap \<Rightarrow>
           bindE (cal_market_timezone (vr_calendar v) (vr_market v)) (\<lambda>zone.
           map_sum id Inl (unavailable (vr_key v) ''incomplete_history_source_coverage''
             (coverage_evidence zone gap (vr_instrument_id v) (ms_snapshot_id snapshot) @
              [(''incomplete_history_session_dates'', date_isoformat historical_date),
               (''history_coverage_gap'', gap_kind gap)])))
       | None \<Rightarrow> map_sum id Inr (matching_reference_bar groupby v snapshot current_bar current_location)))"

text \<open>One turn of the loop: a bar error is tallied, everything else is raised.\<close>

definition tally_date ::
    "pandas_groupby \<Rightarrow> volume_ratio_indicator \<Rightarrow> bar \<Rightarrow> session_location \<Rightarrow> (date \<Rightarrow> market_data_snapshot option) \<Rightarrow>
     history_tally \<Rightarrow> date \<Rightarrow> exn + (indicator_result + history_tally)" where
  "tally_date groupby v current_bar current_location history_by_date t historical_date =
     (case history_by_date historical_date of
        None \<Rightarrow> Inr (Inr (t\<lparr>ht_absent := ht_absent t @ [historical_date]\<rparr>))
      | Some snapshot \<Rightarrow>
          if \<not> snapshot_is_actionable snapshot
          then Inr (Inr (t\<lparr>ht_incomplete := ht_incomplete t @ [historical_date]\<rparr>))
          else
            bindE (history_bar_dates_mismatch (vr_calendar v) (vr_market v) (vr_instrument_id v) historical_date snapshot)
              (\<lambda>mismatch.
            if mismatch then Inr (Inr (t\<lparr>ht_mismatched := ht_mismatched t @ [historical_date]\<rparr>))
            else
              case reference_of_date groupby v current_bar current_location historical_date snapshot of
                Inl (BarAggregationInputError message) \<Rightarrow>
                  Inr (Inr (t\<lparr>ht_invalid := ht_invalid t @ [historical_date],
                             ht_invalid_errors := ht_invalid_errors t @ [date_isoformat historical_date @ '': '' @ message]\<rparr>))
              | Inl e \<Rightarrow> Inl e
              | Inr (Inl result) \<Rightarrow> Inr (Inl result)
              | Inr (Inr (reference_bar, interval_mismatch)) \<Rightarrow>
                  Inr (Inr
                    (if interval_mismatch
                     then t\<lparr>ht_interval_mismatch := ht_interval_mismatch t @ [historical_date]\<rparr>
                     else case reference_bar of
                       None \<Rightarrow> t\<lparr>ht_missing_reference := ht_missing_reference t @ [historical_date]\<rparr>
                     | Some b \<Rightarrow> t\<lparr>ht_reference_volumes := ht_reference_volumes t @ [bar_volume b]\<rparr>))))"

fun tally_history ::
    "pandas_groupby \<Rightarrow> volume_ratio_indicator \<Rightarrow> bar \<Rightarrow> session_location \<Rightarrow> (date \<Rightarrow> market_data_snapshot option) \<Rightarrow>
     history_tally \<Rightarrow> date list \<Rightarrow> exn + (indicator_result + history_tally)" where
  "tally_history groupby v current_bar current_location history_by_date t [] = Inr (Inr t)"
| "tally_history groupby v current_bar current_location history_by_date t (d # dates) =
     bindE (tally_date groupby v current_bar current_location history_by_date t d) (\<lambda>outcome.
     case outcome of
       Inl result \<Rightarrow> Inr (Inl result)
     | Inr t' \<Rightarrow> tally_history groupby v current_bar current_location history_by_date t' dates)"

text \<open>The checks after the loop and the ratio.\<close>

definition ratio_of_tally ::
    "volume_ratio_indicator \<Rightarrow> bar \<Rightarrow> session_location \<Rightarrow> history_tally \<Rightarrow> exn + indicator_result" where
  "ratio_of_tally v current_bar current_location t =
     (let evidence = ratio_evidence current_bar current_location (vr_lookback_days v) (vr_bar_width v);
          missing_dates = ht_absent t @ ht_incomplete t @ ht_missing_reference t in
      if ht_invalid t \<noteq> []
      then unavailable (vr_key v) ''invalid_history_source_bars''
             (evidence @ [(''invalid_history_session_dates'', date_list (ht_invalid t)),
                          (''validation_error'', join_texts ''; '' (ht_invalid_errors t))])
      else if ht_interval_mismatch t \<noteq> []
      then unavailable (vr_key v) ''history_interval_mismatch''
             (evidence @ [(''interval_mismatch_session_dates'', date_list (ht_interval_mismatch t))])
      else if ht_mismatched t \<noteq> []
      then unavailable (vr_key v) ''history_date_mismatch''
             (evidence @ [(''mismatched_history_dates'', date_list (ht_mismatched t))])
      else if ht_absent t \<noteq> []
      then unavailable (vr_key v) ''insufficient_history''
             (evidence @ [(''missing_session_dates'', date_list missing_dates)])
      else if ht_incomplete t \<noteq> []
      then unavailable (vr_key v) ''incomplete_history''
             (evidence @ [(''missing_session_dates'', date_list missing_dates)])
      else if ht_missing_reference t \<noteq> []
      then unavailable (vr_key v) ''missing_reference_bar''
             (evidence @ [(''missing_session_dates'', date_list missing_dates)])
      else
        bindE (ctx_sum (ht_reference_volumes t)) (\<lambda>total_volume.
        bindE (divide_decimals total_volume (dec_of_int (int (length (ht_reference_volumes t))))) (\<lambda>reference_average.
        if dec_is_zero reference_average then unavailable (vr_key v) ''zero_reference_volume'' evidence
        else
          bindE (divide_decimals (bar_volume current_bar) reference_average) (\<lambda>ratio.
          available (vr_key v) ratio evidence))))"

subsection \<open>The calculation\<close>

text \<open>The \<open>try\<close> block on the current bars: the requested sessions, the coverage gap and the aggregates.\<close>

definition current_bars_of ::
    "pandas_groupby \<Rightarrow> volume_ratio_indicator \<Rightarrow> market_data_snapshot \<Rightarrow> bar list \<Rightarrow>
     exn + (indicator_result + session_location list \<times> coverage_gap option \<times> bar list)" where
  "current_bars_of groupby v snapshot source_bars =
     bindE (requested_session_locations (vr_calendar v) (vr_market v) (mr_intraday_start (ms_request snapshot))
              (mr_intraday_end (ms_request snapshot))) (\<lambda>requested_locations.
     if requested_locations = []
     then map_sum id Inl (unavailable (vr_key v) ''current_request_market_closed''
            (no_effective_session_evidence (vr_instrument_id v) (ms_snapshot_id snapshot) snapshot ''current_market_status''))
     else
       bindE (requested_range_coverage_gap (vr_calendar v) (vr_market v) (mr_intraday_start (ms_request snapshot))
                (mr_intraday_end (ms_request snapshot)) source_bars) (\<lambda>gap.
       bindE (aggregate_bars groupby (vr_calendar v) (vr_market v) (vr_bar_width v) source_bars) (\<lambda>bars.
       Inr (Inr (requested_locations, gap, bars)))))"

text \<open>The end of the last aggregate of the session, or the open of the session.\<close>

definition latest_end :: "bar list \<Rightarrow> datetime \<Rightarrow> datetime" where
  "latest_end bars default_end =
     (case bars of [] \<Rightarrow> default_end | b # rest \<Rightarrow> foldl (\<lambda>t c. later t (bar_ends_at c)) (bar_ends_at b) rest)"

definition ratio_against_history ::
    "pandas_groupby \<Rightarrow> volume_ratio_indicator \<Rightarrow> bar \<Rightarrow> session_location \<Rightarrow> exn + indicator_result" where
  "ratio_against_history groupby v current_bar current_location =
     bindE (previous_trading_dates (vr_calendar v) (vr_market v) (loc_session_date current_location) (vr_lookback_days v))
       (\<lambda>expected_dates.
     if int (length expected_dates) \<noteq> vr_lookback_days v
     then unavailable (vr_key v) ''calendar_lookback_unavailable''
            (ratio_evidence current_bar current_location (vr_lookback_days v) (vr_bar_width v))
     else
       bindE (history_by_session_date (vr_calendar v) (vr_market v) (loc_session_date current_location) (vr_history v))
         (\<lambda>history_by_date.
       bindE (tally_history groupby v current_bar current_location history_by_date empty_tally expected_dates) (\<lambda>outcome.
       case outcome of
         Inl result \<Rightarrow> Inr result
       | Inr t \<Rightarrow> ratio_of_tally v current_bar current_location t)))"

definition ratio_of_current_bars ::
    "pandas_groupby \<Rightarrow> volume_ratio_indicator \<Rightarrow> market_data_snapshot \<Rightarrow> session_location \<Rightarrow> bar list \<Rightarrow>
     exn + indicator_result" where
  "ratio_of_current_bars groupby v snapshot current_location current_bars =
     (let required_current_end = earlier (closes_at (loc_session current_location)) (mr_intraday_end (ms_request snapshot)) in
      bindE (locate_bars (vr_calendar v) (vr_market v) current_bars) (\<lambda>located_current_bars.
      let target_current_bars = [b. (b, location) \<leftarrow> located_current_bars, same_session location current_location] in
      case find (\<lambda>b. instant (bar_ends_at b) = instant required_current_end) target_current_bars of
        None \<Rightarrow>
          bindE (cal_market_timezone (vr_calendar v) (vr_market v)) (\<lambda>zone.
          unavailable (vr_key v) ''incomplete_current_source_coverage''
            [(''instrument_id'', uuid_text (vr_instrument_id v)),
             (''latest_complete_end'',
                (case target_current_bars of
                   [] \<Rightarrow> market_isoformat zone (opens_at (loc_session current_location))
                 | _ \<Rightarrow> datetime_isoformat (latest_end target_current_bars (opens_at (loc_session current_location))))),
             (''required_end'', market_isoformat zone required_current_end),
             (''session_date'', date_isoformat (loc_session_date current_location)),
             (''session_segment'', nat_text (loc_segment current_location)),
             (''snapshot_id'', ms_snapshot_id snapshot)])
      | Some current_bar \<Rightarrow> ratio_against_history groupby v current_bar current_location))"

definition volume_ratio_calculate ::
    "pandas_groupby \<Rightarrow> volume_ratio_indicator \<Rightarrow> market_data_snapshot \<Rightarrow> exn + indicator_result" where
  "volume_ratio_calculate groupby v snapshot =
     (if \<not> snapshot_is_actionable snapshot
      then unavailable (vr_key v) ''snapshot_not_actionable'' [(''snapshot_id'', ms_snapshot_id snapshot)]
      else
        let source_bars = instrument_bars (vr_instrument_id v) snapshot in
        bindE (catch_bar_error (current_bars_of groupby v snapshot source_bars) (\<lambda>message.
            map_sum id Inl (unavailable (vr_key v) ''invalid_current_source_bars''
              [(''instrument_id'', uuid_text (vr_instrument_id v)), (''snapshot_id'', ms_snapshot_id snapshot),
               (''validation_error'', message)]))) (\<lambda>outcome.
        case outcome of
          Inl result \<Rightarrow> Inr result
        | Inr (requested_locations, Some gap, _) \<Rightarrow>
            bindE (cal_market_timezone (vr_calendar v) (vr_market v)) (\<lambda>zone.
            unavailable (vr_key v) ''incomplete_current_source_coverage''
              (coverage_evidence zone gap (vr_instrument_id v) (ms_snapshot_id snapshot)))
        | Inr (requested_locations, None, current_bars) \<Rightarrow>
            if current_bars = []
            then unavailable (vr_key v) ''missing_current_bar'' [(''instrument_id'', uuid_text (vr_instrument_id v))]
            else ratio_of_current_bars groupby v snapshot (last requested_locations) current_bars))"

definition volume_ratio :: "pandas_groupby \<Rightarrow> volume_ratio_indicator \<Rightarrow> indicator" where
  "volume_ratio groupby v = \<lparr>ind_key = vr_key v, ind_calculate = volume_ratio_calculate groupby v\<rparr>"

end
