(* ===== verification/RatioProps.thy ===== *)
theory RatioProps
  imports VolumeRatio
begin

text \<open>What an available volume ratio rests on: complete references of the same window on earlier trading days.\<close>

subsection \<open>The expected dates\<close>

definition trading_day :: "trading_calendar \<Rightarrow> string \<Rightarrow> date \<Rightarrow> bool" where
  "trading_day calendar market day \<longleftrightarrow>
     cal_is_holiday calendar market day = Inr False \<and>
     (\<exists>sessions. cal_sessions_for calendar market day = Inr sessions \<and> sessions \<noteq> [])"

lemma previous_trading_dates_from_Inr:
  assumes "previous_trading_dates_from calendar market wanted days candidate found_dates = Inr dates"
  shows "\<exists>added. dates = found_dates @ added \<and> sorted_wrt (>) added \<and>
     list_all (\<lambda>d. d < candidate \<and> trading_day calendar market d) added"
  using assms
proof (induction days arbitrary: candidate found_dates)
  case (Suc days)
  from Suc.prems obtain closed where closed: "cal_is_holiday calendar market (candidate - 1) = Inr closed"
    by (auto simp: Let_def exc_simps)
  show ?case
  proof (cases closed)
    case True
    with Suc.prems closed have "previous_trading_dates_from calendar market wanted days (candidate - 1) found_dates = Inr dates"
      by simp
    from Suc.IH [OF this] show ?thesis by (force simp: list_all_iff)
  next
    case False
    with Suc.prems closed obtain sessions where sessions: "cal_sessions_for calendar market (candidate - 1) = Inr sessions"
      by (auto simp: Let_def exc_simps)
    show ?thesis
    proof (cases "sessions = []")
      case True
      with Suc.prems closed False sessions
      have "previous_trading_dates_from calendar market wanted days (candidate - 1) found_dates = Inr dates" by simp
      from Suc.IH [OF this] show ?thesis by (force simp: list_all_iff)
    next
      case some: False
      have day: "trading_day calendar market (candidate - 1)"
        using closed False sessions some by (simp add: trading_day_def)
      show ?thesis
      proof (cases "int (length (found_dates @ [candidate - 1])) = wanted")
        case True
        with Suc.prems closed False sessions some have "dates = found_dates @ [candidate - 1]" by simp
        with day show ?thesis by (intro exI [of _ "[candidate - 1]"]) simp
      next
        case more: False
        with Suc.prems closed False sessions some
        have "previous_trading_dates_from calendar market wanted days (candidate - 1) (found_dates @ [candidate - 1]) = Inr dates"
          by (simp add: Let_def)
        from Suc.IH [OF this] obtain added where "dates = found_dates @ (candidate - 1) # added" "sorted_wrt (>) added"
          "list_all (\<lambda>d. d < candidate - 1 \<and> trading_day calendar market d) added" by auto
        with day show ?thesis by (intro exI [of _ "(candidate - 1) # added"]) (force simp: list_all_iff)
      qed
    qed
  qed
qed simp

lemma previous_trading_dates_Inr:
  assumes "previous_trading_dates calendar market before wanted = Inr dates"
  shows "sorted_wrt (>) dates \<and> list_all (\<lambda>d. d < before \<and> trading_day calendar market d) dates"
  using previous_trading_dates_from_Inr [OF assms [unfolded previous_trading_dates_def]] by simp

lemma history_by_session_date_Inr:
  assumes "history_by_session_date calendar market current_date history = Inr history_by_date"
    and "cal_market_timezone calendar market = Inr offset" and "history_by_date d = Some snapshot"
  shows "snapshot \<in> set history \<and> market_date offset (mr_intraday_start (ms_request snapshot)) = d \<and> d < current_date"
proof -
  let ?inv = "\<lambda>result. \<forall>d snapshot. result d = Some snapshot \<longrightarrow>
     snapshot \<in> set history \<and> market_date offset (mr_intraday_start (ms_request snapshot)) = d \<and> d < current_date"
  have "?inv history_by_date"
    by (rule foldE_invariant [OF assms(1) [unfolded history_by_session_date_def assms(2) bindE.simps]])
      (auto simp: Let_def split: if_splits)
  with assms(3) show ?thesis by blast
qed

subsection \<open>References\<close>

text \<open>A bar of an earlier day that may stand for the current bar.\<close>

definition reference_bar_of ::
    "pandas_groupby \<Rightarrow> volume_ratio_indicator \<Rightarrow> timedelta \<Rightarrow> bar \<Rightarrow> session_location \<Rightarrow> date \<Rightarrow> bar \<Rightarrow> bool" where
  "reference_bar_of groupby v offset current_bar current_location day b \<longleftrightarrow>
     (\<exists>snapshot bars location.
        snapshot \<in> set (vr_history v) \<and> snapshot_is_actionable snapshot \<and>
        market_date offset (mr_intraday_start (ms_request snapshot)) = day \<and>
        list_all (\<lambda>c. market_date offset (bar_starts_at c) = day) (instrument_bars (vr_instrument_id v) snapshot) \<and>
        requested_range_coverage_gap (vr_calendar v) (vr_market v) (mr_intraday_start (ms_request snapshot))
          (mr_intraday_end (ms_request snapshot)) (instrument_bars (vr_instrument_id v) snapshot) = Inr None \<and>
        aggregate_bars groupby (vr_calendar v) (vr_market v) (vr_bar_width v)
          (instrument_bars (vr_instrument_id v) snapshot) = Inr bars \<and> b \<in> set bars \<and>
        locate_market_session (vr_calendar v) (vr_market v) b = Inr location \<and>
        loc_segment location = loc_segment current_location \<and>
        session_relative_geometry b location = session_relative_geometry current_bar current_location)"

lemma matching_bar_from_Some:
  assumes "matching_bar_from calendar market segment geometry flag bars = Inr (Some b, interval)"
  shows "b \<in> set bars \<and> (\<exists>location. locate_market_session calendar market b = Inr location \<and>
     loc_segment location = segment \<and> session_relative_geometry b location = geometry)"
  using assms
proof (induction bars arbitrary: flag)
  case (Cons a bars)
  from Cons.prems obtain location where "locate_market_session calendar market a = Inr location"
    by (auto simp: exc_simps)
  with Cons show ?case by (fastforce simp: Let_def split: if_splits)
qed simp

lemma reference_of_date_Inr:
  assumes "reference_of_date groupby v current_bar current_location d snapshot = Inr (Inr (Some b, interval))"
  shows "\<exists>bars location.
        requested_range_coverage_gap (vr_calendar v) (vr_market v) (mr_intraday_start (ms_request snapshot))
          (mr_intraday_end (ms_request snapshot)) (instrument_bars (vr_instrument_id v) snapshot) = Inr None \<and>
        aggregate_bars groupby (vr_calendar v) (vr_market v) (vr_bar_width v)
          (instrument_bars (vr_instrument_id v) snapshot) = Inr bars \<and> b \<in> set bars \<and>
        locate_market_session (vr_calendar v) (vr_market v) b = Inr location \<and>
        loc_segment location = loc_segment current_location \<and>
        session_relative_geometry b location = session_relative_geometry current_bar current_location"
proof -
  from assms have gap: "requested_range_coverage_gap (vr_calendar v) (vr_market v) (mr_intraday_start (ms_request snapshot))
          (mr_intraday_end (ms_request snapshot)) (instrument_bars (vr_instrument_id v) snapshot) = Inr None"
    and "matching_reference_bar groupby v snapshot current_bar current_location = Inr (Some b, interval)"
    by (auto simp: reference_of_date_def bindE_Inr map_sum_Inr split: if_splits option.splits)
  then obtain bars where "aggregate_bars groupby (vr_calendar v) (vr_market v) (vr_bar_width v)
          (instrument_bars (vr_instrument_id v) snapshot) = Inr bars"
    "matching_bar_from (vr_calendar v) (vr_market v) (loc_segment current_location)
       (session_relative_geometry current_bar current_location) False bars = Inr (Some b, interval)"
    by (auto simp: matching_reference_bar_def bindE_Inr)
  with gap matching_bar_from_Some [OF this(2)] show ?thesis by blast
qed

definition clean :: "history_tally \<Rightarrow> bool" where
  "clean t \<longleftrightarrow> ht_absent t = [] \<and> ht_incomplete t = [] \<and> ht_mismatched t = [] \<and> ht_invalid t = [] \<and>
     ht_interval_mismatch t = [] \<and> ht_missing_reference t = []"

lemma tally_date_clean:
  assumes "tally_date groupby v current_bar current_location history_by_date t d = Inr (Inr t')" and "clean t'"
    and history: "history_by_session_date (vr_calendar v) (vr_market v) current_date (vr_history v) = Inr history_by_date"
    and zone: "cal_market_timezone (vr_calendar v) (vr_market v) = Inr offset"
  shows "clean t \<and> (\<exists>b. reference_bar_of groupby v offset current_bar current_location d b \<and>
     ht_reference_volumes t' = ht_reference_volumes t @ [bar_volume b])"
proof (cases "history_by_date d")
  case None
  with assms(1,2) show ?thesis by (auto simp: tally_date_def clean_def)
next
  case (Some snapshot)
  note at = history_by_session_date_Inr [OF history zone Some]
  have actionable: "snapshot_is_actionable snapshot" using assms(1,2) Some
    by (auto simp: tally_date_def clean_def split: if_splits)
  have dates: "list_all (\<lambda>c. market_date offset (bar_starts_at c) = d) (instrument_bars (vr_instrument_id v) snapshot)"
    using assms(1,2) Some actionable zone
    by (auto simp: tally_date_def clean_def history_bar_dates_mismatch_def list_all_iff list_ex_iff split: if_splits)
  then have mismatch: "history_bar_dates_mismatch (vr_calendar v) (vr_market v) (vr_instrument_id v) d snapshot = Inr False"
    using zone by (auto simp: history_bar_dates_mismatch_def list_all_iff list_ex_iff)
  show ?thesis
  proof (cases "reference_of_date groupby v current_bar current_location d snapshot")
    case (Inl e)
    with assms(1,2) Some actionable mismatch show ?thesis by (cases e) (auto simp: tally_date_def clean_def)
  next
    case (Inr outcome)
    with assms(1,2) Some actionable mismatch obtain b where b: "outcome = Inr (Some b, False)"
      and t': "t' = t\<lparr>ht_reference_volumes := ht_reference_volumes t @ [bar_volume b]\<rparr>"
      by (auto simp: tally_date_def clean_def split: sum.splits option.splits if_splits)
    from reference_of_date_Inr [OF Inr [unfolded b]] at actionable dates
    have "reference_bar_of groupby v offset current_bar current_location d b" unfolding reference_bar_of_def by blast
    with t' assms(2) show ?thesis by (auto simp: clean_def)
  qed
qed

lemma tally_history_clean:
  assumes "tally_history groupby v current_bar current_location history_by_date t dates = Inr (Inr t')" and "clean t'"
    and history: "history_by_session_date (vr_calendar v) (vr_market v) current_date (vr_history v) = Inr history_by_date"
    and zone: "cal_market_timezone (vr_calendar v) (vr_market v) = Inr offset"
  shows "clean t \<and> (\<exists>references. list_all2 (reference_bar_of groupby v offset current_bar current_location) dates references \<and>
     ht_reference_volumes t' = ht_reference_volumes t @ map bar_volume references)"
  using assms(1)
proof (induction dates arbitrary: t)
  case Nil
  with assms(2) show ?case by simp
next
  case (Cons d dates)
  from Cons.prems obtain s where step: "tally_date groupby v current_bar current_location history_by_date t d = Inr (Inr s)"
    and rest: "tally_history groupby v current_bar current_location history_by_date s dates = Inr (Inr t')"
    by (cases "tally_date groupby v current_bar current_location history_by_date t d")
      (auto split: sum.split_asm)
  from Cons.IH [OF rest] obtain references where clean: "clean s"
    and references: "list_all2 (reference_bar_of groupby v offset current_bar current_location) dates references"
      "ht_reference_volumes t' = ht_reference_volumes s @ map bar_volume references" by blast
  from tally_date_clean [OF step clean history zone] obtain b where "clean t"
    "reference_bar_of groupby v offset current_bar current_location d b"
    "ht_reference_volumes s = ht_reference_volumes t @ [bar_volume b]" by blast
  with references show ?case by (intro conjI exI [of _ "b # references"]) simp_all
qed

text \<open>An early return of the loop has no value.\<close>

lemma reference_of_date_early:
  "reference_of_date groupby v current_bar current_location d snapshot = Inr (Inl r) \<Longrightarrow> ir_value r = None"
  by (auto simp: reference_of_date_def bindE_Inr map_sum_Inr split: if_splits option.splits dest: unavailable_value(1))

lemma tally_date_early:
  "tally_date groupby v current_bar current_location history_by_date t d = Inr (Inl r) \<Longrightarrow> ir_value r = None"
  using reference_of_date_early
  by (auto simp: tally_date_def bindE_Inr split: option.splits if_splits sum.splits exn.splits)

lemma tally_history_early:
  "tally_history groupby v current_bar current_location history_by_date t dates = Inr (Inl r) \<Longrightarrow> ir_value r = None"
proof (induction dates arbitrary: t)
  case (Cons d dates)
  then show ?case
    by (cases "tally_date groupby v current_bar current_location history_by_date t d")
      (auto split: sum.split_asm dest: tally_date_early)
qed simp

subsection \<open>The ratio\<close>

lemma divide_decimals_Inr:
  assumes "divide_decimals a b = Inr d"
  shows "is_finite a \<and> is_finite b \<and> rval b \<noteq> 0 \<and> is_finite d \<and> correctly_rounded (rval a / rval b) (rval d)"
proof -
  from assms obtain q where "ctx_divide a b = Inr q" "d = canonical q"
    by (auto simp: divide_decimals_def bindE_Inr split: if_splits)
  with ctx_divide_parts [OF this(1)] show ?thesis by simp
qed

lemma ratio_of_tally_value:
  assumes "ratio_of_tally v current_bar location t = Inr r" and "ir_value r = Some d"
  shows "clean t \<and> (\<exists>total average. ctx_sum (ht_reference_volumes t) = Inr total \<and>
     divide_decimals total (dec_of_int (int (length (ht_reference_volumes t)))) = Inr average \<and>
     rval average \<noteq> 0 \<and> correctly_rounded (rval (bar_volume current_bar) / rval average) (rval d))"
proof -
  have clean: "clean t"
    using assms unavailable_value(1) unfolding ratio_of_tally_def Let_def by (auto simp: clean_def split: if_splits)
  then obtain total average where total: "ctx_sum (ht_reference_volumes t) = Inr total"
    and average: "divide_decimals total (dec_of_int (int (length (ht_reference_volumes t)))) = Inr average"
    using assms(1) by (auto simp: ratio_of_tally_def clean_def Let_def bindE_Inr)
  have "\<not> dec_is_zero average"
    using assms unavailable_value(1) clean total average by (auto simp: ratio_of_tally_def clean_def Let_def)
  with assms(1) clean total average obtain ratio evidence where
    ratio: "divide_decimals (bar_volume current_bar) average = Inr ratio" and "available (vr_key v) ratio evidence = Inr r"
    by (auto simp: ratio_of_tally_def clean_def Let_def bindE_Inr)
  with available_value(1) [OF this(2)] assms(2) have "d = canonical ratio" by simp
  with clean total average divide_decimals_Inr [OF ratio] show ?thesis by auto
qed

lemma ratio_against_history_value:
  assumes "ratio_against_history groupby v current_bar location = Inr r" and "ir_value r = Some d"
    and zone: "cal_market_timezone (vr_calendar v) (vr_market v) = Inr offset"
  obtains dates references total average where "int (length dates) = vr_lookback_days v" "sorted_wrt (>) dates"
    "list_all (\<lambda>day. day < loc_session_date location \<and> trading_day (vr_calendar v) (vr_market v) day) dates"
    "list_all2 (reference_bar_of groupby v offset current_bar location) dates references"
    "ctx_sum (map bar_volume references) = Inr total"
    "divide_decimals total (dec_of_int (vr_lookback_days v)) = Inr average" "rval average \<noteq> 0"
    "correctly_rounded (rval (bar_volume current_bar) / rval average) (rval d)"
proof -
  from assms(1) obtain dates where dates: "previous_trading_dates (vr_calendar v) (vr_market v) (loc_session_date location)
      (vr_lookback_days v) = Inr dates" by (auto simp: ratio_against_history_def bindE_Inr)
  have len: "int (length dates) = vr_lookback_days v"
    using assms(1,2) dates unavailable_value(1) by (auto simp: ratio_against_history_def split: if_splits)
  with assms(1) dates obtain history_by_date where
    history: "history_by_session_date (vr_calendar v) (vr_market v) (loc_session_date location) (vr_history v) = Inr history_by_date"
    by (auto simp: ratio_against_history_def bindE_Inr)
  with assms(1) dates len obtain outcome where
    outcome: "tally_history groupby v current_bar location history_by_date empty_tally dates = Inr outcome"
    by (auto simp: ratio_against_history_def bindE_Inr)
  show thesis
  proof (cases outcome)
    case (Inl early)
    with assms(1) dates len history outcome have "early = r" by (simp add: ratio_against_history_def)
    with tally_history_early outcome Inl assms(2) show thesis by fastforce
  next
    case (Inr t)
    with assms(1) dates len history outcome have "ratio_of_tally v current_bar location t = Inr r"
      by (simp add: ratio_against_history_def)
    from ratio_of_tally_value [OF this assms(2)] obtain total average where "clean t"
      and total: "ctx_sum (ht_reference_volumes t) = Inr total"
      "divide_decimals total (dec_of_int (int (length (ht_reference_volumes t)))) = Inr average" "rval average \<noteq> 0"
      "correctly_rounded (rval (bar_volume current_bar) / rval average) (rval d)" by blast
    from tally_history_clean [OF outcome [unfolded Inr] this(1) history zone] obtain references where
      references: "list_all2 (reference_bar_of groupby v offset current_bar location) dates references"
      "ht_reference_volumes t = map bar_volume references" by (auto simp: empty_tally_def)
    have "length references = length dates" using references(1) by (simp add: list_all2_lengthD)
    with that [OF len _ _ references(1), of total average] previous_trading_dates_Inr [OF dates] references(2) total len
    show thesis by simp
  qed
qed

end
