(* ===== verification/IndicatorProps.thy ===== *)
theory IndicatorProps
  imports RatioProps
begin

text \<open>
  The guarantees of the calendar and of the indicators, with a week of trading days on which they apply.
\<close>

subsection \<open>The whole calculation\<close>

lemma current_bars_early:
  "current_bars_of groupby v snapshot bars = Inr (Inl r) \<Longrightarrow> ir_value r = None"
  by (auto simp: current_bars_of_def bindE_Inr map_sum_Inr split: if_splits dest: unavailable_value(1))

text \<open>The current bar: an aggregate of the last requested session that ends where the request ends.\<close>

definition current_bar_of ::
    "pandas_groupby \<Rightarrow> volume_ratio_indicator \<Rightarrow> market_data_snapshot \<Rightarrow> session_location \<Rightarrow> bar \<Rightarrow> bool" where
  "current_bar_of groupby v snapshot location b \<longleftrightarrow>
     (\<exists>locations bars.
        requested_session_locations (vr_calendar v) (vr_market v) (mr_intraday_start (ms_request snapshot))
          (mr_intraday_end (ms_request snapshot)) = Inr locations \<and> locations \<noteq> [] \<and> location = last locations \<and>
        requested_range_coverage_gap (vr_calendar v) (vr_market v) (mr_intraday_start (ms_request snapshot))
          (mr_intraday_end (ms_request snapshot)) (instrument_bars (vr_instrument_id v) snapshot) = Inr None \<and>
        aggregate_bars groupby (vr_calendar v) (vr_market v) (vr_bar_width v)
          (instrument_bars (vr_instrument_id v) snapshot) = Inr bars \<and>
        b \<in> set (bars_of_session (vr_calendar v) (vr_market v) bars location) \<and>
        instant (bar_ends_at b) = min (instant (closes_at (loc_session location))) (instant (mr_intraday_end (ms_request snapshot))))"

lemma volume_ratio_calculate_value:
  assumes "volume_ratio_calculate groupby v snapshot = Inr r" and "ir_value r = Some d"
  obtains location current_bar where "snapshot_is_actionable snapshot" "current_bar_of groupby v snapshot location current_bar"
    "ratio_against_history groupby v current_bar location = Inr r"
proof -
  let ?bars = "instrument_bars (vr_instrument_id v) snapshot"
  have actionable: "snapshot_is_actionable snapshot"
    using assms unavailable_value(1) by (auto simp: volume_ratio_calculate_def split: if_splits)
  with assms(1) obtain outcome where outcome: "catch_bar_error (current_bars_of groupby v snapshot ?bars) (\<lambda>message.
            map_sum id Inl (unavailable (vr_key v) ''invalid_current_source_bars''
              [(''instrument_id'', uuid_text (vr_instrument_id v)), (''snapshot_id'', ms_snapshot_id snapshot),
               (''validation_error'', message)])) = Inr outcome"
    by (auto simp: volume_ratio_calculate_def Let_def bindE_Inr)
  show thesis
  proof (cases outcome)
    case (Inl early)
    with assms(1) actionable outcome have "early = r" by (simp add: volume_ratio_calculate_def)
    with catch_bar_error_Inr [OF outcome] Inl have "ir_value r = None"
      by (auto simp: map_sum_Inr dest: current_bars_early unavailable_value(1))
    with assms(2) show thesis by simp
  next
    case (Inr found)
    obtain locations gap bars where found: "found = (locations, gap, bars)" by (cases found)
    from catch_bar_error_Inr [OF outcome] Inr found
    have "current_bars_of groupby v snapshot ?bars = Inr (Inr (locations, gap, bars))" by (auto simp: map_sum_Inr)
    then have requested: "requested_session_locations (vr_calendar v) (vr_market v) (mr_intraday_start (ms_request snapshot))
          (mr_intraday_end (ms_request snapshot)) = Inr locations" "locations \<noteq> []"
      and covered: "requested_range_coverage_gap (vr_calendar v) (vr_market v) (mr_intraday_start (ms_request snapshot))
          (mr_intraday_end (ms_request snapshot)) ?bars = Inr gap"
      and bars: "aggregate_bars groupby (vr_calendar v) (vr_market v) (vr_bar_width v) ?bars = Inr bars"
      by (auto simp: current_bars_of_def bindE_Inr map_sum_Inr split: if_splits)
    have gap: "gap = None"
      using assms actionable outcome Inr found unavailable_value(1)
      by (cases gap) (auto simp: volume_ratio_calculate_def bindE_Inr)
    have some: "bars \<noteq> []"
      using assms actionable outcome Inr found gap unavailable_value(1) by (auto simp: volume_ratio_calculate_def)
    let ?location = "last locations"
    have rest: "ratio_of_current_bars groupby v snapshot ?location bars = Inr r"
      using assms(1) actionable outcome Inr found gap some by (simp add: volume_ratio_calculate_def)
    then obtain located where located: "locate_bars (vr_calendar v) (vr_market v) bars = Inr located"
      by (auto simp: ratio_of_current_bars_def bindE_Inr Let_def)
    let ?stop = "earlier (closes_at (loc_session ?location)) (mr_intraday_end (ms_request snapshot))"
    let ?find = "find (\<lambda>b. instant (bar_ends_at b) = instant ?stop) (bars_of_session (vr_calendar v) (vr_market v) bars ?location)"
    note rest' = rest [unfolded ratio_of_current_bars_def located bindE.simps Let_def located_session_bars [OF located]]
    have "?find \<noteq> None"
    proof
      assume "?find = None"
      with rest' obtain evidence where "unavailable (vr_key v) ''incomplete_current_source_coverage'' evidence = Inr r"
        by (auto simp only: option.case bindE_Inr)
      with assms(2) unavailable_value(1) show False by fastforce
    qed
    then obtain b where b: "?find = Some b" by auto
    with rest' have result: "ratio_against_history groupby v b ?location = Inr r" by (simp only: option.case)
    have "current_bar_of groupby v snapshot ?location b"
      unfolding current_bar_of_def using requested covered [unfolded gap] bars find_Some_nth [OF b] by auto
    from actionable this result show thesis by (rule that)
  qed
qed

subsection \<open>A week of trading\<close>

text \<open>Weekdays from 09:00 to 10:00; 2026-03-02 is a Monday.\<close>

definition week_session :: "date \<Rightarrow> market_session" where
  "week_session day = \<lparr>opens_at = taipei_time day 9 0, closes_at = taipei_time day 10 0\<rparr>"

definition week_calendar :: trading_calendar where
  "week_calendar =
     \<lparr>cal_market_timezone = (\<lambda>_. Inr (8 * 3600000000)), cal_is_holiday = (\<lambda>_ day. Inr (5 \<le> weekday day)),
      cal_sessions_for = (\<lambda>_ day. Inr [week_session day])\<rparr>"

lemma week_date: "0 \<le> hours * 60 + minutes \<Longrightarrow> hours * 60 + minutes < 1440 \<Longrightarrow>
    market_date (8 * 3600000000) (taipei_time day hours minutes) = day"
  by (simp add: market_date_def taipei_time_def microseconds_per_day_def)

interpretation week: bar_aggregation week_calendar market "8 * 3600000000" group_rows for market
proof
  fix day ss
  assume "cal_sessions_for week_calendar market day = Inr ss"
  then have ss: "ss = [week_session day]" by (simp add: week_calendar_def)
  have "market_date (8 * 3600000000) (taipei_time day 9 0) = day" "market_date (8 * 3600000000) (taipei_time day 10 0) = day"
    by (rule week_date; simp)+
  then show "list_all (session_of_day (8 * 3600000000) day) ss"
    by (simp add: ss session_of_day_def week_session_def) (simp add: taipei_time_def)
  show "separate_sessions ss" by (simp add: ss separate_sessions_def)
qed (simp_all add: week_calendar_def)

definition half_hour_bar :: "date \<Rightarrow> int \<Rightarrow> int \<Rightarrow> nat \<Rightarrow> nat \<Rightarrow> bar" where
  "half_hour_bar day start minutes price volume =
     \<lparr>bar_instrument_id = 7, bar_starts_at = taipei_time day 9 start, bar_ends_at = taipei_time day 9 (start + minutes),
      bar_open = Fin False price 0, bar_high = Fin False (price + 2) 0, bar_low = Fin False (price - 2) 0,
      bar_close = Fin False price 0, bar_volume = Fin False volume 0\<rparr>"

definition week_bars :: "date \<Rightarrow> nat \<Rightarrow> bar list" where
  "week_bars day volume = [half_hour_bar day 0 30 90 100, half_hour_bar day 30 15 100 100, half_hour_bar day 45 15 104 volume]"

definition week_snapshot :: "date \<Rightarrow> nat \<Rightarrow> market_data_snapshot" where
  "week_snapshot day volume =
     \<lparr>ms_provider = ''mock'',
      ms_request = \<lparr>mr_request_id = 1, mr_instruments = [], mr_requested_at = taipei_time day 10 0,
        mr_intraday_start = taipei_time day 9 0, mr_intraday_end = taipei_time day 10 0, mr_intraday_interval = 900000000,
        mr_daily_start = day - 30, mr_daily_end = day, mr_maximum_data_delay = 0\<rparr>,
      ms_quotes = [\<lparr>qt_instrument_id = 7, qt_as_of = taipei_time day 10 0, qt_price = Fin False 104 0\<rparr>],
      ms_intraday_bars = week_bars day volume, ms_daily_bars = [half_hour_bar day 0 60 90 300],
      ms_quality = \<lparr>dq_provider = ''mock'', dq_fetched_at = taipei_time day 10 0, dq_source_timestamp = taipei_time day 10 0,
        dq_delay = 0, dq_stale = False, dq_missing_fields = [], dq_bars_complete = True, dq_anomalies = [],
        dq_confidence = Fin False 1 0\<rparr>,
      ms_snapshot_id = ''week'', ms_content_hash = [], ms_canonical_json = []\<rparr>"

definition week_vwap :: session_vwap_indicator where
  "week_vwap = \<lparr>sv_calendar = week_calendar, sv_market = ''TWSE'', sv_instrument_id = 7, sv_key = ''session_vwap''\<rparr>"

definition week_ratio :: volume_ratio_indicator where
  "week_ratio = \<lparr>vr_calendar = week_calendar, vr_market = ''TWSE'', vr_instrument_id = 7, vr_bar_width = 1800000000,
     vr_lookback_days = 1, vr_history = [week_snapshot 20511 100], vr_key = ''same_time_volume_ratio''\<rparr>"

lemma half_hour_bar_ok: "0 < minutes \<Longrightarrow> 2 < price \<Longrightarrow> bar_ok (half_hour_bar day start minutes price volume)"
  by (auto simp: bar_ok_def bar_post_init_def half_hour_bar_def taipei_time_def require_timezone_aware_def
      require_finite_decimal_def dec_le_def dec_lt_def dec_max_def dec_min_def dsigned_def)

lemma week_location_of:
  assumes "bar_starts_at b = taipei_time day 9 s" and "bar_ends_at b = taipei_time day 9 e"
    and "0 \<le> s" and "s < e" and "e \<le> 60" and "weekday day < 5"
  shows "locate_market_session week_calendar ''TWSE'' b =
     Inr \<lparr>loc_session_date = day, loc_segment = 0, loc_session = week_session day\<rparr>"
proof -
  have "market_date (8 * 3600000000) (taipei_time day 9 s) = day" by (rule week_date) (use assms in simp_all)
  moreover have "holds_interval (week_session day) (taipei_time day 9 s) (taipei_time day 9 e)"
    using assms(3-5) by (simp add: holds_interval_def week_session_def taipei_time_def)
  moreover have "\<not> is_blank ''TWSE''" by code_simp
  ultimately show ?thesis using assms(6)
    by (simp add: locate_market_session_def assms(1,2) require_timezone_aware_def week_calendar_def)
      (simp add: taipei_time_def)
qed

lemma half_hour_bar_location:
  assumes "0 \<le> start" and "0 < minutes" and "start + minutes \<le> 60" and "weekday day < 5"
  shows "locate_market_session week_calendar ''TWSE'' (half_hour_bar day start minutes price volume) =
     Inr \<lparr>loc_session_date = day, loc_segment = 0, loc_session = week_session day\<rparr>"
  by (rule week_location_of [of _ _ start "start + minutes"]) (use assms in \<open>simp_all add: half_hour_bar_def\<close>)

definition week_location :: "date \<Rightarrow> session_location" where
  "week_location day = \<lparr>loc_session_date = day, loc_segment = 0, loc_session = week_session day\<rparr>"

lemma week_bars_located:
  assumes "weekday day < 5"
  shows "locate_bars week_calendar ''TWSE'' (week_bars day volume) = Inr (map (\<lambda>b. (b, week_location day)) (week_bars day volume))"
  using assms by (simp add: locate_bars_def week_bars_def half_hour_bar_location week_location_def)

lemma week_bars_valid:
  assumes "weekday day < 5"
  shows "validate_bars_for_calendar week_calendar ''TWSE'' (week_bars day volume) = Inr (week_bars day volume)"
proof -
  have "list_all bar_ok (week_bars day volume)" by (simp add: week_bars_def half_hour_bar_ok)
  from validate_bars_ok [OF this] show ?thesis using assms
    by (simp add: week_bars_def half_hour_bar_location apart_def) (simp add: half_hour_bar_def taipei_time_def)
qed

lemma week_requested_from:
  assumes "weekday day < 5" and "0 \<le> start" and "start < 60"
  shows "requested_session_locations week_calendar ''TWSE'' (taipei_time day 9 start) (taipei_time day 10 0) = Inr [week_location day]"
proof -
  have "market_date (8 * 3600000000) (taipei_time day 9 start) = day" "market_date (8 * 3600000000) (taipei_time day 10 0) = day"
    by (rule week_date; use assms in simp)+
  moreover have "\<not> is_blank ''TWSE''" by code_simp
  ultimately show ?thesis using assms
    by (simp add: requested_session_locations_def require_timezone_aware_def week_calendar_def sessions_between_def week_location_def)
      (simp add: taipei_time_def week_session_def)
qed

lemma week_requested:
  "weekday day < 5 \<Longrightarrow>
   requested_session_locations week_calendar ''TWSE'' (taipei_time day 9 0) (taipei_time day 10 0) = Inr [week_location day]"
  by (rule week_requested_from) simp_all

lemma week_gap:
  assumes "weekday day < 5"
  shows "requested_range_coverage_gap week_calendar ''TWSE'' (taipei_time day 9 0) (taipei_time day 10 0) (week_bars day volume) = Inr None"
proof -
  have "cal_market_timezone week_calendar ''TWSE'' = Inr (8 * 3600000000)" by (simp add: week_calendar_def)
  moreover have "first_gap (taipei_time day 9 0) (taipei_time day 10 0) (map (\<lambda>b. (b, week_location day)) (week_bars day volume))
      [week_location day] = None"
    by (simp add: week_bars_def week_location_def week_session_def same_session_def bars_in_order_def half_hour_bar_def
        taipei_time_def later_def earlier_def)
  ultimately show ?thesis using assms
    by (simp add: requested_range_coverage_gap_def week_bars_valid week_bars_located week_requested)
qed

text \<open>The two half hours.\<close>

definition week_windows :: "date \<Rightarrow> nat \<Rightarrow> bar list" where
  "week_windows day volume =
     [\<lparr>bar_instrument_id = 7, bar_starts_at = taipei_time day 9 0, bar_ends_at = taipei_time day 9 30,
       bar_open = Fin False 90 0, bar_high = Fin False 92 0, bar_low = Fin False 88 0, bar_close = Fin False 90 0,
       bar_volume = Fin False 100 0\<rparr>,
      \<lparr>bar_instrument_id = 7, bar_starts_at = taipei_time day 9 30, bar_ends_at = taipei_time day 9 60,
       bar_open = Fin False 100 0, bar_high = Fin False 106 0, bar_low = Fin False 98 0, bar_close = Fin False 104 0,
       bar_volume = Fin False (100 + volume) 0\<rparr>]"

text \<open>Their rows.\<close>

definition week_row :: "date \<Rightarrow> bar \<Rightarrow> int \<Rightarrow> bucketed_bar" where
  "week_row day b start =
     \<lparr>bb_bar = b, bb_bucket_start = taipei_time day 9 start, bb_bucket_end = taipei_time day 9 (start + 30)\<rparr>"

lemma week_row_key:
  "window_key (week_row day (half_hour_bar day start minutes price volume) s) =
   (7, instant (taipei_time day 9 s), instant (taipei_time day 9 (s + 30)))"
  by (simp add: window_key_def week_row_def half_hour_bar_def)

lemma week_sums:
  "ctx_sum [Fin False 100 0] = Inr (Fin False 100 0)" "ctx_sum [Fin False 200 0] = Inr (Fin False 200 0)"
  "ctx_sum [Fin False 100 0, Fin False 200 0] = Inr (Fin False 300 0)"
  "ctx_sum [Fin False 100 0, Fin False 100 0] = Inr (Fin False 200 0)"
  by (simp_all add: ctx_sum_def ctx_round_def ctx_fix_def half_even_def dsigned_def py_eval)

lemma week_windows_ok: "w \<in> set (week_windows day volume) \<Longrightarrow> bar_ok w"
  by (auto simp: week_windows_def bar_ok_def bar_post_init_def taipei_time_def require_timezone_aware_def
      require_finite_decimal_def dec_le_def dec_lt_def dec_max_def dec_min_def dsigned_def)

lemmas week_aggregate_simps = taipei_time_def highest_def lowest_def dec_lt_def dec_max_def dec_min_def dsigned_def week_sums(1)

lemma week_aggregates:
  assumes "weekday day < 5" and volume: "ctx_sum [Fin False 100 0, Fin False volume 0] = Inr (Fin False (100 + volume) 0)"
  shows "aggregate_bars group_rows week_calendar ''TWSE'' 1800000000 (week_bars day volume) = Inr (week_windows day volume)"
proof -
  let ?a = "week_row day (half_hour_bar day 0 30 90 100) 0"
  let ?b = "week_row day (half_hour_bar day 30 15 100 100) 30"
  let ?c = "week_row day (half_hour_bar day 45 15 104 volume) 30"
  have "mapE (bucket_bar week_calendar ''TWSE'' 1800000000) (week_bars day volume) = Inr [?a, ?b, ?c]"
    using assms(1) by (simp add: week_bars_def bucket_bar_def half_hour_bar_location)
      (simp add: half_hour_bar_def week_calendar_def week_session_def taipei_time_def earlier_def week_row_def Let_def)
  moreover have "group_rows window_key [?a, ?b, ?c] = [[?a], [?b, ?c]]"
    by (simp add: group_rows_def week_row_key) (simp add: taipei_time_def)
  moreover have "aggregate_bucket [?a] = Inr (Some (week_windows day volume ! 0))"
    using week_windows_ok [of "week_windows day volume ! 0" day volume]
    by (simp add: aggregate_bucket_def Let_def week_row_def half_hour_bar_def)
      (simp add: week_windows_def bar_ok_def week_aggregate_simps volume)
  moreover have "aggregate_bucket [?b, ?c] = Inr (Some (week_windows day volume ! 1))"
    using week_windows_ok [of "week_windows day volume ! 1" day volume]
    by (simp add: aggregate_bucket_def Let_def week_row_def half_hour_bar_def)
      (simp add: week_windows_def bar_ok_def week_aggregate_simps volume)
  moreover have "sort_key bar_order (week_windows day volume) = week_windows day volume"
    by (simp add: week_windows_def bar_order_def taipei_time_def)
  moreover have "is_aware (bar_starts_at (hd (week_bars day volume)))" "week_bars day volume \<noteq> []"
    by (simp_all add: week_bars_def half_hour_bar_def taipei_time_def)
  ultimately show ?thesis
    using week_bars_valid [OF assms(1)] by (simp add: aggregate_bars_def opt_list_def week_windows_def)
qed

lemma available_ok:
  assumes "\<not> is_blank key" and "list_all (\<lambda>(k, _). \<not> is_blank k) evidence" and "is_finite v" and "dec_in_range (canonical v)"
  shows "\<exists>r. available key v evidence = Inr r \<and> ir_value r = Some (canonical v)"
proof -
  have canonical: "canonical_indicator_decimal v = Inr (canonical v)" using assms(3,4) by simp
  have keys: "\<not> list_ex (\<lambda>(k, _). is_blank k) evidence" using assms(2) by (auto simp: list_all_iff list_ex_iff)
  show ?thesis using assms(1,3)
    by (simp add: available_def indicator_result_post_init_def validate_indicator_value_def require_finite_decimal_def keys
        canonical del: canonical_indicator_decimal_Inr)
qed

lemma week_keys [simp]:
  "\<not> is_blank ''session_vwap''" "\<not> is_blank ''same_time_volume_ratio''" "\<not> is_blank ''session_date''"
  "\<not> is_blank ''session_segment''" "\<not> is_blank ''session_start''" "\<not> is_blank ''session_end''"
  "\<not> is_blank ''observed_bars''" "\<not> is_blank ''latest_bar_start''" "\<not> is_blank ''bar_width_microseconds''"
  "\<not> is_blank ''lookback_days''" "\<not> is_blank ''session_offset''"
  by code_simp+

lemma week_actionable [simp]: "snapshot_is_actionable (week_snapshot day volume)"
  by (simp add: snapshot_is_actionable_def quality_is_actionable_def REQUIRED_OHLCV_FIELDS_def week_snapshot_def week_bars_def)

lemma week_instrument [simp]: "bar_instrument_id b = 7" if "b \<in> set (week_bars day volume)"
  using that by (auto simp: week_bars_def half_hour_bar_def)

lemma week_products:
  "weighted_total (week_bars 20514 200) = Inr (Fin False 39800 0)"
  "ctx_sum (map bar_volume (week_bars 20514 200)) = Inr (Fin False 400 0)"
  "ctx_divide (Fin False 39800 0) (Fin False 400 0) = Inr (Fin False 995 (-1))"
  by (simp_all add: week_bars_def half_hour_bar_def weighted_total_def weighted_typical_price_def ctx_sum_def ctx_round_def
      ctx_fix_def half_even_def dsigned_def py_eval dec_of_int_def)

lemma week_vwap_value: "\<exists>r. vwap_calculate week_vwap (week_snapshot 20514 200) = Inr r \<and> ir_value r = Some (Fin False 995 (-1))"
proof -
  have day: "weekday 20514 < 5" by code_simp
  let ?bars = "week_bars 20514 200"
  have scoped: "filter (\<lambda>b. bar_instrument_id b = 7) ?bars = ?bars" by (simp add: filter_id_conv)
  have ordered: "bars_in_order ?bars = ?bars"
    by (simp add: bars_in_order_def week_bars_def half_hour_bar_def taipei_time_def)
  have coverage: "validate_active_session_coverage ?bars (week_location 20514) (week_snapshot 20514 200) = Inr None"
    by (simp add: validate_active_session_coverage_def ordered Let_def)
      (simp add: week_bars_def half_hour_bar_def week_location_def week_session_def week_snapshot_def taipei_time_def earlier_def)
  have located: "locate_active_session week_vwap (week_snapshot 20514 200) ?bars =
      Inr (Inr \<lparr>as_latest_bar = latest_bar_of ?bars, as_location = week_location 20514, as_bars = ?bars, as_gap = None\<rparr>)"
    using week_requested [OF day] coverage
    by (simp add: locate_active_session_def week_vwap_def week_bars_valid [OF day] week_bars_located [OF day] week_snapshot_def
        Let_def comp_def same_session_def)
  have offered: "\<exists>r. available ''session_vwap'' (Fin False 995 (-1)) e = Inr r \<and> ir_value r = Some (Fin False 995 (-1))"
    if "list_all (\<lambda>(k, _). \<not> is_blank k) e" for e
    using available_ok [of "''session_vwap''" e "Fin False 995 (-1)"] that by (simp add: in_decimal_range_def py_eval)
  have canonical: "canonical_indicator_decimal (Fin False 995 (-1)) = Inr (Fin False 995 (-1))"
    by (simp add: in_decimal_range_def py_eval)
  have "\<exists>r. vwap_of_session week_vwap \<lparr>as_latest_bar = latest_bar_of ?bars, as_location = week_location 20514,
      as_bars = ?bars, as_gap = None\<rparr> = Inr r \<and> ir_value r = Some (Fin False 995 (-1))"
    by (simp add: vwap_of_session_def week_products week_vwap_def week_calendar_def session_evidence_def Let_def dec_is_zero_def
        canonical offered del: ctx_divide.simps canonical_indicator_decimal_Inr)
  moreover have "sv_instrument_id week_vwap = 7" "ms_intraday_bars (week_snapshot 20514 200) = ?bars" "?bars \<noteq> []"
    by (simp_all add: week_vwap_def week_snapshot_def week_bars_def)
  ultimately show ?thesis by (simp add: vwap_calculate_def located scoped Let_def)
qed

text \<open>The ratio of the second half hour to the one of the Friday before.\<close>

lemma week_days: "weekday 20514 < 5" "weekday 20511 < 5" "weekday 20513 = 6" "weekday 20512 = 5" "weekday 20511 = 4"
  "weekday 20514 = 0"
  by code_simp+

lemma week_previous: "previous_trading_dates week_calendar ''TWSE'' 20514 1 = Inr [20511]"
proof -
  have days: "MAX_CALENDAR_LOOKBACK_DAYS = Suc (Suc (Suc 3657))" by (simp add: MAX_CALENDAR_LOOKBACK_DAYS_def)
  show ?thesis unfolding previous_trading_dates_def days previous_trading_dates_from.simps
    by (simp add: week_calendar_def week_days Let_def)
qed

lemma week_history:
  "history_by_session_date week_calendar ''TWSE'' 20514 [week_snapshot 20511 100] = Inr (Map.empty(20511 \<mapsto> week_snapshot 20511 100))"
proof -
  have "market_date (8 * 3600000000) (mr_intraday_start (ms_request (week_snapshot 20511 100))) = 20511"
    using week_date [of 9 0 20511] by (simp add: week_snapshot_def)
  then show ?thesis by (simp add: history_by_session_date_def) (simp add: week_calendar_def)
qed

lemma week_windows_located:
  assumes "weekday day < 5"
  shows "locate_market_session week_calendar ''TWSE'' (week_windows day volume ! 0) = Inr (week_location day)"
    and "locate_market_session week_calendar ''TWSE'' (week_windows day volume ! 1) = Inr (week_location day)"
  unfolding week_location_def
  by (rule week_location_of [of _ _ 0 30], use assms in \<open>simp_all add: week_windows_def\<close>,
      rule week_location_of [of _ _ 30 60], use assms in \<open>simp_all add: week_windows_def\<close>)

lemma week_windows_list: "week_windows day volume = [week_windows day volume ! 0, week_windows day volume ! 1]"
  by (simp add: week_windows_def)

lemma week_instrument_bars: "instrument_bars 7 (week_snapshot day volume) = week_bars day volume"
proof -
  have "ms_intraday_bars (week_snapshot day volume) = week_bars day volume" by (simp add: week_snapshot_def)
  then show ?thesis by (simp add: instrument_bars_def filter_id_conv)
qed

lemma week_request:
  "mr_intraday_start (ms_request (week_snapshot day volume)) = taipei_time day 9 0"
  "mr_intraday_end (ms_request (week_snapshot day volume)) = taipei_time day 10 0"
  by (simp_all add: week_snapshot_def)

lemma week_ratio_simps:
  "vr_calendar week_ratio = week_calendar" "vr_market week_ratio = ''TWSE''" "vr_instrument_id week_ratio = 7"
  "vr_bar_width week_ratio = 1800000000" "vr_lookback_days week_ratio = 1" "vr_history week_ratio = [week_snapshot 20511 100]"
  "vr_key week_ratio = ''same_time_volume_ratio''"
  by (simp_all add: week_ratio_def)

lemma week_reference:
  "reference_of_date group_rows week_ratio (week_windows 20514 200 ! 1) (week_location 20514) 20511 (week_snapshot 20511 100) =
   Inr (Inr (Some (week_windows 20511 100 ! 1), False))"
proof -
  have zone: "cal_market_timezone week_calendar ''TWSE'' = Inr (8 * 3600000000)" by (simp add: week_calendar_def)
  have sum: "ctx_sum [Fin False 100 0, Fin False 100 0] = Inr (Fin False (100 + 100) 0)" using week_sums(4) by simp
  have geometry: "session_relative_geometry (week_windows 20511 100 ! 1) (week_location 20511) =
      session_relative_geometry (week_windows 20514 200 ! 1) (week_location 20514)"
    "fst (session_relative_geometry (week_windows 20511 100 ! 0) (week_location 20511)) \<noteq>
      fst (session_relative_geometry (week_windows 20514 200 ! 1) (week_location 20514))"
    by (simp_all add: session_relative_geometry_def week_windows_def week_location_def week_session_def taipei_time_def)
  have segment: "loc_segment (week_location day) = 0" for day by (simp add: week_location_def)
  have "matching_reference_bar group_rows week_ratio (week_snapshot 20511 100) (week_windows 20514 200 ! 1) (week_location 20514) =
      Inr (Some (week_windows 20511 100 ! 1), False)"
    unfolding matching_reference_bar_def week_ratio_simps week_instrument_bars week_aggregates [OF week_days(2) sum] bindE.simps zone
    by (subst week_windows_list) (simp add: week_windows_located [OF week_days(2)] geometry segment Let_def del: One_nat_def)
  then show ?thesis
    by (simp add: reference_of_date_def week_ratio_simps week_request week_requested [OF week_days(2)] week_instrument_bars
        week_gap [OF week_days(2)])
qed

lemma week_ratio_value:
  "\<exists>r. volume_ratio_calculate group_rows week_ratio (week_snapshot 20514 200) = Inr r \<and> ir_value r = Some (Fin False 15 (-1))"
proof -
  have zone: "cal_market_timezone week_calendar ''TWSE'' = Inr (8 * 3600000000)" by (simp add: week_calendar_def)
  have sum: "ctx_sum [Fin False 100 0, Fin False 200 0] = Inr (Fin False (100 + 200) 0)" using week_sums(3) by simp
  let ?current = "week_windows 20514 200 ! 1"
  have volumes: "bar_volume ?current = Fin False 300 0" "bar_volume (week_windows 20511 100 ! 1) = Fin False 200 0"
    by (simp_all add: week_windows_def)
  have date: "loc_session_date (week_location day) = day" "same_session (week_location day) (week_location day)" for day
    by (simp_all add: week_location_def same_session_def)
  have "\<exists>r. available ''same_time_volume_ratio'' (Fin False 15 (-1)) e = Inr r \<and> ir_value r = Some (Fin False 15 (-1))"
    if "list_all (\<lambda>(k, _). \<not> is_blank k) e" for e
    using available_ok [of "''same_time_volume_ratio''" e "Fin False 15 (-1)"] that by (simp add: in_decimal_range_def py_eval)
  note offered = this
  have divided: "divide_decimals (Fin False 200 0) (dec_of_int 1) = Inr (Fin False 200 0)"
    "divide_decimals (Fin False 300 0) (Fin False 200 0) = Inr (Fin False 15 (-1))"
    by (simp_all add: divide_decimals_def dec_is_zero_def dec_of_int_def bindE_Inr require_finite_decimal_def ctx_fix_def
        half_even_def py_eval in_decimal_range_def)
  have ends: "find (\<lambda>b. instant (bar_ends_at b) = instant (earlier (closes_at (loc_session (week_location 20514))) (taipei_time 20514 10 0)))
      [week_windows 20514 200 ! 0, ?current] = Some ?current"
    by (simp add: week_windows_def week_location_def week_session_def taipei_time_def)
  have mismatch: "history_bar_dates_mismatch week_calendar ''TWSE'' 7 20511 (week_snapshot 20511 100) = Inr False"
    using week_date [of 9 0 20511] week_date [of 9 30 20511] week_date [of 9 45 20511]
    by (simp add: history_bar_dates_mismatch_def zone week_instrument_bars) (simp add: week_bars_def half_hour_bar_def)
  have tally: "tally_history group_rows week_ratio ?current (week_location 20514) (Map.empty(20511 \<mapsto> week_snapshot 20511 100))
      empty_tally [20511] = Inr (Inr (empty_tally\<lparr>ht_reference_volumes := [Fin False 200 0]\<rparr>))"
    using volumes(2)
    by (simp add: tally_date_def week_ratio_simps week_reference empty_tally_def mismatch del: One_nat_def)
  have "\<exists>r. ratio_of_tally week_ratio ?current (week_location 20514) (empty_tally\<lparr>ht_reference_volumes := [Fin False 200 0]\<rparr>)
      = Inr r \<and> ir_value r = Some (Fin False 15 (-1))"
    by (simp add: ratio_of_tally_def empty_tally_def week_sums week_ratio_simps volumes divided ratio_evidence_def dec_is_zero_def
        offered Let_def del: One_nat_def)
  then have against: "\<exists>r. ratio_against_history group_rows week_ratio ?current (week_location 20514) = Inr r \<and>
      ir_value r = Some (Fin False 15 (-1))"
    by (simp add: ratio_against_history_def week_ratio_simps date week_previous week_history tally
        del: One_nat_def tally_history.simps)
  have located: "locate_bars week_calendar ''TWSE'' [week_windows 20514 200 ! 0, ?current] =
      Inr [(week_windows 20514 200 ! 0, week_location 20514), (?current, week_location 20514)]"
    by (simp add: locate_bars_def week_windows_located [OF week_days(1)] del: One_nat_def)
  have "current_bars_of group_rows week_ratio (week_snapshot 20514 200) (week_bars 20514 200) =
      Inr (Inr ([week_location 20514], None, [week_windows 20514 200 ! 0, ?current]))"
    using week_aggregates [OF week_days(1) sum] week_windows_list [of 20514 200]
    by (simp add: current_bars_of_def week_ratio_simps week_request week_requested [OF week_days(1)] week_gap [OF week_days(1)]
        del: One_nat_def)
  then show ?thesis using against
    by (simp add: volume_ratio_calculate_def week_ratio_simps week_instrument_bars ratio_of_current_bars_def week_request date
        Let_def located ends [unfolded earlier_instant] del: One_nat_def find.simps)
qed

subsection \<open>A bar across the start of the request\<close>

text \<open>The point reported as the first uncovered one is covered by a bar that starts before the request.\<close>

lemma straddling_bar_is_a_leading_gap:
  "\<exists>gap. requested_range_coverage_gap week_calendar ''TWSE'' (taipei_time 20514 9 15) (taipei_time 20514 10 0) (week_bars 20514 200)
     = Inr (Some gap) \<and> gap_kind gap = ''leading'' \<and>
     (\<exists>b \<in> set (week_bars 20514 200). instant (bar_starts_at b) \<le> instant (gap_covered_end gap) \<and>
        instant (gap_covered_end gap) < instant (bar_ends_at b))"
proof -
  have zone: "cal_market_timezone week_calendar ''TWSE'' = Inr (8 * 3600000000)" by (simp add: week_calendar_def)
  let ?gap = "\<lparr>gap_location = week_location 20514, gap_kind = ''leading'', gap_covered_end = taipei_time 20514 9 15,
    gap_required_start = taipei_time 20514 9 15, gap_required_end = taipei_time 20514 10 0\<rparr>"
  have bars: "session_bars (map (\<lambda>b. (b, week_location 20514)) (week_bars 20514 200)) (week_location 20514) = week_bars 20514 200"
    by (simp add: session_bars_def week_bars_def same_session_def bars_in_order_def half_hour_bar_def taipei_time_def)
  have limits: "later (opens_at (loc_session (week_location 20514))) (taipei_time 20514 9 15) = taipei_time 20514 9 15"
    "earlier (closes_at (loc_session (week_location 20514))) (taipei_time 20514 10 0) = taipei_time 20514 10 0"
    by (simp_all add: later_def earlier_def week_location_def week_session_def taipei_time_def)
  have "instant (bar_starts_at (half_hour_bar 20514 0 30 90 100)) \<noteq> instant (taipei_time 20514 9 15)"
    by (simp add: half_hour_bar_def taipei_time_def)
  then have gap: "session_gap (week_location 20514) (taipei_time 20514 9 15) (taipei_time 20514 10 0) (taipei_time 20514 9 15)
      (week_bars 20514 200) = Some ?gap"
    unfolding week_bars_def session_gap.simps by (simp only: if_True not_False_eq_True refl)
  have first: "first_gap (taipei_time 20514 9 15) (taipei_time 20514 10 0)
      (map (\<lambda>b. (b, week_location 20514)) (week_bars 20514 200)) [week_location 20514] = Some ?gap"
    unfolding first_gap.simps session_bars_def [symmetric] Let_def bars limits gap option.case by (rule refl)
  have requested: "requested_session_locations week_calendar ''TWSE'' (taipei_time 20514 9 15) (taipei_time 20514 10 0)
      = Inr [week_location 20514]" by (rule week_requested_from) (simp_all add: week_days)
  have result: "requested_range_coverage_gap week_calendar ''TWSE'' (taipei_time 20514 9 15) (taipei_time 20514 10 0)
      (week_bars 20514 200) = Inr (Some ?gap)"
    unfolding requested_range_coverage_gap_def week_bars_valid [OF week_days(1)] week_bars_located [OF week_days(1)]
      bindE.simps zone requested first by (rule refl)
  have "half_hour_bar 20514 0 30 90 100 \<in> set (week_bars 20514 200)"
    unfolding week_bars_def by (rule list.set_intros(1))
  then have "\<exists>b \<in> set (week_bars 20514 200). instant (bar_starts_at b) \<le> instant (gap_covered_end ?gap) \<and>
      instant (gap_covered_end ?gap) < instant (bar_ends_at b)"
    by (rule bexI [rotated]) (simp add: half_hour_bar_def taipei_time_def)
  with result show ?thesis by (intro exI [of _ ?gap]) simp
qed

subsection \<open>The guarantees\<close>

text \<open>C19: A constructed mock calendar serves its market with the zone it names: every day is answered, the
  sessions of a day lie in that local day and follow each other without overlap, and the trading day has
  exactly the configured sessions unless it is a holiday.
\<close>

theorem mock_calendar_keeps_contract:
  assumes "mock_calendar_post_init zone_of m = Inr c" and "zone_of (mc_timezone_name c) = Some zone_offset"
  shows "session_calendar (mock_trading_calendar zone_of c) (mc_market m) zone_offset \<and>
     (\<exists>sessions. mset sessions = mset (mc_sessions m) \<and>
       cal_sessions_for (mock_trading_calendar zone_of c) (mc_market m) day =
         Inr (if day = mc_trading_day m \<and> day \<notin> mc_holidays m then sessions else []))"
proof -
  have "configured_mock zone_of m c zone_offset" using assms by unfold_locales
  with configured_mock.keeps_contract assms(1) show ?thesis
    by (elim mock_calendar_post_init_Inr)
      (fastforce simp: mock_trading_calendar_def mock_sessions_for_def mock_is_holiday_def require_market_def)
qed

lemma mock_calendar_keeps_contract_witness:
  "\<exists>sessions. mset sessions = mset (mc_sessions example_calendar) \<and>
     cal_sessions_for (mock_trading_calendar example_zones example_calendar) ''TWSE'' 20514 = Inr sessions"
  using mock_calendar_keeps_contract [OF example_calendar_ok, of "8 * 3600000000" 20514]
  by (auto simp: example_calendar_def example_zones_def)

text \<open>C18: A request range without a coverage gap has a source bar at every instant of it at which the market trades.
\<close>

theorem no_gap_covers_every_trading_instant:
  assumes "session_calendar calendar market offset" and "list_all bar_ok bars"
    and "requested_range_coverage_gap calendar market intraday_start intraday_end bars = Inr None"
    and "instant intraday_start \<le> t" and "t < instant intraday_end"
    and "cal_is_holiday calendar market (market_date offset (Aware t)) = Inr False"
    and "cal_sessions_for calendar market (market_date offset (Aware t)) = Inr sessions" and "session \<in> set sessions"
    and "instant (opens_at session) \<le> t" and "t < instant (closes_at session)"
  shows "\<exists>b \<in> set bars. instant (bar_starts_at b) \<le> t \<and> t < instant (bar_ends_at b)"
  by (rule session_calendar.covered_instant [OF assms])

lemma no_gap_covers_every_trading_instant_witness:
  "\<exists>b \<in> set (week_bars 20514 200). instant (bar_starts_at b) \<le> 1772415000000001 \<and> 1772415000000001 < instant (bar_ends_at b)"
  by (rule no_gap_covers_every_trading_instant [OF week.session_calendar_axioms _ week_gap [OF week_days(1)],
        where sessions = "[week_session 20514]" and session = "week_session 20514"])
    (simp_all add: week_bars_def half_hour_bar_ok week_calendar_def market_date_def microseconds_per_day_def week_days
      week_session_def taipei_time_def)



text \<open>C15: The aggregated bars are again valid source bars: ordered, apart for each instrument, and each inside one
  trading session of the calendar.
\<close>

theorem aggregates_are_valid_sources:
  assumes "session_calendar calendar market offset" and "row_grouping groupby"
    and "aggregate_bars groupby calendar market width bars = Inr out"
  shows "validate_bars_for_calendar calendar market out = Inr out"
proof -
  have "bar_aggregation calendar market offset groupby" using assms(1,2) by (rule bar_aggregation.intro)
  then show ?thesis using assms(3) by (rule bar_aggregation.aggregates_valid)
qed

lemma aggregates_are_valid_sources_witness:
  "validate_bars_for_calendar week_calendar ''TWSE'' (week_windows 20514 200) = Inr (week_windows 20514 200)"
proof -
  have "ctx_sum [Fin False 100 0, Fin False 200 0] = Inr (Fin False (100 + 200) 0)" using week_sums(3) by simp
  from week_aggregates [OF week_days(1) this] show ?thesis
    by (rule aggregates_are_valid_sources [OF week.session_calendar_axioms grouped_rows.row_grouping_axioms])
qed

text \<open>C17: A VWAP is only offered for an actionable snapshot whose bars of the instrument cover the last requested
  session without a gap from its open to the end of the request; it is then the correctly rounded quotient of
  the weighted prices and the volume of exactly these bars.
\<close>

theorem vwap_rests_on_covered_session:
  assumes "vwap_calculate v snapshot = Inr r" and "ir_value r = Some d" and "list_all bar_ok (ms_intraday_bars snapshot)"
  shows "snapshot_is_actionable snapshot \<and>
     (\<exists>locations bars total weighted.
        requested_session_locations (sv_calendar v) (sv_market v) (mr_intraday_start (ms_request snapshot))
          (mr_intraday_end (ms_request snapshot)) = Inr locations \<and> locations \<noteq> [] \<and>
        bars = bars_of_session (sv_calendar v) (sv_market v)
          (filter (\<lambda>b. bar_instrument_id b = sv_instrument_id v) (ms_intraday_bars snapshot)) (last locations) \<and>
        covered_from_open snapshot (last locations) bars \<and>
        ctx_sum (map bar_volume bars) = Inr total \<and> weighted_total bars = Inr weighted \<and> rval total \<noteq> 0 \<and>
        correctly_rounded (rval weighted / rval total) (rval d))"
proof -
  from vwap_calculate_value [OF assms(1,2)] obtain session where actionable: "snapshot_is_actionable snapshot"
    and located: "locate_active_session v snapshot (filter (\<lambda>b. bar_instrument_id b = sv_instrument_id v)
      (ms_intraday_bars snapshot)) = Inr (Inr session)" and session: "vwap_of_session v session = Inr r" .
  have ok: "list_all bar_ok (filter (\<lambda>b. bar_instrument_id b = sv_instrument_id v) (ms_intraday_bars snapshot))"
    using assms(3) by (auto simp: list_all_iff)
  show ?thesis using actionable locate_active_session_Inr [OF located ok] vwap_of_session_value [OF session assms(2)]
    by metis
qed

lemma vwap_rests_on_covered_session_witness:
  "\<exists>bars total weighted. covered_from_open (week_snapshot 20514 200) (week_location 20514) bars \<and>
     ctx_sum (map bar_volume bars) = Inr total \<and> weighted_total bars = Inr weighted \<and>
     correctly_rounded (rval weighted / rval total) (rval (Fin False 995 (-1)))"
proof -
  have ok: "list_all bar_ok (ms_intraday_bars (week_snapshot 20514 200))"
    by (simp add: week_snapshot_def week_bars_def half_hour_bar_ok)
  have week: "sv_calendar week_vwap = week_calendar" "sv_market week_vwap = ''TWSE''" by (simp_all add: week_vwap_def)
  from week_vwap_value obtain r where "vwap_calculate week_vwap (week_snapshot 20514 200) = Inr r"
    "ir_value r = Some (Fin False 995 (-1))" by blast
  from vwap_rests_on_covered_session [OF this ok] show ?thesis
    unfolding week week_request week_requested [OF week_days(1)] by auto
qed

text \<open>C16: A volume ratio is only offered when the request is covered without a gap and when each of the wanted number
  of earlier trading days has an actionable snapshot, covered without a gap, with a bar of the same session
  segment and the same offsets from its open; it is then the correctly rounded quotient of the current volume
  and the mean volume of exactly these bars.
\<close>

theorem volume_ratio_rests_on_complete_history:
  assumes "volume_ratio_calculate groupby v snapshot = Inr r" and "ir_value r = Some d"
    and "cal_market_timezone (vr_calendar v) (vr_market v) = Inr offset"
  shows "snapshot_is_actionable snapshot \<and>
     (\<exists>location current_bar dates references total average.
        current_bar_of groupby v snapshot location current_bar \<and>
        int (length dates) = vr_lookback_days v \<and> sorted_wrt (>) dates \<and>
        list_all (\<lambda>day. day < loc_session_date location \<and> trading_day (vr_calendar v) (vr_market v) day) dates \<and>
        list_all2 (reference_bar_of groupby v offset current_bar location) dates references \<and>
        ctx_sum (map bar_volume references) = Inr total \<and>
        divide_decimals total (dec_of_int (vr_lookback_days v)) = Inr average \<and> rval average \<noteq> 0 \<and>
        correctly_rounded (rval (bar_volume current_bar) / rval average) (rval d))"
proof -
  from volume_ratio_calculate_value [OF assms(1,2)] obtain location current_bar where
    actionable: "snapshot_is_actionable snapshot" and current: "current_bar_of groupby v snapshot location current_bar"
    and against: "ratio_against_history groupby v current_bar location = Inr r" .
  from ratio_against_history_value [OF against assms(2,3)] obtain dates references total average where
    "int (length dates) = vr_lookback_days v" "sorted_wrt (>) dates"
    "list_all (\<lambda>day. day < loc_session_date location \<and> trading_day (vr_calendar v) (vr_market v) day) dates"
    "list_all2 (reference_bar_of groupby v offset current_bar location) dates references"
    "ctx_sum (map bar_volume references) = Inr total"
    "divide_decimals total (dec_of_int (vr_lookback_days v)) = Inr average" "rval average \<noteq> 0"
    "correctly_rounded (rval (bar_volume current_bar) / rval average) (rval d)" .
  with actionable current show ?thesis by blast
qed

lemma volume_ratio_rests_on_complete_history_witness:
  "\<exists>location current_bar dates references. current_bar_of group_rows week_ratio (week_snapshot 20514 200) location current_bar \<and>
     length dates = 1 \<and> list_all2 (reference_bar_of group_rows week_ratio (8 * 3600000000) current_bar location) dates references"
proof -
  have zone: "cal_market_timezone (vr_calendar week_ratio) (vr_market week_ratio) = Inr (8 * 3600000000)"
    by (simp add: week_ratio_simps week_calendar_def)
  have lookback: "int n = vr_lookback_days week_ratio \<longleftrightarrow> n = 1" for n by (simp add: week_ratio_simps)
  from week_ratio_value obtain r where "volume_ratio_calculate group_rows week_ratio (week_snapshot 20514 200) = Inr r"
    "ir_value r = Some (Fin False 15 (-1))" by blast
  from volume_ratio_rests_on_complete_history [OF this zone] show ?thesis unfolding lookback by blast
qed

end
