(* ===== verification/Spec2Isabelle.thy ===== *)
theory Spec2Isabelle
  imports Lifecycle Sizing Scoring RulesetSemantics EvidenceProps RunBudget IndicatorProps
begin

text \<open>
  A verification development of the stock rotation monitor, a Python service that watches pairs of
  stocks: one the owner holds (the source of a rotation plan) and candidates that may replace it.

  \<^bold>\<open>The program.\<close>  A scheduled scan names a portfolio, a plan, the time it is scheduled for and the
  versions of the configuration and of the evidence.  The coordinator takes the lock of the plan,
  finds or creates the scan, asks the market-data provider for evidence (with one retry), hands the
  evidence to an evaluator, builds the strategy run and stores it, the child intents and the attempt
  that carries them.  The evaluator uses the indicators (bars aggregated along the trading calendar,
  session VWAP, same-time volume ratio), the rule language, the scoring of the candidates, and the
  sizing of the sale and of the purchases.  The state machine of a recommendation decides which
  events move it and when the owner is notified.

  \<^bold>\<open>Theories and sources\<close> (paths are under \<open>src/app\<close>).
  \<^item> Python itself: \<open>Prelude\<close> (results with an exception), \<open>PyText\<close> (text, identifiers, aware
    timestamps), \<open>PyDecimal\<close>, \<open>PyDecimalText\<close> (\<open>Decimal\<close>, its text and its parser),
    \<open>DecimalContext\<close> (rounding to 28 digits half-even), \<open>PyJson\<close> (JSON chunks and their measure),
    \<open>PyTime\<close>, \<open>Civil\<close> (calendar dates), \<open>PyValues\<close>, \<open>PyParse\<close> (UUIDs and ISO timestamps),
    \<open>Effects\<close> and \<open>EffectTriples\<close> (operations on a mutable state that may raise, and their rules).
  \<^item> Domain: \<open>Domain\<close> (\<open>domain/errors.py\<close>, \<open>enums.py\<close>, \<open>values.py\<close>), \<open>Entities\<close> (\<open>entities.py\<close>,
    \<open>access.py\<close>), \<open>Invariants\<close> (\<open>invariants.py\<close>), \<open>RunEntities\<close> (the run evidence of \<open>entities.py\<close>),
    \<open>EvidencePayload\<close> and \<open>EvidenceProps\<close> (\<open>evidence_payload.py\<close>).
  \<^item> Recommendation lifecycle: \<open>StateMachine\<close> (\<open>state_machine/states.py\<close>, \<open>machine.py\<close>), \<open>Lifecycle\<close>.
  \<^item> Sizing: \<open>Costs\<close> (\<open>sizing/costs.py\<close>), \<open>SizingBase\<close> (\<open>base.py\<close>), \<open>Sizing\<close> (\<open>engine.py\<close>).
  \<^item> Scoring: \<open>Scoring\<close> (\<open>scoring/base.py\<close>, \<open>engine.py\<close>).
  \<^item> Rules: \<open>RuleSchema\<close>, \<open>RuleEvidence\<close>, \<open>RuleParser\<close>, \<open>RuleEngine\<close> (\<open>rules/schema.py\<close>,
    \<open>evidence.py\<close>, \<open>parser.py\<close>, \<open>engine.py\<close>), \<open>RulesetSemantics\<close> (the reference evaluator).
  \<^item> Market data: \<open>MarketData\<close> (\<open>data_sources/models.py\<close>), \<open>Calendar\<close> (\<open>calendar/base.py\<close>,
    \<open>mock.py\<close>), \<open>IndicatorBase\<close> (\<open>indicators/base.py\<close>, \<open>registry.py\<close>), \<open>Bars\<close>, \<open>BarsProps\<close>,
    \<open>Aggregation\<close> (\<open>bars.py\<close>), \<open>Vwap\<close> (\<open>vwap.py\<close>), \<open>VolumeRatio\<close>, \<open>RatioProps\<close>
    (\<open>volume_ratio.py\<close>), \<open>IndicatorProps\<close>.
  \<^item> Scans: \<open>Identities\<close> (\<open>application/idempotency.py\<close>, \<open>child_intents.py\<close>,
    \<open>repositories/locks.py\<close>), \<open>Stores\<close>, \<open>StoreProps\<close> (\<open>persistence/in_memory.py\<close>),
    \<open>RotationRun\<close> (\<open>services/rotation_run.py\<close>), \<open>RunCoordinator\<close>, \<open>CoordinatorRun\<close>
    (\<open>application/run_coordinator.py\<close>), \<open>CoordinatorProps\<close>, \<open>RunHistory\<close>, \<open>RunResults\<close>,
    \<open>RunExample\<close>, \<open>RunProps\<close>, \<open>RunBudget\<close>.

  \<^bold>\<open>How the code is represented.\<close>  A dataclass is a record, an enum a datatype; what \<open>isinstance\<close>
  checks is the type of the argument.  The checks of \<open>__post_init__\<close> are a function
  \<open>C_post_init\<close> which returns the object or the exception with its message, and constructing \<open>C\<close>
  is that function on the fields.  A function that raises returns \<open>Inl\<close> of the exception.  A method
  that writes is an operation: it maps the state to its result and to the state it leaves, so what
  was written before an exception stays written, as in Python.  Strings are the UTF-8 bytes of the
  text.  Python's \<open>==\<close> on dataclasses is equality, except on evidence values, where numbers of
  different types compare by value (\<open>py_eq\<close>).  UUIDs are numbers, aware timestamps instants in
  microseconds, whose text is written in UTC.  Decimals keep sign, coefficient and exponent, so
  \<open>1.0\<close> and \<open>1.00\<close> differ where the code tells them apart.

  The in-memory repositories and the lock provider are the record \<open>stores\<close>: one association list
  or map per dictionary of the code and one table of portfolio owners, which the adapters of the code
  share.  A coordinator run works on a \<open>world\<close>: the stores, the counters of the clock, of the UUID
  source and of the provider and evaluator calls.  The clock, the UUIDs, the provider and the
  evaluator are functions of the counter in the environment; SHA-256 and the zone database are the
  record \<open>platform\<close>.  These, like the group-by of pandas and \<open>str.isidentifier\<close> on other than ASCII
  text, are code the sources only call: they are arguments, and what is relied on is a locale.

  \<^bold>\<open>Interfaces.\<close>  \<open>evolution\<close> (an order on states every operation respects) and its extensions
  \<open>store_order\<close> (each repository operation respects it) and \<open>world_order\<close>, \<open>evaluating_order\<close>,
  \<open>calling_order\<close> (so do the calls to clock, evaluator and provider): the walk over the coordinator
  is proved once in them, and the history, the holdings, the leases and the call counters are
  interpretations.  \<open>session_calendar\<close> is what a client relies on of a trading calendar, kept by the
  configured calendar of the code (\<open>configured_mock\<close>); \<open>row_grouping\<close> is the documented group-by;
  \<open>bar_aggregation\<close> joins both.  \<open>rounding_rule\<close> and \<open>monotone_cost\<close> are the laws of rounding and of
  costs that the sizing search rests on.

  \<^bold>\<open>What the theorems show.\<close>
  \<^item> Sizing: a sized result never spends more than the funds, every stage is a whole multiple of a
    tradable quantity, the search finds the greatest affordable one, nothing is sized without
    authorization, and the only error is a negative net sale.
  \<^item> Costs: rounding refines rounding of rationals, and the purchase cost is monotone.
  \<^item> Lifecycle: notification only from an authorized sale, halts cleared only by an explicit resume,
    completed is final, and completion is reachable.
  \<^item> Scoring: normalization clamps and keeps the order, ranks are exactly those of the scorable
    candidates, the ranking is strict, and a candidate that is better on every factor ranks before.
  \<^item> Rules: the preflight accepts exactly the admissible inputs, parsing yields typed and bounded
    rulesets, validation of a public expression is exact, evaluation is kind safe, agrees with the
    reference evaluator and stays in its budget, and a ruleset aggregates as the reference says.
  \<^item> Evidence: what is encoded decodes to itself, streaming and encoding produce the same text, and
    the preflight accepts exactly the representable values.
  \<^item> Indicators: the aggregation emits exactly the filled windows of the sessions, its windows are
    again valid source bars, coverage without a gap reaches every trading instant of the request,
    and an available VWAP or volume ratio is the quotient over a complete session or history.
  \<^item> Scans: a run only appends to the stores, leaves holdings alone, gives its lock back, answers a
    conflict exactly when the lock is held, answers as completed only what is stored as completed,
    calls the provider at most twice and each time for a recorded attempt, and not at all for a stored
    run.

  \<^bold>\<open>Bounds and fuel.\<close>  The evaluator of rules takes the budget of the code
  (\<open>MAX_EXPRESSION_NODES\<close>); that a parsed ruleset never exhausts it is a theorem.  The search back for
  trading dates takes the limit of the code, \<open>MAX_CALENDAR_LOOKBACK_DAYS\<close> = 3660 days, which is where
  the code raises as well.  The search of the sizing takes as many halvings as the bound has digits
  and is proved not to be exhausted.  The walks over evidence and over raw rules are bounded by the
  number of nodes, which is proved enough.

  \<^bold>\<open>Decisions.\<close>  Evidence values and raw rules are trees: cyclic objects and Enum members inside
  evidence cannot be written, and the exit frames of the walk, which serve to find cycles, are left
  out.  Dictionary keys are text.  Floats are given by their text.  \<open>fromisoformat\<close> follows CPython's
  parser on ASCII digits.  The market timezone of the calendar is a fixed offset from UTC, which is
  what the markets of the program have; sessions carry that timezone, so the identity test of
  \<open>tzinfo\<close> objects on bars has no counterpart.  A plugin is the record \<open>indicator\<close>.  The \<open>try\<close> blocks
  of the indicators are functions that return early or go on.

  \<^bold>\<open>Not modelled.\<close>  The database (\<open>persistence/models.py\<close>, \<open>mappers.py\<close>, \<open>repositories.py\<close>,
  migrations): its behaviour is SQLAlchemy's and the server's, and the in-memory store states what it
  has to do.  FastAPI wiring and Pydantic schemas (\<open>main.py\<close>, \<open>api\<close>, \<open>schemas\<close>), the fixture provider
  (\<open>data_sources/providers/mock.py\<close>, which replays files for tests), and the JSON schema validator of
  rules, which is a parameter.  The resolution of configuration
  layers (\<open>application/configuration.py\<close>) is taken as the function of the environment that gives the
  coordinator its snapshot.
\<close>

end
